(* ===== verification/Prelude.thy ===== *)
theory Prelude
  imports Main "HOL-Library.Word" "HOL-Library.Multiset"
begin

text \<open>
  Shared vocabulary of the development: the machine types of the Rust sources, panics as
  values, the operations of \<^verbatim>\<open>Vec\<close> and \<^verbatim>\<open>BTreeMap\<close> that the modelled code uses, decimal
  and UTF-8 text, and the lemmas on them that the component theories rely on.

  Integers keep their width: \<^verbatim>\<open>u32\<close> is a \<open>32 word\<close> and so on, so that \<open>+\<close> and \<open>-\<close> wrap as
  they do in the release profile of the workspace (\<^verbatim>\<open>Cargo.toml\<close> does not switch overflow
  checks on). \<^verbatim>\<open>usize\<close> is the 64-bit type of the supported targets.

  A \<^verbatim>\<open>BTreeMap\<close> is the list of its key/value pairs in ascending key order, which is also its
  iteration order; the locale \<open>ordered_map\<close> states the contract the clients use and
  \<open>bt\<close> is its instance on these lists.
\<close>

type_synonym u8 = "8 word"
type_synonym u32 = "32 word"
type_synonym u64 = "64 word"
type_synonym usize = "64 word"
type_synonym h160 = "160 word"
type_synonym h256 = "256 word"
type_synonym u256 = "256 word"
type_synonym bytes = "8 word list"

text \<open>A panic carries the message of the \<^verbatim>\<open>expect\<close> or the kind of the failed operation.\<close>

datatype panic = Panic string

type_synonym 'a outcome = "panic + 'a"

named_theorems bt_simps \<open>rewriting rules of the ordered-map operations\<close>
named_theorems vec_simps \<open>rewriting rules of the vector operations\<close>


section \<open>Definitions\<close>

subsection \<open>Vectors\<close>

text \<open>\<^verbatim>\<open>Vec::last\<close>, \<^verbatim>\<open>Vec::pop\<close> and an update through \<^verbatim>\<open>Vec::last_mut\<close>.\<close>

definition vec_last :: "'a list \<Rightarrow> 'a option" where
  "vec_last xs = (if xs = [] then None else Some (last xs))"

definition vec_pop :: "'a list \<Rightarrow> ('a \<times> 'a list) option" where
  "vec_pop xs = (if xs = [] then None else Some (last xs, butlast xs))"

fun upd_last :: "('a \<Rightarrow> 'a) \<Rightarrow> 'a list \<Rightarrow> 'a list" where
  "upd_last f [] = []"
| "upd_last f [x] = [f x]"
| "upd_last f (x # y # zs) = x # upd_last f (y # zs)"

text \<open>\<^verbatim>\<open>slice::chunks\<close>: consecutive pieces of length \<open>n\<close>, the last one possibly shorter.\<close>

fun chunks :: "nat \<Rightarrow> 'a list \<Rightarrow> 'a list list" where
  "chunks 0 xs = []"
| "chunks (Suc n) [] = []"
| "chunks (Suc n) (x # xs) = (x # take n xs) # chunks (Suc n) (drop n xs)"

text \<open>\<^verbatim>\<open>Iterator::position\<close>.\<close>

fun position :: "('a \<Rightarrow> bool) \<Rightarrow> 'a list \<Rightarrow> nat option" where
  "position p [] = None"
| "position p (x # xs) = (if p x then Some 0 else map_option Suc (position p xs))"


subsection \<open>Ordered maps\<close>

type_synonym ('k, 'v) btree = "('k \<times> 'v) list"

abbreviation bt_get :: "('k, 'v) btree \<Rightarrow> 'k \<Rightarrow> 'v option" where
  "bt_get \<equiv> map_of"

fun bt_insert :: "'k::linorder \<Rightarrow> 'v \<Rightarrow> ('k, 'v) btree \<Rightarrow> ('k, 'v) btree" where
  "bt_insert k v [] = [(k, v)]"
| "bt_insert k v (e # m) =
     (if fst e < k then e # bt_insert k v m
      else if fst e = k then (k, v) # m
      else (k, v) # e # m)"

definition bt_remove :: "'k \<Rightarrow> ('k, 'v) btree \<Rightarrow> ('k, 'v) btree" where
  "bt_remove k m = filter (\<lambda>e. fst e \<noteq> k) m"

text \<open>\<^verbatim>\<open>BTreeMap::append\<close>: every pair of the second map is moved into the first.\<close>

definition bt_append :: "('k::linorder, 'v) btree \<Rightarrow> ('k, 'v) btree \<Rightarrow> ('k, 'v) btree" where
  "bt_append m other = fold (\<lambda>e. bt_insert (fst e) (snd e)) other m"

definition bt_inv :: "('k::linorder, 'v) btree \<Rightarrow> bool" where
  "bt_inv m \<longleftrightarrow> sorted_wrt (<) (map fst m)"


subsection \<open>Text\<close>

text \<open>The bytes of an ASCII literal, and its code points.\<close>

definition bytes_of :: "string \<Rightarrow> bytes" where
  "bytes_of s = map of_char s"

definition codes_of :: "string \<Rightarrow> nat list" where
  "codes_of s = map of_char s"

text \<open>Decimal rendering of an unsigned integer, as \<^verbatim>\<open>format!("{}", n)\<close> prints it.\<close>

definition digit_char :: "nat \<Rightarrow> char" where
  "digit_char d = ''0123456789'' ! (d mod 10)"

fun decimal :: "nat \<Rightarrow> string" where
  "decimal n = (if n < 10 then [digit_char n] else decimal (n div 10) @ [digit_char n])"

declare decimal.simps [simp del]

text \<open>The number that a string of decimal digits denotes.\<close>

definition decimal_value :: "string \<Rightarrow> nat" where
  "decimal_value s = foldl (\<lambda>v c. 10 * v + (of_char c - 48)) 0 s"

text \<open>
  \<^verbatim>\<open>str::from_utf8\<close>: the code points of a byte string, or \<open>None\<close> when it is not
  well-formed UTF-8 (a truncated or overlong sequence, a surrogate, or a value above
  \<open>0x10FFFF\<close>).
\<close>

definition utf8_cont :: "u8 \<Rightarrow> bool" where
  "utf8_cont b \<longleftrightarrow> 128 \<le> unat b \<and> unat b < 192"

fun utf8_decode :: "bytes \<Rightarrow> nat list option" where
  "utf8_decode [] = Some []"
| "utf8_decode (a # bs) =
     (let n = unat a in
      if n < 128 then map_option (Cons n) (utf8_decode bs)
      else if 194 \<le> n \<and> n < 224 then
        (case bs of
           b # bs' \<Rightarrow>
             if utf8_cont b
             then map_option (Cons ((n - 192) * 64 + (unat b - 128))) (utf8_decode bs')
             else None
         | _ \<Rightarrow> None)
      else if 224 \<le> n \<and> n < 240 then
        (case bs of
           b # c # bs' \<Rightarrow>
             (let v = (n - 224) * 4096 + (unat b - 128) * 64 + (unat c - 128) in
              if utf8_cont b \<and> utf8_cont c \<and> 2048 \<le> v \<and> \<not> (55296 \<le> v \<and> v < 57344)
              then map_option (Cons v) (utf8_decode bs')
              else None)
         | _ \<Rightarrow> None)
      else if 240 \<le> n \<and> n < 245 then
        (case bs of
           b # c # d # bs' \<Rightarrow>
             (let v = (n - 240) * 262144 + (unat b - 128) * 4096 + (unat c - 128) * 64
                      + (unat d - 128) in
              if utf8_cont b \<and> utf8_cont c \<and> utf8_cont d \<and> 65536 \<le> v \<and> v < 1114112
              then map_option (Cons v) (utf8_decode bs')
              else None)
         | _ \<Rightarrow> None)
      else None)"

text \<open>
  \<^verbatim>\<open>str::to_uppercase\<close>, with the Unicode table for the code points beyond ASCII as the
  argument \<open>uni\<close>.
\<close>

definition to_uppercase :: "(nat \<Rightarrow> nat list) \<Rightarrow> nat list \<Rightarrow> nat list" where
  "to_uppercase uni cs =
     concat (map (\<lambda>c. if 97 \<le> c \<and> c \<le> 122 then [c - 32]
                      else if c < 128 then [c] else uni c) cs)"

text \<open>
  The entries of that table whose upper case contains an ASCII letter only: the dotless i,
  the long s, the sharp s and the Latin ligatures. Every other code point beyond ASCII has
  an upper case that contains a code point beyond ASCII, so a comparison of the result with
  ASCII text does not depend on it.
\<close>

definition ascii_uppercase_table :: "nat \<Rightarrow> nat list" where
  "ascii_uppercase_table c =
     (if c = 305 then codes_of ''I''
      else if c = 383 then codes_of ''S''
      else if c = 223 then codes_of ''SS''
      else if c = 64256 then codes_of ''FF''
      else if c = 64257 then codes_of ''FI''
      else if c = 64258 then codes_of ''FL''
      else if c = 64259 then codes_of ''FFI''
      else if c = 64260 then codes_of ''FFL''
      else if c = 64261 then codes_of ''ST''
      else if c = 64262 then codes_of ''ST''
      else [c])"


section \<open>Lemmas\<close>

subsection \<open>Vectors\<close>

lemma vec_last_simps [simp, vec_simps]:
  "vec_last [] = None"
  "vec_last (xs @ [x]) = Some x"
  by (simp_all add: vec_last_def)

lemma vec_pop_simps [simp, vec_simps]:
  "vec_pop [] = None"
  "vec_pop (xs @ [x]) = Some (x, xs)"
  by (simp_all add: vec_pop_def)

lemma vec_pop_SomeD: "vec_pop xs = Some (x, ys) \<Longrightarrow> xs = ys @ [x]"
  by (auto simp: vec_pop_def split: if_splits)

lemma vec_last_SomeD: "vec_last xs = Some x \<Longrightarrow> xs = butlast xs @ [x]"
  by (auto simp: vec_last_def split: if_splits)

lemma upd_last_snoc [simp, vec_simps]: "upd_last f (xs @ [x]) = xs @ [f x]"
proof (induction xs)
  case (Cons y ys)
  then show ?case by (cases ys) auto
qed simp

lemma length_upd_last [simp]: "length (upd_last f xs) = length xs"
  by (induction f xs rule: upd_last.induct) auto

lemma upd_last_eq_Nil [simp]: "upd_last f xs = [] \<longleftrightarrow> xs = []"
  by (cases xs rule: rev_cases) auto

lemma upd_last_id: "(\<And>x. f x = x) \<Longrightarrow> upd_last f xs = xs"
  by (cases xs rule: rev_cases) auto

lemma upd_last_comp [simp]: "upd_last f (upd_last g xs) = upd_last (f \<circ> g) xs"
  by (cases xs rule: rev_cases) auto

lemma map_upd_last: "(\<And>x. g (f x) = g x) \<Longrightarrow> map g (upd_last f xs) = map g xs"
  by (cases xs rule: rev_cases) auto

lemma list_all_upd_last: "list_all P xs \<Longrightarrow> (\<And>x. P x \<Longrightarrow> P (f x)) \<Longrightarrow> list_all P (upd_last f xs)"
  by (cases xs rule: rev_cases) auto

lemma position_SomeD: "position p xs = Some i \<Longrightarrow> i < length xs \<and> p (xs ! i)"
  by (induction xs arbitrary: i) (auto split: if_splits)

lemma position_NoneD: "position p xs = None \<Longrightarrow> x \<in> set xs \<Longrightarrow> \<not> p x"
  by (induction xs) (auto split: if_splits)

lemma position_unique:
  assumes "i < length xs" and "p (xs ! i)" and "\<And>j. j < length xs \<Longrightarrow> p (xs ! j) \<Longrightarrow> j = i"
  shows "position p xs = Some i"
proof (cases "position p xs")
  case None
  from position_NoneD[OF None nth_mem[OF assms(1)]] assms(2) show ?thesis by simp
next
  case (Some j)
  with assms(3)[of j] position_SomeD[OF Some] show ?thesis by simp
qed

lemma concat_chunks: "0 < n \<Longrightarrow> concat (chunks n xs) = xs"
  by (induction n xs rule: chunks.induct) auto

lemma length_chunks_le: "c \<in> set (chunks n xs) \<Longrightarrow> 0 < length c \<and> length c \<le> n"
  by (induction n xs rule: chunks.induct) auto

lemma length_chunks: "0 < n \<Longrightarrow> length (chunks n xs) = (length xs + n - 1) div n"
proof (induction n xs rule: chunks.induct)
  case (3 n x xs)
  show ?case
  proof (cases "length xs \<le> n")
    case True
    then have "(length (x # xs) + Suc n - 1) div Suc n = 1"
      by (intro div_nat_eqI) auto
    with True show ?thesis by simp
  next
    case False
    then have "(length (x # xs) + Suc n - 1) = (length (drop n xs) + Suc n - 1) + Suc n"
      by simp
    then have "(length (x # xs) + Suc n - 1) div Suc n
                 = Suc ((length (drop n xs) + Suc n - 1) div Suc n)"
      by (simp only: div_add_self2[OF nat.simps(3)])
    with "3.IH" show ?thesis by simp
  qed
qed auto


subsection \<open>Ordered maps\<close>

lemma map_of_bt_insert [simp, bt_simps]: "map_of (bt_insert k v m) = (map_of m)(k \<mapsto> v)"
  by (induction m) auto

lemma set_keys_bt_insert: "fst ` set (bt_insert k v m) = insert k (fst ` set m)"
  by (induction m) auto

lemma bt_inv_Nil [simp]: "bt_inv []"
  by (simp add: bt_inv_def)

lemma bt_inv_Cons: "bt_inv (e # m) \<longleftrightarrow> (\<forall>x \<in> set m. fst e < fst x) \<and> bt_inv m"
  by (auto simp: bt_inv_def)

lemma bt_inv_keys: "bt_inv (e # m) \<longleftrightarrow> (\<forall>x \<in> fst ` set m. fst e < x) \<and> bt_inv m"
  by (simp add: bt_inv_Cons)

lemma bt_inv_insert [simp]: "bt_inv m \<Longrightarrow> bt_inv (bt_insert k v m)"
proof (induction m)
  case (Cons e m)
  consider "fst e < k" | "fst e = k" | "k < fst e" by (rule linorder_cases)
  then show ?case
  proof cases
    case 1
    with Cons show ?thesis by (simp add: bt_inv_keys set_keys_bt_insert)
  next
    case 2
    with Cons.prems show ?thesis by (simp add: bt_inv_keys)
  next
    case 3
    with Cons.prems show ?thesis by (fastforce simp: bt_inv_keys)
  qed
qed (simp add: bt_inv_keys)

lemma map_of_bt_remove [simp, bt_simps]: "map_of (bt_remove k m) = (map_of m)(k := None)"
  by (induction m) (auto simp: bt_remove_def fun_eq_iff)

lemma bt_inv_remove [simp]: "bt_inv m \<Longrightarrow> bt_inv (bt_remove k m)"
  by (induction m) (auto simp: bt_remove_def bt_inv_Cons)

lemma set_bt_remove: "set (bt_remove k m) = {e \<in> set m. fst e \<noteq> k}"
  by (auto simp: bt_remove_def)

lemma bt_inv_distinct: "bt_inv m \<Longrightarrow> distinct (map fst m)"
  by (induction m) (auto simp: bt_inv_Cons)

text \<open>An ordered map as a multiset of entries, for sums over its entries.\<close>

lemma bt_remove_absent: "map_of m k = None \<Longrightarrow> bt_remove k m = m"
  by (auto simp: bt_remove_def filter_id_conv map_of_eq_None_iff)

lemma mset_bt_insert: "bt_inv m \<Longrightarrow> mset (bt_insert k v m) = add_mset (k, v) (mset (bt_remove k m))"
proof (induction m)
  case (Cons e m)
  have "bt_remove k m = m" if "k \<le> fst e"
    using Cons.prems that by (intro bt_remove_absent) (auto simp: bt_inv_Cons map_of_eq_None_iff)
  with Cons show ?case by (cases "fst e" k rule: linorder_cases) (auto simp: bt_inv_Cons bt_remove_def)
qed (simp add: bt_remove_def)

lemma mset_bt_get:
  "bt_inv m \<Longrightarrow> map_of m k = Some v \<Longrightarrow> mset m = add_mset (k, v) (mset (bt_remove k m))"
proof (induction m)
  case (Cons e m)
  show ?case
  proof (cases "fst e = k")
    case True
    then have "bt_remove k m = m"
      using Cons.prems(1) by (intro bt_remove_absent) (auto simp: bt_inv_Cons map_of_eq_None_iff)
    with True Cons.prems(2) show ?thesis by (cases e) (simp add: bt_remove_def)
  next
    case False
    with Cons show ?thesis by (cases e) (auto simp: bt_inv_Cons bt_remove_def)
  qed
qed simp

text \<open>Inserting between a lower and an upper part keeps both in place.\<close>

lemma bt_insert_mid:
  assumes "\<And>e. e \<in> set lo \<Longrightarrow> fst e < k" and "\<And>e. e \<in> set hi \<Longrightarrow> k < fst e"
  shows "bt_insert k v (lo @ hi) = lo @ (k, v) # hi"
  using assms(1)
proof (induction lo)
  case Nil
  show ?case
  proof (cases hi)
    case (Cons e t)
    with assms(2)[of e] show ?thesis by auto
  qed simp
qed simp

lemma sorted_alist_ext:
  fixes m m' :: "('k::linorder, 'v) btree"
  assumes "bt_inv m" and "bt_inv m'" and "map_of m = map_of m'"
  shows "m = m'"
  using assms
proof (induction m arbitrary: m')
  case Nil
  then show ?case
  proof (cases m')
    case (Cons e t)
    with Nil.prems(3) have "map_of m' (fst e) = None" by (metis map_of.simps(1))
    with Cons show ?thesis by simp
  qed simp
next
  case (Cons e m)
  obtain k v where e: "e = (k, v)" by force
  have "map_of m' k = Some v" using Cons.prems(3) e by (simp flip: Cons.prems(3))
  then have "m' \<noteq> []" by auto
  then obtain k' v' t where m': "m' = (k', v') # t" by (cases m') auto
  have none: "map_of m k = None" "map_of t k' = None"
    using Cons.prems m' e by (auto simp: bt_inv_Cons map_of_eq_None_iff)
  have eq: "map_of m' x = ((map_of m)(k \<mapsto> v)) x" for x
    using Cons.prems(3) e by (simp add: fun_eq_iff)
  have "k = k'"
  proof (rule ccontr)
    assume ne: "k \<noteq> k'"
    then have "map_of t k = Some v" and "map_of m k' = Some v'"
      using eq[of k] eq[of k'] m' by (auto split: if_splits)
    then have "k' < k" and "k < k'"
      using Cons.prems(1,2) m' e by (auto simp: bt_inv_Cons dest!: map_of_SomeD)
    then show False by simp
  qed
  moreover have "v = v'" using eq[of k] m' \<open>k = k'\<close> by simp
  moreover have "map_of m x = map_of t x" for x
    using eq[of x] none m' \<open>k = k'\<close> by (auto split: if_splits)
  ultimately show ?case
    using Cons.IH[of t] Cons.prems(1,2) m' e by (auto simp: bt_inv_Cons fun_eq_iff)
qed

text \<open>
  The contract of an ordered map, as the clients of \<^verbatim>\<open>BTreeMap\<close> use it: lookups after an
  insertion and a removal, an iteration in ascending key order, and an invariant that every
  operation keeps. Two maps with the same lookups iterate alike.
\<close>

locale ordered_map =
  fixes empty :: "'m"
    and insert :: "'k::linorder \<Rightarrow> 'v \<Rightarrow> 'm \<Rightarrow> 'm"
    and remove :: "'k \<Rightarrow> 'm \<Rightarrow> 'm"
    and lookup :: "'m \<Rightarrow> 'k \<Rightarrow> 'v option"
    and items :: "'m \<Rightarrow> ('k \<times> 'v) list"
    and inv :: "'m \<Rightarrow> bool"
  assumes lookup_empty: "lookup empty = (\<lambda>_. None)"
    and lookup_insert: "inv m \<Longrightarrow> lookup (insert k v m) = (lookup m)(k \<mapsto> v)"
    and lookup_remove: "inv m \<Longrightarrow> lookup (remove k m) = (lookup m)(k := None)"
    and items_lookup: "inv m \<Longrightarrow> map_of (items m) = lookup m"
    and items_sorted: "inv m \<Longrightarrow> sorted_wrt (<) (map fst (items m))"
    and inv_empty: "inv empty"
    and inv_insert: "inv m \<Longrightarrow> inv (insert k v m)"
    and inv_remove: "inv m \<Longrightarrow> inv (remove k m)"
begin

lemma items_ext: "inv m \<Longrightarrow> inv m' \<Longrightarrow> lookup m = lookup m' \<Longrightarrow> items m = items m'"
  by (rule sorted_alist_ext) (auto simp: bt_inv_def items_lookup items_sorted)

lemma inv_inserts: "inv m \<Longrightarrow> inv (fold (\<lambda>e. insert (fst e) (snd e)) es m)"
  by (induction es arbitrary: m) (auto simp: inv_insert)

lemma lookup_inserts:
  "inv m \<Longrightarrow> lookup (fold (\<lambda>e. insert (fst e) (snd e)) es m) = lookup m ++ map_of (rev es)"
proof (induction es arbitrary: m)
  case (Cons e es)
  then have "lookup (fold (\<lambda>e. insert (fst e) (snd e)) es (insert (fst e) (snd e) m))
               = lookup (insert (fst e) (snd e) m) ++ map_of (rev es)"
    by (simp add: inv_insert)
  with Cons.prems show ?case
    by (simp add: lookup_insert fun_eq_iff map_add_def split: option.splits)
qed simp

lemma insert_commute:
  assumes "inv m" and "k \<noteq> k'"
  shows "items (insert k v (insert k' v' m)) = items (insert k' v' (insert k v m))"
  using assms by (intro items_ext) (auto simp: inv_insert lookup_insert fun_upd_twist)

end

interpretation bt: ordered_map "[]" bt_insert bt_remove bt_get "\<lambda>m. m" bt_inv
  by unfold_locales (auto simp: bt_inv_def[symmetric])

lemma bt_inv_append [simp]: "bt_inv m \<Longrightarrow> bt_inv (bt_append m other)"
  unfolding bt_append_def by (rule bt.inv_inserts)

lemma map_of_bt_append:
  assumes "bt_inv m" and "bt_inv other"
  shows "map_of (bt_append m other) = map_of m ++ map_of other"
proof -
  have "distinct (map fst other)"
    using assms(2) by (rule bt_inv_distinct)
  then have "map_of (rev other) = map_of other"
    by (simp add: map_of_inject_set rev_map[symmetric])
  with bt.lookup_inserts[OF assms(1), of other] show ?thesis
    by (simp add: bt_append_def)
qed

text \<open>A map filled in any order lists its entries in key order.\<close>

lemma inserts_sorted:
  fixes s :: "('k::linorder, 'v) btree"
  assumes "mset es = mset s" and "bt_inv s"
  shows "fold (\<lambda>e. bt_insert (fst e) (snd e)) es [] = s"
proof (rule sorted_alist_ext)
  show "bt_inv (fold (\<lambda>e. bt_insert (fst e) (snd e)) es [])"
    by (rule bt.inv_inserts) simp
  have "distinct (map fst es)"
    using assms bt_inv_distinct[of s] by (metis mset_map mset_eq_imp_distinct_iff)
  moreover have "set es = set s" using assms(1) by (metis set_mset_mset)
  ultimately have "map_of (rev es) = map_of s"
    using bt_inv_distinct[OF assms(2)] by (simp add: map_of_inject_set rev_map[symmetric])
  then show "map_of (fold (\<lambda>e. bt_insert (fst e) (snd e)) es []) = map_of s"
    by (simp add: bt.lookup_inserts)
qed (rule assms(2))


subsection \<open>Counters\<close>

lemma u32_less: "unat (i :: u32) < 2 ^ 32"
proof -
  have "unat i < 2 ^ LENGTH(32)" by (rule unsigned_less)
  then show ?thesis by simp
qed

lemma unat_Suc_u32: "unat (i :: u32) + 1 < 2 ^ 32 \<Longrightarrow> unat (i + 1) = Suc (unat i)"
  by (simp add: unat_word_ariths)

lemma unat_advance:
  "unat (i :: u32) + k < 2 ^ 32 \<Longrightarrow> unat (i + of_nat k) = unat i + k"
  by (simp add: unat_word_ariths unsigned_of_nat take_bit_eq_mod)


subsection \<open>Text\<close>

lemma utf8_decode_ascii: "(\<And>b. b \<in> set bs \<Longrightarrow> unat b < 128) \<Longrightarrow> utf8_decode bs = Some (map unat bs)"
  by (induction bs) (auto simp: Let_def)

text \<open>The decimal rendering can be read back, and an ASCII string from its bytes.\<close>

lemma of_char_digits: "\<forall>d \<in> set [0..<10]. (of_char (digit_char d) :: nat) = 48 + d"
  by code_simp

lemma of_char_digit: "d < 10 \<Longrightarrow> (of_char (digit_char d) :: nat) = 48 + d"
  using of_char_digits by simp

lemma decimal_value_decimal: "decimal_value (decimal n) = n"
proof (induction n rule: decimal.induct)
  case (1 n)
  show ?case
  proof (cases "n < 10")
    case True
    then show ?thesis by (simp add: decimal.simps[of n] decimal_value_def of_char_digit)
  next
    case False
    then have "digit_char n = digit_char (n mod 10)" by (simp add: digit_char_def)
    with 1 False show ?thesis
      by (simp add: decimal.simps[of n] decimal_value_def of_char_digit)
  qed
qed

lemma unat_of_char: "unat (of_char c :: u8) = of_char c"
proof -
  have "(of_char c :: u8) = of_nat (of_char c)" by (simp add: of_nat_of_char)
  then show ?thesis using nat_of_char_less_256[of c]
    by (simp add: unsigned_of_nat take_bit_nat_eq_self)
qed

lemma inj_bytes_of: "inj bytes_of"
proof (rule injI)
  fix s t assume "bytes_of s = bytes_of t"
  then have "map unat (bytes_of s) = map unat (bytes_of t)" by simp
  then have "map (of_char :: char \<Rightarrow> nat) s = map of_char t"
    by (simp add: bytes_of_def unat_of_char comp_def)
  then have "map (char_of :: nat \<Rightarrow> char) (map of_char s) = map char_of (map of_char t)" by simp
  then show "s = t" by (simp add: comp_def)
qed

end
