(* ===== verification/Consensus_Types.thy ===== *)
theory Consensus_Types
  imports Prelude
begin

text \<open>
  The data that the consensus crates (\<^verbatim>\<open>node/consensus-transition\<close>) exchange with the framework: slots,
  headers, the parameters of a block import and the errors of \<^verbatim>\<open>sp_consensus\<close> that they construct.

  What the framework computes is an argument: the record \<open>platform\<close> holds the hash of a header,
  the digest items of Aura, the check of a signature and the constructor of the import
  parameters. The predicate \<open>platform_ok\<close> is what the crates rely on: a digest item can be read
  back, and fresh import parameters hold the header and no digest. A digest item has any type
  \<open>'d\<close>, an authority any type \<open>'a\<close> and a signature any type \<open>'s\<close>. An error of the framework is its
  text.
\<close>

section \<open>Data\<close>

type_synonym slot = u64

type_synonym block_no = u32

record 'd block_header =
  bh_parent_hash :: h256
  bh_number :: block_no
  bh_state_root :: h256
  bh_extrinsics_root :: h256
  bh_digest :: "'d list"

datatype block_origin = Genesis | NetworkInitialSync | NetworkBroadcast | ConsensusBroadcast | Own | File

datatype fork_choice = LongestChain | Custom bool

datatype 'c state_action = ApplyChanges 'c | Execute | ExecuteIfPossible | Skip

text \<open>The fields of \<^verbatim>\<open>BlockImportParams\<close> that the crates read or write.\<close>

record ('d, 'x, 'c, 'i) import_params =
  bi_origin :: block_origin
  bi_header :: "'d block_header"
  bi_post_digests :: "'d list"
  bi_body :: "'x list option"
  bi_state_action :: "'c state_action"
  bi_finalized :: bool
  bi_intermediates :: "string \<rightharpoonup> 'i"
  bi_fork_choice :: "fork_choice option"
  bi_post_hash :: "h256 option"

datatype consensus_error =
    InvalidAuthoritiesSet
  | CannotSign bytes string
  | InvalidSignature bytes bytes
  | ClientImport string
  | Other_consensus string

record ('d, 'a, 's) platform =
  header_hash :: "'d block_header \<Rightarrow> h256"
  aura_pre_digest :: "slot \<Rightarrow> 'd"
  as_aura_pre_digest :: "'d \<Rightarrow> slot option"
  aura_seal :: "'s \<Rightarrow> 'd"
  as_aura_seal :: "'d \<Rightarrow> 's option"
  pair_verify :: "'s \<Rightarrow> h256 \<Rightarrow> 'a \<Rightarrow> bool"
  to_raw_vec :: "'a \<Rightarrow> bytes"
  signature_try_from :: "bytes \<Rightarrow> 's option"
  debug_hash :: "h256 \<Rightarrow> string"
  consensus_display :: "consensus_error \<Rightarrow> string"

definition platform_ok :: "('d, 'a, 's) platform \<Rightarrow> bool" where
  "platform_ok p \<longleftrightarrow>
     (\<forall>s. as_aura_pre_digest p (aura_pre_digest p s) = Some s) \<and>
     (\<forall>g. as_aura_seal p (aura_seal p g) = Some g) \<and>
     (\<forall>g. as_aura_pre_digest p (aura_seal p g) = None)"

text \<open>\<^verbatim>\<open>BlockImportParams::new\<close> holds the origin and the header and no digest to add.\<close>

definition params_new_ok :: "(block_origin \<Rightarrow> 'd block_header \<Rightarrow> ('d, 'x, 'c, 'i) import_params) \<Rightarrow> bool" where
  "params_new_ok new \<longleftrightarrow>
     (\<forall>orig h. bi_origin (new orig h) = orig \<and> bi_header (new orig h) = h \<and> bi_post_digests (new orig h) = [])"


section \<open>Text\<close>

text \<open>
  \<^verbatim>\<open>String::from_utf8_lossy\<close>: every ill-formed piece of the input becomes the replacement
  character. \<open>utf8_piece\<close> is the length of the piece at the head of the input and whether it is
  well-formed; a byte past the end reads as zero.
\<close>

definition byte_at :: "bytes \<Rightarrow> nat \<Rightarrow> nat" where
  "byte_at bs i = (if i < length bs then unat (bs ! i) else 0)"

definition is_cont :: "nat \<Rightarrow> bool" where
  "is_cont n \<longleftrightarrow> 128 \<le> n \<and> n < 192"

definition utf8_piece :: "bytes \<Rightarrow> bool \<times> nat" where
  "utf8_piece bs =
     (let a = byte_at bs 0; b = byte_at bs 1; c = byte_at bs 2; d = byte_at bs 3 in
      if a < 128 then (True, 1)
      else if 194 \<le> a \<and> a < 224 then (if is_cont b then (True, 2) else (False, 1))
      else if 224 \<le> a \<and> a < 240 then
        (if is_cont b \<and> (a = 224 \<longrightarrow> 160 \<le> b) \<and> (a = 237 \<longrightarrow> b < 160)
         then (if is_cont c then (True, 3) else (False, 2)) else (False, 1))
      else if 240 \<le> a \<and> a < 245 then
        (if is_cont b \<and> (a = 240 \<longrightarrow> 144 \<le> b) \<and> (a = 244 \<longrightarrow> b < 144)
         then (if is_cont c then (if is_cont d then (True, 4) else (False, 3)) else (False, 2))
         else (False, 1))
      else (False, 1))"

function from_utf8_lossy :: "bytes \<Rightarrow> bytes" where
  "from_utf8_lossy bs =
     (if bs = [] then []
      else (let (ok, n) = utf8_piece bs in
            (if ok then take n bs else [239, 191, 189]) @ from_utf8_lossy (drop n bs)))"
  by pat_completeness auto

lemma utf8_piece_pos: "utf8_piece bs = (ok, n) \<Longrightarrow> 0 < n"
  by (auto simp: utf8_piece_def Let_def split: if_splits)

termination from_utf8_lossy
  by (relation "measure length") (auto dest!: utf8_piece_pos [OF sym])

declare from_utf8_lossy.simps [simp del]


section \<open>Lemmas\<close>

text \<open>Text in ASCII is unchanged.\<close>

lemma from_utf8_lossy_ascii: "(\<And>b. b \<in> set bs \<Longrightarrow> unat b < 128) \<Longrightarrow> from_utf8_lossy bs = bs"
proof (induction bs)
  case Nil
  then show ?case by (simp add: from_utf8_lossy.simps)
next
  case (Cons b bs)
  have "utf8_piece (b # bs) = (True, 1)"
    using Cons.prems by (simp add: utf8_piece_def byte_at_def Let_def)
  then show ?case
    using Cons by (simp add: from_utf8_lossy.simps [of "b # bs"])
qed

end
