(* ===== verification/Aura.thy ===== *)
theory Aura
  imports Consensus_Types
begin

text \<open>
  The Aura consensus crate (\<^verbatim>\<open>node/consensus-transition/aura/src\<close>): \<^verbatim>\<open>lib.rs\<close> with the worker that claims
  slots and seals blocks, and \<^verbatim>\<open>import_queue.rs\<close> with the verifier that checks the blocks of others.

  The record \<open>aura_client\<close> is what the crate asks of the client and of the providers of inherent
  data, the record \<open>aura_worker\<close> the fields of \<^verbatim>\<open>AuraWorker\<close> that its methods read. An instance of the
  runtime API has a state of its own, of type \<open>'r\<close>: \<^verbatim>\<open>initialize_block\<close> changes what a later call on
  the same instance returns. The check for equivocation records headers in the auxiliary store
  and logs a proof, so the check of a header threads both.

  The two sides are shown to agree: a header passes exactly when the author of its slot sealed
  it, and a block that the worker seals is accepted by the verifier of another node.
\<close>

section \<open>Compatibility mode and slots\<close>

datatype CompatibilityMode = No_compatibility | UseInitializeBlock (until: block_no)

definition CompatibilityMode_default :: CompatibilityMode where
  "CompatibilityMode_default = No_compatibility"

text \<open>
  What the crate calls on the client, the runtime API, the providers of inherent data and the
  auxiliary store. \<open>'r\<close> is the state of a runtime API instance, \<open>'p\<close> the inherent data providers,
  \<open>'n\<close> inherent data, \<open>'u\<close> the auxiliary store, \<open>'q\<close> an execution context.
\<close>

type_synonym InherentIdentifier = bytes

record CheckInherentsResult =
  ci_ok :: bool
  ci_errors :: "(InherentIdentifier \<times> bytes) list"

record ('d, 'a, 'x, 'r, 'p, 'n, 'u, 'q) aura_client =
  best_hash :: h256
  finalized_number :: block_no
  runtime_api :: 'r
  rt_slot_duration :: "h256 \<Rightarrow> 'r \<Rightarrow> string + u64"
  rt_initialize_block :: "h256 \<Rightarrow> 'd block_header \<Rightarrow> 'r \<Rightarrow> string + 'r"
  rt_authorities :: "h256 \<Rightarrow> 'r \<Rightarrow> string + 'a list"
  rt_has_api_with :: "h256 \<Rightarrow> (u32 \<Rightarrow> bool) \<Rightarrow> 'r \<Rightarrow> string + bool"
  rt_check_inherents :: "h256 \<Rightarrow> 'q \<Rightarrow> 'd block_header \<times> 'x list \<Rightarrow> 'n \<Rightarrow> 'r \<Rightarrow> string + CheckInherentsResult"
  check_equivocation ::
    "slot \<Rightarrow> slot \<Rightarrow> 'd block_header \<Rightarrow> 'a \<Rightarrow> 'u \<Rightarrow> (string + ('d block_header \<times> 'd block_header) option) \<times> 'u"
  can_author_with :: "h256 \<Rightarrow> string + unit"
  create_providers :: "h256 \<Rightarrow> string + 'p"
  create_inherent_data :: "'p \<Rightarrow> string + 'n"
  provider_slot :: "'p \<Rightarrow> slot"
  try_handle_error :: "'p \<Rightarrow> InherentIdentifier \<Rightarrow> bytes \<Rightarrow> (string + unit) option"
  aura_replace_inherent_data :: "slot \<Rightarrow> 'n \<Rightarrow> 'n"
  application_error :: "string \<Rightarrow> string"
  execution_context :: "block_origin \<Rightarrow> 'q"

definition slot_duration :: "('d, 'a, 'x, 'r, 'p, 'n, 'u, 'q) aura_client \<Rightarrow> string + u64" where
  "slot_duration client = rt_slot_duration client (best_hash client) (runtime_api client)"

text \<open>\<^verbatim>\<open>usize\<close> has 64 bits, so the assertion on the index holds.\<close>

definition slot_author :: "slot \<Rightarrow> 'a list \<Rightarrow> 'a option" where
  "slot_author s authorities =
     (if authorities = [] then None
      else (let idx = s mod (of_nat (length authorities) :: u64) in Some (authorities ! unat idx)))"


section \<open>Errors, pre-digests and authorities\<close>

datatype Error =
    MultipleHeaders
  | NoDigestFound
  | HeaderUnsealed h256
  | HeaderBadSeal h256
  | SlotAuthorNotFound
  | BadSignature h256
  | Client string
  | UnknownInherentError InherentIdentifier
  | Inherent string

fun Error_to_string :: "('d, 'a, 's) platform \<Rightarrow> Error \<Rightarrow> string" where
  "Error_to_string pf MultipleHeaders = ''Multiple Aura pre-runtime headers''"
| "Error_to_string pf NoDigestFound = ''No Aura pre-runtime digest found''"
| "Error_to_string pf (HeaderUnsealed h) = ''Header '' @ debug_hash pf h @ '' is unsealed''"
| "Error_to_string pf (HeaderBadSeal h) = ''Header '' @ debug_hash pf h @ '' has a bad seal''"
| "Error_to_string pf SlotAuthorNotFound = ''Slot Author not found''"
| "Error_to_string pf (BadSignature h) = ''Bad signature on '' @ debug_hash pf h"
| "Error_to_string pf (Client e) = e"
| "Error_to_string pf (UnknownInherentError i) =
     ''Unknown inherent error for identifier: '' @ map (char_of \<circ> unat) (from_utf8_lossy i)"
| "Error_to_string pf (Inherent e) = ''Inherent error: '' @ e"

text \<open>The loop of \<^verbatim>\<open>find_pre_digest\<close> over the digest items, with the slot found so far.\<close>

fun find_pre_digest_loop :: "('d, 'a, 's) platform \<Rightarrow> slot option \<Rightarrow> 'd list \<Rightarrow> Error + slot option" where
  "find_pre_digest_loop pf pre_digest [] = Inr pre_digest"
| "find_pre_digest_loop pf pre_digest (l # ls) =
     (case (as_aura_pre_digest pf l, pre_digest \<noteq> None) of
        (Some _, True) \<Rightarrow> Inl MultipleHeaders
      | (None, _) \<Rightarrow> find_pre_digest_loop pf pre_digest ls
      | (s, False) \<Rightarrow> find_pre_digest_loop pf s ls)"

definition find_pre_digest :: "('d, 'a, 's) platform \<Rightarrow> 'd block_header \<Rightarrow> Error + slot" where
  "find_pre_digest pf h =
     (if bh_number h = 0 then Inr 0
      else
        (case find_pre_digest_loop pf None (bh_digest h) of
           Inl e \<Rightarrow> Inl e
         | Inr None \<Rightarrow> Inl NoDigestFound
         | Inr (Some s) \<Rightarrow> Inr s))"

text \<open>The header that \<^verbatim>\<open>authorities\<close> initializes a block with.\<close>

definition context_header :: "block_no \<Rightarrow> h256 \<Rightarrow> 'd block_header" where
  "context_header n parent =
     \<lparr>bh_parent_hash = parent, bh_number = n, bh_state_root = 0, bh_extrinsics_root = 0, bh_digest = []\<rparr>"

definition authorities ::
    "('d, 'a, 'x, 'r, 'p, 'n, 'u, 'q) aura_client \<Rightarrow> h256 \<Rightarrow> block_no \<Rightarrow> CompatibilityMode \<Rightarrow>
       consensus_error + 'a list" where
  "authorities client parent context_block_number mode =
     (let api =
        (case mode of
           No_compatibility \<Rightarrow> Inr (runtime_api client)
         | UseInitializeBlock u \<Rightarrow>
             (if u > context_block_number
              then rt_initialize_block client parent (context_header context_block_number parent) (runtime_api client)
              else Inr (runtime_api client)))
      in case api of
           Inl _ \<Rightarrow> Inl InvalidAuthoritiesSet
         | Inr r \<Rightarrow>
             (case rt_authorities client parent r of Inl _ \<Rightarrow> Inl InvalidAuthoritiesSet | Inr as \<Rightarrow> Inr as))"


section \<open>The worker\<close>

text \<open>The keystore answers whether it has the private key of an Aura authority and signs with it.\<close>

record ('d, 'a, 'x, 'r, 'p, 'n, 'u, 'q, 'i) aura_worker =
  aw_client :: "('d, 'a, 'x, 'r, 'p, 'n, 'u, 'q) aura_client"
  aw_has_keys :: "(bytes \<times> string) list \<Rightarrow> bool"
  aw_sign_with :: "string \<Rightarrow> 'a \<Rightarrow> h256 \<Rightarrow> string + bytes option"
  aw_force_authoring :: bool
  aw_backoff :: "(block_no \<Rightarrow> slot \<Rightarrow> block_no \<Rightarrow> slot \<Rightarrow> string \<Rightarrow> bool) option"
  aw_compatibility_mode :: CompatibilityMode
  aw_env_init :: "'d block_header \<Rightarrow> string + 'i"

definition AURA :: string where
  "AURA = ''aura''"

definition logging_target :: string where
  "logging_target = ''aura''"

definition epoch_data ::
    "('d, 'a, 's) platform \<Rightarrow> ('d, 'a, 'x, 'r, 'p, 'n, 'u, 'q, 'i) aura_worker \<Rightarrow> 'd block_header \<Rightarrow> slot \<Rightarrow>
       consensus_error + 'a list" where
  "epoch_data pf w h s =
     authorities (aw_client w) (header_hash pf h) (bh_number h + 1) (aw_compatibility_mode w)"

definition authorities_len :: "'a list \<Rightarrow> nat option" where
  "authorities_len epoch = Some (length epoch)"

definition claim_slot ::
    "('d, 'a, 's) platform \<Rightarrow> ('d, 'a, 'x, 'r, 'p, 'n, 'u, 'q, 'i) aura_worker \<Rightarrow> 'd block_header \<Rightarrow> slot \<Rightarrow>
       'a list \<Rightarrow> 'a option" where
  "claim_slot pf w h s epoch =
     (case slot_author s epoch of
        None \<Rightarrow> None
      | Some p \<Rightarrow> if aw_has_keys w [(to_raw_vec pf p, AURA)] then Some p else None)"

definition pre_digest_data :: "('d, 'a, 's) platform \<Rightarrow> slot \<Rightarrow> 'a \<Rightarrow> 'd list" where
  "pre_digest_data pf s claim = [aura_pre_digest pf s]"

definition block_import_params ::
    "('d, 'a, 's) platform \<Rightarrow> (block_origin \<Rightarrow> 'd block_header \<Rightarrow> ('d, 'x, 'c, 'm) import_params) \<Rightarrow>
     ('d, 'a, 'x, 'r, 'p, 'n, 'u, 'q, 'i) aura_worker \<Rightarrow> 'd block_header \<Rightarrow> h256 \<Rightarrow> 'x list \<Rightarrow> 'c \<Rightarrow> 'a \<Rightarrow>
       consensus_error + ('d, 'x, 'c, 'm) import_params" where
  "block_import_params pf new w h hash body storage_changes public =
     (case aw_sign_with w AURA public hash of
        Inl e \<Rightarrow> Inl (CannotSign (to_raw_vec pf public) e)
      | Inr None \<Rightarrow> Inl (CannotSign (to_raw_vec pf public) ''Could not find key in keystore.'')
      | Inr (Some signature) \<Rightarrow>
          (case signature_try_from pf signature of
             None \<Rightarrow> Inl (InvalidSignature signature (to_raw_vec pf public))
           | Some sig \<Rightarrow>
               (let b = new Own h in
                Inr (b\<lparr>bi_post_digests := bi_post_digests b @ [aura_seal pf sig],
                       bi_body := Some body,
                       bi_state_action := ApplyChanges storage_changes,
                       bi_fork_choice := Some LongestChain\<rparr>))))"

definition force_authoring :: "('d, 'a, 'x, 'r, 'p, 'n, 'u, 'q, 'i) aura_worker \<Rightarrow> bool" where
  "force_authoring w = aw_force_authoring w"

definition should_backoff ::
    "('d, 'a, 's) platform \<Rightarrow> ('d, 'a, 'x, 'r, 'p, 'n, 'u, 'q, 'i) aura_worker \<Rightarrow> slot \<Rightarrow> 'd block_header \<Rightarrow> bool" where
  "should_backoff pf w s chain_head =
     (case aw_backoff w of
        Some strategy \<Rightarrow>
          (case find_pre_digest pf chain_head of
             Inr chain_head_slot \<Rightarrow>
               strategy (bh_number chain_head) chain_head_slot (finalized_number (aw_client w)) s logging_target
           | Inl _ \<Rightarrow> False)
      | None \<Rightarrow> False)"

definition proposer ::
    "('d, 'a, 'x, 'r, 'p, 'n, 'u, 'q, 'i) aura_worker \<Rightarrow> 'd block_header \<Rightarrow> consensus_error + 'i" where
  "proposer w h = (case aw_env_init w h of Inl e \<Rightarrow> Inl (ClientImport e) | Inr p \<Rightarrow> Inr p)"

text \<open>
  The call into the slot library, an argument: with the parent slot, the slot, the portions of a
  slot for proposing, the kind of lenience and the logging target.
\<close>

datatype SlotLenienceType = Linear | Exponential

definition proposing_remaining_duration ::
    "('d, 'a, 's) platform \<Rightarrow>
     (slot option \<Rightarrow> 'f \<Rightarrow> 'k \<Rightarrow> 'k option \<Rightarrow> SlotLenienceType \<Rightarrow> string \<Rightarrow> 't) \<Rightarrow> 'k \<Rightarrow> 'k option \<Rightarrow>
     'd block_header \<Rightarrow> 'f \<Rightarrow> 't" where
  "proposing_remaining_duration pf slots_duration portion max_portion chain_head slot_info =
     slots_duration (case find_pre_digest pf chain_head of Inl _ \<Rightarrow> None | Inr s \<Rightarrow> Some s)
       slot_info portion max_portion Exponential logging_target"


section \<open>The verifier\<close>

datatype CheckForEquivocation = Yes | No

fun check_for_equivocation :: "CheckForEquivocation \<Rightarrow> bool" where
  "check_for_equivocation Yes = True"
| "check_for_equivocation No = False"

definition CheckForEquivocation_default :: CheckForEquivocation where
  "CheckForEquivocation_default = Yes"

datatype ('h, 'w) CheckedHeader = Checked 'h 'w | Deferred 'h slot

text \<open>The auxiliary store, and the equivocations logged: the slot and the two header hashes.\<close>

record 'u aura_state =
  aux_store :: 'u
  equivocations :: "(slot \<times> h256 \<times> h256) list"

text \<open>The arm of \<^verbatim>\<open>check_header\<close> that looks for an equivocation once the signature is valid.\<close>

definition report_equivocation ::
    "('d, 'a, 's) platform \<Rightarrow> ('d, 'a, 'x, 'r, 'p, 'n, 'u, 'q) aura_client \<Rightarrow> slot \<Rightarrow> slot \<Rightarrow> 'd block_header \<Rightarrow>
     'a \<Rightarrow> CheckForEquivocation \<Rightarrow> 'u aura_state \<Rightarrow> (Error + unit) \<times> 'u aura_state" where
  "report_equivocation pf client slot_now s h expected_author chk st =
     (if check_for_equivocation chk
      then
        (case check_equivocation client slot_now s h expected_author (aux_store st) of
           (Inl e, u) \<Rightarrow> (Inl (Client e), st\<lparr>aux_store := u\<rparr>)
         | (Inr None, u) \<Rightarrow> (Inr (), st\<lparr>aux_store := u\<rparr>)
         | (Inr (Some (first_header, second_header)), u) \<Rightarrow>
             (Inr (), st\<lparr>aux_store := u,
                         equivocations := equivocations st @
                           [(s, header_hash pf first_header, header_hash pf second_header)]\<rparr>))
      else (Inr (), st))"

definition check_header ::
    "('d, 'a, 's) platform \<Rightarrow> ('d, 'a, 'x, 'r, 'p, 'n, 'u, 'q) aura_client \<Rightarrow> slot \<Rightarrow> 'd block_header \<Rightarrow> h256 \<Rightarrow>
     'a list \<Rightarrow> CheckForEquivocation \<Rightarrow> 'u aura_state \<Rightarrow>
       (Error + ('d block_header, slot \<times> 'd) CheckedHeader) \<times> 'u aura_state" where
  "check_header pf client slot_now h hash auths chk st =
     (case vec_pop (bh_digest h) of
        None \<Rightarrow> (Inl (HeaderUnsealed hash), st)
      | Some (seal, logs) \<Rightarrow>
          (let h = h\<lparr>bh_digest := logs\<rparr> in
           case as_aura_seal pf seal of
             None \<Rightarrow> (Inl (HeaderBadSeal hash), st)
           | Some sig \<Rightarrow>
               (case find_pre_digest pf h of
                  Inl e \<Rightarrow> (Inl e, st)
                | Inr s \<Rightarrow>
                    (if s > slot_now
                     then (Inr (Deferred (h\<lparr>bh_digest := bh_digest h @ [seal]\<rparr>) s), st)
                     else
                       (case slot_author s auths of
                          None \<Rightarrow> (Inl SlotAuthorNotFound, st)
                        | Some expected_author \<Rightarrow>
                            (if pair_verify pf sig (header_hash pf h) expected_author
                             then
                               (case report_equivocation pf client slot_now s h expected_author chk st of
                                  (Inl e, st') \<Rightarrow> (Inl e, st')
                                | (Inr _, st') \<Rightarrow> (Inr (Checked h (s, seal)), st'))
                             else (Inl (BadSignature hash), st)))))))"

record ('d, 'a, 'x, 'r, 'p, 'n, 'u, 'q) aura_verifier =
  av_client :: "('d, 'a, 'x, 'r, 'p, 'n, 'u, 'q) aura_client"
  av_check_for_equivocation :: CheckForEquivocation
  av_compatibility_mode :: CompatibilityMode

definition build_verifier ::
    "('d, 'a, 'x, 'r, 'p, 'n, 'u, 'q) aura_client \<Rightarrow> CheckForEquivocation \<Rightarrow> CompatibilityMode \<Rightarrow>
       ('d, 'a, 'x, 'r, 'p, 'n, 'u, 'q) aura_verifier" where
  "build_verifier client chk mode =
     \<lparr>av_client = client, av_check_for_equivocation = chk, av_compatibility_mode = mode\<rparr>"

text \<open>The loop over the errors of the inherents: each one has to be handled by the providers.\<close>

fun handle_inherent_errors ::
    "('d, 'a, 'x, 'r, 'p, 'n, 'u, 'q) aura_client \<Rightarrow> 'p \<Rightarrow> (InherentIdentifier \<times> bytes) list \<Rightarrow> Error + unit" where
  "handle_inherent_errors client p [] = Inr ()"
| "handle_inherent_errors client p ((i, e) # es) =
     (case try_handle_error client p i e of
        Some (Inr _) \<Rightarrow> handle_inherent_errors client p es
      | Some (Inl err) \<Rightarrow> Inl (Inherent err)
      | None \<Rightarrow> Inl (UnknownInherentError i))"

definition check_inherents ::
    "('d, 'a, 'x, 'r, 'p, 'n, 'u, 'q) aura_verifier \<Rightarrow> 'd block_header \<times> 'x list \<Rightarrow> h256 \<Rightarrow> 'n \<Rightarrow> 'p \<Rightarrow> 'q \<Rightarrow> Error + unit" where
  "check_inherents v blk block_id inherent_data providers ctx =
     (case can_author_with (av_client v) block_id of
        Inl _ \<Rightarrow> Inr ()
      | Inr _ \<Rightarrow>
          (case rt_check_inherents (av_client v) block_id ctx blk inherent_data (runtime_api (av_client v)) of
             Inl e \<Rightarrow> Inl (Client e)
           | Inr res \<Rightarrow>
               (if \<not> ci_ok res then handle_inherent_errors (av_client v) providers (ci_errors res)
                else Inr ())))"

text \<open>The part of \<^verbatim>\<open>verify\<close> that checks a body, when the block has one.\<close>

definition check_body ::
    "('d, 'a, 's) platform \<Rightarrow> ('d, 'a, 'x, 'r, 'p, 'n, 'u, 'q) aura_verifier \<Rightarrow> 'd block_header \<Rightarrow> slot \<Rightarrow> h256 \<Rightarrow>
     'n \<Rightarrow> 'p \<Rightarrow> block_origin \<Rightarrow> 'x list option \<Rightarrow> string + unit" where
  "check_body pf v pre_header s parent inherent_data providers orig body =
     (case body of
        None \<Rightarrow> Inr ()
      | Some inner_body \<Rightarrow>
          (let inherent_data = aura_replace_inherent_data (av_client v) s inherent_data in
           case rt_has_api_with (av_client v) parent (\<lambda>n. n \<ge> 2) (runtime_api (av_client v)) of
             Inl e \<Rightarrow> Inl e
           | Inr False \<Rightarrow> Inr ()
           | Inr True \<Rightarrow>
               (case check_inherents v (pre_header, inner_body) parent inherent_data providers
                       (execution_context (av_client v) orig) of
                  Inl e \<Rightarrow> Inl (Error_to_string pf e)
                | Inr _ \<Rightarrow> Inr ())))"

definition verify ::
    "('d, 'a, 's) platform \<Rightarrow> ('d, 'a, 'x, 'r, 'p, 'n, 'u, 'q) aura_verifier \<Rightarrow>
     ('d, 'x, 'c, 'm) import_params \<Rightarrow> 'u aura_state \<Rightarrow>
       (string + ('d, 'x, 'c, 'm) import_params) \<times> 'u aura_state" where
  "verify pf v blk st =
     (let hash = header_hash pf (bi_header blk);
          parent = bh_parent_hash (bi_header blk);
          client = av_client v
      in case authorities client parent (bh_number (bi_header blk)) (av_compatibility_mode v) of
           Inl e \<Rightarrow>
             (Inl (''Could not fetch authorities at '' @ debug_hash pf parent @ '': '' @ consensus_display pf e), st)
         | Inr auths \<Rightarrow>
             (case create_providers client parent of
                Inl e \<Rightarrow> (Inl (Error_to_string pf (Client (application_error client e))), st)
              | Inr providers \<Rightarrow>
                  (case create_inherent_data client providers of
                     Inl e \<Rightarrow> (Inl (Error_to_string pf (Inherent e)), st)
                   | Inr inherent_data \<Rightarrow>
                       (case check_header pf client (provider_slot client providers + 1) (bi_header blk) hash auths
                               (av_check_for_equivocation v) st of
                          (Inl e, st') \<Rightarrow> (Inl (Error_to_string pf e), st')
                        | (Inr (Deferred a b), st') \<Rightarrow>
                            (Inl (''Header '' @ debug_hash pf hash @ '' rejected: too far in the future''), st')
                        | (Inr (Checked pre_header (s, seal)), st') \<Rightarrow>
                            (case check_body pf v pre_header s parent inherent_data providers (bi_origin blk)
                                    (bi_body blk) of
                               Inl e \<Rightarrow> (Inl e, st')
                             | Inr _ \<Rightarrow>
                                 (Inr (blk\<lparr>bi_header := pre_header,
                                           bi_post_digests := bi_post_digests blk @ [seal],
                                           bi_fork_choice := Some LongestChain,
                                           bi_post_hash := Some hash\<rparr>), st'))))))"


section \<open>Reference definitions\<close>

text \<open>The slots that the Aura pre-digests of a list of digest items carry.\<close>

definition pre_digests :: "('d, 'a, 's) platform \<Rightarrow> 'd list \<Rightarrow> slot list" where
  "pre_digests pf ls = List.map_filter (as_aura_pre_digest pf) ls"

text \<open>
  The header \<open>h\<close> is \<open>pre\<close> with a seal added, and the seal is a signature of the hash of \<open>pre\<close> by the
  authority whose turn is the slot \<open>s\<close> that \<open>pre\<close> carries; the slot is not after \<open>slot_now\<close>.
\<close>

definition sealed_by ::
    "('d, 'a, 's) platform \<Rightarrow> slot \<Rightarrow> 'a list \<Rightarrow> 'd block_header \<Rightarrow> 'd block_header \<Rightarrow> slot \<Rightarrow> 'd \<Rightarrow> 'a \<Rightarrow> bool" where
  "sealed_by pf slot_now auths h pre s seal author \<longleftrightarrow>
     h = pre\<lparr>bh_digest := bh_digest pre @ [seal]\<rparr> \<and>
     (if bh_number pre = 0 then s = 0 else pre_digests pf (bh_digest pre) = [s]) \<and>
     s \<le> slot_now \<and>
     slot_author s auths = Some author \<and>
     (case as_aura_seal pf seal of None \<Rightarrow> False | Some sig \<Rightarrow> pair_verify pf sig (header_hash pf pre) author)"


section \<open>A sample node\<close>

text \<open>
  Three authorities; a signature is the authority followed by the last byte of the message, a
  digest item is a slot or a signature. The node has the keys of every authority.
\<close>

definition aura_platform :: "(slot + bytes, u8, bytes) platform" where
  "aura_platform =
     \<lparr>header_hash = (\<lambda>h. of_nat (unat (bh_number h) + 10 * length (bh_digest h))),
      aura_pre_digest = Inl,
      as_aura_pre_digest = (\<lambda>d. case d of Inl s \<Rightarrow> Some s | Inr _ \<Rightarrow> None),
      aura_seal = Inr,
      as_aura_seal = (\<lambda>d. case d of Inl _ \<Rightarrow> None | Inr g \<Rightarrow> Some g),
      pair_verify = (\<lambda>g m a. g = [a, of_nat (unat m)]),
      to_raw_vec = (\<lambda>a. [a]),
      signature_try_from = Some,
      debug_hash = (\<lambda>h. decimal (unat h)),
      consensus_display = (\<lambda>e. ''consensus error'')\<rparr>"

definition aura_sample_new :: "block_origin \<Rightarrow> 'd block_header \<Rightarrow> ('d, 'x, 'c, 'm) import_params" where
  "aura_sample_new orig h =
     \<lparr>bi_origin = orig, bi_header = h, bi_post_digests = [], bi_body = None, bi_state_action = Execute,
      bi_finalized = False, bi_intermediates = Map.empty, bi_fork_choice = None, bi_post_hash = None\<rparr>"

definition aura_sample_client :: "(slot + bytes, u8, unit, unit, slot, unit, unit, unit) aura_client" where
  "aura_sample_client =
     \<lparr>best_hash = 0, finalized_number = 0, runtime_api = (),
      rt_slot_duration = (\<lambda>_ _. Inr 6000),
      rt_initialize_block = (\<lambda>_ _ r. Inr r),
      rt_authorities = (\<lambda>_ _. Inr [1, 2, 3]),
      rt_has_api_with = (\<lambda>_ q _. Inr (q 6)),
      rt_check_inherents = (\<lambda>_ _ _ _ _. Inr \<lparr>ci_ok = True, ci_errors = []\<rparr>),
      check_equivocation = (\<lambda>_ _ _ _ u. (Inr None, u)),
      can_author_with = (\<lambda>_. Inr ()),
      create_providers = (\<lambda>_. Inr 4),
      create_inherent_data = (\<lambda>_. Inr ()),
      provider_slot = id,
      try_handle_error = (\<lambda>_ _ _. None),
      aura_replace_inherent_data = (\<lambda>_ n. n),
      application_error = id,
      execution_context = (\<lambda>_. ())\<rparr>"

definition aura_sample_worker :: "(slot + bytes, u8, unit, unit, slot, unit, unit, unit, unit) aura_worker" where
  "aura_sample_worker =
     \<lparr>aw_client = aura_sample_client, aw_has_keys = (\<lambda>_. True),
      aw_sign_with = (\<lambda>_ a m. Inr (Some [a, of_nat (unat m)])), aw_force_authoring = False, aw_backoff = None,
      aw_compatibility_mode = CompatibilityMode_default, aw_env_init = (\<lambda>_. Inr ())\<rparr>"

definition aura_sample_parent :: "(slot + bytes) block_header" where
  "aura_sample_parent =
     \<lparr>bh_parent_hash = 0, bh_number = 7, bh_state_root = 0, bh_extrinsics_root = 0, bh_digest = [Inl 4]\<rparr>"

definition aura_sample_header :: "(slot + bytes) block_header" where
  "aura_sample_header =
     \<lparr>bh_parent_hash = 17, bh_number = 8, bh_state_root = 0, bh_extrinsics_root = 0, bh_digest = [Inl 5]\<rparr>"

definition aura_sample_verifier :: "(slot + bytes, u8, unit, unit, slot, unit, unit, unit) aura_verifier" where
  "aura_sample_verifier = build_verifier aura_sample_client CheckForEquivocation_default CompatibilityMode_default"

definition aura_sample_params :: "(slot + bytes, unit, unit, unit) import_params" where
  "aura_sample_params = (aura_sample_new Own aura_sample_header)
     \<lparr>bi_post_digests := [Inr [3, 18]], bi_body := Some [()], bi_state_action := ApplyChanges (),
      bi_fork_choice := Some LongestChain\<rparr>"

definition aura_sample_received :: "(slot + bytes, unit, unit, unit) import_params" where
  "aura_sample_received = (aura_sample_new NetworkBroadcast (aura_sample_header\<lparr>bh_digest := [Inl 5, Inr [3, 18]]\<rparr>))
     \<lparr>bi_body := Some [()]\<rparr>"


section \<open>Lemmas\<close>

lemma pre_digests_simps [simp]:
  "pre_digests pf [] = []"
  "pre_digests pf (l # ls) =
     (case as_aura_pre_digest pf l of None \<Rightarrow> pre_digests pf ls | Some s \<Rightarrow> s # pre_digests pf ls)"
  by (simp_all add: pre_digests_def map_filter_simps split: option.splits)

lemma find_pre_digest_loop_spec:
  "find_pre_digest_loop pf pre ls =
     (case (pre, pre_digests pf ls) of
        (_, []) \<Rightarrow> Inr pre
      | (None, [s]) \<Rightarrow> Inr (Some s)
      | _ \<Rightarrow> Inl MultipleHeaders)"
  by (induction ls arbitrary: pre) (auto split: option.splits list.splits)

lemma find_pre_digest_spec:
  "find_pre_digest pf h =
     (if bh_number h = 0 then Inr 0
      else (case pre_digests pf (bh_digest h) of
              [] \<Rightarrow> Inl NoDigestFound
            | [s] \<Rightarrow> Inr s
            | _ \<Rightarrow> Inl MultipleHeaders))"
  by (simp add: find_pre_digest_def find_pre_digest_loop_spec split: list.splits)

lemma find_pre_digest_Inr:
  "find_pre_digest pf h = Inr s \<longleftrightarrow> (if bh_number h = 0 then s = 0 else pre_digests pf (bh_digest h) = [s])"
  by (auto simp: find_pre_digest_spec split: list.splits)

lemma slot_author_nth:
  assumes "auths \<noteq> []" and "length auths < 2 ^ 64"
  shows "slot_author s auths = Some (auths ! (unat s mod length auths))"
  using assms by (simp add: slot_author_def Let_def unat_mod unat_of_nat)

lemma slot_author_mem: "length auths < 2 ^ 64 \<Longrightarrow> slot_author s auths = Some a \<Longrightarrow> a \<in> set auths"
  by (cases "auths = []") (auto simp: slot_author_nth, simp add: slot_author_def)

lemma check_header_Checked:
  "check_header pf client slot_now h hash auths chk st = (Inr (Checked pre (s, seal)), st') \<longleftrightarrow>
     (\<exists>author. sealed_by pf slot_now auths h pre s seal author \<and>
        report_equivocation pf client slot_now s pre author chk st = (Inr (), st'))"
  (is "?lhs \<longleftrightarrow> ?rhs")
proof
  assume ?lhs
  then show ?rhs
    by (auto simp: check_header_def sealed_by_def Let_def find_pre_digest_Inr not_less vec_pop_def
        split: option.splits sum.splits prod.splits if_splits)
next
  assume ?rhs
  then obtain author where *: "sealed_by pf slot_now auths h pre s seal author"
      "report_equivocation pf client slot_now s pre author chk st = (Inr (), st')"
    by blast
  from *(1) have pre: "find_pre_digest pf pre = Inr s" "s \<le> slot_now"
    by (simp_all add: sealed_by_def find_pre_digest_Inr)
  with * show ?lhs
    by (auto simp: check_header_def sealed_by_def Let_def split: option.splits)
qed

lemma handle_inherent_errors_ok:
  "handle_inherent_errors client p es = Inr () \<longleftrightarrow>
     list_all (\<lambda>(i, e). try_handle_error client p i e = Some (Inr ())) es"
  by (induction es) (auto split: option.splits sum.splits)

text \<open>
  The body of a block passes when there is none, when the runtime is older than version 2 of the
  block builder interface, when this node could not author with the runtime, and when the
  runtime accepts the inherents or the providers handle every error that it reports.
\<close>

lemma check_body_ok:
  "check_body pf v pre s parent n p orig body = Inr () \<longleftrightarrow>
     (case body of
        None \<Rightarrow> True
      | Some xs \<Rightarrow>
          rt_has_api_with (av_client v) parent (\<lambda>n. n \<ge> 2) (runtime_api (av_client v)) = Inr False \<or>
          rt_has_api_with (av_client v) parent (\<lambda>n. n \<ge> 2) (runtime_api (av_client v)) = Inr True \<and>
          ((\<exists>e. can_author_with (av_client v) parent = Inl e) \<or>
           (\<exists>res. rt_check_inherents (av_client v) parent (execution_context (av_client v) orig) (pre, xs)
                    (aura_replace_inherent_data (av_client v) s n) (runtime_api (av_client v)) = Inr res \<and>
              (ci_ok res \<or>
               list_all (\<lambda>(i, e). try_handle_error (av_client v) p i e = Some (Inr ())) (ci_errors res)))))"
  by (auto simp: check_body_def check_inherents_def Let_def handle_inherent_errors_ok [symmetric]
      split: option.splits sum.splits bool.splits)

text \<open>Where the client can record headers, looking for an equivocation does not fail.\<close>

lemma report_equivocation_ok:
  assumes "\<And>u e. fst (check_equivocation client slot_now s h author u) \<noteq> Inl e"
  shows "\<exists>st'. report_equivocation pf client slot_now s h author chk st = (Inr (), st')"
proof (cases "check_equivocation client slot_now s h author (aux_store st)")
  case (Pair r u)
  with assms [of "aux_store st"] show ?thesis
    by (cases r) (auto simp: report_equivocation_def split: option.splits)
qed


text \<open>What a sample run unfolds.\<close>

lemmas aura_sample_defs =
  aura_platform_def aura_sample_new_def aura_sample_client_def aura_sample_worker_def aura_sample_parent_def
  aura_sample_header_def aura_sample_verifier_def aura_sample_params_def aura_sample_received_def platform_ok_def
  params_new_ok_def build_verifier_def CheckForEquivocation_default_def CompatibilityMode_default_def
  epoch_data_def authorities_def claim_slot_def slot_author_def pre_digest_data_def pre_digests_simps
  block_import_params_def check_body_def check_inherents_def Let_def AURA_def


section \<open>Properties\<close>

text \<open>
  C11. The verifier accepts a block exactly when its parent has authorities, the inherent data can
  be created, the header is a pre-header followed by a seal, the pre-header carries one Aura slot
  that is at most one after the current slot, the seal is a signature of the hash of the
  pre-header by the authority whose turn the slot is, the equivocation check does not fail and
  the body passes. It then returns the block with the pre-header, the seal among the digests to
  add, the hash of the sealed header and the longest-chain rule, and leaves the rest as it was.
\<close>

theorem verify_accepts_iff:
  "verify pf v blk st = (Inr blk', st') \<longleftrightarrow>
     (\<exists>auths p n pre s seal author.
        authorities (av_client v) (bh_parent_hash (bi_header blk)) (bh_number (bi_header blk))
          (av_compatibility_mode v) = Inr auths \<and>
        create_providers (av_client v) (bh_parent_hash (bi_header blk)) = Inr p \<and>
        create_inherent_data (av_client v) p = Inr n \<and>
        sealed_by pf (provider_slot (av_client v) p + 1) auths (bi_header blk) pre s seal author \<and>
        report_equivocation pf (av_client v) (provider_slot (av_client v) p + 1) s pre author
          (av_check_for_equivocation v) st = (Inr (), st') \<and>
        check_body pf v pre s (bh_parent_hash (bi_header blk)) n p (bi_origin blk) (bi_body blk) = Inr () \<and>
        blk' = blk\<lparr>bi_header := pre, bi_post_digests := bi_post_digests blk @ [seal],
                   bi_fork_choice := Some LongestChain,
                   bi_post_hash := Some (header_hash pf (bi_header blk))\<rparr>)"
  (is "?lhs \<longleftrightarrow> ?rhs")
proof
  assume ?lhs
  then show ?rhs
    by (auto simp: verify_def Let_def check_header_Checked
        split: sum.splits prod.splits CheckedHeader.splits)
next
  assume ?rhs
  then obtain auths p n pre s seal author where *:
      "authorities (av_client v) (bh_parent_hash (bi_header blk)) (bh_number (bi_header blk))
         (av_compatibility_mode v) = Inr auths"
      "create_providers (av_client v) (bh_parent_hash (bi_header blk)) = Inr p"
      "create_inherent_data (av_client v) p = Inr n"
      "sealed_by pf (provider_slot (av_client v) p + 1) auths (bi_header blk) pre s seal author"
      "report_equivocation pf (av_client v) (provider_slot (av_client v) p + 1) s pre author
         (av_check_for_equivocation v) st = (Inr (), st')"
      "check_body pf v pre s (bh_parent_hash (bi_header blk)) n p (bi_origin blk) (bi_body blk) = Inr ()"
      "blk' = blk\<lparr>bi_header := pre, bi_post_digests := bi_post_digests blk @ [seal],
                   bi_fork_choice := Some LongestChain,
                   bi_post_hash := Some (header_hash pf (bi_header blk))\<rparr>"
    by blast
  have "check_header pf (av_client v) (provider_slot (av_client v) p + 1) (bi_header blk)
      (header_hash pf (bi_header blk)) auths (av_check_for_equivocation v) st =
      (Inr (Checked pre (s, seal)), st')"
    unfolding check_header_Checked using *(4,5) by blast
  with * show ?lhs
    by (simp add: verify_def Let_def)
qed

text \<open>
  A block that the Aura worker of one node claims and seals is accepted by the verifier of
  another. The header has the claimed slot as its only Aura pre-digest, the two nodes agree on
  the authorities of the block, the clock of the verifier is at most one slot behind, the body
  passes and the auxiliary store works. The verifier then takes the seal off again: it returns
  the header as it was proposed and the seal that the worker made. The key store is assumed to
  sign with the key that it is asked for.
\<close>

lemma sealed_block_verifies:
  assumes platform: "platform_ok pf" "params_new_ok new"
    and signs: "\<And>a m raw sig. aw_sign_with w AURA a m = Inr (Some raw) \<Longrightarrow>
                  signature_try_from pf raw = Some sig \<Longrightarrow> pair_verify pf sig m a"
    and claimed: "epoch_data pf w parent s = Inr auths" "claim_slot pf w parent s auths = Some a"
    and proposed: "bh_parent_hash h = header_hash pf parent" "bh_number h = bh_number parent + 1" "bh_number h \<noteq> 0"
      "bh_digest h = pre_digest_data pf s a @ logs" "pre_digests pf logs = []"
    and made: "block_import_params pf new w h (header_hash pf h) body changes a = Inr params"
    and received: "bi_header blk = h\<lparr>bh_digest := bh_digest h @ bi_post_digests params\<rparr>"
      "bi_body blk = bi_body params" "bi_post_digests blk = []"
    and agrees: "authorities (av_client v) (header_hash pf parent) (bh_number h) (av_compatibility_mode v) =
                 authorities (aw_client w) (header_hash pf parent) (bh_number h) (aw_compatibility_mode w)"
    and clock: "create_providers (av_client v) (header_hash pf parent) = Inr p"
      "create_inherent_data (av_client v) p = Inr n" "s \<le> provider_slot (av_client v) p + 1"
    and inherents: "check_body pf v h s (header_hash pf parent) n p (bi_origin blk) (Some body) = Inr ()"
    and store: "\<And>x y g b u e. fst (check_equivocation (av_client v) x y g b u) \<noteq> Inl e"
  shows "\<exists>blk' st'. verify pf v blk st = (Inr blk', st') \<and> bi_header blk' = h \<and>
           bi_post_digests blk' = bi_post_digests params \<and> bi_body blk' = Some body \<and>
           bi_post_hash blk' = Some (header_hash pf (bi_header blk))"
proof -
  obtain raw sig where sig: "aw_sign_with w AURA a (header_hash pf h) = Inr (Some raw)"
      "signature_try_from pf raw = Some sig"
      "bi_post_digests params = [aura_seal pf sig]" "bi_body params = Some body"
    using made platform(2)
    by (auto simp: block_import_params_def params_new_ok_def Let_def split: sum.splits option.splits)
  have author: "slot_author s auths = Some a"
    using claimed(2) by (auto simp: claim_slot_def split: option.splits if_splits)
  have "sealed_by pf (provider_slot (av_client v) p + 1) auths (bi_header blk) h s (aura_seal pf sig) a"
    using platform(1) proposed received(1) sig clock(3) author signs [OF sig(1,2)]
    by (simp add: sealed_by_def platform_ok_def pre_digest_data_def)
  moreover obtain st' where "report_equivocation pf (av_client v) (provider_slot (av_client v) p + 1) s h a
      (av_check_for_equivocation v) st = (Inr (), st')"
    using report_equivocation_ok store by metis
  moreover have "authorities (av_client v) (header_hash pf parent) (bh_number h) (av_compatibility_mode v) = Inr auths"
    using agrees claimed(1) proposed(2) by (simp add: epoch_data_def)
  ultimately have "check_header pf (av_client v) (provider_slot (av_client v) p + 1) (bi_header blk)
      (header_hash pf (bi_header blk)) auths (av_check_for_equivocation v) st = (Inr (Checked h (s, aura_seal pf sig)), st')"
    unfolding check_header_Checked by blast
  then show ?thesis
    using \<open>authorities _ _ _ _ = Inr auths\<close> clock(1,2) inherents received sig proposed(1)
    by (simp add: verify_def Let_def)
qed

lemma sealed_block_verifies_sample:
  "\<exists>blk' st'. verify aura_platform aura_sample_verifier aura_sample_received \<lparr>aux_store = (), equivocations = []\<rparr> =
     (Inr blk', st') \<and> bi_header blk' = aura_sample_header \<and> bi_post_digests blk' = [Inr [3, 18]] \<and>
     bi_body blk' = Some [()] \<and> bi_post_hash blk' = Some 28"
  using sealed_block_verifies [of aura_platform aura_sample_new aura_sample_worker aura_sample_parent 5 "[1, 2, 3]" 3
      aura_sample_header "[]" "[()]" "()" aura_sample_params aura_sample_received aura_sample_verifier 4 "()"
      "\<lparr>aux_store = (), equivocations = []\<rparr>"]
  by (simp add: aura_sample_defs)

text \<open>
  C28. The authorities take turns: over as many consecutive slots as there are authorities, each of
  them is the author once, in their order, whichever slot comes first.
\<close>

theorem slot_authors_take_turns:
  assumes "length auths < 2 ^ 64" and "unat s + length auths \<le> 2 ^ 64"
  shows "map (\<lambda>i. slot_author (s + of_nat i) auths) [0..<length auths] =
         map Some (rotate (unat s mod length auths) auths)"
proof (rule nth_equalityI)
  fix i assume "i < length (map (\<lambda>i. slot_author (s + of_nat i) auths) [0..<length auths])"
  then have i: "i < length auths" "auths \<noteq> []" by auto
  then have "unat (s + of_nat i) = unat s + i"
    using assms by (subst unat_plus_simple [THEN iffD1]) (auto simp: unat_of_nat no_olen_add_nat)
  then show "map (\<lambda>i. slot_author (s + of_nat i) auths) [0..<length auths] ! i =
      map Some (rotate (unat s mod length auths) auths) ! i"
    using i assms by (simp add: slot_author_nth nth_rotate mod_simps)
qed simp

theorem slot_authors_take_turns_witness:
  "slot_author 7 [10, 20, 30 :: nat] = Some 20 \<and> slot_author 8 [10, 20, 30 :: nat] = Some 30 \<and>
   slot_author 9 [10, 20, 30 :: nat] = Some 10"
  using slot_authors_take_turns [of "[10, 20, 30 :: nat]" 7] by simp

end
