(* ===== verification/Manual_Seal.thy ===== *)
theory Manual_Seal
  imports Aura
begin

text \<open>
  The manual seal engine (\<^verbatim>\<open>node/consensus-transition/manual-seal/src\<close>): the errors and the RPC
  (\<^verbatim>\<open>error.rs\<close>, \<^verbatim>\<open>rpc.rs\<close>), sealing and finalizing a block (\<^verbatim>\<open>seal_block.rs\<close>, \<^verbatim>\<open>finalize_block.rs\<close>), the
  engine loops and the verifier (\<^verbatim>\<open>lib.rs\<close>), and the providers of consensus data for Aura and Babe
  with the mocked clock (\<^verbatim>\<open>consensus/\<close>).

  The state of the node has any type \<open>'w\<close>. The record \<open>seal_env\<close> holds what the engine asks of the
  transaction pool, the client, the proposer and the import queue; each call that changes the
  state returns it. A panic ends the engine and is a value. The locale \<open>consensus_data_provider\<close> is
  the contract of the trait of that name, with the Aura and the Babe provider as its instances.
\<close>

section \<open>Errors\<close>

datatype 'u import_result = Imported 'u | AlreadyInChain | KnownBad | UnknownParent | MissingState

datatype 'u seal_error =
    BlockImportError "'u import_result"
  | EmptyTransactionPool
  | ConsensusError consensus_error
  | InherentError string
  | BlockchainError string
  | BlockNotFound string
  | StringError string
  | Canceled
  | SendError
  | Other string

fun to_code :: "'u seal_error \<Rightarrow> int" where
  "to_code (BlockImportError _) = 11000"
| "to_code (BlockNotFound _) = 13000"
| "to_code EmptyTransactionPool = 12000"
| "to_code (ConsensusError _) = 14000"
| "to_code (InherentError _) = 15000"
| "to_code (BlockchainError _) = 16000"
| "to_code SendError = 10000"
| "to_code Canceled = 10000"
| "to_code (StringError _) = 20000"
| "to_code (Other _) = 20000"

fun seal_error_display ::
    "('u import_result \<Rightarrow> string) \<Rightarrow> (consensus_error \<Rightarrow> string) \<Rightarrow> 'u seal_error \<Rightarrow> string" where
  "seal_error_display dbg disp (BlockImportError r) = ''Block import failed: '' @ dbg r"
| "seal_error_display dbg disp EmptyTransactionPool =
     ''Transaction pool is empty, set create_empty to true, if you want to create empty blocks''"
| "seal_error_display dbg disp (ConsensusError e) = ''Consensus Error: '' @ disp e"
| "seal_error_display dbg disp (InherentError e) = ''Inherents Error: '' @ e"
| "seal_error_display dbg disp (BlockchainError e) = ''Finalization Error: '' @ e"
| "seal_error_display dbg disp (BlockNotFound h) = ''Supplied parent_hash: '' @ h @ '' doesn't exist in chain''"
| "seal_error_display dbg disp (StringError s) = s"
| "seal_error_display dbg disp Canceled = ''Consensus process is terminating''"
| "seal_error_display dbg disp SendError = ''Consensus process is terminating''"
| "seal_error_display dbg disp (Other e) = ''Other error: '' @ e"

record jsonrpc_error =
  je_server_error :: int
  je_message :: string
  je_data :: "string option"

definition to_jsonrpc ::
    "('u import_result \<Rightarrow> string) \<Rightarrow> (consensus_error \<Rightarrow> string) \<Rightarrow> 'u seal_error \<Rightarrow> jsonrpc_error" where
  "to_jsonrpc dbg disp e =
     \<lparr>je_server_error = to_code e, je_message = seal_error_display dbg disp e, je_data = None\<rparr>"


section \<open>Commands and replies\<close>

text \<open>A oneshot channel is its number. A command has the sender to report to, if there is one.\<close>

datatype EngineCommand =
    SealNewBlock (create_empty: bool) (finalize: bool) (parent_hash: "h256 option") (sender: "nat option")
  | FinalizeBlock (hash: h256) (sender: "nat option") (justification: "bytes option")

record 'u CreatedBlock =
  cb_hash :: h256
  cb_aux :: 'u

text \<open>The two kinds of senders carry a created block or nothing.\<close>

datatype 'u reply = Created "'u CreatedBlock" | Finalized

datatype 'u engine_effect =
    Sent nat "'u seal_error + 'u reply"
  | Shutting_down "'u seal_error + 'u reply"
  | Instant_seal_log "'u seal_error + 'u reply"

text \<open>\<open>open_ch\<close> tells whether the receiver of a channel still waits.\<close>

definition send_result ::
    "(nat \<Rightarrow> bool) \<Rightarrow> nat option \<Rightarrow> 'u seal_error + 'u reply \<Rightarrow> 'u engine_effect" where
  "send_result open_ch sndr result =
     (case sndr of
        Some ch \<Rightarrow> if open_ch ch then Sent ch result else Shutting_down result
      | None \<Rightarrow> Instant_seal_log result)"


section \<open>Sealing and finalizing\<close>

record ('d, 'x, 'c, 'm, 'n, 'p, 'r, 'u, 'w) seal_env =
  se_hash :: "'d block_header \<Rightarrow> h256"
  se_show_hash :: "h256 \<Rightarrow> string"
  se_pool_ready :: "'w \<Rightarrow> nat"
  se_header :: "h256 \<Rightarrow> 'w \<Rightarrow> string + 'd block_header option"
  se_best_chain :: "'w \<Rightarrow> consensus_error + 'd block_header"
  se_create_providers :: "h256 \<Rightarrow> 'w \<Rightarrow> string + 'p"
  se_create_inherent_data :: "'p \<Rightarrow> 'w \<Rightarrow> (string + 'n) \<times> 'w"
  se_inherents_len :: "'n \<Rightarrow> nat"
  se_init :: "'d block_header \<Rightarrow> 'w \<Rightarrow> (string + 'r) \<times> 'w"
  se_propose :: "'r \<Rightarrow> 'n \<Rightarrow> 'd list \<Rightarrow> u64 \<Rightarrow> 'w \<Rightarrow> string + ('d block_header \<times> 'x list) \<times> 'c"
  se_params_new :: "block_origin \<Rightarrow> 'd block_header \<Rightarrow> ('d, 'x, 'c, 'm) import_params"
  se_import_block :: "('d, 'x, 'c, 'm) import_params \<Rightarrow> 'w \<Rightarrow> (consensus_error + 'u import_result) \<times> 'w"
  se_finalize_block :: "h256 \<Rightarrow> (bytes \<times> bytes) option \<Rightarrow> bool \<Rightarrow> 'w \<Rightarrow> (string + unit) \<times> 'w"

text \<open>The trait \<^verbatim>\<open>ConsensusDataProvider\<close> (\<^verbatim>\<open>consensus.rs\<close>).\<close>

record ('d, 'x, 'c, 'm, 'n, 'u, 'w) data_provider =
  dp_create_digest :: "'d block_header \<Rightarrow> 'n \<Rightarrow> 'w \<Rightarrow> (('u seal_error + 'd list) \<times> 'w) outcome"
  dp_append_block_import ::
    "'d block_header \<Rightarrow> ('d, 'x, 'c, 'm) import_params \<Rightarrow> 'n \<Rightarrow> 'w \<Rightarrow>
       ('u seal_error + ('d, 'x, 'c, 'm) import_params) outcome"

definition MAX_PROPOSAL_DURATION :: u64 where
  "MAX_PROPOSAL_DURATION = 10"

text \<open>The header to build on: the one of the command, or the best one.\<close>

definition seal_parent ::
    "('d, 'x, 'c, 'm, 'n, 'p, 'r, 'u, 'w) seal_env \<Rightarrow> h256 option \<Rightarrow> 'w \<Rightarrow> 'u seal_error + 'd block_header" where
  "seal_parent E parent w =
     (case parent of
        Some h \<Rightarrow>
          (case se_header E h w of
             Inl e \<Rightarrow> Inl (BlockchainError e)
           | Inr None \<Rightarrow> Inl (BlockNotFound (se_show_hash E h))
           | Inr (Some hdr) \<Rightarrow> Inr hdr)
      | None \<Rightarrow> (case se_best_chain E w of Inl e \<Rightarrow> Inl (ConsensusError e) | Inr hdr \<Rightarrow> Inr hdr))"

definition provider_digest ::
    "('d, 'x, 'c, 'm, 'n, 'u, 'w) data_provider option \<Rightarrow> 'd block_header \<Rightarrow> 'n \<Rightarrow> 'w \<Rightarrow>
       (('u seal_error + 'd list) \<times> 'w) outcome" where
  "provider_digest dp parent n w =
     (case dp of Some d \<Rightarrow> dp_create_digest d parent n w | None \<Rightarrow> Inr (Inr [], w))"

definition provider_append ::
    "('d, 'x, 'c, 'm, 'n, 'u, 'w) data_provider option \<Rightarrow> 'd block_header \<Rightarrow> ('d, 'x, 'c, 'm) import_params \<Rightarrow>
     'n \<Rightarrow> 'w \<Rightarrow> ('u seal_error + ('d, 'x, 'c, 'm) import_params) outcome" where
  "provider_append dp parent params n w =
     (case dp of Some d \<Rightarrow> dp_append_block_import d parent params n w | None \<Rightarrow> Inr (Inr params))"

text \<open>The last part of \<^verbatim>\<open>seal_block\<close>: the proposal is turned into import parameters and imported.\<close>

definition import_proposal ::
    "('d, 'x, 'c, 'm, 'n, 'p, 'r, 'u, 'w) seal_env \<Rightarrow> ('d, 'x, 'c, 'm, 'n, 'u, 'w) data_provider option \<Rightarrow> bool \<Rightarrow>
     'd block_header \<Rightarrow> 'n \<Rightarrow> 'd block_header \<times> 'x list \<Rightarrow> 'c \<Rightarrow> 'w \<Rightarrow>
       (('u seal_error + 'u CreatedBlock) \<times> 'w) outcome" where
  "import_proposal E dp fin parent n blk changes w =
     (let (hdr, body) = blk;
          params = (se_params_new E Own hdr)
            \<lparr>bi_body := Some body, bi_finalized := fin, bi_fork_choice := Some LongestChain,
             bi_state_action := ApplyChanges changes\<rparr>
      in case provider_append dp parent params n w of
           Inl p \<Rightarrow> Inl p
         | Inr (Inl e) \<Rightarrow> Inr (Inl e, w)
         | Inr (Inr params) \<Rightarrow>
             (let post_header = hdr\<lparr>bh_digest := bh_digest hdr @ bi_post_digests params\<rparr> in
              case se_import_block E params w of
                (Inl e, w) \<Rightarrow> Inr (Inl (ConsensusError e), w)
              | (Inr (Imported aux), w) \<Rightarrow> Inr (Inr \<lparr>cb_hash = se_hash E post_header, cb_aux = aux\<rparr>, w)
              | (Inr other, w) \<Rightarrow> Inr (Inl (BlockImportError other), w)))"

text \<open>The future of \<^verbatim>\<open>seal_block\<close>, whose result is then sent.\<close>

definition seal_future ::
    "('d, 'x, 'c, 'm, 'n, 'p, 'r, 'u, 'w) seal_env \<Rightarrow> ('d, 'x, 'c, 'm, 'n, 'u, 'w) data_provider option \<Rightarrow> bool \<Rightarrow>
     bool \<Rightarrow> h256 option \<Rightarrow> 'w \<Rightarrow> (('u seal_error + 'u CreatedBlock) \<times> 'w) outcome" where
  "seal_future E dp empty_ok fin parent w =
     (if se_pool_ready E w = 0 \<and> \<not> empty_ok then Inr (Inl EmptyTransactionPool, w)
      else
        (case seal_parent E parent w of
           Inl e \<Rightarrow> Inr (Inl e, w)
         | Inr parent \<Rightarrow>
        (case se_create_providers E (se_hash E parent) w of
           Inl e \<Rightarrow> Inr (Inl (Other e), w)
         | Inr providers \<Rightarrow>
        (case se_create_inherent_data E providers w of
           (Inl e, w) \<Rightarrow> Inr (Inl (InherentError e), w)
         | (Inr n, w) \<Rightarrow>
        (case se_init E parent w of
           (Inl e, w) \<Rightarrow> Inr (Inl (StringError e), w)
         | (Inr prop, w) \<Rightarrow>
        (case provider_digest dp parent n w of
           Inl p \<Rightarrow> Inl p
         | Inr (Inl e, w) \<Rightarrow> Inr (Inl e, w)
         | Inr (Inr digest, w) \<Rightarrow>
        (case se_propose E prop n digest MAX_PROPOSAL_DURATION w of
           Inl e \<Rightarrow> Inr (Inl (StringError e), w)
         | Inr (blk, changes) \<Rightarrow>
             if length (snd blk) = se_inherents_len E n \<and> \<not> empty_ok
             then Inr (Inl EmptyTransactionPool, w)
             else import_proposal E dp fin parent n blk changes w)))))))"

definition seal_block ::
    "('d, 'x, 'c, 'm, 'n, 'p, 'r, 'u, 'w) seal_env \<Rightarrow> ('d, 'x, 'c, 'm, 'n, 'u, 'w) data_provider option \<Rightarrow>
     (nat \<Rightarrow> bool) \<Rightarrow> bool \<Rightarrow> bool \<Rightarrow> h256 option \<Rightarrow> nat option \<Rightarrow> 'w \<Rightarrow> ('u engine_effect \<times> 'w) outcome" where
  "seal_block E dp open_ch empty_ok fin parent sndr w =
     (case seal_future E dp empty_ok fin parent w of
        Inl p \<Rightarrow> Inl p
      | Inr (r, w) \<Rightarrow> Inr (send_result open_ch sndr (map_sum id Created r), w))"

definition finalize_block ::
    "('d, 'x, 'c, 'm, 'n, 'p, 'r, 'u, 'w) seal_env \<Rightarrow> (nat \<Rightarrow> bool) \<Rightarrow> h256 \<Rightarrow> nat option \<Rightarrow>
     (bytes \<times> bytes) option \<Rightarrow> 'w \<Rightarrow> 'u engine_effect \<times> 'w" where
  "finalize_block E open_ch h sndr just w =
     (case se_finalize_block E h just True w of
        (Inl e, w) \<Rightarrow> (send_result open_ch sndr (Inl (BlockchainError e)), w)
      | (Inr _, w) \<Rightarrow> (send_result open_ch sndr (Inr Finalized), w))"


section \<open>The engine\<close>

definition MANUAL_SEAL_ENGINE_ID :: bytes where
  "MANUAL_SEAL_ENGINE_ID = bytes_of ''manl''"

definition manual_seal_verify :: "('d, 'x, 'c, 'm) import_params \<Rightarrow> ('d, 'x, 'c, 'm) import_params" where
  "manual_seal_verify blk = blk\<lparr>bi_finalized := False, bi_fork_choice := Some LongestChain\<rparr>"

text \<open>One command of the loop of \<^verbatim>\<open>run_manual_seal\<close>.\<close>

definition engine_step ::
    "('d, 'x, 'c, 'm, 'n, 'p, 'r, 'u, 'w) seal_env \<Rightarrow> ('d, 'x, 'c, 'm, 'n, 'u, 'w) data_provider option \<Rightarrow>
     (nat \<Rightarrow> bool) \<Rightarrow> EngineCommand \<Rightarrow> 'w \<Rightarrow> ('u engine_effect \<times> 'w) outcome" where
  "engine_step E dp open_ch c w =
     (case c of
        SealNewBlock empty_ok fin parent sndr \<Rightarrow> seal_block E dp open_ch empty_ok fin parent sndr w
      | FinalizeBlock h sndr just \<Rightarrow>
          (let just = map_option (\<lambda>j. (MANUAL_SEAL_ENGINE_ID, j)) just in
           Inr (finalize_block E open_ch h sndr just w)))"

text \<open>The commands that the engine receives until its stream ends; a panic ends the task.\<close>

fun run_manual_seal ::
    "('d, 'x, 'c, 'm, 'n, 'p, 'r, 'u, 'w) seal_env \<Rightarrow> ('d, 'x, 'c, 'm, 'n, 'u, 'w) data_provider option \<Rightarrow>
     (nat \<Rightarrow> bool) \<Rightarrow> EngineCommand list \<Rightarrow> 'w \<Rightarrow> ('u engine_effect list \<times> 'w) outcome" where
  "run_manual_seal E dp open_ch [] w = Inr ([], w)"
| "run_manual_seal E dp open_ch (c # cs) w =
     (case engine_step E dp open_ch c w of
        Inl p \<Rightarrow> Inl p
      | Inr (eff, w) \<Rightarrow>
          (case run_manual_seal E dp open_ch cs w of
             Inl p \<Rightarrow> Inl p
           | Inr (effs, w) \<Rightarrow> Inr (eff # effs, w)))"

text \<open>Instant seal: a command for every transaction that enters the pool.\<close>

definition run_instant_seal ::
    "('d, 'x, 'c, 'm, 'n, 'p, 'r, 'u, 'w) seal_env \<Rightarrow> ('d, 'x, 'c, 'm, 'n, 'u, 'w) data_provider option \<Rightarrow>
     (nat \<Rightarrow> bool) \<Rightarrow> h256 list \<Rightarrow> 'w \<Rightarrow> ('u engine_effect list \<times> 'w) outcome" where
  "run_instant_seal E dp open_ch notifications w =
     run_manual_seal E dp open_ch (map (\<lambda>_. SealNewBlock False False None None) notifications) w"

text \<open>
  The RPC methods. \<open>accepted\<close> tells whether the command could be sent to the engine, \<open>received\<close> is
  what came back, if anything did before the sender was dropped.
\<close>

definition create_block_command :: "bool \<Rightarrow> bool \<Rightarrow> h256 option \<Rightarrow> nat \<Rightarrow> EngineCommand" where
  "create_block_command empty_ok fin parent ch = SealNewBlock empty_ok fin parent (Some ch)"

definition finalize_block_command :: "h256 \<Rightarrow> bytes option \<Rightarrow> nat \<Rightarrow> EngineCommand" where
  "finalize_block_command h just ch = FinalizeBlock h (Some ch) just"

definition rpc_response ::
    "('u seal_error \<Rightarrow> jsonrpc_error) \<Rightarrow> bool \<Rightarrow> ('u seal_error + 'u reply) option \<Rightarrow> jsonrpc_error + 'u reply" where
  "rpc_response to_rpc accepted received =
     (if \<not> accepted then Inl (to_rpc SendError)
      else
        (case received of
           None \<Rightarrow> Inl (to_rpc Canceled)
         | Some (Inl e) \<Rightarrow> Inl (to_rpc e)
         | Some (Inr r) \<Rightarrow> Inr r))"
end
