(* ===== verification/Seal_Providers.thy ===== *)
theory Seal_Providers
  imports Manual_Seal
begin

text \<open>
  The providers of consensus data of the manual seal engine (\<^verbatim>\<open>manual-seal/src/consensus\<close>): the mocked
  clock (\<^verbatim>\<open>timestamp.rs\<close>), the Aura provider (\<^verbatim>\<open>aura.rs\<close>) and the Babe provider with its verifier
  (\<^verbatim>\<open>babe.rs\<close>), and the properties of sealing with them.

  What the framework provides is an argument: the slot of a timestamp, inherent data, and for
  Babe the record \<open>babe_platform\<close> with the tree of epoch changes, which is a part of the state \<open>'w\<close>
  of the node.
\<close>

section \<open>The mocked clock\<close>

record SlotTimestampProvider =
  unix_millis :: u64
  tp_slot_duration :: u64

text \<open>What the constructors ask of the client and of the system clock.\<close>

record 'd chain_info =
  ci_best_number :: block_no
  ci_best_hash :: h256
  ci_header :: "h256 \<Rightarrow> string + 'd block_header option"
  ci_now_millis :: "string + nat"

definition with_header ::
    "'d chain_info \<Rightarrow> u64 \<Rightarrow> ('d block_header \<Rightarrow> 'u seal_error + slot) \<Rightarrow> 'u seal_error + u64" where
  "with_header info duration func =
     (if ci_best_number info \<noteq> 0
      then
        (case ci_header info (ci_best_hash info) of
           Inl e \<Rightarrow> Inl (BlockchainError e)
         | Inr None \<Rightarrow> Inl (StringError ''best header not found in the db!'')
         | Inr (Some h) \<Rightarrow>
             (case func h of Inl e \<Rightarrow> Inl e | Inr s \<Rightarrow> Inr (s * duration + duration)))
      else
        (case ci_now_millis info of Inl e \<Rightarrow> Inl (StringError e) | Inr ms \<Rightarrow> Inr (of_nat ms)))"

definition new_aura ::
    "('d, 'a, 's) platform \<Rightarrow> ('d, 'a, 'x, 'r, 'p, 'n, 'v, 'q) aura_client \<Rightarrow> 'd chain_info \<Rightarrow>
       'u seal_error + SlotTimestampProvider" where
  "new_aura pf client info =
     (case slot_duration client of
        Inl e \<Rightarrow> Inl (BlockchainError e)
      | Inr duration \<Rightarrow>
          (case with_header info duration
                  (\<lambda>h. case find_pre_digest pf h of
                         Inl e \<Rightarrow> Inl (StringError (Error_to_string pf e)) | Inr s \<Rightarrow> Inr s) of
             Inl e \<Rightarrow> Inl e
           | Inr t \<Rightarrow> Inr \<lparr>unix_millis = t, tp_slot_duration = duration\<rparr>))"

text \<open>\<open>config\<close> is the slot duration of the Babe configuration, \<open>babe_slot\<close> the slot of a Babe pre-digest.\<close>

definition new_babe ::
    "string + u64 \<Rightarrow> ('d block_header \<Rightarrow> string + slot) \<Rightarrow> 'd chain_info \<Rightarrow> 'u seal_error + SlotTimestampProvider" where
  "new_babe config babe_slot info =
     (case config of
        Inl e \<Rightarrow> Inl (BlockchainError e)
      | Inr duration \<Rightarrow>
          (case with_header info duration
                  (\<lambda>h. case babe_slot h of Inl e \<Rightarrow> Inl (StringError e) | Inr s \<Rightarrow> Inr s) of
             Inl e \<Rightarrow> Inl e
           | Inr t \<Rightarrow> Inr \<lparr>unix_millis = t, tp_slot_duration = duration\<rparr>))"

definition tp_slot :: "(u64 \<Rightarrow> u64 \<Rightarrow> slot) \<Rightarrow> SlotTimestampProvider \<Rightarrow> slot" where
  "tp_slot from_timestamp p = from_timestamp (unix_millis p) (tp_slot_duration p)"

definition timestamp :: "SlotTimestampProvider \<Rightarrow> u64" where
  "timestamp p = unix_millis p"

text \<open>The time that is put is the one before the addition; \<open>put_data\<close> adds it to the inherent data.\<close>

definition provide_inherent_data ::
    "(u64 \<Rightarrow> 'n \<Rightarrow> string + 'n) \<Rightarrow> 'n \<Rightarrow> SlotTimestampProvider \<Rightarrow> (string + 'n) \<times> SlotTimestampProvider" where
  "provide_inherent_data put_data n p =
     (let new_time = unix_millis p in
      (put_data new_time n, p\<lparr>unix_millis := unix_millis p + tp_slot_duration p\<rparr>))"


section \<open>The Aura provider\<close>

definition aura_provider_new ::
    "('d, 'a, 'x, 'r, 'p, 'n, 'v, 'q) aura_client \<Rightarrow> u64 outcome" where
  "aura_provider_new client =
     (case slot_duration client of
        Inl _ \<Rightarrow> Inl (Panic ''slot_duration is always present; qed.'')
      | Inr duration \<Rightarrow> Inr duration)"

definition aura_create_digest ::
    "('d, 'a, 's) platform \<Rightarrow> (u64 \<Rightarrow> u64 \<Rightarrow> slot) \<Rightarrow> ('n \<Rightarrow> string + u64 option) \<Rightarrow> u64 \<Rightarrow>
     'd block_header \<Rightarrow> 'n \<Rightarrow> 'w \<Rightarrow> (('u seal_error + 'd list) \<times> 'w) outcome" where
  "aura_create_digest pf from_timestamp timestamp_inherent_data duration parent n w =
     (case timestamp_inherent_data n of
        Inl e \<Rightarrow> Inr (Inl (InherentError e), w)
      | Inr None \<Rightarrow> Inl (Panic ''Timestamp is always present; qed'')
      | Inr (Some t) \<Rightarrow> Inr (Inr [aura_pre_digest pf (from_timestamp t duration)], w))"

definition aura_append_block_import ::
    "'d block_header \<Rightarrow> ('d, 'x, 'c, 'm) import_params \<Rightarrow> 'n \<Rightarrow> 'w \<Rightarrow>
       ('u seal_error + ('d, 'x, 'c, 'm) import_params) outcome" where
  "aura_append_block_import parent params n w = Inr (Inr params)"

definition aura_data_provider ::
    "('d, 'a, 's) platform \<Rightarrow> (u64 \<Rightarrow> u64 \<Rightarrow> slot) \<Rightarrow> ('n \<Rightarrow> string + u64 option) \<Rightarrow> u64 \<Rightarrow>
       ('d, 'x, 'c, 'm, 'n, 'u, 'w) data_provider" where
  "aura_data_provider pf from_timestamp timestamp_inherent_data duration =
     \<lparr>dp_create_digest = aura_create_digest pf from_timestamp timestamp_inherent_data duration,
      dp_append_block_import = aura_append_block_import\<rparr>"


section \<open>The Babe provider\<close>

record EpochHeader =
  start_slot :: slot
  end_slot :: slot

datatype 'id ViableEpochDescriptor = UnimportedGenesis slot | Signaled 'id EpochHeader

text \<open>The fields of \<^verbatim>\<open>Epoch\<close> that the provider uses; \<open>'z\<close> is the rest.\<close>

record ('b, 'z) Epoch =
  ep_authorities :: "('b \<times> u64) list"
  ep_randomness :: bytes
  ep_rest :: 'z

record ('d, 'n, 'b, 'id, 'z, 'k, 'w) babe_platform =
  bp_hash :: "'d block_header \<Rightarrow> h256"
  bp_babe_inherent_data :: "'n \<Rightarrow> string + slot option"
  bp_timestamp_inherent_data :: "'n \<Rightarrow> string + u64 option"
  bp_from_timestamp :: "u64 \<Rightarrow> u64 \<Rightarrow> slot"
  bp_epoch_descriptor_for_child_of ::
    "h256 \<Rightarrow> block_no \<Rightarrow> slot \<Rightarrow> 'w \<Rightarrow> string + 'id ViableEpochDescriptor option"
  bp_viable_epoch :: "'id ViableEpochDescriptor \<Rightarrow> 'w \<Rightarrow> ('b, 'z) Epoch option"
  bp_epoch :: "'id \<Rightarrow> 'w \<Rightarrow> ('b, 'z) Epoch option"
  bp_set_epoch :: "'id \<Rightarrow> ('b, 'z) Epoch \<Rightarrow> 'w \<Rightarrow> 'w"
  bp_claim_slot :: "slot \<Rightarrow> ('b, 'z) Epoch \<Rightarrow> 'k option"
  bp_pre_digest :: "'k \<Rightarrow> 'd"
  bp_secondary_plain :: "slot \<Rightarrow> u32 \<Rightarrow> 'd"
  bp_next_epoch_data :: "('b \<times> u64) list \<Rightarrow> bytes \<Rightarrow> 'd"
  bp_find_pre_digest :: "'d block_header \<Rightarrow> string + slot"
  bp_header :: "h256 \<Rightarrow> 'w \<Rightarrow> string + 'd block_header option"
  bp_intermediate_key :: string
  bp_show_hash :: "h256 \<Rightarrow> string"
  bp_consensus_display :: "consensus_error \<Rightarrow> string"

record 'b babe_provider =
  bb_authorities :: "('b \<times> u64) list"
  bb_epoch_length :: u64
  bb_slot_duration :: u64

definition babe_provider_new ::
    "string + u64 \<times> u64 \<Rightarrow> ('b \<times> u64) list \<Rightarrow> 'u seal_error + 'b babe_provider" where
  "babe_provider_new config auths =
     (if auths = [] then Inl (StringError ''Cannot supply empty authority set!'')
      else
        (case config of
           Inl e \<Rightarrow> Inl (BlockchainError e)
         | Inr (epoch_length, duration) \<Rightarrow>
             Inr \<lparr>bb_authorities = auths, bb_epoch_length = epoch_length, bb_slot_duration = duration\<rparr>))"

text \<open>The descriptor of the epoch of a child of \<open>parent\<close>, with the two errors the callers give.\<close>

definition babe_descriptor ::
    "('d, 'n, 'b, 'id, 'z, 'k, 'w) babe_platform \<Rightarrow> 'd block_header \<Rightarrow> slot \<Rightarrow> 'w \<Rightarrow>
       'u seal_error + 'id ViableEpochDescriptor" where
  "babe_descriptor bp parent s w =
     (case bp_epoch_descriptor_for_child_of bp (bp_hash bp parent) (bh_number parent) s w of
        Inl e \<Rightarrow> Inl (StringError (''failed to fetch epoch_descriptor: '' @ e))
      | Inr None \<Rightarrow> Inl (ConsensusError InvalidAuthoritiesSet)
      | Inr (Some d) \<Rightarrow> Inr d)"

definition babe_epoch ::
    "('d, 'n, 'b, 'id, 'z, 'k, 'w) babe_platform \<Rightarrow> 'd block_header \<Rightarrow> slot \<Rightarrow> 'w \<Rightarrow>
       'u seal_error + ('b, 'z) Epoch" where
  "babe_epoch bp parent s w =
     (case babe_descriptor bp parent s w of
        Inl e \<Rightarrow> Inl e
      | Inr d \<Rightarrow>
          (case bp_viable_epoch bp d w of
             None \<Rightarrow> Inl (ConsensusError InvalidAuthoritiesSet)
           | Some ep \<Rightarrow> Inr ep))"

definition babe_slot ::
    "('d, 'n, 'b, 'id, 'z, 'k, 'w) babe_platform \<Rightarrow> 'n \<Rightarrow> 'u seal_error + slot" where
  "babe_slot bp n =
     (case bp_babe_inherent_data bp n of
        Inl e \<Rightarrow> Inl (InherentError e)
      | Inr None \<Rightarrow> Inl (StringError ''No babe inherent data'')
      | Inr (Some s) \<Rightarrow> Inr s)"

definition babe_create_digest ::
    "('d, 'n, 'b, 'id, 'z, 'k, 'w) babe_platform \<Rightarrow> 'b babe_provider \<Rightarrow> 'd block_header \<Rightarrow> 'n \<Rightarrow> 'w \<Rightarrow>
       (('u seal_error + 'd list) \<times> 'w) outcome" where
  "babe_create_digest bp bb parent n w =
     (case babe_slot bp n of
        Inl e \<Rightarrow> Inr (Inl e, w)
      | Inr s \<Rightarrow>
     (case babe_epoch bp parent s w of
        Inl e \<Rightarrow> Inr (Inl e, w)
      | Inr ep \<Rightarrow>
     (case bp_claim_slot bp s ep of
        Some predigest \<Rightarrow> Inr (Inr [bp_pre_digest bp predigest], w)
      | None \<Rightarrow>
     (case babe_descriptor bp parent s w of
        Inl e \<Rightarrow> Inr (Inl e, w)
      | Inr (Signaled i _) \<Rightarrow>
          (case bp_epoch bp i w of
             None \<Rightarrow> Inr (Inl (ConsensusError InvalidAuthoritiesSet), w)
           | Some epoch_mut \<Rightarrow>
               (let epoch_mut = epoch_mut\<lparr>ep_authorities := bb_authorities bb\<rparr> in
                Inr (Inr [bp_secondary_plain bp s 0,
                          bp_next_epoch_data bp (bb_authorities bb) (ep_randomness epoch_mut)],
                     bp_set_epoch bp i epoch_mut w)))
      | Inr (UnimportedGenesis _) \<Rightarrow> Inr (Inr [bp_secondary_plain bp s 0], w)))))"

text \<open>The descriptor that is imported when the authority of the provider is not in the epoch.\<close>

definition hard_coded_descriptor ::
    "('d, 'n, 'b, 'id, 'z, 'k, 'w) babe_platform \<Rightarrow> 'b babe_provider \<Rightarrow> 'n \<Rightarrow> 'id ViableEpochDescriptor \<Rightarrow>
       ('u seal_error + 'id ViableEpochDescriptor) outcome" where
  "hard_coded_descriptor bp bb n d =
     (case bp_timestamp_inherent_data bp n of
        Inl e \<Rightarrow> Inr (Inl (InherentError e))
      | Inr None \<Rightarrow> Inr (Inl (StringError ''No timestamp inherent data''))
      | Inr (Some t) \<Rightarrow>
          (let s = bp_from_timestamp bp t (bb_slot_duration bb) in
           case d of
             Signaled i _ \<Rightarrow> Inr (Inr (Signaled i \<lparr>start_slot = s, end_slot = s * bb_epoch_length bb\<rparr>))
           | UnimportedGenesis _ \<Rightarrow>
               Inl (Panic ''we're not in the authorities, so this isn't the genesis epoch; qed'')))"

definition insert_intermediate ::
    "('d, 'n, 'b, 'id, 'z, 'k, 'w) babe_platform \<Rightarrow> 'id ViableEpochDescriptor \<Rightarrow>
     ('d, 'x, 'c, 'id ViableEpochDescriptor) import_params \<Rightarrow> ('d, 'x, 'c, 'id ViableEpochDescriptor) import_params" where
  "insert_intermediate bp d params =
     params\<lparr>bi_intermediates := (bi_intermediates params)(bp_intermediate_key bp \<mapsto> d)\<rparr>"

definition babe_append_block_import ::
    "('d, 'n, 'b, 'id, 'z, 'k, 'w) babe_platform \<Rightarrow> 'b babe_provider \<Rightarrow> 'd block_header \<Rightarrow>
     ('d, 'x, 'c, 'id ViableEpochDescriptor) import_params \<Rightarrow> 'n \<Rightarrow> 'w \<Rightarrow>
       ('u seal_error + ('d, 'x, 'c, 'id ViableEpochDescriptor) import_params) outcome" where
  "babe_append_block_import bp bb parent params n w =
     (case babe_slot bp n of
        Inl e \<Rightarrow> Inr (Inl e)
      | Inr s \<Rightarrow>
     (case babe_descriptor bp parent s w of
        Inl e \<Rightarrow> Inr (Inl e)
      | Inr d \<Rightarrow>
     (case babe_epoch bp parent s w of
        Inl e \<Rightarrow> Inr (Inl e)
      | Inr ep \<Rightarrow>
     (case bb_authorities bb of
        [] \<Rightarrow> Inl (Panic ''authorities is non-emptyp; qed'')
      | (authority, _) # _ \<Rightarrow>
          (let has_authority = list_ex (\<lambda>(i, _). i = authority) (ep_authorities ep) in
           case (if has_authority then Inr (Inr d) else hard_coded_descriptor bp bb n d) of
             Inl p \<Rightarrow> Inl p
           | Inr (Inl e) \<Rightarrow> Inr (Inl e)
           | Inr (Inr d) \<Rightarrow> Inr (Inr (insert_intermediate bp d params)))))))"

definition babe_data_provider ::
    "('d, 'n, 'b, 'id, 'z, 'k, 'w) babe_platform \<Rightarrow> 'b babe_provider \<Rightarrow>
       ('d, 'x, 'c, 'id ViableEpochDescriptor, 'n, 'u, 'w) data_provider" where
  "babe_data_provider bp bb =
     \<lparr>dp_create_digest = babe_create_digest bp bb, dp_append_block_import = babe_append_block_import bp bb\<rparr>"

definition babe_verify ::
    "('d, 'n, 'b, 'id, 'z, 'k, 'w) babe_platform \<Rightarrow> ('d, 'x, 'c, 'id ViableEpochDescriptor) import_params \<Rightarrow> 'w \<Rightarrow>
       string + ('d, 'x, 'c, 'id ViableEpochDescriptor) import_params" where
  "babe_verify bp params w =
     (let params = params\<lparr>bi_finalized := False, bi_fork_choice := Some LongestChain\<rparr>;
          parent_hash = bh_parent_hash (bi_header params)
      in case bp_find_pre_digest bp (bi_header params) of
           Inl e \<Rightarrow> Inl e
         | Inr s \<Rightarrow>
             (case bp_header bp parent_hash w of
                Inr (Some parent) \<Rightarrow>
                  (case bp_epoch_descriptor_for_child_of bp (bp_hash bp parent) (bh_number parent) s w of
                     Inl e \<Rightarrow> Inl (''failed to fetch epoch_descriptor: '' @ e)
                   | Inr None \<Rightarrow> Inl (bp_consensus_display bp InvalidAuthoritiesSet)
                   | Inr (Some d) \<Rightarrow> Inr (insert_intermediate bp d params))
              | _ \<Rightarrow> Inl (''header for block '' @ bp_show_hash bp parent_hash @ '' not found'')))"

end
