(* ===== verification/Seal_Engine.thy ===== *)
theory Seal_Engine
  imports Seal_Providers
begin

text \<open>
  The properties of the manual seal engine. The locale \<open>consensus_data_provider\<close> is the contract
  under which \<^verbatim>\<open>seal_block\<close> uses a provider: the provider may add digests and intermediate data to the
  import parameters and leaves the block alone. \<open>total_data_provider\<close> adds that it does not panic.
  The Aura and the Babe provider are instances of the first; the Aura provider is an instance of
  the second for inherent data with a timestamp, which its code takes for granted.
\<close>

section \<open>Commands\<close>

text \<open>
  What a command comes to, whoever asked for it: the result of sealing or finalizing in the
  state that the commands before it left. And the answers that a channel gets from a run.
\<close>

fun command_result ::
    "('d, 'x, 'c, 'm, 'n, 'p, 'r, 'u, 'w) seal_env \<Rightarrow> ('d, 'x, 'c, 'm, 'n, 'u, 'w) data_provider option \<Rightarrow>
     EngineCommand \<Rightarrow> 'w \<Rightarrow> (('u seal_error + 'u reply) \<times> 'w) outcome" where
  "command_result E dp (SealNewBlock empty_ok fin parent _) w =
     map_sum id (apfst (map_sum id Created)) (seal_future E dp empty_ok fin parent w)"
| "command_result E dp (FinalizeBlock h _ just) w =
     Inr (apfst (map_sum BlockchainError (\<lambda>_. Finalized))
       (se_finalize_block E h (map_option (Pair MANUAL_SEAL_ENGINE_ID) just) True w))"

fun command_results ::
    "('d, 'x, 'c, 'm, 'n, 'p, 'r, 'u, 'w) seal_env \<Rightarrow> ('d, 'x, 'c, 'm, 'n, 'u, 'w) data_provider option \<Rightarrow>
     EngineCommand list \<Rightarrow> 'w \<Rightarrow> (('u seal_error + 'u reply) list \<times> 'w) outcome" where
  "command_results E dp [] w = Inr ([], w)"
| "command_results E dp (c # cs) w =
     (case command_result E dp c w of
        Inl p \<Rightarrow> Inl p
      | Inr (r, w) \<Rightarrow>
          (case command_results E dp cs w of
             Inl p \<Rightarrow> Inl p
           | Inr (rs, w) \<Rightarrow> Inr (r # rs, w)))"

fun answers :: "nat \<Rightarrow> 'u engine_effect list \<Rightarrow> ('u seal_error + 'u reply) list" where
  "answers ch [] = []"
| "answers ch (Sent ch' r # effs) = (if ch' = ch then r # answers ch effs else answers ch effs)"
| "answers ch (_ # effs) = answers ch effs"

text \<open>The results of the commands that were sent with a channel.\<close>

definition results_for ::
    "nat \<Rightarrow> EngineCommand list \<Rightarrow> ('u seal_error + 'u reply) list \<Rightarrow> ('u seal_error + 'u reply) list" where
  "results_for ch cs rs = map snd (filter (\<lambda>(c, _). sender c = Some ch) (zip cs rs))"

lemma engine_step_result:
  "engine_step E dp open_ch c w =
     map_sum id (apfst (send_result open_ch (sender c))) (command_result E dp c w)"
  by (cases c) (auto simp: engine_step_def seal_block_def finalize_block_def split: sum.splits prod.splits)

lemma engine_answers:
  assumes "command_results E dp cs w = Inr (rs, w')"
  shows "\<exists>effs. run_manual_seal E dp open_ch cs w = Inr (effs, w') \<and> length rs = length cs \<and>
           (\<forall>ch. answers ch effs = (if open_ch ch then results_for ch cs rs else []))"
  using assms
proof (induction cs arbitrary: w rs)
  case (Cons c cs)
  then obtain r w1 rs1 where step: "command_result E dp c w = Inr (r, w1)"
    and rest: "command_results E dp cs w1 = Inr (rs1, w')" and rs: "rs = r # rs1"
    by (auto split: sum.splits)
  from Cons.IH[OF rest] obtain effs where effs: "run_manual_seal E dp open_ch cs w1 = Inr (effs, w')"
    "length rs1 = length cs" "\<And>ch. answers ch effs = (if open_ch ch then results_for ch cs rs1 else [])" by blast
  have "run_manual_seal E dp open_ch (c # cs) w = Inr (send_result open_ch (sender c) r # effs, w')"
    using step effs(1) by (simp add: engine_step_result)
  moreover have "answers ch (send_result open_ch (sender c) r # effs) =
      (if open_ch ch then results_for ch (c # cs) rs else [])" for ch
    using effs(3) by (auto simp: send_result_def results_for_def rs split: option.splits)
  ultimately show ?case using effs(2) rs by auto
qed (simp add: results_for_def)


section \<open>Contracts\<close>

text \<open>The parameters with which the proposed block is imported.\<close>

definition imports_block ::
    "bool \<Rightarrow> 'd block_header \<Rightarrow> 'x list \<Rightarrow> 'c \<Rightarrow> ('d, 'x, 'c, 'm) import_params \<Rightarrow> bool" where
  "imports_block fin hdr body changes params \<longleftrightarrow>
     bi_origin params = Own \<and> bi_header params = hdr \<and> bi_body params = Some body \<and>
     bi_finalized params = fin \<and> bi_fork_choice params = Some LongestChain \<and>
     bi_state_action params = ApplyChanges changes"

text \<open>
  The run of \<^verbatim>\<open>seal_block\<close> that creates a block, from the state \<open>w\<close> to \<open>w'\<close>: the inherent data \<open>n\<close> is that of
  the providers for the parent \<open>p\<close>, the proposer was initialised on \<open>p\<close> and made \<open>hdr\<close> and \<open>body\<close> from
  \<open>n\<close> and the digest of the provider for \<open>p\<close> and \<open>n\<close>, and the block was imported.
\<close>

definition created_from ::
    "('d, 'x, 'c, 'm, 'n, 'p, 'r, 'u, 'w) seal_env \<Rightarrow> ('d, 'x, 'c, 'm, 'n, 'u, 'w) data_provider option \<Rightarrow> bool \<Rightarrow>
     bool \<Rightarrow> 'd block_header \<Rightarrow> 'n \<Rightarrow> 'd list \<Rightarrow> 'd block_header \<Rightarrow> 'x list \<Rightarrow> 'd list \<Rightarrow> 'u CreatedBlock \<Rightarrow> 'w \<Rightarrow> 'w \<Rightarrow> bool" where
  "created_from E dp empty_ok fin p n digest hdr body added cb w w' \<longleftrightarrow>
     (\<exists>providers r changes params w0 w1 w2.
        se_create_providers E (se_hash E p) w = Inr providers \<and>
        se_create_inherent_data E providers w = (Inr n, w0) \<and>
        se_init E p w0 = (Inr r, w1) \<and>
        provider_digest dp p n w1 = Inr (Inr digest, w2) \<and>
        se_propose E r n digest MAX_PROPOSAL_DURATION w2 = Inr ((hdr, body), changes) \<and>
        (empty_ok \<or> length body \<noteq> se_inherents_len E n) \<and>
        imports_block fin hdr body changes params \<and> bi_post_digests params = added \<and>
        se_import_block E params w2 = (Inr (Imported (cb_aux cb)), w')) \<and>
     cb_hash cb = se_hash E (hdr\<lparr>bh_digest := bh_digest hdr @ added\<rparr>)"

locale consensus_data_provider =
  fixes dp :: "('d, 'x, 'c, 'm, 'n, 'u, 'w) data_provider"
  assumes append_keeps:
    "dp_append_block_import dp parent params n w = Inr (Inr params') \<Longrightarrow>
       imports_block fin hdr body changes params \<Longrightarrow> imports_block fin hdr body changes params'"
begin

lemma import_proposal_created:
  assumes "params_new_ok (se_params_new E)"
    and "import_proposal E (Some dp) fin parent n (hdr, body) changes w = Inr (Inr cb, w')"
  shows "\<exists>params. imports_block fin hdr body changes params \<and>
           se_import_block E params w = (Inr (Imported (cb_aux cb)), w') \<and>
           cb_hash cb = se_hash E (hdr\<lparr>bh_digest := bh_digest hdr @ bi_post_digests params\<rparr>)"
proof -
  define new where "new = (se_params_new E Own hdr)
      \<lparr>bi_body := Some body, bi_finalized := fin, bi_fork_choice := Some LongestChain,
       bi_state_action := ApplyChanges changes\<rparr>"
  have "imports_block fin hdr body changes new"
    using assms(1) by (simp add: new_def imports_block_def params_new_ok_def)
  moreover obtain params where "dp_append_block_import dp parent new n w = Inr (Inr params)"
      "se_import_block E params w = (Inr (Imported (cb_aux cb)), w')"
      "cb_hash cb = se_hash E (hdr\<lparr>bh_digest := bh_digest hdr @ bi_post_digests params\<rparr>)"
    using assms(2)
    by (auto simp: import_proposal_def provider_append_def Let_def new_def
        split: sum.splits prod.splits import_result.splits)
  ultimately show ?thesis
    using append_keeps by blast
qed

lemma seal_future_created:
  assumes "params_new_ok (se_params_new E)"
    and "seal_future E (Some dp) empty_ok fin parent w = Inr (Inr cb, w')"
  shows "(empty_ok \<or> se_pool_ready E w \<noteq> 0) \<and>
         (\<exists>p n digest hdr body added. seal_parent E parent w = Inr p \<and>
            created_from E (Some dp) empty_ok fin p n digest hdr body added cb w w')"
proof -
  have ready: "empty_ok \<or> se_pool_ready E w \<noteq> 0"
    using assms(2) by (auto simp: seal_future_def split: if_splits)
  from assms(2) obtain p providers n digest r hdr body changes w0 w1 w2 where
      *: "seal_parent E parent w = Inr p"
      "provider_digest (Some dp) p n w1 = Inr (Inr digest, w2)"
      "se_propose E r n digest MAX_PROPOSAL_DURATION w2 = Inr ((hdr, body), changes)"
      "empty_ok \<or> length body \<noteq> se_inherents_len E n"
      "import_proposal E (Some dp) fin p n (hdr, body) changes w2 = Inr (Inr cb, w')"
    and env: "se_create_providers E (se_hash E p) w = Inr providers"
      "se_create_inherent_data E providers w = (Inr n, w0)" "se_init E p w0 = (Inr r, w1)"
    by (auto simp: seal_future_def split: sum.splits prod.splits if_splits)
  from import_proposal_created [OF assms(1) *(5)] * env ready show ?thesis
    unfolding created_from_def by blast
qed

end

locale total_data_provider = consensus_data_provider +
  assumes create_total: "\<exists>r. dp_create_digest dp parent n w = Inr r"
    and append_total: "\<exists>r. dp_append_block_import dp parent params n w = Inr r"
begin

lemma import_proposal_total: "\<exists>r. import_proposal E (Some dp) fin parent n blk changes w = Inr r"
  using append_total [of parent _ n w]
  by (auto simp: import_proposal_def provider_append_def Let_def split: sum.splits prod.splits import_result.splits)
     (metis Inr_Inl_False)

lemma seal_future_total: "\<exists>r. seal_future E (Some dp) empty_ok fin parent w = Inr r"
  using create_total import_proposal_total
  by (auto simp: seal_future_def provider_digest_def split: sum.splits prod.splits)
     (metis Inr_Inl_False)+

lemma command_result_total: "\<exists>r w1. command_result E (Some dp) c w = Inr (r, w1)"
proof (cases c)
  case (SealNewBlock empty_ok fin parent sndr)
  obtain r w1 where "seal_future E (Some dp) empty_ok fin parent w = Inr (r, w1)"
    using seal_future_total by (metis surj_pair)
  with SealNewBlock show ?thesis by simp
qed (simp add: split_beta)

lemma command_results_total: "\<exists>rs w'. command_results E (Some dp) cs w = Inr (rs, w')"
proof (induction cs arbitrary: w)
  case (Cons c cs)
  obtain r w1 where "command_result E (Some dp) c w = Inr (r, w1)" using command_result_total by blast
  with Cons.IH[of w1] show ?case by auto
qed simp

end


section \<open>The providers\<close>

lemma babe_append_Inr:
  "babe_append_block_import bp bb parent params n w = Inr (Inr params') \<Longrightarrow>
     \<exists>d. params' = insert_intermediate bp d params"
  by (auto simp: babe_append_block_import_def Let_def split: sum.splits list.splits prod.splits if_splits)

interpretation aura_dp: consensus_data_provider "aura_data_provider pf ft ts d" for pf ft ts d
  by unfold_locales (simp add: aura_data_provider_def aura_append_block_import_def)

interpretation timed_dp: total_data_provider "aura_data_provider pf ft (\<lambda>n. Inr (Some (ts n))) d" for pf ft ts d
  by unfold_locales (simp_all add: aura_data_provider_def aura_create_digest_def aura_append_block_import_def)

interpretation babe_dp: consensus_data_provider "babe_data_provider bp bb" for bp bb
  by unfold_locales
    (auto simp: babe_data_provider_def insert_intermediate_def imports_block_def dest!: babe_append_Inr)


section \<open>The clock\<close>

text \<open>The clock after a call of \<^verbatim>\<open>provide_inherent_data\<close>, whatever the inherent data is.\<close>

definition tick :: "SlotTimestampProvider \<Rightarrow> SlotTimestampProvider" where
  "tick p = snd (provide_inherent_data (\<lambda>_ n. Inr n) () p)"

lemma snd_provide [simp]: "snd (provide_inherent_data put n p) = tick p"
  by (simp add: tick_def provide_inherent_data_def Let_def)

lemma ticks: "(tick ^^ k) p = p\<lparr>unix_millis := unix_millis p + of_nat k * tp_slot_duration p\<rparr>"
  by (induction k) (simp_all add: tick_def provide_inherent_data_def Let_def algebra_simps)

lemma word_div_multiple:
  fixes d :: u64
  assumes "0 < unat d" and "m * unat d < 2 ^ 64"
  shows "of_nat m * d div d = of_nat m"
proof -
  have "m \<le> m * unat d"
    using assms(1) by simp
  then have m: "m < 2 ^ 64"
    using assms(2) by linarith
  have "of_nat m * d = of_nat (m * unat d)" by simp
  then have "unat (of_nat m * d) = m * unat d"
    using assms(2) by (simp only: unat_of_nat) simp
  then have "unat (of_nat m * d div d) = unat (of_nat m :: u64)"
    using assms m by (simp add: unat_div unat_of_nat)
  then show ?thesis by (simp add: word_unat_eq_iff)
qed


section \<open>A sample node\<close>

text \<open>
  The node of the Aura sample with a slot of six seconds: the inherent data is a timestamp, the
  state is the signalled epoch of the Babe tree, if there is one. The genesis authority is 9 and
  the provider seals for authority 5.
\<close>

definition seal_sample_env ::
    "(slot + bytes, unit, unit, unit ViableEpochDescriptor, u64, unit, unit, unit, (nat, unit) Epoch option) seal_env" where
  "seal_sample_env =
     \<lparr>se_hash = header_hash aura_platform,
      se_show_hash = debug_hash aura_platform,
      se_pool_ready = (\<lambda>_. 1),
      se_header = (\<lambda>h _. Inr (if h = 17 then Some aura_sample_parent else None)),
      se_best_chain = (\<lambda>_. Inr aura_sample_parent),
      se_create_providers = (\<lambda>_ _. Inr ()),
      se_create_inherent_data = (\<lambda>_ w. (Inr 30000, w)),
      se_inherents_len = (\<lambda>_. 1),
      se_init = (\<lambda>_ w. (Inr (), w)),
      se_propose = (\<lambda>_ _ digest _ _. Inr ((aura_sample_header\<lparr>bh_digest := digest\<rparr>, [(), ()]), ())),
      se_params_new = aura_sample_new,
      se_import_block = (\<lambda>_ w. (Inr (Imported ()), w)),
      se_finalize_block = (\<lambda>_ _ _ w. (Inr (), w))\<rparr>"

definition babe_sample_platform ::
    "(slot + bytes, u64, nat, unit, unit, unit, (nat, unit) Epoch option) babe_platform" where
  "babe_sample_platform =
     \<lparr>bp_hash = header_hash aura_platform,
      bp_babe_inherent_data = (\<lambda>n. Inr (Some (n div 6000))),
      bp_timestamp_inherent_data = (\<lambda>n. Inr (Some n)),
      bp_from_timestamp = (div),
      bp_epoch_descriptor_for_child_of =
        (\<lambda>_ _ _ w. Inr (Some (case w of None \<Rightarrow> UnimportedGenesis 0
                                      | Some _ \<Rightarrow> Signaled () \<lparr>start_slot = 0, end_slot = 10\<rparr>))),
      bp_viable_epoch =
        (\<lambda>d w. case d of UnimportedGenesis _ \<Rightarrow> Some \<lparr>ep_authorities = [(9, 1)], ep_randomness = [], ep_rest = ()\<rparr>
                       | Signaled _ _ \<Rightarrow> w),
      bp_epoch = (\<lambda>_ w. w),
      bp_set_epoch = (\<lambda>_ ep _. Some ep),
      bp_claim_slot = (\<lambda>_ _. None),
      bp_pre_digest = (\<lambda>_. Inr [0]),
      bp_secondary_plain = (\<lambda>s _. Inl s),
      bp_next_epoch_data = (\<lambda>_ _. Inr [1]),
      bp_find_pre_digest = (\<lambda>_. Inr 0),
      bp_header = (\<lambda>_ _. Inr (Some aura_sample_parent)),
      bp_intermediate_key = ''babe1'',
      bp_show_hash = debug_hash aura_platform,
      bp_consensus_display = consensus_display aura_platform\<rparr>"

definition babe_sample_provider :: "nat babe_provider" where
  "babe_sample_provider = \<lparr>bb_authorities = [(5, 1)], bb_epoch_length = 10, bb_slot_duration = 6000\<rparr>"

definition sample_chain_info :: "(slot + bytes) chain_info" where
  "sample_chain_info =
     \<lparr>ci_best_number = 7, ci_best_hash = 17, ci_header = (\<lambda>_. Inr (Some aura_sample_parent)), ci_now_millis = Inr 0\<rparr>"

abbreviation sample_aura_provider ::
    "(slot + bytes, unit, unit, unit ViableEpochDescriptor, u64, unit, (nat, unit) Epoch option) data_provider" where
  "sample_aura_provider \<equiv> aura_data_provider aura_platform (div) (\<lambda>n. Inr (Some n)) 6000"

lemmas seal_sample_defs =
  seal_sample_env_def babe_sample_platform_def babe_sample_provider_def sample_chain_info_def
  aura_platform_def aura_sample_parent_def aura_sample_header_def aura_sample_new_def params_new_ok_def
  platform_ok_def aura_data_provider_def aura_create_digest_def aura_append_block_import_def
  babe_create_digest_def babe_slot_def babe_descriptor_def babe_epoch_def babe_provider_new_def

lemma seal_sample_run:
  "seal_block seal_sample_env (Some sample_aura_provider) (\<lambda>_. True) False True (Some 17) (Some 0) None =
     Inr (Sent 0 (Inr (Created \<lparr>cb_hash = 18, cb_aux = ()\<rparr>)), None)"
  by (simp add: seal_sample_defs seal_block_def seal_future_def seal_parent_def provider_digest_def
      import_proposal_def provider_append_def send_result_def Let_def)


section \<open>Properties\<close>

text \<open>
  C12. When \<^verbatim>\<open>seal_block\<close> reports a created block, with the Aura or the Babe provider, then a block was
  proposed on the parent asked for, from the inherent data made for that parent and with the
  digest that the provider makes from both; it has a transaction beside
  the inherents unless empty blocks were allowed, exactly this block was imported as own block
  with the finality asked for, and the reported hash is that of the header with the digests
  that the import adds.
\<close>

theorem seal_block_creates:
  assumes "dp = aura_data_provider pf ft ts d \<or> dp = babe_data_provider bp bb"
    and "params_new_ok (se_params_new E)"
    and "seal_block E (Some dp) open_ch empty_ok fin parent sndr w = Inr (Sent ch (Inr (Created cb)), w')"
  shows "sndr = Some ch \<and> (empty_ok \<or> se_pool_ready E w \<noteq> 0) \<and>
         (\<exists>p n digest hdr body added. seal_parent E parent w = Inr p \<and>
            created_from E (Some dp) empty_ok fin p n digest hdr body added cb w w')"
proof -
  have sent: "seal_future E (Some dp) empty_ok fin parent w = Inr (Inr cb, w')" "sndr = Some ch"
    using assms(3) by (auto simp: seal_block_def send_result_def map_sum_def
        split: sum.splits prod.splits option.splits if_splits)
  then show ?thesis
    using assms(1) aura_dp.seal_future_created [OF assms(2)] babe_dp.seal_future_created [OF assms(2)]
    by metis
qed

theorem seal_block_creates_witness:
  "\<exists>p n digest hdr body added. seal_parent seal_sample_env (Some 17) None = Inr p \<and>
     created_from seal_sample_env (Some sample_aura_provider) False True p n digest hdr body added
       \<lparr>cb_hash = 18, cb_aux = ()\<rparr> None None"
  using seal_block_creates [of sample_aura_provider aura_platform "(div)" "\<lambda>n. Inr (Some n)" 6000
      babe_sample_platform babe_sample_provider seal_sample_env "\<lambda>_. True" False True "Some 17" "Some 0" None 0
      "\<lparr>cb_hash = 18, cb_aux = ()\<rparr>" None] seal_sample_run
  by (simp add: seal_sample_env_def aura_sample_new_def params_new_ok_def)

text \<open>
  C26. The engine with the Aura provider answers every command, whatever the pool, the proposer,
  the import and the finalizer do, provided that the inherent data always has a timestamp, without
  which the provider panics. Each command is executed in the state that the one before it left;
  a channel whose receiver waits gets exactly the results of the commands that were sent with it, in
  order; a channel whose receiver is gone gets none. In particular a command with a channel of its
  own is answered once, with its own result.
\<close>

theorem engine_answers_every_command:
  assumes "\<And>n. \<exists>t. ts n = Inr (Some t)"
  shows "\<exists>rs effs w'.
    command_results E (Some (aura_data_provider pf ft ts d)) cs w = Inr (rs, w') \<and> length rs = length cs \<and>
    run_manual_seal E (Some (aura_data_provider pf ft ts d)) open_ch cs w = Inr (effs, w') \<and>
    (\<forall>ch. answers ch effs = (if open_ch ch then results_for ch cs rs else []))"
proof -
  obtain t where "ts = (\<lambda>n. Inr (Some (t n)))" using assms by metis
  then obtain rs w' where "command_results E (Some (aura_data_provider pf ft ts d)) cs w = Inr (rs, w')"
    using timed_dp.command_results_total by metis
  with engine_answers[OF this] show ?thesis by blast
qed

text \<open>A block is sealed and finalized; the receiver of the last command is gone.\<close>

theorem engine_answers_every_command_witness:
  "\<exists>effs. run_manual_seal seal_sample_env (Some sample_aura_provider) (\<lambda>ch. ch \<noteq> 3)
      [SealNewBlock False True (Some 17) (Some 1), FinalizeBlock 18 (Some 2) None, SealNewBlock True True None (Some 3)] None =
        Inr (effs, None) \<and>
     answers 1 effs = [Inr (Created \<lparr>cb_hash = 18, cb_aux = ()\<rparr>)] \<and> answers 2 effs = [Inr Finalized] \<and> answers 3 effs = []"
proof -
  let ?cs = "[SealNewBlock False True (Some 17) (Some 1), FinalizeBlock 18 (Some 2) None, SealNewBlock True True None (Some 3)]"
  obtain rs effs w' where
    "command_results seal_sample_env (Some sample_aura_provider) ?cs None = Inr (rs, w')"
    "run_manual_seal seal_sample_env (Some sample_aura_provider) (\<lambda>ch. ch \<noteq> 3) ?cs None = Inr (effs, w')"
    "\<And>ch. answers ch effs = (if ch \<noteq> 3 then results_for ch ?cs rs else [])"
    using engine_answers_every_command[where E = seal_sample_env and pf = aura_platform and ft = "(div)" and
        ts = "\<lambda>n. Inr (Some n)" and d = 6000 and cs = ?cs and open_ch = "\<lambda>ch. ch \<noteq> 3" and w = None] by auto
  then show ?thesis
    by (auto simp: results_for_def seal_sample_defs seal_future_def seal_parent_def provider_digest_def
        import_proposal_def provider_append_def Let_def)
qed

text \<open>
  C13. On a chain that has blocks, the mocked clock and the Aura provider give consecutive slots,
  beginning with the one after the best block: the digest made from the \<open>k\<close>-th inherent data has
  the slot \<open>s + 1 + k\<close>, and a header proposed with that digest is read as being of that slot. So no
  two blocks that are sealed share a slot, and none takes the slot of the best block. Slots are
  timestamps divided by the slot duration, and no timestamp reaches the limit of 64 bits.
\<close>

theorem mocked_slots_consecutive:
  assumes clock: "new_aura pf client info = Inr p" "slot_duration client = Inr d" "0 < unat d"
    and best: "ci_best_number info \<noteq> 0" "ci_header info (ci_best_hash info) = Inr (Some best)"
      "find_pre_digest pf best = Inr s"
    and bound: "(unat s + 1 + k) * unat d < 2 ^ 64"
    and slots: "\<And>t. ft t d = t div d"
    and data: "fst (provide_inherent_data put n ((tick ^^ k) p)) = Inr m"
      "\<And>t. put t n = Inr m \<Longrightarrow> ts m = Inr (Some t)"
    and pf: "platform_ok pf"
    and hdr: "bh_number hdr \<noteq> 0" "aura_create_digest pf ft ts d parent m w = Inr (Inr digest, w')"
      "bh_digest hdr = digest @ logs" "pre_digests pf logs = []"
  shows "find_pre_digest pf hdr = Inr (s + 1 + of_nat k)"
proof -
  have p: "p = \<lparr>unix_millis = s * d + d, tp_slot_duration = d\<rparr>"
    using clock(1,2) best by (simp add: new_aura_def with_header_def)
  have "put (s * d + d + of_nat k * d) n = Inr m"
    using data(1) by (simp add: ticks p provide_inherent_data_def Let_def)
  then have "ts m = Inr (Some (of_nat (unat s + 1 + k) * d))"
    using data(2) by (simp add: algebra_simps)
  moreover have "of_nat (unat s + 1 + k) * d div d = s + 1 + of_nat k"
    using word_div_multiple [OF clock(3) bound] by simp
  ultimately have "digest = [aura_pre_digest pf (s + 1 + of_nat k)]"
    using hdr(2) slots by (simp add: aura_create_digest_def)
  then show ?thesis
    using pf hdr by (simp add: find_pre_digest_Inr platform_ok_def)
qed

theorem mocked_slots_consecutive_witness:
  "find_pre_digest aura_platform (aura_sample_header\<lparr>bh_digest := [Inl 7]\<rparr>) = Inr 7"
  using mocked_slots_consecutive [of aura_platform aura_sample_client sample_chain_info
      "\<lparr>unix_millis = 30000, tp_slot_duration = 6000\<rparr>" 6000 aura_sample_parent 4 2 "(div)" "\<lambda>t _. Inr t" 0 42000
      "\<lambda>n. Inr (Some n)" "aura_sample_header\<lparr>bh_digest := [Inl 7]\<rparr>" aura_sample_parent "()" "[Inl 7]" "()" "[]"]
  by (simp add: seal_sample_defs new_aura_def slot_duration_def aura_sample_client_def with_header_def
      find_pre_digest_def ticks provide_inherent_data_def Let_def)

text \<open>
  C27. A Babe provider that cannot claim the slot in a signalled epoch writes its authorities into
  the epoch. Importing the block then finds its authority in the epoch: the import parameters
  get the descriptor of the epoch as it is, not the hard-coded one, and nothing panics. The
  tree of epoch changes returns what was written and finds the same descriptor afterwards.
\<close>

theorem babe_joins_epoch:
  assumes digest: "babe_create_digest bp bb parent n w = Inr (Inr digest, w')"
    and slot: "bp_babe_inherent_data bp n = Inr (Some s)"
      "bp_epoch_descriptor_for_child_of bp (bp_hash bp parent) (bh_number parent) s w = Inr (Some (Signaled i eh))"
    and unclaimed: "\<And>ep. bp_viable_epoch bp (Signaled i eh) w = Some ep \<Longrightarrow> bp_claim_slot bp s ep = None"
    and provider: "babe_provider_new config auths = Inr bb"
    and tree: "\<And>ep. bp_viable_epoch bp (Signaled i eh) (bp_set_epoch bp i ep w) = Some ep"
      "\<And>ep. bp_epoch_descriptor_for_child_of bp (bp_hash bp parent) (bh_number parent) s (bp_set_epoch bp i ep w) =
             bp_epoch_descriptor_for_child_of bp (bp_hash bp parent) (bh_number parent) s w"
  shows "babe_append_block_import bp bb parent params n w' =
           Inr (Inr (insert_intermediate bp (Signaled i eh) params))"
proof -
  obtain a as where auths: "bb_authorities bb = a # as"
    using provider by (cases auths) (auto simp: babe_provider_new_def split: sum.splits)
  obtain ep where w': "w' = bp_set_epoch bp i (ep\<lparr>ep_authorities := bb_authorities bb\<rparr>) w"
    using digest slot unclaimed
    by (auto simp: babe_create_digest_def babe_slot_def babe_descriptor_def babe_epoch_def Let_def
        split: option.splits)
  then show ?thesis
    using slot tree
    by (cases a) (simp add: babe_append_block_import_def babe_slot_def babe_descriptor_def babe_epoch_def auths)
qed

theorem babe_joins_epoch_witness:
  "babe_append_block_import babe_sample_platform babe_sample_provider aura_sample_parent
     (aura_sample_new Own aura_sample_header :: (slot + bytes, unit, unit, unit ViableEpochDescriptor) import_params) 30000
     (Some \<lparr>ep_authorities = [(5, 1)], ep_randomness = [], ep_rest = ()\<rparr>) =
   Inr (Inr (insert_intermediate babe_sample_platform (Signaled () \<lparr>start_slot = 0, end_slot = 10\<rparr>)
     (aura_sample_new Own aura_sample_header)))"
  using babe_joins_epoch [of babe_sample_platform babe_sample_provider aura_sample_parent 30000
      "Some \<lparr>ep_authorities = [(9, 1)], ep_randomness = [], ep_rest = ()\<rparr>" "[Inl 5, Inr [1]]"
      "Some \<lparr>ep_authorities = [(5, 1)], ep_randomness = [], ep_rest = ()\<rparr>" 5 "()"
      "\<lparr>start_slot = 0, end_slot = 10\<rparr>" "Inr (10, 6000)" "[(5, 1)]" "aura_sample_new Own aura_sample_header"]
  by (simp add: babe_sample_platform_def babe_sample_provider_def babe_create_digest_def babe_slot_def
      babe_descriptor_def babe_epoch_def babe_provider_new_def Let_def)

text \<open>
  C36. The Babe provider panics on import exactly when the child would be in the genesis epoch,
  which has not been imported, and the authority of the provider is not one of the genesis
  authorities, although the code calls this case unreachable; without a timestamp it is an
  error. The panic ends the engine.
\<close>

theorem babe_import_panics_iff:
  assumes "babe_provider_new config auths = Inr bb"
  shows "(\<exists>m. babe_append_block_import bp bb parent params n w = Inl m) \<longleftrightarrow>
         (\<exists>s g ep t. bp_babe_inherent_data bp n = Inr (Some s) \<and>
            bp_epoch_descriptor_for_child_of bp (bp_hash bp parent) (bh_number parent) s w =
              Inr (Some (UnimportedGenesis g)) \<and>
            bp_viable_epoch bp (UnimportedGenesis g) w = Some ep \<and>
            fst (hd (bb_authorities bb)) \<notin> fst ` set (ep_authorities ep) \<and>
            bp_timestamp_inherent_data bp n = Inr (Some t))"
proof -
  obtain a wt as where auths: "bb_authorities bb = (a, wt) # as"
    using assms by (cases auths) (auto simp: babe_provider_new_def split: sum.splits)
  have ex: "list_ex (\<lambda>(i, _). i = a) xs \<longleftrightarrow> a \<in> fst ` set xs" for xs :: "('b \<times> u64) list" and a
    by (induction xs) auto
  show ?thesis
    by (auto simp: babe_append_block_import_def babe_slot_def babe_descriptor_def babe_epoch_def
        hard_coded_descriptor_def auths ex Let_def
        split: sum.splits option.splits ViableEpochDescriptor.splits if_splits)
qed

theorem babe_import_panics_iff_witness:
  "\<exists>m. babe_append_block_import babe_sample_platform babe_sample_provider aura_sample_parent
     (aura_sample_new Own aura_sample_header :: (slot + bytes, unit, unit, unit ViableEpochDescriptor) import_params)
     30000 None = Inl m"
  using babe_import_panics_iff [of "Inr (10, 6000)" "[(5, 1)]" babe_sample_provider babe_sample_platform
      aura_sample_parent "aura_sample_new Own aura_sample_header" 30000 None]
  by (simp add: babe_sample_platform_def babe_sample_provider_def babe_provider_new_def)

end
