(* ===== verification/Tracing_Events.thy ===== *)
theory Tracing_Events
  imports Prelude
begin

text \<open>
  The event types that the runtime sends to a tracing listener, and the conversions from the
  events of the EVM interpreter (\<^verbatim>\<open>primitives/rpc/evm-tracing-events/src\<close>).

  The types of the \<^verbatim>\<open>evm\<close> crates are not part of the repository. What the sources use of
  them is a view: an exit reason is a datatype with the constructors that the sources match
  on by name and one constructor for the others; the tracing events of the interpreter are
  datatypes with the variants and fields that the (exhaustive) conversions take apart.

  The trait \<^verbatim>\<open>Listener\<close> is the locale \<open>event_listener\<close>: a client that feeds a stream of
  events to a listener relies on each event being accepted in every reachable state.
\<close>

type_synonym i64 = "64 word"


section \<open>Views of the interpreter's types\<close>

datatype exit_succeed = Returned | Succeed_other nat

text \<open>
  \<open>Error_other\<close> is \<^verbatim>\<open>ExitError::Other\<close> with the bytes of its text; \<open>Succeed_other\<close> and
  \<open>Error_unlisted\<close> stand for the variants that no source line names.
\<close>

datatype exit_error =
    StackUnderflow | StackOverflow | InvalidJump | InvalidRange | DesignatedInvalid
  | CallTooDeep | CreateCollision | CreateContractLimit | OutOfOffset | OutOfGas | OutOfFund
  | Error_other bytes | Error_unlisted nat

datatype exit_reason =
    Succeed exit_succeed
  | Error exit_error
  | Revert nat
  | Fatal nat

record evm_context =
  ex_address :: h160
  ex_caller :: h160
  ex_apparent_value :: u256

record evm_transfer =
  et_source :: h160
  et_target :: h160
  et_value :: u256

datatype evm_create_scheme =
    X_Legacy h160
  | X_Create2 h160 h256 h256
  | X_Fixed h160

record evm_stack =
  es_data :: "h256 list"
  es_limit :: usize

record evm_memory =
  em_data :: bytes
  em_effective_len :: u256
  em_limit :: usize

record evm_snapshot =
  eg_gas_limit :: u64
  eg_memory_gas :: u64
  eg_used_gas :: u64
  eg_refunded_gas :: i64

datatype evm_tracing_event =
    X_Call h160 "evm_transfer option" bytes "u64 option" bool evm_context
  | X_Create h160 h160 evm_create_scheme u256 bytes "u64 option"
  | X_Suicide h160 h160 u256
  | X_Exit exit_reason bytes
  | X_TransactCall h160 h160 u256 bytes u64
  | X_TransactCreate h160 u256 bytes u64 h160
  | X_TransactCreate2 h160 u256 bytes h256 u64 h160
  | X_PrecompileSubcall h160 "evm_transfer option" bytes "u64 option" bool evm_context

datatype gasometer_tracing_event =
    X_RecordCost u64 "evm_snapshot option"
  | X_RecordRefund i64 "evm_snapshot option"
  | X_RecordStipend u64 "evm_snapshot option"
  | X_RecordDynamicCost u64 u64 i64 "evm_snapshot option"
  | X_RecordTransaction u64 "evm_snapshot option"

datatype ('e, 't) evm_capture = X_Exited 'e | X_Trapped 't

datatype runtime_tracing_event =
    X_Step evm_context u8 "exit_reason + usize" evm_stack evm_memory
  | X_StepResult "(exit_reason, u8) evm_capture + unit" bytes
  | X_SLoad h160 h256 h256
  | X_SStore h160 h256 h256


section \<open>Event types\<close>

text \<open>\<^verbatim>\<open>lib.rs\<close>: the execution context and the filter of the step events.\<close>

record Context =
  cx_address :: h160
  cx_caller :: h160
  cx_apparent_value :: u256

record StepEventFilter =
  enable_stack :: bool
  enable_memory :: bool

text \<open>\<^verbatim>\<open>evm.rs\<close>\<close>

record Transfer =
  tr_source :: h160
  tr_target :: h160
  tr_value :: u256

datatype CreateScheme =
    Legacy h160
  | Create2 h160 h256 h256
  | Fixed h160

datatype EvmEvent =
    Evm_Call h160 "Transfer option" bytes "u64 option" bool Context
  | Evm_Create h160 h160 CreateScheme u256 bytes "u64 option"
  | Evm_Suicide h160 h160 u256
  | Evm_Exit exit_reason bytes
  | Evm_TransactCall h160 h160 u256 bytes u64
  | Evm_TransactCreate h160 u256 bytes u64 h160
  | Evm_TransactCreate2 h160 u256 bytes h256 u64 h160
  | Evm_PrecompileSubcall h160 "Transfer option" bytes "u64 option" bool Context

text \<open>\<^verbatim>\<open>gasometer.rs\<close>\<close>

record Snapshot =
  sn_gas_limit :: u64
  sn_memory_gas :: u64
  sn_used_gas :: u64
  sn_refunded_gas :: i64

datatype GasometerEvent =
    RecordCost u64 Snapshot
  | RecordRefund i64 Snapshot
  | RecordStipend u64 Snapshot
  | RecordDynamicCost u64 u64 i64 Snapshot
  | RecordTransaction u64 Snapshot

text \<open>\<^verbatim>\<open>runtime.rs\<close>\<close>

record Stack =
  st_data :: "h256 list"
  st_limit :: u64

record Memory =
  me_data :: bytes
  me_effective_len :: u256
  me_limit :: u64

datatype ('e, 't) Capture = Capture_Exit 'e | Capture_Trap 't

datatype RuntimeEvent =
    Step Context bytes "exit_reason + u64" "Stack option" "Memory option"
  | StepResult "(exit_reason, bytes) Capture + unit" bytes
  | SLoad h160 h256 h256
  | SStore h160 h256 h256

datatype Event =
    Evm EvmEvent
  | Gasometer GasometerEvent
  | Runtime RuntimeEvent
  | CallListNew


section \<open>Conversions\<close>

definition Context_from :: "evm_context \<Rightarrow> Context" where
  "Context_from i =
     \<lparr>cx_address = ex_address i, cx_caller = ex_caller i,
      cx_apparent_value = ex_apparent_value i\<rparr>"

definition Transfer_from :: "evm_transfer \<Rightarrow> Transfer" where
  "Transfer_from i =
     \<lparr>tr_source = et_source i, tr_target = et_target i, tr_value = et_value i\<rparr>"

fun CreateScheme_from :: "evm_create_scheme \<Rightarrow> CreateScheme" where
  "CreateScheme_from (X_Legacy clr) = Legacy clr"
| "CreateScheme_from (X_Create2 clr code_hash salt) = Create2 clr code_hash salt"
| "CreateScheme_from (X_Fixed addr) = Fixed addr"

fun EvmEvent_from :: "evm_tracing_event \<Rightarrow> EvmEvent" where
  "EvmEvent_from (X_Call code_addr tr inp tgas static ctx) =
     Evm_Call code_addr (case tr of Some t \<Rightarrow> Some (Transfer_from t) | None \<Rightarrow> None) inp tgas
       static (Context_from ctx)"
| "EvmEvent_from (X_Create clr addr sch val init tgas) =
     Evm_Create clr addr (CreateScheme_from sch) val init tgas"
| "EvmEvent_from (X_Suicide addr target balance) = Evm_Suicide addr target balance"
| "EvmEvent_from (X_Exit reason return_value) = Evm_Exit reason return_value"
| "EvmEvent_from (X_TransactCall clr addr val dat gas_limit) =
     Evm_TransactCall clr addr val dat gas_limit"
| "EvmEvent_from (X_TransactCreate clr val init gas_limit addr) =
     Evm_TransactCreate clr val init gas_limit addr"
| "EvmEvent_from (X_TransactCreate2 clr val init salt gas_limit addr) =
     Evm_TransactCreate2 clr val init salt gas_limit addr"
| "EvmEvent_from (X_PrecompileSubcall code_addr tr inp tgas static ctx) =
     Evm_PrecompileSubcall code_addr
       (case tr of Some t \<Rightarrow> Some (Transfer_from t) | None \<Rightarrow> None) inp tgas static
       (Context_from ctx)"

definition Snapshot_gas :: "Snapshot \<Rightarrow> u64" where
  "Snapshot_gas s = sn_gas_limit s - sn_used_gas s - sn_memory_gas s"

definition Snapshot_from :: "evm_snapshot option \<Rightarrow> Snapshot" where
  "Snapshot_from i =
     (case i of
        Some s \<Rightarrow>
          \<lparr>sn_gas_limit = eg_gas_limit s, sn_memory_gas = eg_memory_gas s,
           sn_used_gas = eg_used_gas s, sn_refunded_gas = eg_refunded_gas s\<rparr>
      | None \<Rightarrow>
          \<lparr>sn_gas_limit = 0, sn_memory_gas = 0, sn_used_gas = 0, sn_refunded_gas = 0\<rparr>)"

fun GasometerEvent_from :: "gasometer_tracing_event \<Rightarrow> GasometerEvent" where
  "GasometerEvent_from (X_RecordCost cost s) = RecordCost cost (Snapshot_from s)"
| "GasometerEvent_from (X_RecordRefund refund s) = RecordRefund refund (Snapshot_from s)"
| "GasometerEvent_from (X_RecordStipend stipend s) = RecordStipend stipend (Snapshot_from s)"
| "GasometerEvent_from (X_RecordDynamicCost gas_cost memory_gas gas_refund s) =
     RecordDynamicCost gas_cost memory_gas gas_refund (Snapshot_from s)"
| "GasometerEvent_from (X_RecordTransaction cost s) = RecordTransaction cost (Snapshot_from s)"

definition Stack_from :: "evm_stack \<Rightarrow> Stack" where
  "Stack_from i = \<lparr>st_data = es_data i, st_limit = es_limit i\<rparr>"

definition Memory_from :: "evm_memory \<Rightarrow> Memory" where
  "Memory_from i =
     \<lparr>me_data = em_data i, me_effective_len = em_effective_len i, me_limit = em_limit i\<rparr>"

text \<open>
  \<^verbatim>\<open>opcodes_string\<close>: the arms of the match as a table, a row for each high nibble, and the
  fallback arm.
\<close>

definition opcode_row_0 :: "(nat \<times> string) list" where
  "opcode_row_0 = [
    (0, ''Stop''), (1, ''Add''), (2, ''Mul''), (3, ''Sub''), (4, ''Div''), (5, ''SDiv''),
    (6, ''Mod''), (7, ''SMod''), (8, ''AddMod''), (9, ''MulMod''), (10, ''Exp''),
    (11, ''SignExtend'')]"

definition opcode_row_1 :: "(nat \<times> string) list" where
  "opcode_row_1 = [
    (16, ''Lt''), (17, ''Gt''), (18, ''Slt''), (19, ''Sgt''), (20, ''Eq''), (21, ''IsZero''),
    (22, ''And''), (23, ''Or''), (24, ''Xor''), (25, ''Not''), (26, ''Byte''), (27, ''Shl''),
    (28, ''Shr''), (29, ''Sar'')]"

definition opcode_row_2 :: "(nat \<times> string) list" where
  "opcode_row_2 = [
    (32, ''Keccak256'')]"

definition opcode_row_3 :: "(nat \<times> string) list" where
  "opcode_row_3 = [
    (48, ''Address''), (49, ''Balance''), (50, ''Origin''), (51, ''Caller''),
    (52, ''CallValue''), (53, ''CallDataLoad''), (54, ''CallDataSize''), (55, ''CallDataCopy''),
    (56, ''CodeSize''), (57, ''CodeCopy''), (58, ''GasPrice''), (59, ''ExtCodeSize''),
    (60, ''ExtCodeCopy''), (61, ''ReturnDataSize''), (62, ''ReturnDataCopy''),
    (63, ''ExtCodeHash'')]"

definition opcode_row_4 :: "(nat \<times> string) list" where
  "opcode_row_4 = [
    (64, ''BlockHash''), (65, ''Coinbase''), (66, ''Timestamp''), (67, ''Number''),
    (68, ''Difficulty''), (69, ''GasLimit''), (70, ''ChainId'')]"

definition opcode_row_5 :: "(nat \<times> string) list" where
  "opcode_row_5 = [
    (80, ''Pop''), (81, ''MLoad''), (82, ''MStore''), (83, ''MStore8''), (84, ''SLoad''),
    (85, ''SStore''), (86, ''Jump''), (87, ''JumpI''), (88, ''GetPc''), (89, ''MSize''),
    (90, ''Gas''), (91, ''JumpDest'')]"

definition opcode_row_6 :: "(nat \<times> string) list" where
  "opcode_row_6 = [
    (96, ''Push1''), (97, ''Push2''), (98, ''Push3''), (99, ''Push4''), (100, ''Push5''),
    (101, ''Push6''), (102, ''Push7''), (103, ''Push8''), (104, ''Push9''), (105, ''Push10''),
    (106, ''Push11''), (107, ''Push12''), (108, ''Push13''), (109, ''Push14''),
    (110, ''Push15''), (111, ''Push16'')]"

definition opcode_row_7 :: "(nat \<times> string) list" where
  "opcode_row_7 = [
    (112, ''Push17''), (113, ''Push18''), (114, ''Push19''), (115, ''Push20''),
    (116, ''Push21''), (117, ''Push22''), (118, ''Push23''), (119, ''Push24''),
    (120, ''Push25''), (121, ''Push26''), (122, ''Push27''), (123, ''Push28''),
    (124, ''Push29''), (125, ''Push30''), (126, ''Push31''), (127, ''Push32'')]"

definition opcode_row_8 :: "(nat \<times> string) list" where
  "opcode_row_8 = [
    (128, ''Dup1''), (129, ''Dup2''), (130, ''Dup3''), (131, ''Dup4''), (132, ''Dup5''),
    (133, ''Dup6''), (134, ''Dup7''), (135, ''Dup8''), (136, ''Dup9''), (137, ''Dup10''),
    (138, ''Dup11''), (139, ''Dup12''), (140, ''Dup13''), (141, ''Dup14''), (142, ''Dup15''),
    (143, ''Dup16'')]"

definition opcode_row_9 :: "(nat \<times> string) list" where
  "opcode_row_9 = [
    (144, ''Swap1''), (145, ''Swap2''), (146, ''Swap3''), (147, ''Swap4''), (148, ''Swap5''),
    (149, ''Swap6''), (150, ''Swap7''), (151, ''Swap8''), (152, ''Swap9''), (153, ''Swap10''),
    (154, ''Swap11''), (155, ''Swap12''), (156, ''Swap13''), (157, ''Swap14''),
    (158, ''Swap15''), (159, ''Swap16'')]"

definition opcode_row_a :: "(nat \<times> string) list" where
  "opcode_row_a = [
    (160, ''Log0''), (161, ''Log1''), (162, ''Log2''), (163, ''Log3''), (164, ''Log4'')]"

definition opcode_row_b :: "(nat \<times> string) list" where
  "opcode_row_b = [
    (176, ''JumpTo''), (177, ''JumpIf''), (178, ''JumpSub''), (180, ''JumpSubv''),
    (181, ''BeginSub''), (182, ''BeginData''), (184, ''ReturnSub''), (185, ''PutLocal''),
    (186, ''GetLocal'')]"

definition opcode_row_e :: "(nat \<times> string) list" where
  "opcode_row_e = [
    (225, ''SLoadBytes''), (226, ''SStoreBytes''), (227, ''SSize'')]"

definition opcode_row_f :: "(nat \<times> string) list" where
  "opcode_row_f = [
    (240, ''Create''), (241, ''Call''), (242, ''CallCode''), (243, ''Return''),
    (244, ''DelegateCall''), (245, ''Create2''), (250, ''StaticCall''), (252, ''TxExecGas''),
    (253, ''Revert''), (254, ''Invalid''), (255, ''SelfDestruct'')]"

definition opcode_names :: "(nat \<times> string) list" where
  "opcode_names =
     opcode_row_0 @ opcode_row_1 @ opcode_row_2 @ opcode_row_3 @ opcode_row_4 @
     opcode_row_5 @ opcode_row_6 @ opcode_row_7 @ opcode_row_8 @ opcode_row_9 @
     opcode_row_a @ opcode_row_b @ opcode_row_e @ opcode_row_f"

definition opcodes_string :: "u8 \<Rightarrow> bytes" where
  "opcodes_string opcode =
     bytes_of (case map_of opcode_names (unat opcode) of
                 Some out \<Rightarrow> out
               | None \<Rightarrow> ''Unknown('' @ decimal (unat opcode) @ '')'')"

fun from_evm_event :: "runtime_tracing_event \<Rightarrow> StepEventFilter \<Rightarrow> RuntimeEvent" where
  "from_evm_event (X_Step ctx opcode pos stk mem) filt =
     Step (Context_from ctx) (opcodes_string opcode)
       (case pos of Inr p \<Rightarrow> Inr p | Inl e \<Rightarrow> Inl e)
       (if enable_stack filt then Some (Stack_from stk) else None)
       (if enable_memory filt then Some (Memory_from mem) else None)"
| "from_evm_event (X_StepResult res return_value) filt =
     StepResult
       (case res of
          Inr _ \<Rightarrow> Inr ()
        | Inl (X_Exited e) \<Rightarrow> Inl (Capture_Exit e)
        | Inl (X_Trapped t) \<Rightarrow> Inl (Capture_Trap (opcodes_string t)))
       return_value"
| "from_evm_event (X_SLoad addr idx val) filt = SLoad addr idx val"
| "from_evm_event (X_SStore addr idx val) filt = SStore addr idx val"

text \<open>
  The stream of an execution: what the interpreter emits, each event converted with the filter
  that the runtime asked the listener for once.
\<close>

datatype source_event =
    From_evm evm_tracing_event
  | From_gasometer gasometer_tracing_event
  | From_runtime runtime_tracing_event
  | New_call_list

fun event_of :: "StepEventFilter \<Rightarrow> source_event \<Rightarrow> Event" where
  "event_of filt (From_evm e) = Evm (EvmEvent_from e)"
| "event_of filt (From_gasometer e) = Gasometer (GasometerEvent_from e)"
| "event_of filt (From_runtime e) = Runtime (from_evm_event e filt)"
| "event_of filt New_call_list = CallListNew"

text \<open>
  \<^verbatim>\<open>using\<close> and \<^verbatim>\<open>Event::emit\<close>: the closure run by \<^verbatim>\<open>using\<close> hands each event it emits, in order, to
  the one listener; a panic of the listener unwinds out of the closure.
\<close>

fun using_listener :: "('ev \<Rightarrow> 's \<Rightarrow> 's outcome) \<Rightarrow> 'ev list \<Rightarrow> 's \<Rightarrow> 's outcome" where
  "using_listener event [] l = Inr l"
| "using_listener event (e # es) l =
     (case event e l of Inl p \<Rightarrow> Inl p | Inr l' \<Rightarrow> using_listener event es l')"


section \<open>Lemmas\<close>

text \<open>
  The contract of a listener. \<open>accepts\<close> says which events it is fed, \<open>inv\<close> what it maintains;
  a step on an accepted event returns and keeps the invariant.
\<close>

locale event_listener =
  fixes event :: "'ev \<Rightarrow> 's \<Rightarrow> 's outcome"
    and accepts :: "'ev \<Rightarrow> bool"
    and inv :: "'s \<Rightarrow> bool"
  assumes step: "accepts e \<Longrightarrow> inv l \<Longrightarrow> \<exists>l'. event e l = Inr l' \<and> inv l'"
begin

lemma run_total:
  "(\<And>e. e \<in> set es \<Longrightarrow> accepts e) \<Longrightarrow> inv l \<Longrightarrow> \<exists>l'. using_listener event es l = Inr l' \<and> inv l'"
proof (induction es arbitrary: l)
  case (Cons e es)
  obtain l1 where "event e l = Inr l1" "inv l1"
    using step[of e l] Cons.prems by auto
  with Cons show ?case by simp
qed simp

lemma run_inv: "(\<And>e. e \<in> set es \<Longrightarrow> accepts e) \<Longrightarrow> inv l \<Longrightarrow> using_listener event es l = Inr l' \<Longrightarrow> inv l'"
  using run_total[of es l] by auto

end

lemma using_listener_append:
  "using_listener ev (es @ fs) l =
     (case using_listener ev es l of Inl p \<Rightarrow> Inl p | Inr l' \<Rightarrow> using_listener ev fs l')"
  by (induction es arbitrary: l) (auto split: sum.splits)

text \<open>A listener that never panics is a left fold over the events.\<close>

lemma using_listener_total:
  "(\<And>e l. ev e l = Inr (f e l)) \<Longrightarrow> using_listener ev es l = Inr (fold f es l)"
  by (induction es arbitrary: l) auto

text \<open>
  The names of the opcodes: the table has no name twice and none with a bracket, so a name of
  the table is not one of the fallback arm.
\<close>

lemmas opcode_row_defs =
  opcode_row_0_def opcode_row_1_def opcode_row_2_def opcode_row_3_def opcode_row_4_def
  opcode_row_5_def opcode_row_6_def opcode_row_7_def opcode_row_8_def opcode_row_9_def
  opcode_row_a_def opcode_row_b_def opcode_row_e_def opcode_row_f_def

lemma opcode_names_distinct: "distinct (map snd opcode_names)"
  by (simp add: opcode_names_def opcode_row_defs)

lemma opcode_names_plain: "e \<in> set opcode_names \<Longrightarrow> CHR ''('' \<notin> set (snd e)"
proof -
  have "list_all (\<lambda>e. CHR ''('' \<notin> set (snd e)) opcode_names"
    by (simp add: opcode_names_def opcode_row_defs)
  then show "e \<in> set opcode_names \<Longrightarrow> CHR ''('' \<notin> set (snd e)"
    by (auto simp: list_all_iff)
qed

lemma opcode_names_inj:
  "map_of opcode_names n = Some s \<Longrightarrow> map_of opcode_names m = Some s \<Longrightarrow> n = m"
  using opcode_names_distinct inj_onD[of snd "set opcode_names" "(n, s)" "(m, s)"]
  by (simp add: distinct_map map_of_SomeD)

lemma inj_opcodes_string: "inj opcodes_string"
proof (rule injI)
  fix a b :: u8 assume "opcodes_string a = opcodes_string b"
  then have eq: "(case map_of opcode_names (unat a) of
                    Some out \<Rightarrow> out | None \<Rightarrow> ''Unknown('' @ decimal (unat a) @ '')'')
                  = (case map_of opcode_names (unat b) of
                    Some out \<Rightarrow> out | None \<Rightarrow> ''Unknown('' @ decimal (unat b) @ '')'')"
    unfolding opcodes_string_def by (rule injD[OF inj_bytes_of])
  have plain: "map_of opcode_names n = Some s \<Longrightarrow> s \<noteq> ''Unknown('' @ t" for n s t
    using opcode_names_plain[of "(n, s)"] by (auto dest: map_of_SomeD)
  have "unat a = unat b"
  proof (cases "map_of opcode_names (unat a)")
    case None
    with eq plain[of "unat b"] have "map_of opcode_names (unat b) = None"
      by (cases "map_of opcode_names (unat b)") auto
    with eq None have "decimal (unat a) = decimal (unat b)" by simp
    then show ?thesis by (metis decimal_value_decimal)
  next
    case (Some s)
    with eq plain[OF Some] have "map_of opcode_names (unat b) = Some s"
      by (cases "map_of opcode_names (unat b)") auto
    with Some show ?thesis by (rule opcode_names_inj)
  qed
  then show "a = b" by (simp add: word_unat_eq_iff)
qed

text \<open>
  Distinct opcodes are sent under distinct names, those without a name of their own
  included, so the opcode of a step can be told from the trace.
\<close>

lemma opcodes_string_eq_iff: "opcodes_string a = opcodes_string b \<longleftrightarrow> a = b"
  using inj_opcodes_string by (auto dest: injD)

end
