(* ===== verification/Tracing_Types.thy ===== *)
theory Tracing_Types
  imports Tracing_Events
begin

text \<open>
  The data of the trace responses (\<^verbatim>\<open>client/evm-tracing/src/types\<close> and the response types that
  \<^verbatim>\<open>formatters/blockscout.rs\<close> and \<^verbatim>\<open>formatters/call_tracer.rs\<close> declare), the recognition of the
  opcodes that open a context, the conversion of the interpreter's memory to words, and the
  field serialisers.

  An \<^verbatim>\<open>H256\<close> is the 256-bit word whose big-endian bytes it holds. The hexadecimal renderings of
  the \<^verbatim>\<open>hex\<close> and \<^verbatim>\<open>fixed-hash\<close> crates are arguments of the serialisers that use them.
\<close>


section \<open>Response types\<close>

text \<open>\<^verbatim>\<open>types/mod.rs\<close>\<close>

definition MANUAL_BLOCK_INITIALIZATION_RUNTIME_VERSION :: u32 where
  "MANUAL_BLOCK_INITIALIZATION_RUNTIME_VERSION = 159"

datatype CallResult = Output bytes | CallResult_Error bytes

datatype CreateResult =
    CreateResult_Error bytes
  | CreateResult_Success h160 bytes

datatype CallType = CallType_Call | CallCode | DelegateCall | StaticCall

datatype CreateType = CreateType_Create

datatype ContextType = ContextType_Call CallType | ContextType_Create

text \<open>\<^verbatim>\<open>formatters/blockscout.rs\<close>\<close>

datatype BlockscoutCallInner =
    Inner_Call CallType h160 bytes CallResult
  | Inner_Create bytes CreateResult
  | Inner_SelfDestruct u256 h160

record BlockscoutCall =
  bc_from :: h160
  bc_trace_address :: "u32 list"
  bc_subtraces :: u32
  bc_value :: u256
  bc_gas :: u256
  bc_gas_used :: u256
  bc_inner :: BlockscoutCallInner

text \<open>\<^verbatim>\<open>formatters/call_tracer.rs\<close> and \<^verbatim>\<open>types/single.rs\<close>\<close>

datatype CallTracerInner =
    Tracer_Call bytes h160 bytes CallResult "u256 option"
  | Tracer_Create bytes bytes "h160 option" "bytes option" "bytes option" u256
  | Tracer_SelfDestruct bytes h160 u256

datatype CallTracerCall =
    CallTracerCall (ct_from: h160) (ct_trace_address: "u32 list option") (ct_gas: u256)
      (ct_gas_used: u256) (ct_inner: CallTracerInner) (ct_calls: "Call list")
and Call =
    Blockscout BlockscoutCall
  | CallTracer (the_tracer: CallTracerCall)

datatype TraceType =
    TraceType_Raw bool bool bool
  | TraceType_CallList
  | TraceType_Block

record RawStepLog =
  rl_depth :: u256
  rl_gas :: u256
  rl_gas_cost :: u256
  rl_memory :: "h256 list option"
  rl_op :: bytes
  rl_pc :: u256
  rl_stack :: "h256 list option"
  rl_storage :: "(h256, h256) btree option"

datatype TransactionTrace =
    TransactionTrace_Raw u256 bytes "RawStepLog list"
  | CallList "Call list"
  | CallListNested Call

text \<open>\<^verbatim>\<open>types/block.rs\<close>\<close>

datatype TransactionTraceAction =
    Action_Call CallType h160 u256 bytes h160 u256
  | Action_Create CreateType h160 u256 bytes u256
  | Action_Suicide h160 u256 h160

datatype TransactionTraceResult =
    Result_Call u256 bytes
  | Result_Create h160 bytes u256
  | Result_Suicide

datatype TransactionTraceOutput =
    Output_Result TransactionTraceResult
  | Output_Error bytes

record BlockTransactionTrace =
  tt_action :: TransactionTraceAction
  tt_block_hash :: h256
  tt_block_number :: u32
  tt_output :: TransactionTraceOutput
  tt_subtraces :: u32
  tt_trace_address :: "u32 list"
  tt_transaction_hash :: h256
  tt_transaction_position :: u32


section \<open>Operations\<close>

definition ContextType_from :: "bytes \<Rightarrow> ContextType option" where
  "ContextType_from opcode =
     (case utf8_decode opcode of
        None \<Rightarrow> None
      | Some op \<Rightarrow>
          (let opcode = to_uppercase ascii_uppercase_table op in
           if opcode = codes_of ''CREATE'' \<or> opcode = codes_of ''CREATE2''
             then Some ContextType_Create
           else if opcode = codes_of ''CALL'' then Some (ContextType_Call CallType_Call)
           else if opcode = codes_of ''CALLCODE'' then Some (ContextType_Call CallCode)
           else if opcode = codes_of ''DELEGATECALL'' then Some (ContextType_Call DelegateCall)
           else if opcode = codes_of ''STATICCALL'' then Some (ContextType_Call StaticCall)
           else None))"

text \<open>The big-endian reading of a byte string, and the 32 bytes of a word.\<close>

definition h256_from_slice :: "bytes \<Rightarrow> h256" where
  "h256_from_slice bs = foldl (\<lambda>w b. w * 256 + ucast b) 0 bs"

definition h256_as_bytes :: "h256 \<Rightarrow> bytes" where
  "h256_as_bytes w = map (\<lambda>i. ucast (drop_bit (8 * (31 - i)) w)) [0..<32]"

definition convert_memory :: "bytes \<Rightarrow> h256 list" where
  "convert_memory memory =
     (let size = 32 in
      map (\<lambda>c. let chunk = length c in
               if chunk < size
               then (let left = size - chunk in h256_from_slice (replicate left 0 @ c))
               else h256_from_slice c)
          (chunks size memory))"

text \<open>
  \<^verbatim>\<open>types/serialization.rs\<close>. What a serialiser is asked to write is a string (its code points),
  a sequence of strings or a 64-bit number; the left summand is the custom error.
\<close>

datatype serde_value = Ser_str "nat list" | Ser_seq "nat list list" | Ser_u64 u64

definition seq_h256_serialize :: "(h256 \<Rightarrow> string) \<Rightarrow> h256 list option \<Rightarrow> string + serde_value" where
  "seq_h256_serialize lower_hex dat =
     (case dat of
        Some v \<Rightarrow> Inr (Ser_seq (map (\<lambda>h. codes_of (lower_hex h)) v))
      | None \<Rightarrow> Inr (Ser_seq []))"

definition bytes_0x_serialize :: "(bytes \<Rightarrow> string) \<Rightarrow> bytes \<Rightarrow> string + serde_value" where
  "bytes_0x_serialize hex_encode bs = Inr (Ser_str (codes_of (''0x'' @ hex_encode bs)))"

definition option_bytes_0x_serialize ::
    "(bytes \<Rightarrow> string) \<Rightarrow> bytes option \<Rightarrow> string + serde_value" where
  "option_bytes_0x_serialize hex_encode bs =
     (case bs of
        Some b \<Rightarrow> Inr (Ser_str (codes_of (''0x'' @ hex_encode b)))
      | None \<Rightarrow> Inl ''String serialize error.'')"

definition opcode_serialize :: "(nat \<Rightarrow> nat list) \<Rightarrow> bytes \<Rightarrow> string + serde_value" where
  "opcode_serialize uni opcode =
     (case utf8_decode opcode of
        None \<Rightarrow> Inl ''Opcode serialize error.''
      | Some d \<Rightarrow> Inr (Ser_str (to_uppercase uni d)))"

definition string_serialize :: "bytes \<Rightarrow> string + serde_value" where
  "string_serialize val =
     (case utf8_decode val of
        None \<Rightarrow> Inl ''String serialize error.''
      | Some d \<Rightarrow> Inr (Ser_str d))"

definition option_string_serialize :: "bytes option \<Rightarrow> string + serde_value" where
  "option_string_serialize val =
     (case val of
        Some v \<Rightarrow>
          (case utf8_decode v of
             None \<Rightarrow> Inl ''String serialize error.''
           | Some d \<Rightarrow> Inr (Ser_str d))
      | None \<Rightarrow> Inl ''String serialize error.'')"

definition u256_serialize :: "u256 \<Rightarrow> string + serde_value" where
  "u256_serialize dat = Inr (Ser_u64 (ucast dat))"

definition h256_serialize :: "(h256 \<Rightarrow> string) \<Rightarrow> h256 \<Rightarrow> string + serde_value" where
  "h256_serialize lower_hex dat = Inr (Ser_str (codes_of (lower_hex dat)))"

definition h256_0x_serialize :: "(h256 \<Rightarrow> string) \<Rightarrow> h256 \<Rightarrow> string + serde_value" where
  "h256_0x_serialize lower_hex dat = Inr (Ser_str (codes_of (''0x'' @ lower_hex dat)))"


section \<open>Reference definitions\<close>

text \<open>The context that an opcode of the instruction set opens.\<close>

definition opens_context :: "nat \<Rightarrow> ContextType option" where
  "opens_context n =
     (if n = 240 \<or> n = 245 then Some ContextType_Create
      else if n = 241 then Some (ContextType_Call CallType_Call)
      else if n = 242 then Some (ContextType_Call CallCode)
      else if n = 244 then Some (ContextType_Call DelegateCall)
      else if n = 250 then Some (ContextType_Call StaticCall)
      else None)"

definition upper_code :: "nat \<Rightarrow> nat" where
  "upper_code c = (if 97 \<le> c \<and> c \<le> 122 then c - 32 else c)"

text \<open>Every name of a row of the opcode table is recognised as its opcode demands.\<close>

definition row_contexts :: "(nat \<times> string) list \<Rightarrow> bool" where
  "row_contexts r = list_all (\<lambda>(n, s). ContextType_from (bytes_of s) = opens_context n) r"

text \<open>The number that a big-endian byte string denotes, and a chunk padded on the left.\<close>

definition be_nat :: "bytes \<Rightarrow> nat" where
  "be_nat bs = foldl (\<lambda>v b. v * 256 + unat b) 0 bs"

definition pad_left :: "bytes \<Rightarrow> bytes" where
  "pad_left c = replicate (32 - length c) 0 @ c"


section \<open>Lemmas\<close>

subsection \<open>Opcodes that open a context\<close>

lemma utf8_decode_bytes_of:
  "(\<And>c. c \<in> set s \<Longrightarrow> of_char c < (128 :: nat)) \<Longrightarrow> utf8_decode (bytes_of s) = Some (codes_of s)"
  by (subst utf8_decode_ascii) (auto simp: bytes_of_def codes_of_def unat_of_char)

lemma to_uppercase_ascii:
  "(\<And>c. c \<in> set cs \<Longrightarrow> c < 128) \<Longrightarrow> to_uppercase uni cs = map upper_code cs"
  by (induction cs) (auto simp: to_uppercase_def upper_code_def)

lemma ContextType_from_ascii:
  assumes "list_all (\<lambda>c. of_char c < (128 :: nat)) s"
  shows "ContextType_from (bytes_of s) =
          (let u = map upper_code (codes_of s) in
           if u = codes_of ''CREATE'' \<or> u = codes_of ''CREATE2'' then Some ContextType_Create
           else if u = codes_of ''CALL'' then Some (ContextType_Call CallType_Call)
           else if u = codes_of ''CALLCODE'' then Some (ContextType_Call CallCode)
           else if u = codes_of ''DELEGATECALL'' then Some (ContextType_Call DelegateCall)
           else if u = codes_of ''STATICCALL'' then Some (ContextType_Call StaticCall)
           else None)"
proof -
  have "to_uppercase uni (codes_of s) = map upper_code (codes_of s)" for uni
    using assms by (intro to_uppercase_ascii) (auto simp: codes_of_def list_all_iff)
  moreover have "utf8_decode (bytes_of s) = Some (codes_of s)"
    using assms by (intro utf8_decode_bytes_of) (auto simp: list_all_iff)
  ultimately show ?thesis by (simp add: ContextType_from_def)
qed

lemma row_contexts_append [simp]: "row_contexts (r @ r') \<longleftrightarrow> row_contexts r \<and> row_contexts r'"
  by (simp add: row_contexts_def)

lemmas row_eval =
  row_contexts_def ContextType_from_ascii opens_context_def codes_of_def upper_code_def

lemma row_contexts_0: "row_contexts opcode_row_0"
  by (simp add: row_eval opcode_row_0_def)

lemma row_contexts_1: "row_contexts opcode_row_1"
  by (simp add: row_eval opcode_row_1_def)

lemma row_contexts_2: "row_contexts opcode_row_2"
  by (simp add: row_eval opcode_row_2_def)

lemma row_contexts_3: "row_contexts opcode_row_3"
  by (simp add: row_eval opcode_row_3_def)

lemma row_contexts_4: "row_contexts opcode_row_4"
  by (simp add: row_eval opcode_row_4_def)

lemma row_contexts_5: "row_contexts opcode_row_5"
  by (simp add: row_eval opcode_row_5_def)

lemma row_contexts_6: "row_contexts opcode_row_6"
  by (simp add: row_eval opcode_row_6_def)

lemma row_contexts_7: "row_contexts opcode_row_7"
  by (simp add: row_eval opcode_row_7_def)

lemma row_contexts_8: "row_contexts opcode_row_8"
  by (simp add: row_eval opcode_row_8_def)

lemma row_contexts_9: "row_contexts opcode_row_9"
  by (simp add: row_eval opcode_row_9_def)

lemma row_contexts_a: "row_contexts opcode_row_a"
  by (simp add: row_eval opcode_row_a_def)

lemma row_contexts_b: "row_contexts opcode_row_b"
  by (simp add: row_eval opcode_row_b_def)

lemma row_contexts_e: "row_contexts opcode_row_e"
  by (simp add: row_eval opcode_row_e_def)

lemma row_contexts_f: "row_contexts opcode_row_f"
  by (simp add: row_eval opcode_row_f_def)

lemma opcode_names_contexts: "row_contexts opcode_names"
  by (simp add: opcode_names_def row_contexts_0 row_contexts_1 row_contexts_2 row_contexts_3 row_contexts_4 row_contexts_5
      row_contexts_6 row_contexts_7 row_contexts_8 row_contexts_9 row_contexts_a row_contexts_b
      row_contexts_e row_contexts_f)

lemma decimal_ascii: "c \<in> set (decimal n) \<Longrightarrow> of_char c < (128 :: nat)"
proof (induction n rule: decimal.induct)
  case (1 n)
  have "of_char (digit_char n) = (48 :: nat) + n mod 10"
    using of_char_digit[of "n mod 10"] by (simp add: digit_char_def)
  with 1 show ?case by (auto simp: decimal.simps[of n] split: if_splits)
qed

lemma ContextType_from_unknown: "ContextType_from (bytes_of (''Unknown('' @ decimal n @ '')'')) = None"
  using decimal_ascii[of _ n]
  by (subst ContextType_from_ascii) (auto simp: list_all_iff codes_of_def upper_code_def)

lemma ContextType_from_opcode:
  "ContextType_from (opcodes_string op) = opens_context (unat op)"
proof (cases "map_of opcode_names (unat op)")
  case None
  then have "unat op \<notin> {240, 241, 242, 244, 245, 250}"
    by (auto simp: opcode_names_def opcode_row_f_def map_of_eq_None_iff)
  with None show ?thesis
    using ContextType_from_unknown[of "unat op"] by (simp add: opcodes_string_def opens_context_def)
next
  case (Some s)
  then have "(unat op, s) \<in> set opcode_names" by (rule map_of_SomeD)
  with opcode_names_contexts Some show ?thesis
    by (auto simp: row_contexts_def list_all_iff opcodes_string_def)
qed

text \<open>
  The opcode names that the runtime sends and the names that the listeners recognise
  agree: of all 256 opcodes exactly CREATE, CREATE2, CALL, CALLCODE, DELEGATECALL and
  STATICCALL are taken as the opening of a context, each with its own type.
\<close>

lemma ContextType_from_opcodes_string:
  "ContextType_from (opcodes_string op) = opens_context (unat op)"
  by (rule ContextType_from_opcode)


subsection \<open>Memory\<close>

lemma be_nat_snoc: "be_nat (bs @ [b]) = be_nat bs * 256 + unat b"
  by (simp add: be_nat_def)

lemma u8_less: "unat (b :: u8) < 256"
  using unsigned_less[of b] by simp

lemma be_nat_less: "be_nat bs < 256 ^ length bs"
proof (induction bs rule: rev_induct)
  case (snoc b bs)
  then have "be_nat bs * 256 + 256 \<le> 256 ^ length bs * 256" by simp
  with u8_less[of b] show ?case by (simp add: be_nat_snoc)
qed (simp add: be_nat_def)

lemma be_nat_nth: "i < length bs \<Longrightarrow> be_nat bs div 256 ^ (length bs - Suc i) mod 256 = unat (bs ! i)"
proof (induction bs rule: rev_induct)
  case (snoc b bs)
  show ?case
  proof (cases "i = length bs")
    case True
    with u8_less[of b] show ?thesis by (simp add: be_nat_snoc)
  next
    case False
    with snoc.prems have i: "i < length bs" by simp
    then have "length (bs @ [b]) - Suc i = Suc (length bs - Suc i)" by simp
    then have "be_nat (bs @ [b]) div 256 ^ (length (bs @ [b]) - Suc i)
               = (be_nat bs * 256 + unat b) div 256 div 256 ^ (length bs - Suc i)"
      by (simp only: be_nat_snoc power_Suc div_mult2_eq)
    also have "\<dots> = be_nat bs div 256 ^ (length bs - Suc i)"
      using u8_less[of b] by simp
    finally show ?thesis using snoc.IH[OF i] i by (simp add: nth_append)
  qed
qed simp

lemma h256_from_slice_be_nat: "h256_from_slice bs = of_nat (be_nat bs)"
  by (induction bs rule: rev_induct)
    (simp_all add: h256_from_slice_def be_nat_def)

lemma be_nat_pad: "be_nat (replicate n 0 @ bs) = be_nat bs"
proof -
  have "foldl (\<lambda>v b. v * 256 + unat b) 0 (replicate n (0 :: u8)) = 0" by (induction n) auto
  then show ?thesis by (simp add: be_nat_def)
qed

lemma h256_as_bytes_from_slice:
  assumes "length bs = 32"
  shows "h256_as_bytes (h256_from_slice bs) = bs"
proof (rule nth_equalityI)
  show "length (h256_as_bytes (h256_from_slice bs)) = length bs"
    using assms by (simp add: h256_as_bytes_def)
next
  fix i assume "i < length (h256_as_bytes (h256_from_slice bs))"
  then have i: "i < 32" by (simp add: h256_as_bytes_def)
  have small: "be_nat bs < 2 ^ 256"
    using be_nat_less[of bs] assms by simp
  have "unat (h256_from_slice bs) = be_nat bs"
    using small by (simp add: h256_from_slice_be_nat unsigned_of_nat take_bit_nat_eq_self)
  then have "unat (ucast (drop_bit (8 * (31 - i)) (h256_from_slice bs)) :: u8)
      = be_nat bs div 2 ^ (8 * (31 - i)) mod 256"
    using small by (simp add: unsigned_ucast_eq unsigned_drop_bit_eq take_bit_eq_mod flip: drop_bit_eq_div)
  also have "\<dots> = unat (bs ! i)"
    using be_nat_nth[of i bs] i assms by (simp add: power_mult)
  finally show "h256_as_bytes (h256_from_slice bs) ! i = bs ! i"
    using i by (simp add: h256_as_bytes_def word_unat_eq_iff)
qed

lemma chunks_Nil [simp]: "chunks n [] = []"
  by (cases n) auto

lemma chunks_step: "0 < n \<Longrightarrow> xs \<noteq> [] \<Longrightarrow> chunks n xs = take n xs # chunks n (drop n xs)"
  by (cases n; cases xs) auto

lemma convert_memory_padded: "convert_memory m = map (\<lambda>c. h256_from_slice (pad_left c)) (chunks 32 m)"
  using length_chunks_le[of _ 32 m]
  by (force simp: convert_memory_def pad_left_def Let_def)

lemma convert_memory_chunks: "map h256_as_bytes (convert_memory m) = map pad_left (chunks 32 m)"
  using length_chunks_le[of _ 32 m]
  by (auto simp: convert_memory_padded pad_left_def intro!: h256_as_bytes_from_slice)

lemma concat_pad_chunks:
  "concat (map pad_left (chunks 32 m)) =
     take (32 * (length m div 32)) m @
     (if length m mod 32 = 0 then [] else pad_left (drop (32 * (length m div 32)) m))"
proof (induction "length m" arbitrary: m rule: less_induct)
  case less
  consider "m = []" | "m \<noteq> []" "length m < 32" | "32 \<le> length m" by linarith
  then show ?case
  proof cases
    case 2
    then show ?thesis by (simp add: chunks_step)
  next
    case 3
    then obtain q where q: "length m div 32 = Suc q" "length (drop 32 m) div 32 = q"
      by (metis div_if div_le_dividend length_drop not_less zero_less_numeral)
    have "concat (map pad_left (chunks 32 m)) = take 32 m @ concat (map pad_left (chunks 32 (drop 32 m)))"
      using 3 by (subst chunks_step) (auto simp: pad_left_def)
    also have "concat (map pad_left (chunks 32 (drop 32 m)))
       = take (32 * q) (drop 32 m) @
          (if length m mod 32 = 0 then [] else pad_left (drop (32 * q) (drop 32 m)))"
      using less[of "drop 32 m"] 3 q by (simp add: le_mod_geq)
    finally show ?thesis
      using q by (simp add: take_add drop_drop add.commute)
  qed simp
qed

text \<open>
  \<^verbatim>\<open>convert_memory\<close> loses nothing: the bytes of the words it returns are the full 32-byte
  rows of the memory in order, followed, when the length is not a multiple of 32, by the
  remaining bytes with zeros put in front of them.
\<close>

lemma convert_memory_bytes:
  "concat (map h256_as_bytes (convert_memory memory)) =
     take (32 * (length memory div 32)) memory @
     (if length memory mod 32 = 0 then []
      else replicate (32 - length memory mod 32) 0 @ drop (32 * (length memory div 32)) memory)"
proof -
  have "length (drop (32 * (length memory div 32)) memory) = length memory mod 32"
    by (simp add: minus_mult_div_eq_mod)
  then show ?thesis
    unfolding convert_memory_chunks concat_pad_chunks by (simp add: pad_left_def)
qed

end
