(* ===== verification/Trace_Filter.thy ===== *)
theory Trace_Filter
  imports Tracing_Types "HOL-Library.Sublist"
begin

text \<open>
  The \<^verbatim>\<open>trace_filter\<close> handler (\<^verbatim>\<open>client/rpc/trace/src/lib.rs\<close>, \<^verbatim>\<open>Trace\<close>) with its request types
  (\<^verbatim>\<open>client/rpc-core/trace\<close>, \<^verbatim>\<open>client/rpc-core/types\<close>): the block range, the request that is split
  into batches for the cache task, the address filter and the pagination.

  The client and the cache task are arguments: the best block number, the header hash of a
  height, and the answers to the requests. The requests that the handler sends are part of
  its result.
\<close>

type_synonym rpc_error = string


section \<open>Requests\<close>

datatype RequestBlockTag = Earliest | Latest | Pending

datatype RequestBlockId = Block_Number u32 | Block_Hash h256 | Block_Tag RequestBlockTag

record FilterRequest =
  fr_from_block :: "RequestBlockId option"
  fr_to_block :: "RequestBlockId option"
  fr_from_address :: "h160 list option"
  fr_to_address :: "h160 list option"
  fr_after :: "u32 option"
  fr_count :: "u32 option"

text \<open>
  \<^verbatim>\<open>u32::from_str_radix\<close>: an optional plus sign and at least one digit of the radix; the left
  summand is the kind of its error. The digits are read below a limit, the size of the type.
\<close>

definition digit_value :: "char \<Rightarrow> nat option" where
  "digit_value c =
     (let n = of_char c :: nat in
      if 48 \<le> n \<and> n \<le> 57 then Some (n - 48)
      else if 97 \<le> n \<and> n \<le> 122 then Some (n - 87)
      else if 65 \<le> n \<and> n \<le> 90 then Some (n - 55)
      else None)"

fun parse_digits :: "nat \<Rightarrow> nat \<Rightarrow> nat \<Rightarrow> string \<Rightarrow> string + nat" where
  "parse_digits limit radix acc [] = Inr acc"
| "parse_digits limit radix acc (c # cs) =
     (case digit_value c of
        Some d \<Rightarrow>
          if radix \<le> d then Inl ''InvalidDigit''
          else if limit \<le> acc * radix + d then Inl ''PosOverflow''
          else parse_digits limit radix (acc * radix + d) cs
      | None \<Rightarrow> Inl ''InvalidDigit'')"

definition u32_from_str_radix :: "string \<Rightarrow> nat \<Rightarrow> string + u32" where
  "u32_from_str_radix s radix =
     (if s = [] then Inl ''Empty''
      else if s = ''+'' \<or> s = ''-'' then Inl ''InvalidDigit''
      else
        (case parse_digits (2 ^ 32) radix 0 (if hd s = CHR ''+'' then tl s else s) of
           Inl e \<Rightarrow> Inl e
         | Inr n \<Rightarrow> Inr (of_nat n)))"

definition apostrophe :: string where
  "apostrophe = [CHR 0x27]"

definition deserialize_u32_0x :: "string \<Rightarrow> rpc_error + u32" where
  "deserialize_u32_0x buf =
     (let parsed =
        (if prefix ''0x'' buf then u32_from_str_radix (drop 2 buf) 16
         else u32_from_str_radix buf 10) in
      case parsed of
        Inr n \<Rightarrow> Inr n
      | Inl e \<Rightarrow>
          Inl (''parsing error: ParseIntError { kind: '' @ e @ '' } from '' @ apostrophe @ buf @
               apostrophe))"


section \<open>Handler\<close>

definition block_id :: "u32 \<Rightarrow> RequestBlockId option \<Rightarrow> rpc_error + u32" where
  "block_id best_number i =
     (case i of
        Some (Block_Number n) \<Rightarrow> Inr n
      | None \<Rightarrow> Inr best_number
      | Some (Block_Tag Latest) \<Rightarrow> Inr best_number
      | Some (Block_Tag Earliest) \<Rightarrow> Inr 0
      | Some (Block_Tag Pending) \<Rightarrow> Inl (apostrophe @ ''pending'' @ apostrophe @ '' is not supported'')
      | Some (Block_Hash _) \<Rightarrow> Inl ''Block hash not supported'')"

text \<open>The hashes of the blocks of a range; the genesis block has no traces.\<close>

fun block_hashes_of ::
    "(u32 \<Rightarrow> rpc_error + h256 option) \<Rightarrow> u32 list \<Rightarrow> rpc_error + h256 list" where
  "block_hashes_of header [] = Inr []"
| "block_hashes_of header (h # hs) =
     (if h = 0 then block_hashes_of header hs
      else
        (case header h of
           Inl e \<Rightarrow> Inl (''Error when fetching block '' @ decimal (unat h) @ '' header : '' @ e)
         | Inr None \<Rightarrow> Inl (''Block with height '' @ decimal (unat h) @ '' don'' @ apostrophe @ ''t exist'')
         | Inr (Some hash) \<Rightarrow>
             (case block_hashes_of header hs of
                Inl e \<Rightarrow> Inl e
              | Inr hashes \<Rightarrow> Inr (hash # hashes))))"

text \<open>The range \<^verbatim>\<open>from..=to\<close>.\<close>

definition block_heights :: "u32 \<Rightarrow> u32 \<Rightarrow> u32 list" where
  "block_heights from_block to_block = map of_nat [unat from_block..<Suc (unat to_block)]"

definition trace_matches :: "h160 list \<Rightarrow> h160 list \<Rightarrow> BlockTransactionTrace \<Rightarrow> bool" where
  "trace_matches from_address to_address trace =
     (case tt_action trace of
        Action_Call _ fr _ _ to _ \<Rightarrow>
          (from_address = [] \<or> fr \<in> set from_address) \<and> (to_address = [] \<or> to \<in> set to_address)
      | Action_Create _ fr _ _ _ \<Rightarrow>
          (from_address = [] \<or> fr \<in> set from_address) \<and> to_address = []
      | Action_Suicide addr _ _ \<Rightarrow>
          (from_address = [] \<or> addr \<in> set from_address) \<and> to_address = [])"

definition over_maximum :: "u32 \<Rightarrow> rpc_error" where
  "over_maximum max_count =
     ''the amount of traces goes over the maximum ('' @ decimal (unat max_count) @
     ''), please use '' @ apostrophe @ ''after'' @ apostrophe @ '' and '' @ apostrophe @ ''count'' @
     apostrophe @ '' in your request''"

text \<open>
  The loop over the blocks. \<open>amount\<close> starts at minus the offset; it is the \<^verbatim>\<open>i64\<close> of the code,
  which the number of traces that fit in memory cannot overflow. \<open>unlimited\<close> says that the
  request named no count.
\<close>

fun fetch_loop ::
    "(h256 \<Rightarrow> rpc_error + BlockTransactionTrace list) \<Rightarrow> (BlockTransactionTrace \<Rightarrow> bool) \<Rightarrow>
       u32 \<Rightarrow> bool \<Rightarrow> nat \<Rightarrow> h256 list \<Rightarrow> int \<Rightarrow> BlockTransactionTrace list \<Rightarrow>
       rpc_error + BlockTransactionTrace list" where
  "fetch_loop get_traces matches max_count unlimited cnt [] amount traces = Inr traces"
| "fetch_loop get_traces matches max_count unlimited cnt (b # bs) amount traces =
     (case get_traces b of
        Inl e \<Rightarrow> Inl e
      | Inr all_traces \<Rightarrow>
          (let block_traces = filter matches all_traces;
               amount = amount + int (length block_traces) in
           if 0 < amount
           then
             (let traces_amount = nat amount;
                  block_traces =
                    (if traces_amount < length block_traces
                     then drop (length block_traces - traces_amount) block_traces
                     else block_traces);
                  traces = traces @ block_traces in
              if cnt \<le> traces_amount
              then (if unlimited then Inl (over_maximum max_count) else Inr (take cnt traces))
              else fetch_loop get_traces matches max_count unlimited cnt bs amount traces)
           else fetch_loop get_traces matches max_count unlimited cnt bs amount traces))"

definition fetch_traces ::
    "(h256 \<Rightarrow> rpc_error + BlockTransactionTrace list) \<Rightarrow> u32 \<Rightarrow> FilterRequest \<Rightarrow> h256 list \<Rightarrow> nat \<Rightarrow>
       rpc_error + BlockTransactionTrace list" where
  "fetch_traces get_traces max_count req block_hashes cnt =
     (let from_address = (case fr_from_address req of Some a \<Rightarrow> a | None \<Rightarrow> []);
          to_address = (case fr_to_address req of Some a \<Rightarrow> a | None \<Rightarrow> []) in
      fetch_loop get_traces (trace_matches from_address to_address) max_count
        (fr_count req = None) cnt block_hashes
        (- (case fr_after req of Some a \<Rightarrow> int (unat a) | None \<Rightarrow> 0)) [])"

text \<open>The requests that the handler sends to the cache task, as far as they have an order.\<close>

datatype sent_request = Sent_start "h256 list" | Sent_fetch "h256 list" | Sent_stop u64

definition filter_handler ::
    "u32 \<Rightarrow> (u32 \<Rightarrow> rpc_error + h256 option) \<Rightarrow> (h256 list \<Rightarrow> rpc_error + u64) \<Rightarrow>
       (h256 \<Rightarrow> rpc_error + BlockTransactionTrace list) \<Rightarrow> u32 \<Rightarrow> FilterRequest \<Rightarrow>
       (rpc_error + BlockTransactionTrace list) \<times> sent_request list" where
  "filter_handler best_number header start_batch get_traces max_count req =
     (case block_id best_number (fr_from_block req) of
        Inl e \<Rightarrow> (Inl e, [])
      | Inr from_block \<Rightarrow>
     (case block_id best_number (fr_to_block req) of
        Inl e \<Rightarrow> (Inl e, [])
      | Inr to_block \<Rightarrow>
          (let cnt = (case fr_count req of Some c \<Rightarrow> c | None \<Rightarrow> max_count) in
           if max_count < cnt
           then (Inl (''count ('' @ decimal (unat cnt) @ '') can'' @ apostrophe @
                      ''t be greater than maximum ('' @ decimal (unat max_count) @ '')''), [])
           else
             (case block_hashes_of header (block_heights from_block to_block) of
                Inl e \<Rightarrow> (Inl e, [])
              | Inr block_hashes \<Rightarrow>
                  (case start_batch block_hashes of
                     Inl e \<Rightarrow> (Inl e, [Sent_start block_hashes])
                   | Inr batch_id \<Rightarrow>
                       (fetch_traces get_traces max_count req block_hashes (unat cnt),
                        [Sent_start block_hashes, Sent_fetch block_hashes, Sent_stop batch_id]))))))"


section \<open>Reference definitions\<close>

text \<open>All traces of the blocks that match the addresses of a request, in block order.\<close>

definition matching ::
    "(h256 \<Rightarrow> rpc_error + BlockTransactionTrace list) \<Rightarrow> FilterRequest \<Rightarrow> h256 list \<Rightarrow>
       BlockTransactionTrace list" where
  "matching get_traces req bs =
     concat (map (\<lambda>b. case get_traces b of
                 Inr ts \<Rightarrow>
                   filter (trace_matches
                     (case fr_from_address req of Some a \<Rightarrow> a | None \<Rightarrow> [])
                     (case fr_to_address req of Some a \<Rightarrow> a | None \<Rightarrow> [])) ts
               | Inl _ \<Rightarrow> []) bs)"

definition offset :: "FilterRequest \<Rightarrow> nat" where
  "offset req = (case fr_after req of Some a \<Rightarrow> unat a | None \<Rightarrow> 0)"

text \<open>A hexadecimal rendering, with the prefix.\<close>

fun hex_digits :: "nat \<Rightarrow> string" where
  "hex_digits n =
     (if n < 16 then [''0123456789abcdef'' ! n]
      else hex_digits (n div 16) @ [''0123456789abcdef'' ! (n mod 16)])"

declare hex_digits.simps [simp del]

text \<open>A small chain for the examples: two blocks, the traces of which are calls to address 2.\<close>

definition sample_trace :: "u32 \<Rightarrow> BlockTransactionTrace" where
  "sample_trace p =
     \<lparr>tt_action = Action_Call CallType_Call 1 0 [] 2 0, tt_block_hash = 0, tt_block_number = 0,
      tt_output = Output_Result (Result_Call 0 []), tt_subtraces = 0, tt_trace_address = [],
      tt_transaction_hash = 0, tt_transaction_position = p\<rparr>"

definition sample_get :: "h256 \<Rightarrow> rpc_error + BlockTransactionTrace list" where
  "sample_get b = Inr (if b = 1 then [sample_trace 0, sample_trace 1] else [sample_trace 2])"

definition sample_request :: "u32 option \<Rightarrow> FilterRequest" where
  "sample_request c =
     \<lparr>fr_from_block = Some (Block_Number 1), fr_to_block = Some (Block_Number 2),
      fr_from_address = None, fr_to_address = Some [2], fr_after = Some 1, fr_count = c\<rparr>"



section \<open>Lemmas\<close>

subsection \<open>Pagination\<close>

text \<open>
  What the loop gives on blocks that are all available: \<open>F\<close> is what matched in the blocks
  before, none of which reached the limit.
\<close>

lemma fetch_loop_spec:
  fixes matches :: "BlockTransactionTrace \<Rightarrow> bool"
  assumes "\<And>b. b \<in> set bs \<Longrightarrow> get_traces b = Inr (ts b)"
    and "after < length F \<Longrightarrow> length F - after < cnt"
  defines "G \<equiv> F @ concat (map (\<lambda>b. filter matches (ts b)) bs)"
  shows "fetch_loop get_traces matches max_count unlimited cnt bs (int (length F) - int after) (drop after F) =
    (if after < length G \<and> cnt \<le> length G - after
     then (if unlimited then Inl (over_maximum max_count) else Inr (take cnt (drop after G)))
     else Inr (drop after G))"
  using assms(1,2) unfolding G_def
proof (induction bs arbitrary: F)
  case Nil
  then show ?case by auto
next
  case (Cons b bs)
  let ?B = "filter matches (ts b)" and ?R = "concat (map (\<lambda>b. filter matches (ts b)) bs)"
  have get: "get_traces b = Inr (ts b)" using Cons.prems(1) by simp
  have amt: "int (length F) - int after + int (length ?B) = int (length (F @ ?B)) - int after" by simp
  have IH: "fetch_loop get_traces matches max_count unlimited cnt bs (int (length (F @ ?B)) - int after) (drop after (F @ ?B)) =
    (if after < length ((F @ ?B) @ ?R) \<and> cnt \<le> length ((F @ ?B) @ ?R) - after
     then (if unlimited then Inl (over_maximum max_count) else Inr (take cnt (drop after ((F @ ?B) @ ?R))))
     else Inr (drop after ((F @ ?B) @ ?R)))" if "after < length (F @ ?B) \<Longrightarrow> length (F @ ?B) - after < cnt"
    using Cons.IH[of "F @ ?B"] Cons.prems(1) that by simp
  let ?a = "int (length (F @ ?B)) - int after"
  let ?loop = "fetch_loop get_traces matches max_count unlimited cnt"
  have step: "?loop (b # bs) (int (length F) - int after) (drop after F) =
      (if 0 < ?a
       then (let traces = drop after F @ (if nat ?a < length ?B then drop (length ?B - nat ?a) ?B else ?B) in
             if cnt \<le> nat ?a
             then (if unlimited then Inl (over_maximum max_count) else Inr (take cnt traces))
             else ?loop bs ?a traces)
       else ?loop bs ?a (drop after F))"
    by (simp only: fetch_loop.simps get sum.case Let_def amt)
  have all: "F @ concat (map (\<lambda>b. filter matches (ts b)) (b # bs)) = (F @ ?B) @ ?R" by simp
  show ?case
  proof (cases "after < length (F @ ?B)")
    case False
    then have "\<not> 0 < ?a" and "drop after F = drop after (F @ ?B)" by simp_all
    then show ?thesis
      unfolding step all using IH False by (simp only: if_False)
  next
    case True
    have skip: "drop after F @ (if nat ?a < length ?B then drop (length ?B - nat ?a) ?B else ?B) = drop after (F @ ?B)"
    proof -
      have "nat ?a = length F + length ?B - after" using True by simp
      then show ?thesis using True by (simp only:) auto
    qed
    have nat: "nat ?a = length (F @ ?B) - after" "0 < ?a" using True by auto
    have step': "?loop (b # bs) (int (length F) - int after) (drop after F) =
        (if cnt \<le> length (F @ ?B) - after
         then (if unlimited then Inl (over_maximum max_count) else Inr (take cnt (drop after (F @ ?B))))
         else ?loop bs ?a (drop after (F @ ?B)))"
      unfolding step Let_def skip using nat by (simp only: if_True)
    show ?thesis
    proof (cases "cnt \<le> length (F @ ?B) - after")
      case True
      then show ?thesis
        unfolding step' all using \<open>after < length (F @ ?B)\<close> by auto
    next
      case False
      then show ?thesis
        unfolding step' all using IH by simp
    qed
  qed
qed

lemma fetch_traces_spec:
  assumes "list_all (\<lambda>b. \<exists>ts. get_traces b = Inr ts) bs"
    and G: "G = matching get_traces req bs"
  shows "fetch_traces get_traces max_count req bs cnt =
    (if offset req < length G \<and> cnt \<le> length G - offset req
     then (if fr_count req = None then Inl (over_maximum max_count)
           else Inr (take cnt (drop (offset req) G)))
     else Inr (drop (offset req) G))"
proof -
  define ts where "ts b = (case get_traces b of Inr t \<Rightarrow> t | Inl _ \<Rightarrow> [])" for b
  let ?m = "trace_matches (case fr_from_address req of Some a \<Rightarrow> a | None \<Rightarrow> [])
              (case fr_to_address req of Some a \<Rightarrow> a | None \<Rightarrow> [])"
  have ts: "get_traces b = Inr (ts b)" if "b \<in> set bs" for b
    using assms(1) that by (auto simp: list_all_iff ts_def)
  have G': "concat (map (\<lambda>b. filter ?m (ts b)) bs) = G"
    unfolding G matching_def using ts by (intro arg_cong[where f = concat] map_cong) auto
  have off: "int (length ([] :: BlockTransactionTrace list)) - int (offset req) =
      - (case fr_after req of Some a \<Rightarrow> int (unat a) | None \<Rightarrow> 0)"
    by (simp add: offset_def split: option.splits)
  show ?thesis
    using fetch_loop_spec[of bs get_traces ts "offset req" "[]" cnt ?m max_count "fr_count req = None"] ts
    unfolding fetch_traces_def Let_def off append_Nil drop_Nil G' by simp
qed

text \<open>
  C14. A request with a count gets a page: exactly the traces from the offset on, at most count
  of them, of all traces of the range that match the addresses, in block order.
\<close>

theorem fetch_traces_page:
  assumes "list_all (\<lambda>b. \<exists>ts. get_traces b = Inr ts) bs" and "fr_count req = Some c"
  shows "fetch_traces get_traces max_count req bs (unat c) =
         Inr (take (unat c) (drop (offset req) (matching get_traces req bs)))"
  using fetch_traces_spec[OF assms(1) refl, of max_count req "unat c"] assms(2) by auto

theorem fetch_traces_page_witness:
  "list_all (\<lambda>b. \<exists>ts. sample_get b = Inr ts) [1, 2] \<and>
   fetch_traces sample_get 500 (sample_request (Some 1)) [1, 2] 1 = Inr [sample_trace 1]"
  using fetch_traces_page[of sample_get "[1, 2]" "sample_request (Some 1)" 1 500]
  by (simp add: sample_get_def sample_request_def matching_def trace_matches_def sample_trace_def offset_def)

text \<open>
  A request without a count gets all matching traces from the offset on if they are fewer
  than the maximum, and an error otherwise: also when there are exactly as many as the maximum.
\<close>

lemma fetch_traces_without_count:
  assumes "list_all (\<lambda>b. \<exists>ts. get_traces b = Inr ts) bs" and "fr_count req = None" and "0 < max_count"
  shows "fetch_traces get_traces max_count req bs (unat max_count) =
         (if length (drop (offset req) (matching get_traces req bs)) < unat max_count
          then Inr (drop (offset req) (matching get_traces req bs))
          else Inl (over_maximum max_count))"
  using fetch_traces_spec[OF assms(1) refl, of max_count req "unat max_count"] assms(2,3)
  by (auto simp: word_less_nat_alt)

lemma fetch_traces_without_count_sample:
  "fetch_traces sample_get 2 (sample_request None) [1, 2] 2 = Inl (over_maximum 2) \<and>
   fetch_traces sample_get 3 (sample_request None) [1, 2] 3 = Inr [sample_trace 1, sample_trace 2]"
  using fetch_traces_without_count[of sample_get "[1, 2]" "sample_request None" 2]
    fetch_traces_without_count[of sample_get "[1, 2]" "sample_request None" 3]
  by (simp add: sample_get_def sample_request_def matching_def trace_matches_def sample_trace_def offset_def)


subsection \<open>Range and batches\<close>

text \<open>
  The range of a request is inclusive at both ends, up to the largest height, in ascending
  order and without repetition.
\<close>

lemma block_heights_range:
  "set (block_heights a b) = {a..b} \<and> sorted_wrt (<) (block_heights a b)"
proof
  have "x \<in> set (block_heights a b) \<longleftrightarrow> a \<le> x \<and> x \<le> b" for x
  proof
    assume "x \<in> set (block_heights a b)"
    then obtain k where "unat a \<le> k" "k \<le> unat b" "x = of_nat k" by (auto simp: block_heights_def)
    then show "a \<le> x \<and> x \<le> b"
      using u32_less[of b] unat_advance[of 0 k] by (simp add: word_le_nat_alt)
  next
    assume "a \<le> x \<and> x \<le> b"
    then have "unat x \<in> {unat a..<Suc (unat b)}" by (simp add: word_le_nat_alt)
    then have "of_nat (unat x) \<in> set (block_heights a b)"
      unfolding block_heights_def set_map set_upt by (rule imageI)
    then show "x \<in> set (block_heights a b)" by simp
  qed
  then show "set (block_heights a b) = {a..b}" by (intro set_eqI) (simp only: atLeastAtMost_iff)
  have k: "unat (of_nat k :: u32) = k" if "k < Suc (unat b)" for k
    using that u32_less[of b] by (simp add: unat_of_nat take_bit_nat_eq_self)
  have "sorted_wrt (\<lambda>i j. (of_nat i :: u32) < of_nat j) [unat a..<Suc (unat b)]"
    by (rule sorted_wrt_mono_rel[OF _ sorted_wrt_upt]) (simp add: word_less_nat_alt k del: upt_Suc)
  then show "sorted_wrt (<) (block_heights a b)"
    by (simp only: block_heights_def sorted_wrt_map)
qed

text \<open>
  Every batch that the handler starts it also stops, after fetching and whatever fetching
  returned; nothing is sent when the request is refused before.
\<close>

lemma filter_stops_every_batch:
  assumes "filter_handler best_number header start_batch get_traces max_count req = (res, sent)"
    and "Sent_start hashes \<in> set sent" and "start_batch hashes = Inr batch_id"
  shows "sent = [Sent_start hashes, Sent_fetch hashes, Sent_stop batch_id] \<and>
         res = fetch_traces get_traces max_count req hashes
                 (unat (case fr_count req of Some c \<Rightarrow> c | None \<Rightarrow> max_count))"
  using assms
  by (auto simp: filter_handler_def Let_def split: sum.splits if_splits)

lemma filter_stops_every_batch_sample:
  "filter_handler 9 (\<lambda>h. Inr (Some (ucast h))) (\<lambda>_. Inr 7) (\<lambda>_. Inl ''failed'') 500
       (sample_request (Some 1)) =
     (Inl ''failed'', [Sent_start [1, 2], Sent_fetch [1, 2], Sent_stop 7])"
proof -
  let ?r = "filter_handler 9 (\<lambda>h. Inr (Some (ucast h))) (\<lambda>_. Inr 7) (\<lambda>_. Inl ''failed'') 500
       (sample_request (Some 1))"
  have "Sent_start [1, 2] \<in> set (snd ?r)"
    by (simp add: filter_handler_def sample_request_def block_id_def block_heights_def upt_rec[of _ 3])
  then show ?thesis
    using filter_stops_every_batch[of 9 "\<lambda>h. Inr (Some (ucast h))" "\<lambda>_. Inr 7" "\<lambda>_. Inl ''failed''" 500
        "sample_request (Some 1)" "fst ?r" "snd ?r" "[1, 2]" 7]
    by (simp add: prod_eq_iff) (simp add: fetch_traces_def sample_request_def)
qed


subsection \<open>Block numbers\<close>

lemma parse_digits_snoc:
  "parse_digits limit r acc (s @ [c]) =
     (case parse_digits limit r acc s of Inr v \<Rightarrow> parse_digits limit r v [c] | Inl e \<Rightarrow> Inl e)"
  by (induction s arbitrary: acc) (auto split: option.splits)

lemma digit_values:
  "\<forall>d \<in> set [0..<10]. digit_value (digit_char d) = Some d"
  "\<forall>d \<in> set [0..<16]. digit_value (''0123456789abcdef'' ! d) = Some d"
  by code_simp+

lemma digit_value_hex: "d < 16 \<Longrightarrow> digit_value (''0123456789abcdef'' ! d) = Some d"
  using digit_values(2) by simp

lemma digit_value_decimal: "digit_value (digit_char d) = Some (d mod 10)"
proof -
  have "digit_char d = digit_char (d mod 10)" by (simp add: digit_char_def)
  then show ?thesis using digit_values(1) by simp
qed

lemma parse_decimal: "n < limit \<Longrightarrow> parse_digits limit 10 0 (decimal n) = Inr n"
proof (induction n rule: decimal.induct)
  case (1 n)
  show ?case
  proof (cases "n < 10")
    case True
    with 1(2) show ?thesis by (simp add: decimal.simps[of n] digit_value_decimal)
  next
    case False
    with 1 have "parse_digits limit 10 0 (decimal (n div 10)) = Inr (n div 10)" by simp
    with False 1(2) show ?thesis
      by (simp add: decimal.simps[of n] parse_digits_snoc digit_value_decimal)
  qed
qed

lemma parse_hex: "n < limit \<Longrightarrow> parse_digits limit 16 0 (hex_digits n) = Inr n"
proof (induction n rule: hex_digits.induct)
  case (1 n)
  show ?case
  proof (cases "n < 16")
    case True
    with 1(2) show ?thesis by (simp add: hex_digits.simps[of n] digit_value_hex)
  next
    case False
    with 1 have "parse_digits limit 16 0 (hex_digits (n div 16)) = Inr (n div 16)" by simp
    with False 1(2) show ?thesis
      by (simp add: hex_digits.simps[of n] parse_digits_snoc digit_value_hex)
  qed
qed

lemma parse_ok_digits:
  "parse_digits limit r acc s = Inr v \<Longrightarrow> c \<in> set s \<Longrightarrow> \<exists>d. digit_value c = Some d \<and> d < r"
  by (induction s arbitrary: acc) (auto split: option.splits if_splits)

lemma parse_ok_no_sign:
  assumes "parse_digits limit r acc s = Inr v"
  shows "CHR ''+'' \<notin> set s" and "CHR ''-'' \<notin> set s"
proof -
  have "digit_value (CHR ''+'') = None" "digit_value (CHR ''-'') = None"
    by (simp_all add: digit_value_def)
  then show "CHR ''+'' \<notin> set s" and "CHR ''-'' \<notin> set s"
    using parse_ok_digits[OF assms] by fastforce+
qed

lemma from_str_parse:
  assumes "parse_digits (2 ^ 32) r 0 s = Inr v" and "s \<noteq> []"
  shows "u32_from_str_radix s r = Inr (of_nat v)"
proof -
  from parse_ok_no_sign[OF assms(1)] assms show ?thesis by (cases s) (auto simp: u32_from_str_radix_def)
qed

lemma decimal_not_Nil [simp]: "decimal n \<noteq> []"
  by (subst decimal.simps) simp

lemma hex_digits_not_Nil [simp]: "hex_digits n \<noteq> []"
  by (subst hex_digits.simps) simp

text \<open>
  C34. Block numbers round-trip: a 32-bit number rendered in decimal, or in hexadecimal with the
  prefix, is read back as that number.
\<close>

theorem deserialize_u32_roundtrip:
  "deserialize_u32_0x (decimal (unat n)) = Inr n \<and>
   deserialize_u32_0x (''0x'' @ hex_digits (unat n)) = Inr n"
proof
  have dec: "parse_digits (2 ^ 32) 10 0 (decimal (unat n)) = Inr (unat n)" by (rule parse_decimal[OF u32_less])
  have "digit_value (CHR ''x'') = Some 33" by (simp add: digit_value_def)
  then have "CHR ''x'' \<notin> set (decimal (unat n))" using parse_ok_digits[OF dec] by fastforce
  then have "\<not> prefix ''0x'' (decimal (unat n))" by (auto simp: prefix_def)
  with from_str_parse[OF dec] show "deserialize_u32_0x (decimal (unat n)) = Inr n"
    by (simp add: deserialize_u32_0x_def)
  show "deserialize_u32_0x (''0x'' @ hex_digits (unat n)) = Inr n"
    using from_str_parse[OF parse_hex[OF u32_less[of n]]] by (simp add: deserialize_u32_0x_def)
qed

end
