(* ===== verification/Treasury_Reward.thy ===== *)
theory Treasury_Reward
  imports Prelude
begin

text \<open>
  The treasury reward pallet (\<^verbatim>\<open>pallets/edge-treasury-reward/src/lib.rs\<close>): at every block whose number
  is a multiple of the minting interval, the payout is minted into the treasury account.

  The balances are of any type; depositing into the treasury account and reading its free
  balance are arguments. A division by zero is a panic.
\<close>

section \<open>Model\<close>

type_synonym balance = "128 word"

type_synonym block_number = u32

datatype 'acc TreasuryEvent = TreasuryMinting balance block_number 'acc

text \<open>The storage of the pallet, with the block number, the balances and the events it acts on.\<close>

record ('acc, 'b) treasury =
  MintingInterval :: block_number
  CurrentPayout :: balance
  tr_block_number :: block_number
  tr_balances :: 'b
  tr_events :: "'acc TreasuryEvent list"

record GenesisConfig =
  gc_minting_interval :: block_number
  gc_current_payout :: balance

definition genesis_default :: GenesisConfig where
  "genesis_default = \<lparr>gc_minting_interval = 0, gc_current_payout = 0\<rparr>"

definition genesis_build :: "GenesisConfig \<Rightarrow> ('acc, 'b) treasury \<Rightarrow> ('acc, 'b) treasury" where
  "genesis_build g s =
     s\<lparr>MintingInterval := gc_minting_interval g, CurrentPayout := gc_current_payout g\<rparr>"

definition on_finalize ::
    "(balance \<Rightarrow> 'b \<Rightarrow> 'b) \<Rightarrow> ('b \<Rightarrow> balance) \<Rightarrow> 'acc \<Rightarrow> ('acc, 'b) treasury \<Rightarrow> ('acc, 'b) treasury outcome" where
  "on_finalize deposit_creating free_balance account_id s =
     (if MintingInterval s = 0
      then Inl (Panic ''attempt to calculate the remainder with a divisor of zero'')
      else if tr_block_number s mod MintingInterval s = 0
      then
        (let reward = CurrentPayout s in
         if reward = 0 then Inr s
         else
           (let b = deposit_creating reward (tr_balances s) in
            Inr (s\<lparr>tr_balances := b,
                   tr_events := tr_events s @
                     [TreasuryMinting (free_balance b) (tr_block_number s) account_id]\<rparr>)))
      else Inr s)"

datatype origin = Root | Signed_or_none

definition set_current_payout :: "origin \<Rightarrow> balance \<Rightarrow> ('acc, 'b) treasury \<Rightarrow> string + ('acc, 'b) treasury" where
  "set_current_payout orig payout s =
     (case orig of Root \<Rightarrow> Inr (s\<lparr>CurrentPayout := payout\<rparr>) | Signed_or_none \<Rightarrow> Inl ''BadOrigin'')"

definition set_minting_interval ::
    "origin \<Rightarrow> block_number \<Rightarrow> ('acc, 'b) treasury \<Rightarrow> string + ('acc, 'b) treasury" where
  "set_minting_interval orig interval s =
     (case orig of Root \<Rightarrow> Inr (s\<lparr>MintingInterval := interval\<rparr>) | Signed_or_none \<Rightarrow> Inl ''BadOrigin'')"


section \<open>Runs of blocks\<close>

text \<open>The next \<open>m\<close> blocks, each finalized.\<close>

fun finalize_blocks ::
    "(balance \<Rightarrow> 'b \<Rightarrow> 'b) \<Rightarrow> ('b \<Rightarrow> balance) \<Rightarrow> 'acc \<Rightarrow> nat \<Rightarrow> ('acc, 'b) treasury \<Rightarrow>
       ('acc, 'b) treasury outcome" where
  "finalize_blocks deposit_creating free_balance account_id 0 s = Inr s"
| "finalize_blocks deposit_creating free_balance account_id (Suc m) s =
     (case on_finalize deposit_creating free_balance account_id (s\<lparr>tr_block_number := tr_block_number s + 1\<rparr>) of
        Inl p \<Rightarrow> Inl p
      | Inr s' \<Rightarrow> finalize_blocks deposit_creating free_balance account_id m s')"

text \<open>
  The free balance grows by a deposit as long as it fits. That is so for an account that exists, as
  the treasury does once it is endowed; the framework ignores a deposit to an account that does
  not exist when it is below the existential deposit.
\<close>

definition deposits :: "(balance \<Rightarrow> 'b \<Rightarrow> 'b) \<Rightarrow> ('b \<Rightarrow> balance) \<Rightarrow> bool" where
  "deposits deposit_creating free_balance \<longleftrightarrow>
     (\<forall>x b. unat (free_balance b) + unat x < 2 ^ 128 \<longrightarrow>
            free_balance (deposit_creating x b) = free_balance b + x)"

text \<open>The multiples of the interval among the \<open>m\<close> numbers after \<open>n\<close>.\<close>

definition due :: "nat \<Rightarrow> nat \<Rightarrow> nat \<Rightarrow> nat" where
  "due i n m = (n + m) div i - n div i"

lemma due_Suc:
  assumes "0 < i"
  shows "due i n (Suc m) = (if Suc n mod i = 0 then 1 else 0) + due i (Suc n) m"
proof -
  have "n div i \<le> Suc n div i" "Suc n div i \<le> (Suc n + m) div i" by (simp_all add: div_le_mono)
  moreover have "Suc n div i = n div i + (if Suc n mod i = 0 then 1 else 0)" by (simp add: div_Suc)
  ultimately show ?thesis by (simp add: due_def)
qed

lemma finalize_blocks_mint:
  assumes dep: "deposits deposit_creating free_balance" and pos: "MintingInterval s \<noteq> 0"
  shows "unat (tr_block_number s) + m < 2 ^ 32 \<Longrightarrow>
    unat (free_balance (tr_balances s)) +
      unat (CurrentPayout s) * due (unat (MintingInterval s)) (unat (tr_block_number s)) m < 2 ^ 128 \<Longrightarrow>
    \<exists>s'. finalize_blocks deposit_creating free_balance account_id m s = Inr s' \<and>
         unat (free_balance (tr_balances s')) = unat (free_balance (tr_balances s)) +
           unat (CurrentPayout s) * due (unat (MintingInterval s)) (unat (tr_block_number s)) m"
  using pos
proof (induction m arbitrary: s)
  case 0
  then show ?case by (simp add: due_def)
next
  case (Suc m)
  let ?i = "unat (MintingInterval s)" and ?n = "unat (tr_block_number s)" and ?p = "unat (CurrentPayout s)"
  let ?s = "s\<lparr>tr_block_number := tr_block_number s + 1\<rparr>"
    and ?b = "deposit_creating (CurrentPayout s) (tr_balances s)"
  have i: "0 < ?i" using Suc.prems(3) by (simp add: unat_gt_0)
  have n: "unat (tr_block_number s + 1) = Suc ?n" using Suc.prems(1) by (simp add: unat_word_ariths)
  have due_now: "(tr_block_number s + 1) mod MintingInterval s = 0 \<longleftrightarrow> Suc ?n mod ?i = 0"
    by (simp only: unat_eq_zero[symmetric] unat_mod n)
  obtain s1 where s1: "on_finalize deposit_creating free_balance account_id ?s = Inr s1"
    "MintingInterval s1 = MintingInterval s" "CurrentPayout s1 = CurrentPayout s"
    "tr_block_number s1 = tr_block_number s + 1"
    "unat (free_balance (tr_balances s1)) =
       unat (free_balance (tr_balances s)) + ?p * (if Suc ?n mod ?i = 0 then 1 else 0)"
  proof (cases "Suc ?n mod ?i = 0 \<and> CurrentPayout s \<noteq> 0")
    case True
    then have "unat (free_balance (tr_balances s)) + ?p < 2 ^ 128"
      using Suc.prems(2) due_Suc[OF i, of ?n m] by (simp add: distrib_left)
    with dep have "free_balance (deposit_creating (CurrentPayout s) (tr_balances s)) =
        free_balance (tr_balances s) + CurrentPayout s"
      and "unat (free_balance (tr_balances s) + CurrentPayout s) = unat (free_balance (tr_balances s)) + ?p"
      by (auto simp: deposits_def unat_word_ariths)
    with True Suc.prems(3) due_now show ?thesis
      by (intro that[of "?s\<lparr>tr_balances := ?b, tr_events := tr_events s @
            [TreasuryMinting (free_balance ?b) (tr_block_number s + 1) account_id]\<rparr>"])
        (simp_all add: on_finalize_def Let_def)
  next
    case False
    with Suc.prems(3) due_now show ?thesis
      by (intro that[of ?s]) (auto simp: on_finalize_def Let_def)
  qed
  have "\<exists>s'. finalize_blocks deposit_creating free_balance account_id m s1 = Inr s' \<and>
      unat (free_balance (tr_balances s')) = unat (free_balance (tr_balances s1)) + ?p * due ?i (Suc ?n) m"
    using Suc.IH[of s1] Suc.prems s1 n due_Suc[OF i, of ?n m] by (simp add: distrib_left split: if_splits)
  with s1 show ?case using due_Suc[OF i, of ?n m] by (auto simp: distrib_left)
qed

text \<open>
  C24. The treasury is paid on schedule: with a minting interval other than zero, finalizing \<open>m\<close>
  blocks succeeds and raises the balance of the treasury by the payout times the number of
  multiples of the interval among their block numbers, as long as the balance fits.
\<close>

theorem treasury_mints_on_schedule:
  assumes "deposits deposit_creating free_balance" and "MintingInterval s \<noteq> 0"
    and "unat (tr_block_number s) + m < 2 ^ 32"
    and "unat (free_balance (tr_balances s)) +
           unat (CurrentPayout s) * due (unat (MintingInterval s)) (unat (tr_block_number s)) m < 2 ^ 128"
  shows "\<exists>s'. finalize_blocks deposit_creating free_balance account_id m s = Inr s' \<and>
              unat (free_balance (tr_balances s')) = unat (free_balance (tr_balances s)) +
                unat (CurrentPayout s) * due (unat (MintingInterval s)) (unat (tr_block_number s)) m"
  using assms by (intro finalize_blocks_mint)

theorem treasury_mints_on_schedule_witness:
  "\<exists>s'. finalize_blocks (\<lambda>x b. b + x) id (0 :: nat) 10
          \<lparr>MintingInterval = 4, CurrentPayout = 95, tr_block_number = 6, tr_balances = 5, tr_events = []\<rparr> = Inr s' \<and>
        unat (tr_balances s') = 5 + 95 * 3"
  using treasury_mints_on_schedule[of "\<lambda>x b. b + x" id
      "\<lparr>MintingInterval = 4, CurrentPayout = 95, tr_block_number = 6, tr_balances = 5, tr_events = []\<rparr>" 10 "0 :: nat"]
  by (simp add: deposits_def due_def)

text \<open>
  A minting interval of zero stops the chain: every block panics when it is finalized. The
  default genesis configuration has that interval, and root can set it.
\<close>

lemma zero_interval_panics:
  "(\<exists>p. on_finalize deposit_creating free_balance account_id (genesis_build genesis_default s) = Inl p) \<and>
   (\<exists>s' p. set_minting_interval Root 0 s = Inr s' \<and>
           on_finalize deposit_creating free_balance account_id s' = Inl p)"
  by (simp add: on_finalize_def genesis_build_def genesis_default_def set_minting_interval_def)

end
