(* ===== verification/Eth_Transactions.thy ===== *)
theory Eth_Transactions
  imports Prelude
begin

text \<open>
  Ethereum transactions and the extrinsics that carry them, as far as the node reads them: the
  fields of the transaction types of the \<^verbatim>\<open>ethereum\<close> crate that are used under \<^verbatim>\<open>src/\<close>, and the
  runtime call of an extrinsic (\<^verbatim>\<open>node/runtime/src/lib.rs\<close>). The remaining contents of a
  transaction, such as its signature, are a field of their own, of any type.

  Also the filter for Ethereum transactions that the runtime offers to the transaction pool.
\<close>

section \<open>Transactions\<close>

datatype TransactionAction = Action_to h160 | Action_create

record 'r PricedTransaction =
  pt_nonce :: u256
  pt_gas_price :: u256
  pt_gas_limit :: u256
  pt_action :: TransactionAction
  pt_value :: u256
  pt_input :: bytes
  pt_rest :: 'r

record 'r DynamicFeeTransaction =
  dt_nonce :: u256
  dt_max_fee_per_gas :: u256
  dt_gas_limit :: u256
  dt_action :: TransactionAction
  dt_value :: u256
  dt_input :: bytes
  dt_rest :: 'r

datatype 'r TransactionV2 =
  Tx_Legacy "'r PricedTransaction"
| Tx_EIP2930 "'r PricedTransaction"
| Tx_EIP1559 "'r DynamicFeeTransaction"


section \<open>Extrinsics\<close>

datatype ('r, 'c) RuntimeCall = Ethereum_transact "'r TransactionV2" | Other_call 'c

record ('r, 'c) UncheckedExtrinsic =
  xt_function :: "('r, 'c) RuntimeCall"

record 'r TxPoolResponse =
  tr_ready :: "'r TransactionV2 list"
  tr_future :: "'r TransactionV2 list"

fun ethereum_transaction :: "('r, 'c) RuntimeCall \<Rightarrow> 'r TransactionV2 option" where
  "ethereum_transaction (Ethereum_transact transaction) = Some transaction"
| "ethereum_transaction (Other_call _) = None"

definition extrinsic_filter ::
    "('r, 'c) UncheckedExtrinsic list \<Rightarrow> ('r, 'c) UncheckedExtrinsic list \<Rightarrow> 'r TxPoolResponse" where
  "extrinsic_filter xts_ready xts_future =
     \<lparr>tr_ready = List.map_filter (\<lambda>xt. ethereum_transaction (xt_function xt)) xts_ready,
      tr_future = List.map_filter (\<lambda>xt. ethereum_transaction (xt_function xt)) xts_future\<rparr>"

end
