(* ===== verification/Runtime_Calls.thy ===== *)
theory Runtime_Calls
  imports Eth_Transactions
begin

text \<open>
  Further parts of the runtime (\<^verbatim>\<open>node/runtime/src\<close>): the currency units (\<^verbatim>\<open>constants.rs\<close>), the distribution
  of fees (\<^verbatim>\<open>DealWithFees\<close> in \<^verbatim>\<open>lib.rs\<close>, \<^verbatim>\<open>Author\<close> in \<^verbatim>\<open>impls.rs\<close>), the parameters of the election miner and of
  offchain transactions, self-contained calls, the Ethereum calls of the runtime API (\<^verbatim>\<open>lib.rs\<close>), and
  the migrations (\<^verbatim>\<open>migrations.rs\<close>).

  Balances are 128-bit words. The currency, the pallets and their own migrations, the virtual
  machine, hash functions and the encoding of storage values are arguments.
\<close>

section \<open>Currency units\<close>

type_synonym u128 = "128 word"

definition MILLICENTS :: u128 where "MILLICENTS = 10000000000000"

definition CENTS :: u128 where "CENTS = 1000 * MILLICENTS"

definition DOLLARS :: u128 where "DOLLARS = 100 * CENTS"

definition deposit :: "u32 \<Rightarrow> u32 \<Rightarrow> u128" where
  "deposit items byts = ucast items * 15 * CENTS + ucast byts * 6 * CENTS"


section \<open>Fees\<close>

text \<open>
  Of the framework: \<open>ration\<close> splits an imbalance in a ratio, \<open>merge\<close> joins two, \<open>on_unbalanced\<close> calls its
  handler. \<open>'w\<close> is the state of the chain.
\<close>

record ('i, 'a, 'w) imbalances =
  im_ration :: "'i \<Rightarrow> u32 \<Rightarrow> u32 \<Rightarrow> 'i \<times> 'i"
  im_ration_merge_into :: "'i \<Rightarrow> u32 \<Rightarrow> u32 \<Rightarrow> 'i \<times> 'i \<Rightarrow> 'i \<times> 'i"
  im_on_unbalanced :: "('i \<Rightarrow> 'w \<Rightarrow> 'w outcome) \<Rightarrow> 'i \<Rightarrow> 'w \<Rightarrow> 'w outcome"
  im_treasury :: "'i \<Rightarrow> 'w \<Rightarrow> 'w outcome"
  im_author :: "'w \<Rightarrow> 'a option"
  im_resolve_creating :: "'a \<Rightarrow> 'i \<Rightarrow> 'w \<Rightarrow> 'w"

definition on_nonzero_unbalanced :: "('i, 'a, 'w) imbalances \<Rightarrow> 'i \<Rightarrow> 'w \<Rightarrow> 'w outcome" where
  "on_nonzero_unbalanced im amount w =
     (case im_author im w of
        None \<Rightarrow> Inl (Panic ''called `Option::unwrap()` on a `None` value'')
      | Some a \<Rightarrow> Inr (im_resolve_creating im a amount w))"

definition on_unbalanceds :: "('i, 'a, 'w) imbalances \<Rightarrow> 'i list \<Rightarrow> 'w \<Rightarrow> 'w outcome" where
  "on_unbalanceds im fees_then_tips w =
     (case fees_then_tips of
        [] \<Rightarrow> Inr w
      | fees # rest \<Rightarrow>
          (let split = im_ration im fees 80 20;
               split = (case rest of
                          tips # _ \<Rightarrow> im_ration_merge_into im tips 80 20 split
                        | [] \<Rightarrow> split)
           in case im_treasury im (fst split) w of
                Inl p \<Rightarrow> Inl p
              | Inr w \<Rightarrow> im_on_unbalanced im (on_nonzero_unbalanced im) (snd split) w))"


section \<open>Election miner and offchain transactions\<close>

definition MINER_MAX_ITERATIONS :: u32 where "MINER_MAX_ITERATIONS = 10"

text \<open>The 32-bit integer that the first four bytes of the seed encode, the least significant first.\<close>

definition seed_u32 :: "bytes \<Rightarrow> u32" where
  "seed_u32 seed = (\<Sum>i < 4. of_nat (256 ^ i * (if i < length seed then unat (seed ! i) else 0)))"

definition OffchainRandomBalancing :: "bytes \<Rightarrow> (nat \<times> u128) option" where
  "OffchainRandomBalancing random_seed =
     (let iters =
        (if MINER_MAX_ITERATIONS = 0 then 0
         else unat (seed_u32 random_seed mod
                (if MINER_MAX_ITERATIONS = - 1 then MINER_MAX_ITERATIONS else MINER_MAX_ITERATIONS + 1)))
      in Some (iters, 0))"

definition BlockHashCount :: u32 where "BlockHashCount = 2400"

text \<open>\<^verbatim>\<open>u32::checked_next_power_of_two\<close>: the least power of two that is not below \<open>n\<close>.\<close>

definition checked_next_power_of_two :: "u32 \<Rightarrow> u32 option" where
  "checked_next_power_of_two n =
     (case find (\<lambda>k. unat n \<le> 2 ^ k) [0..<32] of None \<Rightarrow> None | Some k \<Rightarrow> Some (2 ^ k))"

definition transaction_period :: u64 where
  "transaction_period =
     ucast (case checked_next_power_of_two BlockHashCount of Some c \<Rightarrow> c div 2 | None \<Rightarrow> (2 :: u32))"

text \<open>
  The signed extensions that carry data are the era, the nonce and the tip. Building and signing
  the payload, the era and the lookup of the address are arguments.
\<close>

record ('c, 'p, 'k, 's, 'a, 'd, 'e) signer =
  sg_mortal :: "u64 \<Rightarrow> u64 \<Rightarrow> 'e"
  sg_payload :: "'c \<Rightarrow> 'e \<times> u32 \<times> u128 \<Rightarrow> 'p option"
  sg_sign :: "'p \<Rightarrow> 'k \<Rightarrow> 's option"
  sg_unlookup :: "'a \<Rightarrow> 'd"

definition create_transaction ::
    "('c, 'p, 'k, 's, 'a, 'd, 'e) signer \<Rightarrow> u32 \<Rightarrow> 'c \<Rightarrow> 'k \<Rightarrow> 'a \<Rightarrow> u32 \<Rightarrow>
       ('c \<times> 'd \<times> 's \<times> 'e \<times> u32 \<times> u128) option" where
  "create_transaction sg block_number call public account nonce =
     (let tip = 0;
          current_block = (if block_number = 0 then 0 else ucast (block_number - 1));
          era = sg_mortal sg transaction_period current_block;
          extra = (era, nonce, tip)
      in case sg_payload sg call extra of
           None \<Rightarrow> None
         | Some raw_payload \<Rightarrow>
             (case sg_sign sg raw_payload public of
                None \<Rightarrow> None
              | Some signature \<Rightarrow> Some (call, sg_unlookup sg account, signature, extra)))"


section \<open>Ethereum calls\<close>

definition convert_transaction :: "'r TransactionV2 \<Rightarrow> ('r, 'c) UncheckedExtrinsic" where
  "convert_transaction transaction = \<lparr>xt_function = Ethereum_transact transaction\<rparr>"

text \<open>Self-contained calls: what the Ethereum pallet answers for its calls is an argument.\<close>

definition is_self_contained :: "('r TransactionV2 \<Rightarrow> bool) \<Rightarrow> ('r, 'c) RuntimeCall \<Rightarrow> bool" where
  "is_self_contained pallet call = (case call of Ethereum_transact t \<Rightarrow> pallet t | Other_call _ \<Rightarrow> False)"

definition check_self_contained ::
    "('r TransactionV2 \<Rightarrow> (string + h160) option) \<Rightarrow> ('r, 'c) RuntimeCall \<Rightarrow> (string + h160) option" where
  "check_self_contained pallet call = (case call of Ethereum_transact t \<Rightarrow> pallet t | Other_call _ \<Rightarrow> None)"

definition validate_self_contained ::
    "('r TransactionV2 \<Rightarrow> h160 \<Rightarrow> (string + 'v) option) \<Rightarrow> ('r, 'c) RuntimeCall \<Rightarrow> h160 \<Rightarrow> (string + 'v) option" where
  "validate_self_contained pallet call info =
     (case call of Ethereum_transact t \<Rightarrow> pallet t info | Other_call _ \<Rightarrow> None)"

definition pre_dispatch_self_contained ::
    "('r TransactionV2 \<Rightarrow> h160 \<Rightarrow> (string + unit) option) \<Rightarrow> ('r, 'c) RuntimeCall \<Rightarrow> h160 \<Rightarrow> (string + unit) option" where
  "pre_dispatch_self_contained pallet call info =
     (case call of Ethereum_transact t \<Rightarrow> pallet t info | Other_call _ \<Rightarrow> None)"

definition apply_self_contained ::
    "(h160 \<Rightarrow> 'r TransactionV2 \<Rightarrow> 'v) \<Rightarrow> ('r, 'c) RuntimeCall \<Rightarrow> h160 \<Rightarrow> 'v option" where
  "apply_self_contained dispatch call info =
     (case call of Ethereum_transact t \<Rightarrow> Some (dispatch info t) | Other_call _ \<Rightarrow> None)"

text \<open>The arguments that the runtime API passes to the runner of the virtual machine.\<close>

record 'g evm_config =
  ec_estimate :: bool
  ec_rest :: 'g

record 'g evm_call =
  ev_from :: h160
  ev_to :: "h160 option"
  ev_data :: bytes
  ev_value :: u256
  ev_gas_limit :: u64
  ev_max_fee_per_gas :: "u256 option"
  ev_max_priority_fee_per_gas :: "u256 option"
  ev_nonce :: "u256 option"
  ev_access_list :: "(h160 \<times> h256 list) list"
  ev_is_transactional :: bool
  ev_config :: "'g evm_config"

definition evm_arguments ::
    "'g evm_config \<Rightarrow> h160 \<Rightarrow> h160 option \<Rightarrow> bytes \<Rightarrow> u256 \<Rightarrow> u256 \<Rightarrow> u256 option \<Rightarrow> u256 option \<Rightarrow> u256 option \<Rightarrow> bool \<Rightarrow>
     (h160 \<times> h256 list) list option \<Rightarrow> 'g evm_call" where
  "evm_arguments config from_addr to_addr data val gas_limit max_fee max_priority_fee nonce estimate access_list =
     (let cfg = (if estimate then Some (config\<lparr>ec_estimate := True\<rparr>) else None) in
      \<lparr>ev_from = from_addr, ev_to = to_addr, ev_data = data, ev_value = val,
       ev_gas_limit = ucast gas_limit, ev_max_fee_per_gas = max_fee,
       ev_max_priority_fee_per_gas = max_priority_fee, ev_nonce = nonce,
       ev_access_list = (case access_list of None \<Rightarrow> [] | Some l \<Rightarrow> l), ev_is_transactional = False,
       ev_config = (case cfg of Some c \<Rightarrow> c | None \<Rightarrow> config)\<rparr>)"

definition api_call ::
    "('g evm_call \<Rightarrow> 'e + 'v) \<Rightarrow> 'g evm_config \<Rightarrow> h160 \<Rightarrow> h160 \<Rightarrow> bytes \<Rightarrow> u256 \<Rightarrow> u256 \<Rightarrow> u256 option \<Rightarrow>
     u256 option \<Rightarrow> u256 option \<Rightarrow> bool \<Rightarrow> (h160 \<times> h256 list) list option \<Rightarrow> 'e + 'v" where
  "api_call runner config from_addr to_addr data val gas_limit max_fee max_priority_fee nonce estimate access_list =
     runner (evm_arguments config from_addr (Some to_addr) data val gas_limit max_fee max_priority_fee nonce
               estimate access_list)"

definition api_create ::
    "('g evm_call \<Rightarrow> 'e + 'v) \<Rightarrow> 'g evm_config \<Rightarrow> h160 \<Rightarrow> bytes \<Rightarrow> u256 \<Rightarrow> u256 \<Rightarrow> u256 option \<Rightarrow>
     u256 option \<Rightarrow> u256 option \<Rightarrow> bool \<Rightarrow> (h160 \<times> h256 list) list option \<Rightarrow> 'e + 'v" where
  "api_create runner config from_addr data val gas_limit max_fee max_priority_fee nonce estimate access_list =
     runner (evm_arguments config from_addr None data val gas_limit max_fee max_priority_fee nonce
               estimate access_list)"


section \<open>Migrations\<close>

text \<open>
  The account that is credited, and the prefix of the map of accounts. The value of an account
  is five 128-bit integers: the counters, and the free, reserved and two frozen balances.
\<close>

definition web3_id :: bytes where
  "web3_id =
     [0xd9, 0x6f, 0xd7, 0x61, 0x3d, 0x51, 0x50, 0x8e, 0xed, 0xc4, 0x0c, 0xc8, 0x48, 0x10, 0x82, 0x90,
      0x17, 0x9f, 0xea, 0x6f, 0xfe, 0x8c, 0xc1, 0xd1, 0xf8, 0x66, 0x31, 0xa1, 0x8e, 0x0a, 0xc5, 0x5f]"

definition account_prefix :: bytes where
  "account_prefix =
     [38, 170, 57, 78, 234, 86, 48, 224, 124, 72, 174, 12, 149, 88, 206, 247,
      185, 157, 136, 14, 198, 129, 121, 156, 12, 243, 14, 136, 134, 55, 29, 169]"

definition web3_key :: "(bytes \<Rightarrow> bytes) \<Rightarrow> bytes" where
  "web3_key blake2_128 = account_prefix @ blake2_128 web3_id @ web3_id"

definition to_credit :: u128 where
  "to_credit = 150000000 * DOLLARS"

type_synonym account_value = "u128 \<times> u128 \<times> u128 \<times> u128 \<times> u128"

definition web3_credit ::
    "(bytes \<Rightarrow> bytes) \<Rightarrow> ('v \<Rightarrow> account_value option) \<Rightarrow> (account_value \<Rightarrow> 'v) \<Rightarrow> (bytes \<rightharpoonup> 'v) \<Rightarrow>
       (u64 \<times> (bytes \<rightharpoonup> 'v)) outcome" where
  "web3_credit blake2_128 decode encode m =
     (let sk = web3_key blake2_128;
          sv = Option.bind (m sk) decode;
          m = m(sk := None);
          m = (case sv of
                 Some (a, b, c, d, e) \<Rightarrow> m(sk \<mapsto> encode (a, b + to_credit, c, d, e))
               | None \<Rightarrow> m(sk \<mapsto> encode (18446744073709551616, to_credit, 0, 0, 0)))
      in case Option.bind (m sk) decode of
           None \<Rightarrow> Inl (Panic ''called `Option::unwrap()` on a `None` value'')
         | Some _ \<Rightarrow> Inr (0, m))"

text \<open>
  \<^verbatim>\<open>AllEdgewareMigrations\<close>: the migrations act on the storage of the chain and return a weight, in this
  order; before some of them the storage version of a pallet is reset. Those of the pallets are
  arguments, the last one is the credit.
\<close>

datatype migrated_pallet = PhragmenElection | Council | Bounties | Tips

type_synonym 'v storage = "bytes \<rightharpoonup> 'v"

type_synonym 'v migration = "'v storage \<Rightarrow> (u64 \<times> 'v storage) outcome"

text \<open>
  The preferences of a validator before the fifth version of staking, and those of the pallet; the
  fields that the old ones lack have their defaults.
\<close>

record OldValidatorPrefs =
  op_commission :: u32

record ValidatorPrefs =
  vp_commission :: u32
  vp_blocked :: bool

definition upgraded :: "ValidatorPrefs \<Rightarrow> OldValidatorPrefs \<Rightarrow> ValidatorPrefs" where
  "upgraded prefs_default p = prefs_default\<lparr>vp_commission := op_commission p\<rparr>"

text \<open>What the migrations call: those of the pallets, and the framework's access to the storage.\<close>

record 'v pallet_migrations =
  pm_put_version_0 :: "migrated_pallet \<Rightarrow> 'v storage \<Rightarrow> 'v storage"
  pm_pallet_version :: "'v migration"
  pm_phragmen_deposit :: "u128 \<Rightarrow> u128 \<Rightarrow> 'v migration"
  pm_prefs_default :: ValidatorPrefs
  pm_translate_validators :: "(OldValidatorPrefs \<Rightarrow> ValidatorPrefs option) \<Rightarrow> 'v storage \<Rightarrow> 'v storage"
  pm_translate_eras_validator_prefs :: "(OldValidatorPrefs \<Rightarrow> ValidatorPrefs option) \<Rightarrow> 'v storage \<Rightarrow> 'v storage"
  pm_put_staking_version :: "16 word \<Rightarrow> 'v storage \<Rightarrow> 'v storage"
  pm_staking_v6 :: "'v migration"
  pm_staking_v7 :: "'v migration"
  pm_staking_v8 :: "'v migration"
  pm_staking_v9 :: "'v migration"
  pm_triple_ref_count :: "'v migration"
  pm_offences_delay :: "'v migration"
  pm_council_prefix :: "string \<Rightarrow> 'v migration"
  pm_bounties_name :: "string option"
  pm_bounties_prefix :: "string \<Rightarrow> string \<Rightarrow> 'v migration"
  pm_tips_prefix :: "string \<Rightarrow> 'v migration"
  pm_scheduler_v3 :: "'v migration"
  pm_contracts :: "'v migration"

text \<open>Migrations one after the other; the weights are added and a panic ends the upgrade.\<close>

fun run_migrations :: "'v migration list \<Rightarrow> 'v migration" where
  "run_migrations [] m = Inr (0, m)"
| "run_migrations (f # fs) m =
     (case f m of
        Inl p \<Rightarrow> Inl p
      | Inr (w, m) \<Rightarrow>
          (case run_migrations fs m of Inl p \<Rightarrow> Inl p | Inr (w', m) \<Rightarrow> Inr (w + w', m)))"

definition staking_v5_migrate :: "'v pallet_migrations \<Rightarrow> 'v migration" where
  "staking_v5_migrate pm m =
     (let m = pm_translate_validators pm (\<lambda>p. Some (upgraded (pm_prefs_default pm) p)) m;
          m = pm_translate_eras_validator_prefs pm (\<lambda>p. Some (upgraded (pm_prefs_default pm) p)) m
      in Inr (0, pm_put_staking_version pm 5 m))"

definition AllStakingMigrations :: "'v pallet_migrations \<Rightarrow> 'v migration" where
  "AllStakingMigrations pm =
     run_migrations [staking_v5_migrate pm, pm_staking_v6 pm, pm_staking_v7 pm, pm_staking_v8 pm, pm_staking_v9 pm]"

definition OLD_CANDIDACY_BOND :: u128 where "OLD_CANDIDACY_BOND = 1000 * DOLLARS"

definition OLD_VOTING_BOND :: u128 where "OLD_VOTING_BOND = 10 * DOLLARS"

definition PhragmenElectionDepositRuntimeUpgrade :: "'v pallet_migrations \<Rightarrow> 'v migration" where
  "PhragmenElectionDepositRuntimeUpgrade pm = pm_phragmen_deposit pm OLD_VOTING_BOND OLD_CANDIDACY_BOND"

definition COUNCIL_OLD_PREFIX :: string where "COUNCIL_OLD_PREFIX = ''Instance1Collective''"

definition CouncilStoragePrefixMigration :: "'v pallet_migrations \<Rightarrow> 'v migration" where
  "CouncilStoragePrefixMigration pm = pm_council_prefix pm COUNCIL_OLD_PREFIX"

definition BOUNTIES_OLD_PREFIX :: string where "BOUNTIES_OLD_PREFIX = ''Treasury''"

definition BountiesPrefixMigration :: "'v pallet_migrations \<Rightarrow> 'v migration" where
  "BountiesPrefixMigration pm m =
     (case pm_bounties_name pm of
        None \<Rightarrow> Inl (Panic ''Bounties is part of runtime, so it has a name; qed'')
      | Some name \<Rightarrow> pm_bounties_prefix pm BOUNTIES_OLD_PREFIX name m)"

definition TIPS_OLD_PREFIX :: string where "TIPS_OLD_PREFIX = ''Treasury''"

definition TipsPalletPrefixMigration :: "'v pallet_migrations \<Rightarrow> 'v migration" where
  "TipsPalletPrefixMigration pm = pm_tips_prefix pm TIPS_OLD_PREFIX"

definition contracts_migration :: "'v pallet_migrations \<Rightarrow> 'v migration" where
  "contracts_migration pm m = (case pm_contracts pm m of Inl p \<Rightarrow> Inl p | Inr (_, m) \<Rightarrow> Inr (0, m))"

definition AllEdgewareMigrations ::
    "(bytes \<Rightarrow> bytes) \<Rightarrow> ('v \<Rightarrow> account_value option) \<Rightarrow> (account_value \<Rightarrow> 'v) \<Rightarrow> 'v pallet_migrations \<Rightarrow> 'v migration" where
  "AllEdgewareMigrations blake2_128 decode encode pm =
     run_migrations
       [pm_pallet_version pm,
        (\<lambda>m. PhragmenElectionDepositRuntimeUpgrade pm (pm_put_version_0 pm PhragmenElection m)),
        AllStakingMigrations pm,
        pm_triple_ref_count pm,
        pm_offences_delay pm,
        (\<lambda>m. CouncilStoragePrefixMigration pm (pm_put_version_0 pm Council m)),
        (\<lambda>m. BountiesPrefixMigration pm (pm_put_version_0 pm Bounties m)),
        (\<lambda>m. TipsPalletPrefixMigration pm (pm_put_version_0 pm Tips m)),
        pm_scheduler_v3 pm,
        contracts_migration pm,
        web3_credit blake2_128 decode encode]"


section \<open>Reference definitions\<close>

text \<open>
  What the distribution of fees relies on: splitting an imbalance in a proportion that is not
  0 to 0 loses nothing and gives the first part its share rounded down, merging adds, an empty
  imbalance is dropped, and a deposit arrives. The last is so for accounts that exist: the
  framework ignores a deposit below the existential deposit to an account that does not. \<open>amount\<close> is the value of an imbalance, \<open>pot\<close> and \<open>balance\<close> those of the treasury and of an account.
\<close>

definition imbalances_ok ::
    "('i, 'a, 'w) imbalances \<Rightarrow> ('i \<Rightarrow> nat) \<Rightarrow> ('w \<Rightarrow> nat) \<Rightarrow> ('w \<Rightarrow> 'a \<Rightarrow> nat) \<Rightarrow> bool" where
  "imbalances_ok im amount pot balance \<longleftrightarrow>
     (\<forall>i x y. x \<noteq> 0 \<or> y \<noteq> 0 \<longrightarrow>
              amount (fst (im_ration im i x y)) = amount i * unat x div (unat x + unat y) \<and>
              amount (fst (im_ration im i x y)) + amount (snd (im_ration im i x y)) = amount i) \<and>
     (\<forall>i x y p. amount (fst (im_ration_merge_into im i x y p)) = amount (fst p) + amount (fst (im_ration im i x y)) \<and>
                amount (snd (im_ration_merge_into im i x y p)) = amount (snd p) + amount (snd (im_ration im i x y))) \<and>
     (\<forall>f i w. im_on_unbalanced im f i w = (if amount i = 0 then Inr w else f i w)) \<and>
     (\<forall>i w. \<exists>w'. im_treasury im i w = Inr w' \<and> pot w' = pot w + amount i \<and> balance w' = balance w \<and>
                 im_author im w' = im_author im w) \<and>
     (\<forall>a i w. pot (im_resolve_creating im a i w) = pot w \<and>
              balance (im_resolve_creating im a i w) = (balance w)(a := balance w a + amount i))"

text \<open>The encoding of an account can be read back.\<close>

definition codec_ok :: "('v \<Rightarrow> 'a option) \<Rightarrow> ('a \<Rightarrow> 'v) \<Rightarrow> bool" where
  "codec_ok decode encode \<longleftrightarrow> (\<forall>a. decode (encode a) = Some a)"

text \<open>The upgrade run \<open>n\<close> times.\<close>

fun upgrades :: "nat \<Rightarrow> 'v migration \<Rightarrow> 'v storage \<Rightarrow> 'v storage outcome" where
  "upgrades 0 f m = Inr m"
| "upgrades (Suc n) f m = (case f m of Inl p \<Rightarrow> Inl p | Inr (_, m) \<Rightarrow> upgrades n f m)"

text \<open>The free balance of the account that is credited, if the account can be read.\<close>

definition web3_free :: "(bytes \<Rightarrow> bytes) \<Rightarrow> ('v \<Rightarrow> account_value option) \<Rightarrow> 'v storage \<Rightarrow> u128 option" where
  "web3_free blake2_128 decode m =
     map_option (\<lambda>(_, free, _, _, _). free) (Option.bind (m (web3_key blake2_128)) decode)"

text \<open>
  What is assumed of the migrations of the framework: none of them panics, the account stays
  readable and none of them moves its free balance. They may change its counters, its reserved and
  frozen balances and everything else.
\<close>

definition adds_free ::
    "(bytes \<Rightarrow> bytes) \<Rightarrow> ('v \<Rightarrow> account_value option) \<Rightarrow> u128 \<Rightarrow> 'v migration \<Rightarrow> bool" where
  "adds_free blake2_128 decode x f \<longleftrightarrow>
     (\<forall>m b. web3_free blake2_128 decode m = Some b \<longrightarrow>
        (\<exists>w m'. f m = Inr (w, m') \<and> web3_free blake2_128 decode m' = Some (b + x)))"

definition migrations_keep_free ::
    "(bytes \<Rightarrow> bytes) \<Rightarrow> ('v \<Rightarrow> account_value option) \<Rightarrow> 'v pallet_migrations \<Rightarrow> bool" where
  "migrations_keep_free blake2_128 decode pm \<longleftrightarrow>
     (let keeps = adds_free blake2_128 decode 0; writes = (\<lambda>g. keeps (\<lambda>m. Inr (0, g m))) in
      (\<forall>p. writes (pm_put_version_0 pm p)) \<and> (\<forall>v. writes (pm_put_staking_version pm v)) \<and>
      (\<forall>f. writes (pm_translate_validators pm f) \<and> writes (pm_translate_eras_validator_prefs pm f)) \<and>
      keeps (pm_pallet_version pm) \<and> (\<forall>x y. keeps (pm_phragmen_deposit pm x y)) \<and>
      keeps (pm_staking_v6 pm) \<and> keeps (pm_staking_v7 pm) \<and> keeps (pm_staking_v8 pm) \<and> keeps (pm_staking_v9 pm) \<and>
      keeps (pm_triple_ref_count pm) \<and> keeps (pm_offences_delay pm) \<and> (\<forall>x. keeps (pm_council_prefix pm x)) \<and>
      pm_bounties_name pm \<noteq> None \<and> (\<forall>x y. keeps (pm_bounties_prefix pm x y)) \<and>
      (\<forall>x. keeps (pm_tips_prefix pm x)) \<and> keeps (pm_scheduler_v3 pm) \<and> keeps (pm_contracts pm))"


section \<open>Lemmas\<close>

lemma web3_credit_known:
  assumes "codec_ok decode encode"
    and "m (web3_key blake2_128) = Some v" "decode v = Some (a, b, c, d, e)"
  shows "web3_credit blake2_128 decode encode m =
           Inr (0, m(web3_key blake2_128 \<mapsto> encode (a, b + to_credit, c, d, e)))"
  using assms by (simp add: web3_credit_def codec_ok_def Let_def)

text \<open>Migrations one after the other add up what they add.\<close>

lemma adds_free_Cons:
  assumes "adds_free blake2_128 decode x f" and "adds_free blake2_128 decode y (run_migrations fs)"
  shows "adds_free blake2_128 decode (x + y) (run_migrations (f # fs))"
  unfolding adds_free_def
proof (intro allI impI)
  fix m b
  assume "web3_free blake2_128 decode m = Some b"
  with assms(1) obtain w m1 where f: "f m = Inr (w, m1)" "web3_free blake2_128 decode m1 = Some (b + x)"
    unfolding adds_free_def by blast
  with assms(2) obtain w' m2 where "run_migrations fs m1 = Inr (w', m2)" "web3_free blake2_128 decode m2 = Some (b + x + y)"
    unfolding adds_free_def by blast
  with f show "\<exists>w m'. run_migrations (f # fs) m = Inr (w, m') \<and> web3_free blake2_128 decode m' = Some (b + (x + y))"
    by (simp add: add.assoc)
qed

lemma adds_free_Nil: "adds_free blake2_128 decode 0 (run_migrations [])"
  by (simp add: adds_free_def)

lemma adds_free_write:
  assumes "adds_free blake2_128 decode 0 (\<lambda>m. Inr (0, g m))" and "adds_free blake2_128 decode x f"
  shows "adds_free blake2_128 decode x (\<lambda>m. f (g m))"
  using assms by (fastforce simp: adds_free_def)

lemma keeps_Cons:
  "adds_free blake2_128 decode 0 f \<Longrightarrow> adds_free blake2_128 decode y (run_migrations fs) \<Longrightarrow>
     adds_free blake2_128 decode y (run_migrations (f # fs))"
  using adds_free_Cons [of blake2_128 decode 0 f y fs] by simp

lemma web3_credit_adds:
  assumes "codec_ok decode encode"
  shows "adds_free blake2_128 decode to_credit (web3_credit blake2_128 decode encode)"
  unfolding adds_free_def
proof (intro allI impI)
  fix m b
  assume "web3_free blake2_128 decode m = Some b"
  then obtain v a c d e where "m (web3_key blake2_128) = Some v" "decode v = Some (a, b, c, d, e)"
    by (auto simp: web3_free_def split: bind_splits)
  from web3_credit_known [of decode encode m blake2_128, OF assms this] assms
  show "\<exists>w m'. web3_credit blake2_128 decode encode m = Inr (w, m') \<and>
      web3_free blake2_128 decode m' = Some (b + to_credit)"
    by (simp add: web3_free_def codec_ok_def)
qed

lemma AllEdgewareMigrations_adds:
  assumes "codec_ok decode encode" and "migrations_keep_free blake2_128 decode pm"
  shows "adds_free blake2_128 decode to_credit (AllEdgewareMigrations blake2_128 decode encode pm)"
proof -
  note pm = assms(2) [unfolded migrations_keep_free_def Let_def]
  obtain name where name: "pm_bounties_name pm = Some name" using pm by auto
  have writes: "adds_free blake2_128 decode 0 (\<lambda>m. Inr (0, pm_put_staking_version pm 5 m))"
    "adds_free blake2_128 decode 0 (\<lambda>m. Inr (0, pm_translate_eras_validator_prefs pm f m))"
    "adds_free blake2_128 decode 0 (\<lambda>m. Inr (0, pm_translate_validators pm f m))"
    "adds_free blake2_128 decode 0 (\<lambda>m. Inr (0, pm_put_version_0 pm p m))" for f p
    using pm by blast+
  have keeps: "adds_free blake2_128 decode 0 (pm_pallet_version pm)"
    "adds_free blake2_128 decode 0 (pm_phragmen_deposit pm x y)"
    "adds_free blake2_128 decode 0 (pm_staking_v6 pm)" "adds_free blake2_128 decode 0 (pm_staking_v7 pm)"
    "adds_free blake2_128 decode 0 (pm_staking_v8 pm)" "adds_free blake2_128 decode 0 (pm_staking_v9 pm)"
    "adds_free blake2_128 decode 0 (pm_triple_ref_count pm)" "adds_free blake2_128 decode 0 (pm_offences_delay pm)"
    "adds_free blake2_128 decode 0 (pm_council_prefix pm s)" "adds_free blake2_128 decode 0 (pm_bounties_prefix pm s t)"
    "adds_free blake2_128 decode 0 (pm_tips_prefix pm s)" "adds_free blake2_128 decode 0 (pm_scheduler_v3 pm)"
    "adds_free blake2_128 decode 0 (pm_contracts pm)" for x y s t
    using pm by blast+
  from adds_free_write [OF writes(3) adds_free_write [OF writes(2,1)]]
  have v5: "adds_free blake2_128 decode 0 (staking_v5_migrate pm)"
    unfolding staking_v5_migrate_def [abs_def] Let_def .
  have staking: "adds_free blake2_128 decode 0 (AllStakingMigrations pm)"
    unfolding AllStakingMigrations_def by (intro keeps_Cons adds_free_Nil v5 keeps)
  have contracts: "adds_free blake2_128 decode 0 (contracts_migration pm)"
    unfolding adds_free_def
  proof (intro allI impI)
    fix m b
    assume "web3_free blake2_128 decode m = Some b"
    with keeps(13) [unfolded adds_free_def] obtain w m'
      where "pm_contracts pm m = Inr (w, m')" "web3_free blake2_128 decode m' = Some (b + 0)" by blast
    then show "\<exists>w m'. contracts_migration pm m = Inr (w, m') \<and> web3_free blake2_128 decode m' = Some (b + 0)"
      by (simp add: contracts_migration_def)
  qed
  have last: "adds_free blake2_128 decode to_credit (run_migrations [web3_credit blake2_128 decode encode])"
    using adds_free_Cons [OF web3_credit_adds [OF assms(1), of blake2_128] adds_free_Nil] by simp
  show ?thesis
    unfolding AllEdgewareMigrations_def PhragmenElectionDepositRuntimeUpgrade_def CouncilStoragePrefixMigration_def
      BountiesPrefixMigration_def TipsPalletPrefixMigration_def name option.case
    by (intro keeps_Cons last keeps staking contracts adds_free_write [OF writes(4)])
qed

lemma upgrades_add:
  assumes "adds_free blake2_128 decode x f" and "web3_free blake2_128 decode m = Some b"
  shows "\<exists>m'. upgrades n f m = Inr m' \<and> web3_free blake2_128 decode m' = Some (b + of_nat n * x)"
  using assms(2)
proof (induction n arbitrary: m b)
  case (Suc n)
  then obtain w m1 where "f m = Inr (w, m1)" "web3_free blake2_128 decode m1 = Some (b + x)"
    using assms(1) unfolding adds_free_def by blast
  with Suc.IH [of m1 "b + x"] show ?case by (auto simp: algebra_simps)
qed simp

lemma fees_shares:
  assumes ok: "imbalances_ok im amount pot balance"
    and sp: "split = (case rest of tips # _ \<Rightarrow> im_ration_merge_into im tips 80 20 (im_ration im fees 80 20)
                                     | [] \<Rightarrow> im_ration im fees 80 20)"
  shows "amount (fst split) =
           amount fees * 80 div 100 + (case rest of tips # _ \<Rightarrow> amount tips * 80 div 100 | [] \<Rightarrow> 0)"
    and "amount (fst split) + amount (snd split) = amount fees + (case rest of tips # _ \<Rightarrow> amount tips | [] \<Rightarrow> 0)"
proof -
  have r: "amount (fst (im_ration im i 80 20)) = amount i * 80 div 100"
      "amount (fst (im_ration im i 80 20)) + amount (snd (im_ration im i 80 20)) = amount i" for i
    using ok [unfolded imbalances_ok_def, THEN conjunct1, THEN spec [of _ i], THEN spec [of _ 80], THEN spec [of _ 20]]
    by simp_all
  have g: "amount (fst (im_ration_merge_into im i 80 20 q)) = amount (fst q) + amount (fst (im_ration im i 80 20))"
      "amount (snd (im_ration_merge_into im i 80 20 q)) = amount (snd q) + amount (snd (im_ration im i 80 20))" for i q
    using ok unfolding imbalances_ok_def by blast+
  show "amount (fst split) =
      amount fees * 80 div 100 + (case rest of tips # _ \<Rightarrow> amount tips * 80 div 100 | [] \<Rightarrow> 0)"
    by (simp add: sp g r split: list.split)
  show "amount (fst split) + amount (snd split) = amount fees + (case rest of tips # _ \<Rightarrow> amount tips | [] \<Rightarrow> 0)"
    using r(2) [of fees] r(2) [of "hd rest"] by (cases rest) (simp_all add: sp g)
qed


section \<open>Properties\<close>

text \<open>
  C29. Fees and tips are paid out in full: the treasury gets four fifths of each, rounded down, and
  the author of the block the rest. When the block has no author, the runtime panics exactly if
  the part of the author is not empty.
\<close>

theorem fees_paid_out:
  assumes ok: "imbalances_ok im amount pot balance"
    and paid: "paid = amount fees + (case rest of tips # _ \<Rightarrow> amount tips | [] \<Rightarrow> 0)"
    and share: "share = amount fees * 80 div 100 + (case rest of tips # _ \<Rightarrow> amount tips * 80 div 100 | [] \<Rightarrow> 0)"
  shows "share \<le> paid \<and>
         (case im_author im w of
            Some a \<Rightarrow> \<exists>w'. on_unbalanceds im (fees # rest) w = Inr w' \<and> pot w' = pot w + share \<and>
                       balance w' = (balance w)(a := balance w a + (paid - share))
          | None \<Rightarrow> (\<exists>p. on_unbalanceds im (fees # rest) w = Inl p) \<longleftrightarrow> share \<noteq> paid)"
proof -
  define split where "split = (case rest of tips # _ \<Rightarrow> im_ration_merge_into im tips 80 20 (im_ration im fees 80 20)
                                     | [] \<Rightarrow> im_ration im fees 80 20)"
  have amounts: "amount (fst split) = share" "share + amount (snd split) = paid"
    using fees_shares [OF ok split_def] by (simp_all add: share paid)
  obtain w1 where w1: "im_treasury im (fst split) w = Inr w1" "pot w1 = pot w + share" "balance w1 = balance w"
      "im_author im w1 = im_author im w"
    using ok amounts(1) unfolding imbalances_ok_def by metis
  have "on_unbalanceds im (fees # rest) w = im_on_unbalanced im (on_nonzero_unbalanced im) (snd split) w1"
    by (simp add: on_unbalanceds_def split_def [symmetric] w1(1) Let_def)
  also have "\<dots> = (if amount (snd split) = 0 then Inr w1 else on_nonzero_unbalanced im (snd split) w1)"
    using ok by (simp add: imbalances_ok_def)
  finally have "on_unbalanceds im (fees # rest) w =
      (if amount (snd split) = 0 then Inr w1 else on_nonzero_unbalanced im (snd split) w1)" .
  moreover have "pot (im_resolve_creating im a (snd split) w1) = pot w1"
      "balance (im_resolve_creating im a (snd split) w1) = (balance w1)(a := balance w1 a + amount (snd split))" for a
    using ok by (simp_all add: imbalances_ok_def)
  ultimately show ?thesis
    using amounts w1 by (auto simp: on_nonzero_unbalanced_def fun_upd_idem split: option.split)
qed


text \<open>Converting transactions into extrinsics and filtering them gives the transactions back.\<close>

lemma map_filter_convert:
  "List.map_filter (\<lambda>xt. ethereum_transaction (xt_function xt)) (map convert_transaction ts) = ts"
  by (induction ts) (simp_all add: map_filter_simps convert_transaction_def)

lemma convert_transaction_filter:
  "extrinsic_filter (map convert_transaction ts) (map convert_transaction us) = \<lparr>tr_ready = ts, tr_future = us\<rparr>"
  by (simp add: extrinsic_filter_def map_filter_convert)

text \<open>The miner balances at most ten times, and a signed transaction is valid for 2048 blocks.\<close>

lemma random_balancing_bound: "\<exists>i \<le> 10. OffchainRandomBalancing seed = Some (i, 0)"
proof -
  have "unat (seed_u32 seed mod 11) < 11"
    by (simp add: unat_mod)
  then show ?thesis
    by (simp add: OffchainRandomBalancing_def MINER_MAX_ITERATIONS_def)
qed

lemma transaction_period_eq: "transaction_period = 2048"
  by code_simp

text \<open>A sample chain: an imbalance is its amount, the state is the treasury and the balances.\<close>

definition sample_imbalances :: "(nat, nat, nat \<times> (nat \<Rightarrow> nat)) imbalances" where
  "sample_imbalances =
     \<lparr>im_ration = (\<lambda>i x y. (i * unat x div (unat x + unat y), i - i * unat x div (unat x + unat y))),
      im_ration_merge_into =
        (\<lambda>i x y p. (fst p + i * unat x div (unat x + unat y), snd p + (i - i * unat x div (unat x + unat y)))),
      im_on_unbalanced = (\<lambda>f i w. if i = 0 then Inr w else f i w),
      im_treasury = (\<lambda>i w. Inr (fst w + i, snd w)),
      im_author = (\<lambda>_. Some 7),
      im_resolve_creating = (\<lambda>a i w. (fst w, (snd w)(a := snd w a + i)))\<rparr>"

lemma sample_imbalances_ok: "imbalances_ok sample_imbalances id fst snd"
proof -
  have "i * x div (x + y) \<le> i" for i x y :: nat
    by (metis div_le_mono div_mult_self_is_m gr0I le_add1 mult_0_right mult_le_mono2 div_by_0 le0)
  then show ?thesis by (auto simp: imbalances_ok_def sample_imbalances_def)
qed

theorem fees_paid_out_witness:
  "\<exists>w'. on_unbalanceds sample_imbalances [101, 10] (0, \<lambda>_. 0) = Inr w' \<and> fst w' = 88 \<and> snd w' 7 = 23"
  using fees_paid_out [OF sample_imbalances_ok, of 111 101 "[10]" 88 "(0, \<lambda>_. 0)"]
  by (auto simp: sample_imbalances_def)

text \<open>Migrations of the framework that have nothing to do, but for one that resets the counters of the account.\<close>

definition sample_migrations :: "account_value pallet_migrations" where
  "sample_migrations =
     (let none = (\<lambda>m. Inr (1, m)) in
      \<lparr>pm_put_version_0 = (\<lambda>_ m. m), pm_pallet_version = none, pm_phragmen_deposit = (\<lambda>_ _. none),
       pm_prefs_default = \<lparr>vp_commission = 0, vp_blocked = False\<rparr>,
       pm_translate_validators = (\<lambda>_ m. m), pm_translate_eras_validator_prefs = (\<lambda>_ m. m),
       pm_put_staking_version = (\<lambda>_ m. m), pm_staking_v6 = none, pm_staking_v7 = none, pm_staking_v8 = none,
       pm_staking_v9 = none,
       pm_triple_ref_count = (\<lambda>m. Inr (1, (\<lambda>k. map_option (\<lambda>(_, v). (0, v)) (m k)))),
       pm_offences_delay = none, pm_council_prefix = (\<lambda>_. none), pm_bounties_name = Some ''Bounties'',
       pm_bounties_prefix = (\<lambda>_ _. none), pm_tips_prefix = (\<lambda>_. none), pm_scheduler_v3 = none, pm_contracts = none\<rparr>)"


end
