(* ===== verification/Chain_Spec.thy ===== *)
theory Chain_Spec
  imports Trace_Filter Treasury_Reward Runtime_Calls
begin

text \<open>
  The chain specifications (\<^verbatim>\<open>node/cli/src/chain_spec.rs\<close>) with the fixtures
  (\<^verbatim>\<open>mainnet_fixtures.rs\<close>, \<^verbatim>\<open>testnet_fixtures.rs\<close>), the choice of a specification (\<^verbatim>\<open>command.rs\<close>) and the kind of a
  network (\<^verbatim>\<open>service.rs\<close>).

  Accounts and public keys are the integers that their 32 bytes denote. The genesis configuration has the fields whose
  value is not the default of the pallet or empty, but for the code of the runtime. Deriving a key from text is an argument, and
  so is what the file with the allocation of the lockdrop is read as; text that cannot be read is a panic.
\<close>

section \<open>Keys\<close>

type_synonym pubkey = int

type_synonym account = int

datatype key_kind = Key_sr25519 | Key_grandpa | Key_aura | Key_im_online | Key_authority_discovery

record SessionKeys =
  sk_grandpa :: pubkey
  sk_aura :: pubkey
  sk_im_online :: pubkey
  sk_authority_discovery :: pubkey

definition session_keys :: "pubkey \<Rightarrow> pubkey \<Rightarrow> pubkey \<Rightarrow> pubkey \<Rightarrow> SessionKeys" where
  "session_keys grandpa aura im_online authority_discovery =
     \<lparr>sk_grandpa = grandpa, sk_aura = aura, sk_im_online = im_online, sk_authority_discovery = authority_discovery\<rparr>"

definition get_from_seed :: "(key_kind \<Rightarrow> string \<Rightarrow> pubkey) \<Rightarrow> key_kind \<Rightarrow> string \<Rightarrow> pubkey" where
  "get_from_seed from_string kind seed = from_string kind (''//'' @ seed)"

definition get_account_id_from_seed :: "(key_kind \<Rightarrow> string \<Rightarrow> pubkey) \<Rightarrow> string \<Rightarrow> account" where
  "get_account_id_from_seed from_string seed = get_from_seed from_string Key_sr25519 seed"

text \<open>Stash, controller, and the keys of Grandpa, Aura, ImOnline and authority discovery.\<close>

type_synonym authority = "account \<times> account \<times> pubkey \<times> pubkey \<times> pubkey \<times> pubkey"

definition get_authority_keys_from_seed :: "(key_kind \<Rightarrow> string \<Rightarrow> pubkey) \<Rightarrow> string \<Rightarrow> authority" where
  "get_authority_keys_from_seed from_string seed =
     (get_account_id_from_seed from_string (seed @ ''//stash''),
      get_account_id_from_seed from_string seed,
      get_from_seed from_string Key_grandpa seed,
      get_from_seed from_string Key_aura seed,
      get_from_seed from_string Key_im_online seed,
      get_from_seed from_string Key_authority_discovery seed)"


section \<open>Genesis configurations\<close>

datatype StakerStatus = Idle | Validator | Nominator "account list"

record evm_account =
  ga_balance :: u256
  ga_nonce :: u256

record GenesisConfigs =
  gn_balances :: "(account \<times> u128) list"
  gn_session_keys :: "(account \<times> account \<times> SessionKeys) list"
  gn_validator_count :: u32
  gn_minimum_validator_count :: u32
  gn_slash_reward_fraction :: u32
  gn_stakers :: "(account \<times> account \<times> u128 \<times> StakerStatus) list"
  gn_council_members :: "account list"
  gn_sudo_key :: "account option"
  gn_vesting :: "(account \<times> u32 \<times> u32 \<times> u128) list"
  gn_evm_accounts :: "(h160, evm_account) btree"
  gn_treasury_reward :: GenesisConfig

text \<open>A \<^verbatim>\<open>Perbill\<close> counts parts of a billion.\<close>

definition from_percent :: "nat \<Rightarrow> u32" where
  "from_percent x = of_nat (min x 100 * 10000000)"

definition push_new :: "'a \<Rightarrow> 'a list \<Rightarrow> 'a list" where
  "push_new x xs = (if x \<in> set xs then xs else xs @ [x])"

text \<open>The accounts that \<^verbatim>\<open>testnet_genesis\<close> endows.\<close>

definition default_endowed :: "(key_kind \<Rightarrow> string \<Rightarrow> pubkey) \<Rightarrow> account list" where
  "default_endowed from_string =
     map (get_account_id_from_seed from_string)
       [''Alice'', ''Bob'', ''Charlie'', ''Dave'', ''Eve'', ''Ferdie'',
        ''Alice//stash'', ''Bob//stash'', ''Charlie//stash'', ''Dave//stash'', ''Eve//stash'', ''Ferdie//stash'']"

definition endow :: "account list \<Rightarrow> account \<Rightarrow> authority list \<Rightarrow> account list" where
  "endow endowed root_key initial_authorities =
     fold (\<lambda>x acc. push_new (fst (snd x)) (push_new (fst x) acc)) initial_authorities (push_new root_key endowed)"

definition STASH :: u128 where
  "STASH = 100000000 * DOLLARS"

definition evm_alice :: "(h160, evm_account) btree" where
  "evm_alice =
     bt_insert 0xd43593c715fdd31c61141abd04a99fd6822c8558
       \<lparr>ga_balance = 0xffffffffffffffffffffffffffffffff, ga_nonce = 0\<rparr>
       (bt_insert 0x19e7e376e7c213b7e7e7e46cc70a5dd086daff2a
          \<lparr>ga_balance = 123456123000000000000000, ga_nonce = 0\<rparr> [])"

definition reward_config :: GenesisConfig where
  "reward_config = \<lparr>gc_minting_interval = 1, gc_current_payout = 95 * DOLLARS\<rparr>"

definition testnet_genesis ::
    "(key_kind \<Rightarrow> string \<Rightarrow> pubkey) \<Rightarrow> authority list \<Rightarrow> account \<Rightarrow> account list option \<Rightarrow> bool \<Rightarrow>
     (account \<times> u128) list \<Rightarrow> (account \<times> u32 \<times> u32 \<times> u128) list \<Rightarrow> (account \<times> u128) list \<Rightarrow> bool \<Rightarrow> GenesisConfigs" where
  "testnet_genesis from_string initial_authorities root_key endowed_accounts enable_println balances vesting
       founder_allocation create_evm_alice =
     (let evm_accounts = (if create_evm_alice then evm_alice else []);
          endowed_accounts = (case endowed_accounts of Some xs \<Rightarrow> xs | None \<Rightarrow> default_endowed from_string);
          endowed_accounts = endow endowed_accounts root_key initial_authorities;
          endowed_balances = map (\<lambda>k. (k, STASH)) endowed_accounts
      in \<lparr>gn_balances = endowed_balances,
          gn_session_keys =
            map (\<lambda>(stash, _, grandpa, aura, im_online, discovery).
                   (stash, stash, session_keys grandpa aura im_online discovery)) initial_authorities,
          gn_validator_count = 7,
          gn_minimum_validator_count = of_nat (length initial_authorities),
          gn_slash_reward_fraction = from_percent 10,
          gn_stakers = map (\<lambda>(stash, controller, _). (stash, controller, STASH, Validator)) initial_authorities,
          gn_council_members = [],
          gn_sudo_key = Some root_key,
          gn_vesting = vesting,
          gn_evm_accounts = evm_accounts,
          gn_treasury_reward = reward_config\<rparr>)"

definition development_config_genesis :: "(key_kind \<Rightarrow> string \<Rightarrow> pubkey) \<Rightarrow> GenesisConfigs" where
  "development_config_genesis from_string =
     testnet_genesis from_string [get_authority_keys_from_seed from_string ''Alice'']
       (get_account_id_from_seed from_string ''Alice'') None True [] [] [] True"

definition multi_development_config_genesis :: "(key_kind \<Rightarrow> string \<Rightarrow> pubkey) \<Rightarrow> GenesisConfigs" where
  "multi_development_config_genesis from_string =
     testnet_genesis from_string
       (map (get_authority_keys_from_seed from_string) [''Alice'', ''Bob'', ''Charlie'', ''Dave'', ''Eve'', ''Ferdie''])
       (get_account_id_from_seed from_string ''Alice'') None True [] [] [] True"

definition local_testnet_genesis :: "(key_kind \<Rightarrow> string \<Rightarrow> pubkey) \<Rightarrow> GenesisConfigs" where
  "local_testnet_genesis from_string =
     testnet_genesis from_string (map (get_authority_keys_from_seed from_string) [''Alice'', ''Bob''])
       (get_account_id_from_seed from_string ''Alice'') None False [] [] [] True"

text \<open>Stash, controller, stake, and the keys of Aura, Grandpa, ImOnline and authority discovery.\<close>

type_synonym mainnet_authority = "account \<times> account \<times> u128 \<times> pubkey \<times> pubkey \<times> pubkey \<times> pubkey"


section \<open>The allocation of the lockdrop\<close>

record Allocation =
  al_balances :: "(string \<times> string) list"
  al_vesting :: "(string \<times> u32 \<times> u32 \<times> string) list"

definition unwrap :: "string + 'a \<Rightarrow> 'a outcome" where
  "unwrap r = (case r of Inl e \<Rightarrow> Inl (Panic e) | Inr x \<Rightarrow> Inr x)"

definition u128_from_str :: "string \<Rightarrow> string + u128" where
  "u128_from_str s =
     (if s = [] then Inl ''Empty''
      else if s = ''+'' \<or> s = ''-'' then Inl ''InvalidDigit''
      else
        (case parse_digits (2 ^ 128) 10 0 (if hd s = CHR ''+'' then tl s else s) of
           Inl e \<Rightarrow> Inl e
         | Inr n \<Rightarrow> Inr (of_nat n)))"

fun traverse :: "('a \<Rightarrow> 'b outcome) \<Rightarrow> 'a list \<Rightarrow> 'b list outcome" where
  "traverse f [] = Inr []"
| "traverse f (x # xs) =
     (case f x of
        Inl p \<Rightarrow> Inl p
      | Inr y \<Rightarrow> (case traverse f xs of Inl p \<Rightarrow> Inl p | Inr ys \<Rightarrow> Inr (y # ys)))"

text \<open>\<open>from_hex\<close> reads an account.\<close>

definition allocation_balances :: "(string \<Rightarrow> string + account) \<Rightarrow> Allocation \<Rightarrow> (account \<times> u128) list outcome" where
  "allocation_balances from_hex al =
     (case traverse (\<lambda>b. case unwrap (u128_from_str (snd b)) of
                           Inl p \<Rightarrow> Inl p
                         | Inr balance \<Rightarrow>
                             (case unwrap (from_hex (fst b)) of Inl p \<Rightarrow> Inl p | Inr a \<Rightarrow> Inr (a, balance)))
             (al_balances al) of
        Inl p \<Rightarrow> Inl p
      | Inr bs \<Rightarrow> Inr (filter (\<lambda>b. snd b > 0) bs))"

definition allocation_vesting :: "(string \<Rightarrow> string + account) \<Rightarrow> Allocation \<Rightarrow> (account \<times> u32 \<times> u32 \<times> u128) list outcome" where
  "allocation_vesting from_hex al =
     (case traverse (\<lambda>(who, start, per, amount). case unwrap (u128_from_str amount) of
                           Inl p \<Rightarrow> Inl p
                         | Inr vesting_balance \<Rightarrow>
                             (case unwrap (from_hex who) of
                                Inl p \<Rightarrow> Inl p
                              | Inr a \<Rightarrow> Inr (a, start, per, vesting_balance)))
             (al_vesting al) of
        Inl p \<Rightarrow> Inl p
      | Inr bs \<Rightarrow> Inr (filter (\<lambda>(_, _, _, v). v > 0) bs))"


section \<open>Mainnet fixtures\<close>

definition COMMONWEALTH_ENDOWMENT :: u128 where "COMMONWEALTH_ENDOWMENT = 75000000000000000000000000"

definition STASH_ENDOWMENT :: u128 where "STASH_ENDOWMENT = 10000000000000000000"

definition CONTROLLER_ENDOWMENT :: u128 where "CONTROLLER_ENDOWMENT = 10000000000000000000"

definition get_commonwealth_allocation :: "(account \<times> u128) list" where
  "get_commonwealth_allocation =
     [(0x14ad3d151938d63a4e02454f034a3158c719ed9de2e233dd0843c2d81ddba53d, 5500000000000000000000000),
      (0x12d490251399a081935bf731184d2bf37d228bc38d3d68a8e3822933bcf23a09, 5500000000000000000000000),
      (0xa87d1f2e04d8e95499f8a6f18214355bcb2fd2c9370ab5c19f379dd9d3167075, 5500000000000000000000000),
      (0x4cb0922d0fb5217553da0da70bd4076812ad2a5cce860524ff7b5e6e3629f962, 3000000000000000000000000),
      (0x78040adec849fff1c66c16ab8ac1534ed27e37a8a1da8aa3239267a883369566, 1500000000000000000000000),
      (0xcc3d67fe87c81b5895ed89cfb1c44cc29c3798bac93368487dfc11364d6e3068, COMMONWEALTH_ENDOWMENT),
      (0xeeb7482b9cce124538b1aeea1a7935d313b9f01cc6192fb4cc6bdf1b0f6b4430, COMMONWEALTH_ENDOWMENT),
      (0x765e19400b3f7d44e5677d24d9914ae8cabb1bf3ef81ebc1ca72ad99d312af46, COMMONWEALTH_ENDOWMENT),
      (0xca91588bb9258ade926d0c0631798d7e3f17c4581fae56283287d54883244a55, CONTROLLER_ENDOWMENT),
      (0x1ec5e3d9a77ac81d6da0290c04d003bbcb04af8c4902bd59dbf9be4dfa47234f, STASH_ENDOWMENT),
      (0xd6fb4a2f0d5dfc62c37a09e6aac5c3ea4ce2ba021f553c940e63d59dadf0cd24, CONTROLLER_ENDOWMENT),
      (0x720967cda4c9097924d705695b62dfb6dc6dbeade65b5575abf5c4ca38e50503, STASH_ENDOWMENT),
      (0x38a58e82baf9df6ec1f9a7064a337f872778649f3dd9002e3fe48df94b475232, CONTROLLER_ENDOWMENT),
      (0xde90c8b070c0a63fbf52655af7492dc8e7d985334a4c60c02bc2f59424ff1430, STASH_ENDOWMENT),
      (0x0e33e22cd22b272f388bcd41f13942d803089106ec350b8754e1d290ee6ff52b, CONTROLLER_ENDOWMENT),
      (0x9665bd715c72b686c2557fe11e6cd54924adef62dc1f52cf43a503f363cf843c, STASH_ENDOWMENT),
      (0x6aa8f0dd6b6221788d68bf2486126fb14bb65ea710028c11f7ca131e0df10707, CONTROLLER_ENDOWMENT),
      (0x464c96a206e310511a27acc92b2e410a14bd83cb8788b522d0cee03f0d285862, STASH_ENDOWMENT),
      (0xae5bfe517affa6f7456ad6b9f7465520059e6d7b2a8928673460461abb741c18, CONTROLLER_ENDOWMENT),
      (0x34c71b1e42e910b94b8cbb2c960873bd4bf0db6e80afdf41cdc52acd91d6393f, STASH_ENDOWMENT),
      (0x6a782c02fd24ed538224f3d0bda56146bc6bacd34f9a784c1b5367e19cda456e, CONTROLLER_ENDOWMENT),
      (0xd02002915139ac3e4552c5006f92cccfbf8b02cb4d4ca1993a69d63368cc1f0c, STASH_ENDOWMENT),
      (0x4864744ab79cd62cbc1094da8e6f54aba8cba7ed6d616bdd8df10572d146c15c, CONTROLLER_ENDOWMENT),
      (0x143f9f9019fa62919ed6da39b8f147cb52501438e1e9e7a82d22d7b49df18e59, STASH_ENDOWMENT),
      (0xa01bef9c8591ae4155f9483eee09db092fb39bdd580e3715e927333e4aa89d6d, CONTROLLER_ENDOWMENT),
      (0x4e7de9c8f3564fe5cc5057de51c41b40a7da801d22c6ee5aa57f8bb2838ae857, STASH_ENDOWMENT),
      (0x00e5a14e08930f94148569274ca1e9355938fabf65fffef3b7cb3c3e3edabb23, CONTROLLER_ENDOWMENT),
      (0xce64070e4dffe61183241dca3e922b65ecd509430a3e283fab5c143532f79d3e, STASH_ENDOWMENT),
      (0xb0492fa7ac84ecb20f9f69e1c328b521fce8f472af2cc13784286d2240e4924c, CONTROLLER_ENDOWMENT),
      (0x58e8d8750021d11f5bf1106966235ed293a4288511016af7f3b2e81a84ead342, 92500000000000000000000000),
      (0x688421b084a363cb394c5e3a7c79f44482bf2f15f6d86ea37ae110a3af238f07, 10000000000000000000000000),
      (0x765169492c492ee29f2af9af46f9e1b117aa0283b73a4361ae12ace1c41a6c72, 150000000000000000000000000),
      (0x6490626e3bde470c449e90b83df92ddb8514f02067a0ddd66f1080b5033dec2d, 1474790000000000000002374),
      (0xec80b8b78a2b283f0a48712c8446241cf5f36d2f480559cdc73253981963f402, 25000000000000000000000)]"

definition STAKED_ENDOWMENT :: u128 where "STAKED_ENDOWMENT = 5000000000000000000"

definition get_cw_mainnet_validators :: "mainnet_authority list" where
  "get_cw_mainnet_validators =
     [(0x1ec5e3d9a77ac81d6da0290c04d003bbcb04af8c4902bd59dbf9be4dfa47234f,
       0xd6fb4a2f0d5dfc62c37a09e6aac5c3ea4ce2ba021f553c940e63d59dadf0cd24, STAKED_ENDOWMENT,
       0x532cdeaeb19afd03eb4a57d4dddad09268fb720478d5386263330f5bf86f1cc4,
       0xae5e4e8c3bbb47737a2b4abe79a71289f60271a94a5eaebf6b200f638fcbe332,
       0x532cdeaeb19afd03eb4a57d4dddad09268fb720478d5386263330f5bf86f1cc4,
       0x5e0755efa5da8b2bb83d2443635268b0be48ba020587fdc3731a5b87b51ff500),
      (0x720967cda4c9097924d705695b62dfb6dc6dbeade65b5575abf5c4ca38e50503,
       0x38a58e82baf9df6ec1f9a7064a337f872778649f3dd9002e3fe48df94b475232, STAKED_ENDOWMENT,
       0x89d7a1fb903a63494696c6d10d76704da7760da7f32dc3b5aa122bfba3f85680,
       0xf272b4cdec7e979dd76c7860f7e9dd8cb1da974d74366a266c4de501b2079896,
       0x89d7a1fb903a63494696c6d10d76704da7760da7f32dc3b5aa122bfba3f85680,
       0xfea24c3e2b57972eead003295fcfc52fb57ffd1bdfedf1dcfb1cd35df11dcc37),
      (0xde90c8b070c0a63fbf52655af7492dc8e7d985334a4c60c02bc2f59424ff1430,
       0x0e33e22cd22b272f388bcd41f13942d803089106ec350b8754e1d290ee6ff52b, STAKED_ENDOWMENT,
       0x98a4f5d4b363447331f54328d83816f773e30799be5979c3d6d9be08f4941799,
       0x8634c736497e74b1cedbecec7efe94bdff2ec899f60c97e003e8123f366e14e3,
       0x98a4f5d4b363447331f54328d83816f773e30799be5979c3d6d9be08f4941799,
       0xbce40bb0b2649d3fa924e050c603dccb5b7468f89924158e9b6d4d048c79dc23),
      (0x9665bd715c72b686c2557fe11e6cd54924adef62dc1f52cf43a503f363cf843c,
       0x6aa8f0dd6b6221788d68bf2486126fb14bb65ea710028c11f7ca131e0df10707, STAKED_ENDOWMENT,
       0x095ca61a04a9bd2fc95b31c1f86b73ef85e1388e75822896b4079cf5bc1c0e14,
       0x98d7399dd06f0192a2eb3096aca6df6f2600634d77b92c926bed92d60c50b75d,
       0x095ca61a04a9bd2fc95b31c1f86b73ef85e1388e75822896b4079cf5bc1c0e14,
       0x8e84ac19afbba97a686f1b20a3288610f76177b3c71cdc1f31df0828ba6acd1c),
      (0x464c96a206e310511a27acc92b2e410a14bd83cb8788b522d0cee03f0d285862,
       0xae5bfe517affa6f7456ad6b9f7465520059e6d7b2a8928673460461abb741c18, STAKED_ENDOWMENT,
       0x76c5e8b1a4656cf7f174662674c61cb3a8fb67cee15d4f9a85f25235653c2a76,
       0x08b8316bbc960b4e3d610724e4f330556356b567fac3a7cb63fe458dbafdf028,
       0x76c5e8b1a4656cf7f174662674c61cb3a8fb67cee15d4f9a85f25235653c2a76,
       0xa69f1ccc84e40afae38d2d2f87b5910b164a8b451a0d70ac51e117f1222ede65),
      (0x34c71b1e42e910b94b8cbb2c960873bd4bf0db6e80afdf41cdc52acd91d6393f,
       0x6a782c02fd24ed538224f3d0bda56146bc6bacd34f9a784c1b5367e19cda456e, STAKED_ENDOWMENT,
       0x82b6147e4e661551609f04168599ed213c21fa194aba3327fb2fd6247a52b5d2,
       0x996b0ef45bd1f90b17ebc5f038cea21ccc1725a2c1daf3a85e774e22e173bb6e,
       0x82b6147e4e661551609f04168599ed213c21fa194aba3327fb2fd6247a52b5d2,
       0xbef61229205f6027e92e70bcd6b01e352c21d795e38dd64cf87335fd214d994b),
      (0xd02002915139ac3e4552c5006f92cccfbf8b02cb4d4ca1993a69d63368cc1f0c,
       0x4864744ab79cd62cbc1094da8e6f54aba8cba7ed6d616bdd8df10572d146c15c, STAKED_ENDOWMENT,
       0x3cf4ee0a14ea22e82a8953d60fc68f80a62d881e0b56c97445b3ea96adc4d31c,
       0x2f9a90f811621556d0dd1bdf324d0154444b34a0501a9f5bd338cf41d94634f9,
       0x3cf4ee0a14ea22e82a8953d60fc68f80a62d881e0b56c97445b3ea96adc4d31c,
       0x4e85c095e94a47dea48c7c6824d3f4818e1c34df1e00fe658d650845c275e13e),
      (0x143f9f9019fa62919ed6da39b8f147cb52501438e1e9e7a82d22d7b49df18e59,
       0xa01bef9c8591ae4155f9483eee09db092fb39bdd580e3715e927333e4aa89d6d, STAKED_ENDOWMENT,
       0x191decd2b0b7e447a2009d0c8f963b118ee7781adada0e217273ac924514b3a8,
       0xa81b12f94160734c3e53ac961a73c796783be50225e4e9b028e8318654f2d876,
       0x191decd2b0b7e447a2009d0c8f963b118ee7781adada0e217273ac924514b3a8,
       0x38fc0932145f659c13d14d4be0215b3a811738bf713c771b980032d66d10d567),
      (0x4e7de9c8f3564fe5cc5057de51c41b40a7da801d22c6ee5aa57f8bb2838ae857,
       0x00e5a14e08930f94148569274ca1e9355938fabf65fffef3b7cb3c3e3edabb23, STAKED_ENDOWMENT,
       0xd76fca327e6b6c91c220acbe0769d16ede7c96578e7743036a784fe3d528d40d,
       0xda5bcd957592d12041bb9777605b3e3aeeac7712c2ba2339a80e33acfc5cf07e,
       0xd76fca327e6b6c91c220acbe0769d16ede7c96578e7743036a784fe3d528d40d,
       0xe04db33479ca34e1ee304db70edf95b37427c2350b14eff984bccc4d07e8876a),
      (0xce64070e4dffe61183241dca3e922b65ecd509430a3e283fab5c143532f79d3e,
       0xb0492fa7ac84ecb20f9f69e1c328b521fce8f472af2cc13784286d2240e4924c, STAKED_ENDOWMENT,
       0x5342c923d5c187f4417862556555ee09475c11141cbc0103272b826e0f8cd0b9,
       0xa7a35e31a1b49a5ced7f4f6ef214da56318e7ca0dfad50274dbcb88456f35621,
       0x5342c923d5c187f4417862556555ee09475c11141cbc0103272b826e0f8cd0b9,
       0x504e8b32ad648f3bfaf186840421b7717af828b77b2d512a30dd6cd62060401e)]"

definition get_mainnet_election_members :: "account list" where
  "get_mainnet_election_members = [0xca91588bb9258ade926d0c0631798d7e3f17c4581fae56283287d54883244a55]"

definition get_mainnet_root_key :: account where
  "get_mainnet_root_key = 0x0000000000000000000000000000000000000000000000000000000000000000"

definition mainnet_genesis ::
    "mainnet_authority list \<Rightarrow> (account \<times> u128) list \<Rightarrow> (account \<times> u128) list \<Rightarrow>
     (account \<times> u32 \<times> u32 \<times> u128) list \<Rightarrow> GenesisConfigs" where
  "mainnet_genesis initial_authorities founder_allocation balances vesting =
     \<lparr>gn_balances = founder_allocation @ balances,
      gn_session_keys =
        map (\<lambda>(stash, _, _, aura, grandpa, im_online, discovery).
               (stash, stash, session_keys grandpa aura im_online discovery)) initial_authorities,
      gn_validator_count = 60,
      gn_minimum_validator_count = of_nat (length initial_authorities),
      gn_slash_reward_fraction = from_percent 10,
      gn_stakers =
        map (\<lambda>(stash, controller, stake, _). (stash, controller, stake, Validator)) initial_authorities,
      gn_council_members = get_mainnet_election_members,
      gn_sudo_key = Some get_mainnet_root_key,
      gn_vesting = vesting,
      gn_evm_accounts = [],
      gn_treasury_reward = reward_config\<rparr>"

definition edgeware_mainnet_config_genesis :: "(string \<Rightarrow> string + account) \<Rightarrow> (string + Allocation) \<Rightarrow> GenesisConfigs outcome" where
  "edgeware_mainnet_config_genesis from_hex lockdrop =
     (case unwrap lockdrop of
        Inl p \<Rightarrow> Inl p
      | Inr allocation \<Rightarrow>
     (case allocation_balances from_hex allocation of
        Inl p \<Rightarrow> Inl p
      | Inr balances \<Rightarrow>
          (case allocation_vesting from_hex allocation of
             Inl p \<Rightarrow> Inl p
           | Inr vesting \<Rightarrow>
               Inr (mainnet_genesis get_cw_mainnet_validators get_commonwealth_allocation balances vesting))))"


section \<open>Testnet fixtures\<close>

text \<open>\<open>from_ss58check\<close> reads an address or a key; every one is unwrapped.\<close>

definition get_testnet_root_key :: "(string \<Rightarrow> string + account) \<Rightarrow> account outcome" where
  "get_testnet_root_key from_ss58check = unwrap (from_ss58check ''5HbAMQtwKrtUwAx3B22MGxBWpyLeWmEDhBuhXfVLwjAzUPpa'')"

definition read_authority ::
    "(string \<Rightarrow> string + int) \<Rightarrow> string \<times> string \<times> string \<times> string \<times> string \<times> string \<Rightarrow> authority outcome" where
  "read_authority from_ss58check =
     (\<lambda>(stash, controller, grandpa, aura, im_online, discovery).
        case traverse (\<lambda>t. unwrap (from_ss58check t)) [stash, controller, grandpa, aura, im_online, discovery] of
          Inl p \<Rightarrow> Inl p
        | Inr ks \<Rightarrow> Inr (ks ! 0, ks ! 1, ks ! 2, ks ! 3, ks ! 4, ks ! 5))"

definition get_beresheet_initial_authorities :: "(string \<Rightarrow> string + int) \<Rightarrow> authority list outcome" where
  "get_beresheet_initial_authorities from_ss58check =
     traverse (read_authority from_ss58check)
     [(''5CMNamTiTYPkkv68w1GLaHPVty8EJWvkg9XMwrWRfTSdHhcU'',
       ''5CMNamTiTYPkkv68w1GLaHPVty8EJWvkg9XMwrWRfTSdHhcU'',
       ''5FURkcLw91AeCj9P3ZDj5isM7RFN3byqEhvT2HcSBoirZWk8'',
       ''5GEpMSrNg5AH1tv7Mw5H7rRx4b2eygkevTL1dysm1ZATymTJ'',
       ''5FbVL6FUBrRYTrETYQuMQffdCYQ6HsDcpK5skgnL6qxKAonZ'',
       ''5HEg7w5eh568aR4ysw7ZdbuEVKLmRtqW7oy23e39qnjhRGsj''),
      (''5CiP172csqtauU3iN4jPFr4bJQvJLpa8DSN1ggPBJaFzjqaG'',
       ''5CiP172csqtauU3iN4jPFr4bJQvJLpa8DSN1ggPBJaFzjqaG'',
       ''5GGtucZrb1ieagbtipYqWckPgSaTpUADbmPFLq1VeaX8m5ce'',
       ''5Fqkra6SSmvRH4vvxaaYaqhYAgekcUJUSVBFPTRz6N7Ka9h4'',
       ''5HQ5K2YCqedhRdxhAzBWvxSgYLjbfBWJWqfcQjcX2QyT21bi'',
       ''5HJyS6p1vUjYubWYjyzb4UzFYPkWiz9ST7EsXME6xE8zAGLA''),
      (''5GmwvToG6Sk6wsHXkmwD2vqnSBvi1FMVpp2LBw5LowbgeZhz'',
       ''5FHPJFLDvaTc3Xo6Zi5Ee4XRnX5QRt5uwrk3i7QrFbM9tMrz'',
       ''5FcSstksh1ENseKBaPAf2s1wggESPWPcBtew4FtDyRJmxfCs'',
       ''5CutFvKrZpbd3SAVHKixrjGTifHgpzRQM79bGj6sPzoLdUV3'',
       ''5ChcbMkL64LEnkCRrTiofpdmTzkSPxuoVkCNHGeYeJyebKyv'',
       ''5E2Ae7Fu3z12Vxkiyh3DUtu9PprDhiFrRYhBDP9AjPbxJzmX''),
      (''5EPBXa8MP8oCZsWjRBquHpaGHLfVTZpGhrcP1UjGzjK8rzTn'',
       ''5GeYerKSvhXDbWHFZrgmSLZ8g6mVqrZKxgVb3ePST1US1eB8'',
       ''5GCCwo4jZ1CC11bZQAvinp6Wzqz6k3tqNzQoj1ZWe8oLWg8y'',
       ''5FLqf8scff7jeRZLZXTct1RFU9gh3MdczeFwSzsEi936jxJE'',
       ''5EkXZTxi7651ARtDxjJJkNGrBy4asWys9KbCp2JDQLePYXGM'',
       ''5Cg1tL4qeMWzLQ4BS7wiy6Sxj7M4HXjHNhXJxkx9ZqPAtZy8'')]"

definition edgeware_testnet_config_genesis ::
    "(key_kind \<Rightarrow> string \<Rightarrow> pubkey) \<Rightarrow> (string \<Rightarrow> string + account) \<Rightarrow> (string \<Rightarrow> string + int) \<Rightarrow>
     (string + Allocation) \<Rightarrow> GenesisConfigs outcome" where
  "edgeware_testnet_config_genesis from_string from_hex from_ss58check lockdrop =
     (case unwrap lockdrop of
        Inl p \<Rightarrow> Inl p
      | Inr allocation \<Rightarrow>
     (case allocation_balances from_hex allocation of
        Inl p \<Rightarrow> Inl p
      | Inr balances \<Rightarrow>
     (case get_beresheet_initial_authorities from_ss58check of
        Inl p \<Rightarrow> Inl p
      | Inr initial_authorities \<Rightarrow>
     (case get_testnet_root_key from_ss58check of
        Inl p \<Rightarrow> Inl p
      | Inr root_key \<Rightarrow>
          Inr (testnet_genesis from_string initial_authorities root_key (Some []) True balances []
                 get_commonwealth_allocation False)))))"


section \<open>Choice of a specification\<close>

datatype spec =
    development_config
  | multi_development_config
  | local_testnet_config
  | edgeware_testnet_config string string
  | edgeware_mainnet_config
  | edgeware_beresheet_v46_fast
  | edgeware_beresheet_v46
  | edgeware_beresheet_official
  | edgeware_mainnet_official
  | from_json_file string

definition load_spec :: "string \<Rightarrow> spec" where
  "load_spec i =
     (if i = ''dev'' then development_config
      else if i = ''multi-dev'' \<or> i = ''multi'' then multi_development_config
      else if i = ''local'' then local_testnet_config
      else if i = ''testnet-conf'' then edgeware_testnet_config ''Beresheet'' ''beresheet_edgeware_testnet''
      else if i = ''mainnet-conf'' then edgeware_mainnet_config
      else if i = ''beresheet-v46-fast'' then edgeware_beresheet_v46_fast
      else if i = ''beresheet-v46'' then edgeware_beresheet_v46
      else if i = ''beresheet'' then edgeware_beresheet_official
      else if i = ''edgeware'' then edgeware_mainnet_official
      else from_json_file i)"

definition is_mainnet :: "string \<Rightarrow> bool" where
  "is_mainnet i \<longleftrightarrow> prefix ''edgeware'' i \<or> prefix ''edg'' i"

definition is_beresheet :: "string \<Rightarrow> bool" where
  "is_beresheet i \<longleftrightarrow> prefix ''beresheet'' i \<or> prefix ''tedg'' i"


section \<open>Lemmas\<close>

lemma set_push_new [simp]: "set (push_new x xs) = insert x (set xs)"
  by (auto simp: push_new_def)

lemma distinct_push_new [simp]: "distinct (push_new x xs) \<longleftrightarrow> distinct xs"
  by (auto simp: push_new_def)

lemma endow_keys:
  "set (endow xs r as) = insert r (set xs) \<union> fst ` set as \<union> (fst \<circ> snd) ` set as"
  "distinct (endow xs r as) \<longleftrightarrow> distinct xs"
proof -
  have "set (fold (\<lambda>x acc. push_new (fst (snd x)) (push_new (fst x) acc)) as ys) =
      set ys \<union> fst ` set as \<union> (fst \<circ> snd) ` set as \<and>
    distinct (fold (\<lambda>x acc. push_new (fst (snd x)) (push_new (fst x) acc)) as ys) = distinct ys" for ys
    by (induction as arbitrary: ys) auto
  then show "set (endow xs r as) = insert r (set xs) \<union> fst ` set as \<union> (fst \<circ> snd) ` set as"
      "distinct (endow xs r as) \<longleftrightarrow> distinct xs"
    by (auto simp: endow_def)
qed

lemma traverse_mem: "traverse f xs = Inr ys \<Longrightarrow> x \<in> set xs \<Longrightarrow> \<exists>y \<in> set ys. f x = Inr y"
  by (induction xs arbitrary: ys) (auto split: sum.splits)

text \<open>
  The genesis of the testnet reads the lockdrop but does not use it: two allocations that can be
  read give the same configuration, with exactly the root key and the accounts of the
  authorities endowed.
\<close>

lemma testnet_ignores_lockdrop:
  assumes "edgeware_testnet_config_genesis from_string from_hex from_ss58check (Inr al) = Inr g"
    and "edgeware_testnet_config_genesis from_string from_hex from_ss58check (Inr al') = Inr g'"
  shows "g = g'"
  using assms by (auto simp: edgeware_testnet_config_genesis_def testnet_genesis_def unwrap_def split: sum.splits)

lemma testnet_endows_authorities:
  assumes "edgeware_testnet_config_genesis from_string from_hex from_ss58check lockdrop = Inr g"
    and "get_beresheet_initial_authorities from_ss58check = Inr auths"
    and "get_testnet_root_key from_ss58check = Inr root_key"
  shows "set (gn_balances g) = (\<lambda>k. (k, STASH)) ` (insert root_key (fst ` set auths \<union> (fst \<circ> snd) ` set auths))"
proof -
  have "gn_balances g = map (\<lambda>k. (k, STASH)) (endow [] root_key auths)"
    using assms by (auto simp: edgeware_testnet_config_genesis_def testnet_genesis_def Let_def split: sum.splits)
  then show ?thesis by (simp add: endow_keys)
qed

text \<open>The account of the founders that also took part in the lockdrop, and its amount there.\<close>

definition repeated_account :: string where
  "repeated_account = ''765169492c492ee29f2af9af46f9e1b117aa0283b73a4361ae12ace1c41a6c72''"

definition repeated_amount :: string where
  "repeated_amount = ''354063408254192269317334954''"

lemma repeated_amount_parsed: "u128_from_str repeated_amount = Inr 354063408254192269317334954"
  by (simp add: u128_from_str_def repeated_amount_def digit_value_def)

text \<open>A sum that does not wrap, accumulated in naturals.\<close>

definition total_balance :: "(account \<times> u128) list \<Rightarrow> nat" where
  "total_balance bs = sum_list (map (unat \<circ> snd) bs)"


section \<open>Properties\<close>

text \<open>
  The mainnet fixtures are consistent: the founders' allocation names no account twice and
  adds up to 500 million units and 2374 of the smallest; there are ten validators with different stashes, the stash and
  the controller of each are endowed, and each stakes less than the balance of its stash, as
  the comment of the fixtures asks.
\<close>

lemma mainnet_fixtures_consistent:
  "distinct (map fst get_commonwealth_allocation) \<and>
   total_balance get_commonwealth_allocation = 500000000 * unat DOLLARS + 2374 \<and>
   length get_cw_mainnet_validators = 10 \<and> distinct (map fst get_cw_mainnet_validators) \<and>
   list_all (\<lambda>(stash, controller, stake, _).
     map_of get_commonwealth_allocation controller = Some CONTROLLER_ENDOWMENT \<and>
     (case map_of get_commonwealth_allocation stash of None \<Rightarrow> False | Some b \<Rightarrow> stake < b))
     get_cw_mainnet_validators"
proof -
  have "total_balance get_commonwealth_allocation = 500000000 * unat DOLLARS + 2374"
    by (simp add: total_balance_def get_commonwealth_allocation_def COMMONWEALTH_ENDOWMENT_def
        STASH_ENDOWMENT_def CONTROLLER_ENDOWMENT_def DOLLARS_def CENTS_def MILLICENTS_def)
  moreover have "distinct (map fst get_commonwealth_allocation)"
    by code_simp
  moreover have "length get_cw_mainnet_validators = 10" "distinct (map fst get_cw_mainnet_validators)"
    by code_simp+
  moreover have "list_all (\<lambda>(stash, controller, stake, _).
     map_of get_commonwealth_allocation controller = Some CONTROLLER_ENDOWMENT \<and>
     (case map_of get_commonwealth_allocation stash of None \<Rightarrow> False | Some b \<Rightarrow> stake < b))
     get_cw_mainnet_validators"
    by code_simp
  ultimately show ?thesis by blast
qed

text \<open>A sample derivation of keys: the number whose digits are the letters.\<close>

definition sample_from_string :: "key_kind \<Rightarrow> string \<Rightarrow> pubkey" where
  "sample_from_string kind t = foldl (\<lambda>n c. 256 * n + of_char c) 0 t"

lemma sample_endowed_distinct: "distinct (default_endowed sample_from_string)"
  by (simp add: default_endowed_def get_account_id_from_seed_def get_from_seed_def sample_from_string_def)

text \<open>
  C22. A genesis of a test network is well formed when the accounts to endow are different: no
  account is endowed twice, the root key and the stash and controller of every authority are
  endowed, every staker is a validator whose stake is exactly the balance of its stash, there
  are session keys for exactly the stakers, and root is the given key.
\<close>

theorem testnet_genesis_wellformed:
  assumes "distinct (case endowed of Some xs \<Rightarrow> xs | None \<Rightarrow> default_endowed from_string)"
    and g: "g = testnet_genesis from_string auths root_key endowed pr bs vesting founders alice"
  shows "distinct (map fst (gn_balances g)) \<and>
         map_of (gn_balances g) root_key = Some STASH \<and>
         list_all (\<lambda>(stash, controller, stake, status).
           map_of (gn_balances g) stash = Some stake \<and> map_of (gn_balances g) controller = Some STASH \<and>
           status = Validator) (gn_stakers g) \<and>
         map fst (gn_session_keys g) = map fst (gn_stakers g) \<and> gn_sudo_key g = Some root_key"
proof -
  define xs where "xs = (case endowed of Some xs \<Rightarrow> xs | None \<Rightarrow> default_endowed from_string)"
  have bal: "gn_balances g = map (\<lambda>k. (k, STASH)) (endow xs root_key auths)"
    by (simp add: g testnet_genesis_def Let_def xs_def)
  have look: "map_of (gn_balances g) k = Some STASH" if "k \<in> set (endow xs root_key auths)" for k
    using that by (simp add: bal map_of_map_restrict [of "\<lambda>_. STASH"])
  have "distinct (map fst (gn_balances g))"
    using assms(1) by (simp add: bal comp_def endow_keys xs_def)
  moreover have "map_of (gn_balances g) root_key = Some STASH"
    by (rule look) (simp add: endow_keys)
  moreover have "list_all (\<lambda>(stash, controller, stake, status).
      map_of (gn_balances g) stash = Some stake \<and> map_of (gn_balances g) controller = Some STASH \<and>
      status = Validator) (gn_stakers g)"
  proof -
    have "map_of (gn_balances g) (fst a) = Some STASH \<and> map_of (gn_balances g) (fst (snd a)) = Some STASH"
      if "a \<in> set auths" for a
      using that by (auto intro!: look simp: endow_keys)
    then show ?thesis
      by (auto simp: g testnet_genesis_def Let_def list_all_iff split_beta)
  qed
  ultimately show ?thesis
    by (auto simp: g testnet_genesis_def Let_def)
qed

theorem testnet_genesis_wellformed_witness:
  "distinct (map fst (gn_balances (development_config_genesis sample_from_string))) \<and>
   gn_sudo_key (development_config_genesis sample_from_string) =
     Some (get_account_id_from_seed sample_from_string ''Alice'')"
  using testnet_genesis_wellformed [of sample_from_string None "development_config_genesis sample_from_string"
      "[get_authority_keys_from_seed sample_from_string ''Alice'']"
      "get_account_id_from_seed sample_from_string ''Alice''" True "[]" "[]" "[]" True] sample_endowed_distinct
  by (simp add: development_config_genesis_def)

text \<open>
  C25. A chain that starts from a genesis configuration of this crate pays the treasury with every
  block: after \<open>m\<close> blocks, none of which panics, its balance has grown by \<open>m\<close> times 95 units,
  as long as it fits.
\<close>

theorem genesis_mints_every_block:
  assumes "deposits deposit_creating free_balance"
    and "g = testnet_genesis from_string auths root_key endowed pr bs vesting founders alice \<or>
         g = mainnet_genesis validators founders bs vesting"
    and "tr_block_number s = 0" and "m < 2 ^ 32"
    and "unat (free_balance (tr_balances s)) + m * (95 * 10 ^ 18) < 2 ^ 128"
  shows "\<exists>s'. finalize_blocks deposit_creating free_balance account_id m
                (genesis_build (gn_treasury_reward g) s) = Inr s' \<and>
              unat (free_balance (tr_balances s')) = unat (free_balance (tr_balances s)) + m * (95 * 10 ^ 18)"
proof -
  have reward: "gn_treasury_reward g = reward_config"
    using assms(2) by (auto simp: testnet_genesis_def mainnet_genesis_def Let_def)
  have payout: "unat (95 * DOLLARS) = 95 * 10 ^ 18"
    by (simp add: DOLLARS_def CENTS_def MILLICENTS_def)
  let ?s = "genesis_build reward_config s"
  have fields: "MintingInterval ?s = 1" "unat (CurrentPayout ?s) = 95 * 10 ^ 18" "tr_block_number ?s = 0"
      "tr_balances ?s = tr_balances s"
    using assms(3) payout by (simp_all add: genesis_build_def reward_config_def)
  show ?thesis
    using finalize_blocks_mint [OF assms(1), of ?s m account_id] assms(4,5)
    by (simp add: reward fields due_def mult.commute)
qed

theorem genesis_mints_every_block_witness:
  "\<exists>s'. finalize_blocks (\<lambda>x b. b + x) id (0 :: nat) 3
          (genesis_build (gn_treasury_reward (development_config_genesis sample_from_string))
             \<lparr>MintingInterval = 0, CurrentPayout = 0, tr_block_number = 0, tr_balances = 5, tr_events = []\<rparr>) = Inr s' \<and>
        unat (id (tr_balances s')) = 5 + 3 * (95 * 10 ^ 18)"
  using genesis_mints_every_block [of "\<lambda>x b. b + x" id "development_config_genesis sample_from_string"
      sample_from_string "[get_authority_keys_from_seed sample_from_string ''Alice'']"
      "get_account_id_from_seed sample_from_string ''Alice''" None True "[]" "[]" "[]" True "[]"
      "\<lparr>MintingInterval = 0, CurrentPayout = 0, tr_block_number = 0, tr_balances = 5, tr_events = []\<rparr>" 3 "0 :: nat"]
  by (simp add: deposits_def development_config_genesis_def)

text \<open>
  C39. The genesis of the mainnet configuration lists an account twice: with the founders, and in
  the allocation of the lockdrop, which is read without comparing it with the founders.
\<close>

theorem mainnet_genesis_repeats_account:
  assumes "edgeware_mainnet_config_genesis from_hex (Inr al) = Inr g"
    and "(repeated_account, repeated_amount) \<in> set (al_balances al)"
    and "from_hex repeated_account = Inr 0x765169492c492ee29f2af9af46f9e1b117aa0283b73a4361ae12ace1c41a6c72"
  shows "\<not> distinct (map fst (gn_balances g))"
proof -
  let ?a = "0x765169492c492ee29f2af9af46f9e1b117aa0283b73a4361ae12ace1c41a6c72 :: account"
  obtain bs where bs: "allocation_balances from_hex al = Inr bs"
      "gn_balances g = get_commonwealth_allocation @ bs"
    using assms(1) by (auto simp: edgeware_mainnet_config_genesis_def mainnet_genesis_def unwrap_def split: sum.splits)
  have "(?a, 354063408254192269317334954) \<in> set bs"
    using bs(1) assms(2,3)
    by (auto simp: allocation_balances_def unwrap_def repeated_amount_parsed split: sum.splits dest!: traverse_mem)
  moreover have "?a \<in> set (map fst get_commonwealth_allocation)"
    by (simp add: get_commonwealth_allocation_def)
  ultimately show ?thesis
    by (force simp: bs(2))
qed

theorem mainnet_genesis_repeats_account_witness:
  "\<not> distinct (map fst (gn_balances
     (mainnet_genesis get_cw_mainnet_validators get_commonwealth_allocation
        [(0x765169492c492ee29f2af9af46f9e1b117aa0283b73a4361ae12ace1c41a6c72, 354063408254192269317334954)] [])))"
  by (rule mainnet_genesis_repeats_account
      [of "\<lambda>_. Inr 0x765169492c492ee29f2af9af46f9e1b117aa0283b73a4361ae12ace1c41a6c72"
          "\<lparr>al_balances = [(repeated_account, repeated_amount)], al_vesting = []\<rparr>"])
    (simp_all add: edgeware_mainnet_config_genesis_def allocation_balances_def allocation_vesting_def unwrap_def
      repeated_amount_parsed)

end
