(* ===== verification/Voter_Bags.thy ===== *)
theory Voter_Bags
  imports Prelude
begin

text \<open>
  The thresholds of the voter bags: the tool that generates them (\<^verbatim>\<open>utils/frame/generate-bags/src/lib.rs\<close>)
  and the generated module of the runtime (\<^verbatim>\<open>node/runtime/src/voter_bags.rs\<close>).

  The tool computes in \<^verbatim>\<open>f64\<close>. A finite double that is not negative is a pair of a mantissa \<open>m\<close> and
  an exponent \<open>k\<close> that stands for \<open>m / 2 ^ k\<close>; every operation rounds its exact result to 53
  significant bits, to the nearest and to even on a tie. The values here stay between 0 and
  \<open>2 ^ 65\<close>, so neither overflow nor underflow of the exponent occurs. Vote weights are integers
  below \<open>2 ^ 64\<close>.

  The conversion of a balance into a vote weight is an argument, and so are the date, the name
  of the runtime and the header file of the generated module. The logarithm and the exponential
  function that \<^verbatim>\<open>constant_ratio\<close> uses are not modelled: the ratio is the one in the module.
\<close>

section \<open>Doubles\<close>

type_synonym f64 = "int \<times> nat"

text \<open>The number of bits beyond 53.\<close>

function excess :: "int \<Rightarrow> nat" where
  "excess m = (if m < 2 ^ 53 then 0 else Suc (excess (m div 2)))"
  by auto
termination by (relation "measure nat") auto

declare excess.simps [simp del]

definition round_even :: "int \<Rightarrow> nat \<Rightarrow> int" where
  "round_even m s =
     (let q = m div 2 ^ s; r = m mod 2 ^ s in
      if 2 * r > 2 ^ s \<or> (2 * r = 2 ^ s \<and> odd q) then q + 1 else q)"

definition f64_fit :: "int \<Rightarrow> nat \<Rightarrow> f64" where
  "f64_fit m k = (let s = excess m in (round_even m s * 2 ^ s, k))"

definition f64_of_u64 :: "int \<Rightarrow> f64" where
  "f64_of_u64 n = f64_fit n 0"

fun f64_mul :: "f64 \<Rightarrow> f64 \<Rightarrow> f64" where
  "f64_mul (a, j) (b, k) = f64_fit (a * b) (j + k)"

fun f64_add :: "f64 \<Rightarrow> f64 \<Rightarrow> f64" where
  "f64_add (a, j) (b, k) = f64_fit (a * 2 ^ k + b * 2 ^ j) (j + k)"

text \<open>\<^verbatim>\<open>f64::round\<close>, half away from zero.\<close>

fun f64_round :: "f64 \<Rightarrow> f64" where
  "f64_round (m, k) = ((2 * m + 2 ^ k) div (2 * 2 ^ k), 0)"

fun f64_less :: "f64 \<Rightarrow> f64 \<Rightarrow> bool" where
  "f64_less (a, j) (b, k) \<longleftrightarrow> a * 2 ^ k < b * 2 ^ j"

definition f64_max :: "f64 \<Rightarrow> f64 \<Rightarrow> f64" where
  "f64_max x y = (if f64_less x y then y else x)"

definition u64_max :: int where
  "u64_max = 2 ^ 64 - 1"

text \<open>A cast truncates and saturates.\<close>

fun f64_to_u64 :: "f64 \<Rightarrow> int" where
  "f64_to_u64 (m, k) = min (m div 2 ^ k) u64_max"


section \<open>The tool\<close>

definition existential_weight :: "(int \<Rightarrow> int \<Rightarrow> int) \<Rightarrow> int \<Rightarrow> int \<Rightarrow> int" where
  "existential_weight to_vote total_issuance minimum_balance = to_vote minimum_balance total_issuance"

definition WEIGHT_LIMIT :: f64 where
  "WEIGHT_LIMIT = f64_of_u64 u64_max"

definition successor :: "f64 \<Rightarrow> int \<Rightarrow> f64" where
  "successor ratio lst =
     f64_max (f64_round (f64_mul (f64_of_u64 lst) ratio)) (f64_add (f64_of_u64 lst) (1, 0))"

function thresholds_loop :: "int \<Rightarrow> f64 \<Rightarrow> nat \<Rightarrow> int list \<Rightarrow> int list" where
  "thresholds_loop weight ratio n_bags ts =
     (if 0 < n_bags \<and> length ts < n_bags - 1
      then
        (let lst = (case vec_last ts of None \<Rightarrow> weight | Some t \<Rightarrow> t);
             succ = successor ratio lst in
         if f64_less succ WEIGHT_LIMIT
         then thresholds_loop weight ratio n_bags (ts @ [f64_to_u64 succ])
         else ts)
      else ts)"
  by auto
termination by (relation "measure (\<lambda>(_, _, n, ts). n - length ts)") auto

declare thresholds_loop.simps [simp del]

definition thresholds :: "int \<Rightarrow> f64 \<Rightarrow> nat \<Rightarrow> int list" where
  "thresholds weight ratio n_bags =
     thresholds_loop weight ratio n_bags (if n_bags > 1 then [weight] else []) @ [u64_max]"


text \<open>
  The module that the tool writes. \<open>underscore\<close> is the format of \<^verbatim>\<open>underscore_formatter\<close>: a separator
  before every third digit from the right. \<open>fixed16\<close> is \<^verbatim>\<open>{:.16}\<close>, exact and rounded half to even.
\<close>

fun group_rev :: "string \<Rightarrow> string" where
  "group_rev (a # b # c # d # ds) = a # b # c # CHR ''_'' # group_rev (d # ds)"
| "group_rev ds = ds"

definition underscore :: "int \<Rightarrow> string" where
  "underscore n = rev (group_rev (rev (decimal (nat n))))"

definition pad_left :: "nat \<Rightarrow> char \<Rightarrow> string \<Rightarrow> string" where
  "pad_left w c s = replicate (w - length s) c @ s"

fun fixed16 :: "f64 \<Rightarrow> string" where
  "fixed16 (m, k) =
     (let q = round_even (m * 10 ^ 16) k in
      decimal (nat (q div 10 ^ 16)) @ ''.'' @ pad_left 16 (CHR ''0'') (decimal (nat (q mod 10 ^ 16))))"

definition threshold_line :: "int \<Rightarrow> string" where
  "threshold_line t = CHR 0x09 # pad_left 26 (CHR '' '') (underscore t) @ '',''"

definition module_lines :: "string \<Rightarrow> string \<Rightarrow> int \<Rightarrow> f64 \<Rightarrow> nat \<Rightarrow> string list" where
  "module_lines now spec_name weight ratio n_bags =
     (let ts = thresholds weight ratio n_bags in
      [[], ''//! Autogenerated bag thresholds.'', ''//!'', ''//! Generated on '' @ now,
       ''//! for the '' @ spec_name @ '' runtime.'',
       [], ''/// Existential weight for this runtime.'', ''#[cfg(any(test, feature = \"std\"))]'',
       ''#[allow(unused)]'', ''pub const EXISTENTIAL_WEIGHT: u64 = '' @ underscore weight @ '';'',
       [], ''/// Constant ratio between bags for this runtime.'', ''#[cfg(any(test, feature = \"std\"))]'',
       ''#[allow(unused)]'', ''pub const CONSTANT_RATIO: f64 = '' @ fixed16 ratio @ '';'',
       [], ''/// Upper thresholds delimiting the bag list.'',
       ''pub const THRESHOLDS: [u64; '' @ decimal (length ts) @ ''] = [''] @
      map threshold_line ts @ [''];''])"

text \<open>The file system calls; a path is text, \<open>'f\<close> the state of the file system.\<close>

record 'f file_system =
  fs_exists :: "string \<Rightarrow> 'f \<Rightarrow> bool"
  fs_parent :: "string \<Rightarrow> string option"
  fs_join :: "string \<Rightarrow> string \<Rightarrow> string"
  fs_create_dir_all :: "string \<Rightarrow> 'f \<Rightarrow> string + 'f"
  fs_copy :: "string \<Rightarrow> string \<Rightarrow> 'f \<Rightarrow> string + 'f"
  fs_append :: "string \<Rightarrow> string \<Rightarrow> 'f \<Rightarrow> string + 'f"
  fs_workdir :: "'f \<Rightarrow> string option"

definition path_to_header_file :: "'f file_system \<Rightarrow> 'f \<Rightarrow> string option" where
  "path_to_header_file fs f =
     (case fs_workdir fs f of
        None \<Rightarrow> None
      | Some workdir \<Rightarrow>
          find (\<lambda>path. fs_exists fs path f)
            (map (fs_join fs workdir) [''HEADER-APACHE2'', ''HEADER-GPL3'', ''HEADER'', ''file_header.txt'']))"

definition generate_thresholds ::
    "'f file_system \<Rightarrow> (int \<Rightarrow> int \<Rightarrow> int) \<Rightarrow> (int \<Rightarrow> nat \<Rightarrow> f64) \<Rightarrow> string \<Rightarrow> string \<Rightarrow> nat \<Rightarrow> string \<Rightarrow> int \<Rightarrow> int \<Rightarrow>
       'f \<Rightarrow> string + 'f" where
  "generate_thresholds fs to_vote constant_ratio now spec_name n_bags output total_issuance minimum_balance f =
     (case (case fs_parent fs output of
              Some parent \<Rightarrow> if \<not> fs_exists fs parent f then fs_create_dir_all fs parent f else Inr f
            | None \<Rightarrow> Inr f) of
        Inl e \<Rightarrow> Inl e
      | Inr f \<Rightarrow>
     (case (case path_to_header_file fs f of
              Some header_path \<Rightarrow> fs_copy fs header_path output f
            | None \<Rightarrow> Inr f) of
        Inl e \<Rightarrow> Inl e
      | Inr f \<Rightarrow>
          (let weight = existential_weight to_vote total_issuance minimum_balance;
               ratio = constant_ratio weight n_bags
           in fs_append fs output
                (concat (map (\<lambda>l. l @ [CHR 0x0A]) (module_lines now spec_name weight ratio n_bags))) f)))"


section \<open>The generated module\<close>

definition EXISTENTIAL_WEIGHT :: int where
  "EXISTENTIAL_WEIGHT = 18446"

text \<open>The double next to the decimal literal, which is between 1 and 2.\<close>

definition CONSTANT_RATIO :: f64 where
  "CONSTANT_RATIO = ((2 * 11895343084878842 * 2 ^ 52 + 10 ^ 16) div (2 * 10 ^ 16), 52)"

definition THRESHOLDS :: "int list" where
  "THRESHOLDS =
    [18446, 21942, 26101, 31048, 36933, 43933, 52260, 62165, 73947, 87962, 104634, 124466, 148057,
     176119, 209500, 249207, 296440, 352626, 419461, 498963, 593534, 706029, 839846, 999026,
     1188376, 1413614, 1681542, 2000252, 2379368, 2830340, 3366787, 4004909, 4763977, 5666914,
     6740989, 8018638, 9538445, 11346308, 13496823, 16054934, 19097895, 22717601, 27023366,
     32145221, 38237843, 45485226, 54106237, 64361225, 76559885, 91070610, 108331615, 128864173,
     153288355, 182341757, 216901776, 258012104, 306914250, 365085030, 434281169, 516592350,
     614504324, 730973976, 869518623, 1034322234, 1230361783, 1463557553, 1740951922, 2070922041,
     2463432818, 2930337854, 3485737413, 4146404243, 4932290104, 5867128298, 6979150403,
     8301938848, 9875441087, 11747175984, 13973668861, 16622158526, 19772627848, 23520219194,
     27978107674, 33280918965, 39588794927, 47092229797, 56017823007, 66635122354, 79264764190,
     94288156458, 112158996991, 133416974926, 158704069009, 188783934983, 224564967554,
     267127733390, 317757603616, 377983571284, 449624426087, 534843680765, 636214907948,
     756799460576, 900238923000, 1070865084745, 1273830758066, 1515265389927, 1802460167782,
     2144088209260, 2550466485339, 3033867386959, 3608889344190, 4292897690450, 5106549085619,
     6074415335321, 7225725445369, 8595248320980, 10224342767779, 12162206504013, 14467361903438,
     17209423337450, 20471199489189, 24351194128290, 28966580868250, 34456741742372,
     40987476461258, 48756009469006, 57996946008343, 68989357064443, 82065207148676,
     97619379436515, 116121601013031, 138130628361542, 164311121489044, 195453716277339,
     232498901233352, 276565419702808, 328984055277841, 391337820698467, 465509763929707,
     553739835130482, 658692531864133, 783537365397135, 932044578122100, 1108699002716354,
     1318835501517405, 1568800076306778, 1866141513925323, 2219839355307693, 2640575072470128,
     3141054642841099, 3736392262494645, 4444566786206049, 5286964678557830, 6289025872908157,
     7481012042792217, 8898920487112374, 10585571227925884, 12591900150560060, 14978497238144946,
     17817436354364432, 21194451832815784, 25211527604728292, 29989977055213672, 35674106617941108,
     42435573746695632, 50478570872062200, 60045991895755160, 71426767447186216, 84964590422813568,
     101068295314557840, 120224204777051824, 143010816292976128, 170116272465353216,
     202359142529610432, 240713142675161344, 286336541716043456, 340607140145005952,
     405163878918425536, 481956334533498176, 573303595120660160, 681964295575472384,
     811219926750796672, 964973934599101056, 1147869602002174464, 1365430273251919360,
     1624226155881144576, 1932072737164011776, 2298266807350686464, 2733867217402556416,
     3252028849950646272, 3868399889208691200, 4601594387164468224, 5473754397277415424,
     6511218651797905408, 7745317976379835392, 9213321463051765760, 10959561975427864576,
     13036774975770695680, 15507691105715548160, 18446744073709551615]"


section \<open>Lemmas\<close>

text \<open>The thresholds after a given one, as many as \<open>j\<close> unless the limit is reached.\<close>

fun successors :: "f64 \<Rightarrow> int \<Rightarrow> nat \<Rightarrow> int list" where
  "successors ratio lst 0 = []"
| "successors ratio lst (Suc j) =
     (let succ = successor ratio lst in
      if f64_less succ WEIGHT_LIMIT then (let t = f64_to_u64 succ in t # successors ratio t j) else [])"

lemma thresholds_loop_successors:
  "length ts + 1 + j = n - 1 \<Longrightarrow> thresholds_loop w ratio n (ts @ [t]) = ts @ t # successors ratio t j"
proof (induction j arbitrary: ts t)
  case 0
  then show ?case by (simp add: thresholds_loop.simps)
next
  case (Suc j)
  let ?t = "f64_to_u64 (successor ratio t)"
  have "thresholds_loop w ratio n ((ts @ [t]) @ [?t]) = (ts @ [t]) @ ?t # successors ratio ?t j"
    using Suc.prems by (intro Suc.IH) simp
  with Suc.prems show ?case
    by (subst thresholds_loop.simps) (auto simp: Let_def)
qed

lemma thresholds_successors:
  "1 < n \<Longrightarrow> thresholds w ratio n = w # successors ratio w (n - 2) @ [u64_max]"
  using thresholds_loop_successors [of "[]" "n - 2" n w ratio w] by (simp add: thresholds_def)

text \<open>The constants, evaluated once.\<close>

lemma excess_code [code]: "excess m = (if m < 9007199254740992 then 0 else Suc (excess (m div 2)))"
  by (subst excess.simps) simp

lemma WEIGHT_LIMIT_eq [code]: "WEIGHT_LIMIT = (18446744073709551616, 0)"
  by code_simp

lemma CONSTANT_RATIO_eq [code]: "CONSTANT_RATIO = (5357186268450456, 52)"
  by code_simp

lemma voter_bags_computed:
  "EXISTENTIAL_WEIGHT # successors CONSTANT_RATIO EXISTENTIAL_WEIGHT 198 @ [u64_max] = THRESHOLDS"
  by code_simp

lemma THRESHOLDS_sorted: "sorted_wrt (<) THRESHOLDS"
proof -
  have "successively (<) THRESHOLDS"
    by code_simp
  then show ?thesis
    by (simp add: successively_conv_sorted_wrt)
qed


section \<open>Properties\<close>

lemma filter_group_rev: "CHR ''_'' \<notin> set ds \<Longrightarrow> filter (\<lambda>c. c \<noteq> CHR ''_'') (group_rev ds) = ds"
  by (induction ds rule: group_rev.induct) auto

lemma length_group_rev: "length (group_rev ds) = length ds + (length ds - 1) div 3"
  by (induction ds rule: group_rev.induct) auto

lemma set_decimal: "set (decimal n) \<subseteq> set ''0123456789''"
proof (induction n rule: decimal.induct)
  case (1 n)
  have "digit_char n \<in> set ''0123456789''"
    unfolding digit_char_def by (rule nth_mem) simp
  with 1 show ?case by (subst decimal.simps) auto
qed

lemma length_decimal: "n < 10 ^ Suc k \<Longrightarrow> length (decimal n) \<le> Suc k"
proof (induction k arbitrary: n)
  case (Suc k)
  then have "n div 10 < 10 ^ Suc k" by auto
  with Suc.IH show ?case by (subst decimal.simps) auto
qed (simp add: decimal.simps)

text \<open>
  C21. The thresholds of the runtime are the ones that the tool generates from the existential
  weight and the ratio of the module with 200 bags: running its floating-point loop gives the
  list of the module, entry by entry. They increase strictly from the existential weight to
  the greatest vote weight.
\<close>

theorem voter_bags_generated:
  "thresholds EXISTENTIAL_WEIGHT CONSTANT_RATIO 200 = THRESHOLDS \<and> length THRESHOLDS = 200 \<and>
   sorted_wrt (<) THRESHOLDS \<and> hd THRESHOLDS = EXISTENTIAL_WEIGHT \<and> last THRESHOLDS = u64_max"
proof -
  have "length THRESHOLDS = 200" by (simp add: THRESHOLDS_def)
  moreover have "hd THRESHOLDS = EXISTENTIAL_WEIGHT" "last THRESHOLDS = u64_max"
    by (simp_all flip: voter_bags_computed)
  ultimately show ?thesis
    using THRESHOLDS_sorted by (simp add: thresholds_successors voter_bags_computed)
qed

text \<open>
  With no bag or one bag the result is the greatest weight alone: one element more than asked
  for, or a first element that is not the existential weight.
\<close>

lemma thresholds_few_bags: "thresholds w ratio 0 = [u64_max] \<and> thresholds w ratio 1 = [u64_max]"
  by (simp add: thresholds_def thresholds_loop.simps)

text \<open>
  A line of the generated array is 26 columns wide between the tab and the comma, for every
  vote weight, and its literal without the separators is the threshold.
\<close>

lemma threshold_line_roundtrip:
  assumes "0 \<le> t" and "t \<le> u64_max"
  shows "length (threshold_line t) = 28 \<and>
         decimal_value (filter (\<lambda>c. c \<noteq> CHR ''_'') (underscore t)) = nat t"
proof -
  have "nat t < 10 ^ Suc 19"
    using assms by (simp add: u64_max_def)
  then have "length (decimal (nat t)) \<le> 20"
    using length_decimal [of "nat t" 19] by simp
  then have "length (underscore t) \<le> 26"
    by (simp add: underscore_def length_group_rev)
  moreover have "CHR ''_'' \<notin> set (rev (decimal (nat t)))"
    using set_decimal [of "nat t"] by auto
  ultimately show ?thesis
    by (simp add: threshold_line_def pad_left_def underscore_def filter_group_rev rev_filter [symmetric]
        decimal_value_decimal)
qed

end
