(* ===== verification/Call_List_Listener.thy ===== *)
theory Call_List_Listener
  imports Tracing_Types
begin

text \<open>
  The call-list listener (\<^verbatim>\<open>client/evm-tracing/src/listeners/call_list.rs\<close>): it keeps a stack of
  open contexts and turns each context that closes into an entry, keyed by the order in which
  the contexts were opened, of the map of the current transaction.

  No operation of the listener panics: counters and gas wrap, as the release profile does.
\<close>


section \<open>State\<close>

datatype TracingVersion = EarlyTransact | LegacyVersion

record CallListContext =
  cc_entries_index :: u32
  cc_context_type :: ContextType
  cc_from :: h160
  cc_trace_address :: "u32 list"
  cc_subtraces :: u32
  cc_value :: u256
  cc_gas :: u64
  cc_start_gas :: "u64 option"
  cc_data :: bytes
  cc_to :: h160

record CallListListener =
  cl_version :: TracingVersion
  cl_transaction_cost :: u64
  cl_entries :: "(u32, BlockscoutCall) btree list"
  cl_entries_next_index :: u32
  cl_context_stack :: "CallListContext list"
  cl_call_type :: "CallType option"
  cl_skip_next_context :: bool
  cl_step_result_entry :: "(u32 \<times> BlockscoutCall) option"
  cl_call_list_first_transaction :: bool
  cl_record_transaction_event_only :: bool

definition cl_default :: CallListListener where
  "cl_default =
     \<lparr>cl_version = LegacyVersion, cl_transaction_cost = 0, cl_entries = [],
      cl_entries_next_index = 0, cl_context_stack = [], cl_call_type = None,
      cl_skip_next_context = False, cl_step_result_entry = None,
      cl_call_list_first_transaction = True, cl_record_transaction_event_only = False\<rparr>"


section \<open>Operations\<close>

definition insert_entry :: "u32 \<Rightarrow> BlockscoutCall \<Rightarrow> CallListListener \<Rightarrow> CallListListener" where
  "insert_entry key entry l =
     (case vec_last (cl_entries l) of
        Some _ \<Rightarrow> l\<lparr>cl_entries := upd_last (bt_insert key entry) (cl_entries l)\<rparr>
      | None \<Rightarrow> l\<lparr>cl_entries := cl_entries l @ [bt_insert key entry []]\<rparr>)"

fun error_message :: "exit_error \<Rightarrow> bytes" where
  "error_message StackUnderflow = bytes_of ''stack underflow''"
| "error_message StackOverflow = bytes_of ''stack overflow''"
| "error_message InvalidJump = bytes_of ''invalid jump''"
| "error_message InvalidRange = bytes_of ''invalid range''"
| "error_message DesignatedInvalid = bytes_of ''designated invalid''"
| "error_message CallTooDeep = bytes_of ''call too deep''"
| "error_message CreateCollision = bytes_of ''create collision''"
| "error_message CreateContractLimit = bytes_of ''create contract limit''"
| "error_message OutOfOffset = bytes_of ''out of offset''"
| "error_message OutOfGas = bytes_of ''out of gas''"
| "error_message OutOfFund = bytes_of ''out of funds''"
| "error_message (Error_other err) = err"
| "error_message (Error_unlisted _) = bytes_of ''unexpected error''"

text \<open>The gas that a context has used; the cost of the transaction goes to the entry with index 0.\<close>

definition context_gas_used :: "CallListContext \<Rightarrow> CallListListener \<Rightarrow> u64" where
  "context_gas_used ctx l =
     (let gas_used = (case cc_start_gas ctx of Some g \<Rightarrow> g | None \<Rightarrow> 0) - cc_gas ctx in
      if cc_entries_index ctx = 0 then gas_used + cl_transaction_cost l else gas_used)"

fun call_result :: "exit_reason \<Rightarrow> bytes \<Rightarrow> CallResult" where
  "call_result (Succeed Returned) return_value = Output return_value"
| "call_result (Succeed _) return_value = Output []"
| "call_result (Error error) return_value = CallResult_Error (error_message error)"
| "call_result (Revert _) return_value = CallResult_Error (bytes_of ''execution reverted'')"
| "call_result (Fatal _) return_value = CallResult_Error []"

fun create_result :: "h160 \<Rightarrow> exit_reason \<Rightarrow> bytes \<Rightarrow> CreateResult" where
  "create_result to (Succeed _) return_value = CreateResult_Success to return_value"
| "create_result to (Error error) return_value = CreateResult_Error (error_message error)"
| "create_result to (Revert _) return_value = CreateResult_Error (bytes_of ''execution reverted'')"
| "create_result to (Fatal _) return_value = CreateResult_Error []"

definition context_entry ::
    "CallListContext \<Rightarrow> u64 \<Rightarrow> BlockscoutCallInner \<Rightarrow> BlockscoutCall" where
  "context_entry ctx gas_used inner =
     \<lparr>bc_from = cc_from ctx, bc_trace_address = cc_trace_address ctx,
      bc_subtraces = cc_subtraces ctx, bc_value = cc_value ctx, bc_gas = ucast (cc_gas ctx),
      bc_gas_used = ucast gas_used, bc_inner = inner\<rparr>"

definition pop_context_to_entry ::
    "exit_reason \<Rightarrow> bytes \<Rightarrow> CallListListener \<Rightarrow>
       (u32 \<times> BlockscoutCall) option \<times> CallListListener" where
  "pop_context_to_entry reason return_value l =
     (case vec_pop (cl_context_stack l) of
        Some (ctx, rest) \<Rightarrow>
          (let gas_used = context_gas_used ctx l in
           (Some (cc_entries_index ctx,
                  case cc_context_type ctx of
                    ContextType_Call call_type \<Rightarrow>
                      context_entry ctx gas_used
                        (Inner_Call call_type (cc_to ctx) (cc_data ctx)
                           (call_result reason return_value))
                  | ContextType_Create \<Rightarrow>
                      context_entry ctx gas_used
                        (Inner_Create (cc_data ctx)
                           (create_result (cc_to ctx) reason return_value))),
            l\<lparr>cl_context_stack := rest\<rparr>))
      | None \<Rightarrow> (None, l))"

definition early_exit :: bytes where
  "early_exit =
     bytes_of ''early exit (out of gas, stack overflow, direct call to precompile, ...)''"

definition data_cost_unpaid :: bytes where
  "data_cost_unpaid =
     bytes_of ''transaction could not pay its own data cost (impossible to gather more info)''"

definition finish_transaction :: "CallListListener \<Rightarrow> CallListListener" where
  "finish_transaction l0 =
     (let context_stack = cl_context_stack l0; l = l0\<lparr>cl_context_stack := []\<rparr> in
      case context_stack of
        ctx # _ \<Rightarrow>
          (let gas_used = context_gas_used ctx l;
               entry =
                 (case cc_context_type ctx of
                    ContextType_Call call_type \<Rightarrow>
                      context_entry ctx gas_used
                        (Inner_Call call_type (cc_to ctx) (cc_data ctx)
                           (CallResult_Error early_exit))
                  | ContextType_Create \<Rightarrow>
                      context_entry ctx gas_used
                        (Inner_Create (cc_data ctx) (CreateResult_Error early_exit))) in
           (insert_entry (cc_entries_index ctx) entry l)
             \<lparr>cl_entries_next_index := cc_entries_index ctx + 1\<rparr>)
      | [] \<Rightarrow>
          if cl_record_transaction_event_only l
          then (insert_entry (cl_entries_next_index l)
                  \<lparr>bc_from = 0, bc_trace_address = [], bc_subtraces = 0, bc_value = 0,
                   bc_gas = 0, bc_gas_used = 0,
                   bc_inner = Inner_Call CallType_Call 0 [] (CallResult_Error data_cost_unpaid)\<rparr>
                  l)
                 \<lparr>cl_entries_next_index := cl_entries_next_index l + 1\<rparr>
          else l)"

text \<open>A snapshot recorded in the innermost open context.\<close>

definition record_snapshot :: "Snapshot \<Rightarrow> CallListContext \<Rightarrow> CallListContext" where
  "record_snapshot s ctx =
     (let ctx' = (if cc_start_gas ctx = None then ctx\<lparr>cc_start_gas := Some (Snapshot_gas s)\<rparr>
                  else ctx) in
      ctx'\<lparr>cc_gas := Snapshot_gas s\<rparr>)"

fun gasometer_event :: "GasometerEvent \<Rightarrow> CallListListener \<Rightarrow> CallListListener" where
  "gasometer_event (RecordCost _ s) l =
     l\<lparr>cl_context_stack := upd_last (record_snapshot s) (cl_context_stack l)\<rparr>"
| "gasometer_event (RecordDynamicCost _ _ _ s) l =
     l\<lparr>cl_context_stack := upd_last (record_snapshot s) (cl_context_stack l)\<rparr>"
| "gasometer_event (RecordStipend _ s) l =
     l\<lparr>cl_context_stack := upd_last (record_snapshot s) (cl_context_stack l)\<rparr>"
| "gasometer_event (RecordTransaction cost _) l =
     l\<lparr>cl_transaction_cost := cost, cl_record_transaction_event_only := True\<rparr>"
| "gasometer_event (RecordRefund _ _) l = l"

fun runtime_event :: "RuntimeEvent \<Rightarrow> CallListListener \<Rightarrow> CallListListener" where
  "runtime_event (StepResult (Inl (Capture_Trap opcode)) _) l =
     (case ContextType_from opcode of
        Some (ContextType_Call call_type) \<Rightarrow> l\<lparr>cl_call_type := Some call_type\<rparr>
      | _ \<Rightarrow> l)"
| "runtime_event (StepResult (Inl (Capture_Exit reason)) return_value) l =
     (case pop_context_to_entry reason return_value l of
        (Some (key, entry), l') \<Rightarrow>
          (case cl_version l' of
             LegacyVersion \<Rightarrow> insert_entry key entry l'
           | EarlyTransact \<Rightarrow> l'\<lparr>cl_step_result_entry := Some (key, entry)\<rparr>)
      | (None, l') \<Rightarrow> l')"
| "runtime_event _ l = l"

text \<open>
  The address of the next child of the innermost context, which counts it; the root has the
  empty address.
\<close>

definition next_trace_address ::
    "CallListListener \<Rightarrow> u32 list \<times> CallListListener" where
  "next_trace_address l =
     (case vec_last (cl_context_stack l) of
        Some ctx \<Rightarrow>
          (cc_trace_address ctx @ [cc_subtraces ctx],
           l\<lparr>cl_context_stack :=
               upd_last (\<lambda>c. c\<lparr>cc_subtraces := cc_subtraces c + 1\<rparr>) (cl_context_stack l)\<rparr>)
      | None \<Rightarrow> ([], l))"

text \<open>
  A new context on the stack takes the next index; \<open>push_transaction\<close> is what the three
  \<^verbatim>\<open>TransactX\<close> arms share.
\<close>

definition push_context ::
    "ContextType \<Rightarrow> h160 \<Rightarrow> u32 list \<Rightarrow> u256 \<Rightarrow> bytes \<Rightarrow> h160 \<Rightarrow> CallListListener \<Rightarrow>
       CallListListener" where
  "push_context ty from_address trace_address val dat to l =
     l\<lparr>cl_context_stack := cl_context_stack l @
         [\<lparr>cc_entries_index = cl_entries_next_index l, cc_context_type = ty,
           cc_from = from_address, cc_trace_address = trace_address, cc_subtraces = 0,
           cc_value = val, cc_gas = 0, cc_start_gas = None, cc_data = dat, cc_to = to\<rparr>],
       cl_entries_next_index := cl_entries_next_index l + 1\<rparr>"

definition push_transaction ::
    "ContextType \<Rightarrow> h160 \<Rightarrow> u256 \<Rightarrow> bytes \<Rightarrow> h160 \<Rightarrow> CallListListener \<Rightarrow> CallListListener" where
  "push_transaction ty from_address val dat to l =
     (push_context ty from_address [] val dat to
        (l\<lparr>cl_record_transaction_event_only := False, cl_version := EarlyTransact\<rparr>))
       \<lparr>cl_skip_next_context := True\<rparr>"

fun evm_event :: "EvmEvent \<Rightarrow> CallListListener \<Rightarrow> CallListListener" where
  "evm_event (Evm_TransactCall clr addr val dat _) l =
     push_transaction (ContextType_Call CallType_Call) clr val dat addr l"
| "evm_event (Evm_TransactCreate clr val init _ addr) l =
     push_transaction ContextType_Create clr val init addr l"
| "evm_event (Evm_TransactCreate2 clr val init _ _ addr) l =
     push_transaction ContextType_Create clr val init addr l"
| "evm_event (Evm_Call code_addr _ inp _ static ctx) l0 =
     (let l = l0\<lparr>cl_record_transaction_event_only := False\<rparr>;
          call_type =
            (case cl_call_type l of
               None \<Rightarrow> if static then StaticCall else CallType_Call
             | Some call_type \<Rightarrow> call_type) in
      if \<not> cl_skip_next_context l
      then (let (trace_address, l1) = next_trace_address l;
                from_address =
                  (case vec_last (cl_context_stack l1) of
                     Some parent_context \<Rightarrow> cc_to parent_context
                   | None \<Rightarrow> cx_caller ctx) in
            push_context (ContextType_Call call_type) from_address trace_address
              (cx_apparent_value ctx) inp code_addr l1)
      else l\<lparr>cl_skip_next_context := False\<rparr>)"
| "evm_event (Evm_Create clr addr _ val init _) l0 =
     (let l = l0\<lparr>cl_record_transaction_event_only := False\<rparr> in
      if \<not> cl_skip_next_context l
      then (let (trace_address, l1) = next_trace_address l in
            push_context ContextType_Create clr trace_address val init addr l1)
      else l\<lparr>cl_skip_next_context := False\<rparr>)"
| "evm_event (Evm_Suicide addr target balance) l0 =
     (let (trace_address, l) = next_trace_address l0 in
      (insert_entry (cl_entries_next_index l)
         \<lparr>bc_from = addr, bc_trace_address = trace_address, bc_subtraces = 0, bc_value = 0,
          bc_gas = 0, bc_gas_used = 0, bc_inner = Inner_SelfDestruct balance target\<rparr> l)
        \<lparr>cl_entries_next_index := cl_entries_next_index l + 1\<rparr>)"
| "evm_event (Evm_Exit reason return_value) l0 =
     (let l = l0\<lparr>cl_record_transaction_event_only := False, cl_step_result_entry := None\<rparr>;
          (entry, l') =
            (case cl_step_result_entry l0 of
               Some e \<Rightarrow> (Some e, l)
             | None \<Rightarrow> pop_context_to_entry reason return_value l) in
      case entry of
        Some (key, entry) \<Rightarrow> insert_entry key entry l'
      | None \<Rightarrow> l')"
| "evm_event (Evm_PrecompileSubcall _ _ _ _ _ _) l = l\<lparr>cl_call_type := Some CallType_Call\<rparr>"

fun cl_event :: "Event \<Rightarrow> CallListListener \<Rightarrow> CallListListener" where
  "cl_event (Gasometer e) l = gasometer_event e l"
| "cl_event (Runtime e) l = runtime_event e l"
| "cl_event (Evm e) l = evm_event e l"
| "cl_event CallListNew l =
     (if \<not> cl_call_list_first_transaction l
      then (let l1 = finish_transaction l;
                l2 = l1\<lparr>cl_skip_next_context := False\<rparr> in
            l2\<lparr>cl_entries := cl_entries l2 @ [[]]\<rparr>)
      else l\<lparr>cl_call_list_first_transaction := False\<rparr>)"

definition cl_step_event_filter :: StepEventFilter where
  "cl_step_event_filter = \<lparr>enable_stack = False, enable_memory = False\<rparr>"


section \<open>Invariant\<close>

text \<open>
  Whatever the events, every map of entries stays in key order, and the address of each open
  context is that of a child of the context below it, unless it is the root of a transaction.
\<close>

definition addressed_below :: "u32 list \<Rightarrow> u32 list \<Rightarrow> bool" where
  "addressed_below a b \<longleftrightarrow> b = [] \<or> butlast b = a"

definition cl_inv :: "CallListListener \<Rightarrow> bool" where
  "cl_inv l \<longleftrightarrow>
     list_all bt_inv (cl_entries l) \<and>
     successively addressed_below (map cc_trace_address (cl_context_stack l))"

lemma cl_inv_insert_entry: "cl_inv l \<Longrightarrow> cl_inv (insert_entry k v l)"
  by (auto simp: cl_inv_def insert_entry_def list_all_upd_last bt_inv_Cons split: option.splits)

lemma successively_butlast: "successively P xs \<Longrightarrow> successively P (butlast xs)"
  by (cases xs rule: rev_cases) (auto simp: successively_append_iff)

lemma cl_inv_pop_context:
  "cl_inv l \<Longrightarrow> pop_context_to_entry r rv l = (e, l') \<Longrightarrow> cl_inv l'"
  by (auto simp: cl_inv_def pop_context_to_entry_def vec_pop_def Let_def map_butlast
      intro: successively_butlast split: if_splits)

lemma cl_inv_push_context:
  assumes "cl_inv l"
    and "addr = [] \<or> cl_context_stack l = [] \<or> butlast addr = cc_trace_address (last (cl_context_stack l))"
  shows "cl_inv (push_context ty fr addr v d t l)"
  using assms
  by (auto simp: cl_inv_def push_context_def successively_append_iff addressed_below_def last_map)

lemma cl_inv_irrelevant [simp]:
  "cl_inv (l\<lparr>cl_version := a\<rparr>) = cl_inv l"
  "cl_inv (l\<lparr>cl_transaction_cost := b\<rparr>) = cl_inv l"
  "cl_inv (l\<lparr>cl_entries_next_index := c\<rparr>) = cl_inv l"
  "cl_inv (l\<lparr>cl_call_type := d\<rparr>) = cl_inv l"
  "cl_inv (l\<lparr>cl_skip_next_context := e\<rparr>) = cl_inv l"
  "cl_inv (l\<lparr>cl_step_result_entry := f\<rparr>) = cl_inv l"
  "cl_inv (l\<lparr>cl_call_list_first_transaction := g\<rparr>) = cl_inv l"
  "cl_inv (l\<lparr>cl_record_transaction_event_only := h\<rparr>) = cl_inv l"
  by (simp_all add: cl_inv_def)

lemma cl_inv_upd_stack:
  "(\<And>c. cc_trace_address (f c) = cc_trace_address c) \<Longrightarrow> cl_inv l \<Longrightarrow>
     cl_inv (l\<lparr>cl_context_stack := upd_last f (cl_context_stack l)\<rparr>)"
  by (simp add: cl_inv_def map_upd_last)

lemma cl_inv_gasometer: "cl_inv l \<Longrightarrow> cl_inv (gasometer_event e l)"
  by (cases e) (simp_all add: cl_inv_upd_stack record_snapshot_def Let_def)

lemma cl_inv_runtime: "cl_inv l \<Longrightarrow> cl_inv (runtime_event e l)"
  by (cases "(e, l)" rule: runtime_event.cases)
    (auto intro: cl_inv_insert_entry cl_inv_pop_context
      split: option.splits ContextType.splits prod.splits TracingVersion.splits)

lemma cl_inv_next_trace_address:
  assumes "next_trace_address l = (addr, l')" and "cl_inv l"
  shows "cl_inv l'"
    and "addr = [] \<or> cl_context_stack l' = [] \<or> butlast addr = cc_trace_address (last (cl_context_stack l'))"
proof -
  show "cl_inv l'"
    using assms by (auto simp: next_trace_address_def cl_inv_upd_stack split: option.splits)
  show "addr = [] \<or> cl_context_stack l' = [] \<or> butlast addr = cc_trace_address (last (cl_context_stack l'))"
    using assms(1) by (cases "cl_context_stack l" rule: rev_cases) (auto simp: next_trace_address_def)
qed

lemma cl_inv_push_transaction: "cl_inv l \<Longrightarrow> cl_inv (push_transaction ty fr v d t l)"
  by (simp add: push_transaction_def cl_inv_push_context)

lemma cl_inv_evm: "cl_inv l \<Longrightarrow> cl_inv (evm_event e l)"
proof (cases e)
  case (Evm_Call code tr inp tgas static ctx)
  assume "cl_inv l"
  with Evm_Call cl_inv_next_trace_address[of "l\<lparr>cl_record_transaction_event_only := False\<rparr>"]
  show ?thesis by (auto simp: Let_def split: prod.splits intro!: cl_inv_push_context)
next
  case (Evm_Create clr addr sch val init tgas)
  assume "cl_inv l"
  with Evm_Create cl_inv_next_trace_address[of "l\<lparr>cl_record_transaction_event_only := False\<rparr>"]
  show ?thesis by (auto simp: Let_def split: prod.splits intro!: cl_inv_push_context)
next
  case (Evm_Suicide addr target balance)
  assume "cl_inv l"
  with Evm_Suicide cl_inv_next_trace_address[of l]
  show ?thesis by (auto simp: Let_def split: prod.splits intro!: cl_inv_insert_entry)
next
  case (Evm_Exit reason rv)
  assume inv: "cl_inv l"
  define l1 where "l1 = l\<lparr>cl_record_transaction_event_only := False, cl_step_result_entry := None\<rparr>"
  have l1: "cl_inv l1" using inv by (simp add: l1_def)
  show ?thesis
    using l1 cl_inv_pop_context[OF l1] Evm_Exit
    by (auto simp: Let_def l1_def[symmetric] cl_inv_insert_entry split: option.splits prod.splits)
qed (simp_all add: cl_inv_push_transaction)

lemma cl_inv_finish: "cl_inv l \<Longrightarrow> cl_inv (finish_transaction l)"
proof -
  assume "cl_inv l"
  then have "cl_inv (l\<lparr>cl_context_stack := []\<rparr>)" by (simp add: cl_inv_def)
  then show ?thesis
    by (auto simp: finish_transaction_def Let_def cl_inv_insert_entry split: list.splits)
qed

lemma cl_inv_event: "cl_inv l \<Longrightarrow> cl_inv (cl_event e l)"
proof (cases e)
  case CallListNew
  assume "cl_inv l"
  then have "cl_inv (finish_transaction l)" by (rule cl_inv_finish)
  with CallListNew \<open>cl_inv l\<close> show ?thesis by (simp add: cl_inv_def Let_def)
qed (simp_all add: cl_inv_gasometer cl_inv_runtime cl_inv_evm)

text \<open>The call-list listener accepts every event.\<close>

interpretation cl_run: event_listener "\<lambda>e l. Inr (cl_event e l)" "\<lambda>_. True" cl_inv
  by unfold_locales (simp add: cl_inv_event)


end
