(* ===== verification/Call_List_Refinement.thy ===== *)
theory Call_List_Refinement
  imports Call_List_Listener
begin

text \<open>
  The call-list listener against an abstract execution. A transaction is a tree of frames;
  \<open>tx_events\<close> is the stream of events that its execution emits (an entering event for each
  frame, the events of its body, a closing event), and \<open>flat_tx\<close> the list of entries that a
  trace of it should have: one for each frame and self-destruct, in the order in which they
  began, with the address of each in the tree. The listener, run on the stream, holds exactly
  that list.
\<close>


section \<open>Executions\<close>

text \<open>
  A call from a contract is announced by the trap of its opcode, a call from a precompile by
  its own event.
\<close>

datatype call_marker =
    Trapped u8 bytes
  | Subcalled h160 "Transfer option" bytes "u64 option" bool Context

datatype entering =
    Entering_call call_marker h160 "Transfer option" bytes "u64 option" bool Context
  | Entering_create u8 bytes h160 h160 CreateScheme u256 bytes "u64 option"

text \<open>
  A frame that ran opcodes ends with the result of its last step, after which the caller may
  record gas; every frame ends with an exit event.
\<close>

datatype leaving = Leaving "(exit_reason \<times> bytes \<times> GasometerEvent list) option" exit_reason bytes

datatype frame = Frame entering "item list" leaving
and item =
    Sub frame
  | Destruct h160 h160 u256
  | Gas GasometerEvent
  | Quiet RuntimeEvent

datatype transact =
    Transact_call h160 h160 u256 bytes u64
  | Transact_create h160 u256 bytes u64 h160
  | Transact_create2 h160 u256 bytes h256 u64 h160

text \<open>
  A transaction: what it asks for, the intrinsic cost, the gas recorded before the first
  frame opens, the opening event unless it failed before, the body and the end.
\<close>

datatype tx =
  Tx transact u64 Snapshot "GasometerEvent list" "EvmEvent option" "item list" leaving


subsection \<open>Events\<close>

fun marker_event :: "call_marker \<Rightarrow> Event" where
  "marker_event (Trapped op rv) =
     Runtime (StepResult (Inl (Capture_Trap (opcodes_string op))) rv)"
| "marker_event (Subcalled code tr inp tgas static ctx) =
     Evm (Evm_PrecompileSubcall code tr inp tgas static ctx)"

fun entering_events :: "entering \<Rightarrow> Event list" where
  "entering_events (Entering_call m code tr inp tgas static ctx) =
     [marker_event m, Evm (Evm_Call code tr inp tgas static ctx)]"
| "entering_events (Entering_create op rv clr addr sch val init tgas) =
     [Runtime (StepResult (Inl (Capture_Trap (opcodes_string op))) rv),
      Evm (Evm_Create clr addr sch val init tgas)]"

fun leaving_events :: "leaving \<Rightarrow> Event list" where
  "leaving_events (Leaving None reason rv) = [Evm (Evm_Exit reason rv)]"
| "leaving_events (Leaving (Some (reason', rv', gs)) reason rv) =
     Runtime (StepResult (Inl (Capture_Exit reason')) rv') # map Gasometer gs @
     [Evm (Evm_Exit reason rv)]"

fun frame_events :: "frame \<Rightarrow> Event list"
  and items_events :: "item list \<Rightarrow> Event list" where
  "frame_events (Frame e body x) = entering_events e @ items_events body @ leaving_events x"
| "items_events [] = []"
| "items_events (Sub f # is) = frame_events f @ items_events is"
| "items_events (Destruct addr target balance # is) =
     Evm (Evm_Suicide addr target balance) # items_events is"
| "items_events (Gas g # is) = Gasometer g # items_events is"
| "items_events (Quiet r # is) = Runtime r # items_events is"

fun transact_event :: "transact \<Rightarrow> EvmEvent" where
  "transact_event (Transact_call clr addr val dat gas_limit) =
     Evm_TransactCall clr addr val dat gas_limit"
| "transact_event (Transact_create clr val init gas_limit addr) =
     Evm_TransactCreate clr val init gas_limit addr"
| "transact_event (Transact_create2 clr val init salt gas_limit addr) =
     Evm_TransactCreate2 clr val init salt gas_limit addr"

fun tx_events :: "tx \<Rightarrow> Event list" where
  "tx_events (Tx t cost s pre opening body x) =
     Evm (transact_event t) # Gasometer (RecordTransaction cost s) # map Gasometer pre @
     (case opening of Some e \<Rightarrow> [Evm e] | None \<Rightarrow> []) @ items_events body @ leaving_events x"

text \<open>A block announces each of its transactions.\<close>

definition block_events :: "tx list \<Rightarrow> Event list" where
  "block_events ts = concat (map (\<lambda>t. CallListNew # tx_events t) ts)"


subsection \<open>Well-formed executions\<close>

text \<open>An opcode that traps without opening a context is executed by the runtime and seen by no one.\<close>

fun quiet :: "RuntimeEvent \<Rightarrow> bool" where
  "quiet (StepResult (Inl (Capture_Trap opcode)) _) = (ContextType_from opcode = None)"
| "quiet (StepResult (Inl (Capture_Exit _)) _) = False"
| "quiet _ = True"

fun frame_gas :: "GasometerEvent \<Rightarrow> bool" where
  "frame_gas (RecordTransaction _ _) = False"
| "frame_gas _ = True"

fun wf_entering :: "entering \<Rightarrow> bool" where
  "wf_entering (Entering_call (Trapped op _) _ _ _ _ _ _) =
     (case opens_context (unat op) of Some (ContextType_Call _) \<Rightarrow> True | _ \<Rightarrow> False)"
| "wf_entering (Entering_call (Subcalled _ _ _ _ _ _) _ _ _ _ _ _) = True"
| "wf_entering (Entering_create op _ _ _ _ _ _ _) = (opens_context (unat op) = Some ContextType_Create)"

fun wf_leaving :: "leaving \<Rightarrow> bool" where
  "wf_leaving (Leaving (Some (_, _, gs)) _ _) = list_all frame_gas gs"
| "wf_leaving (Leaving None _ _) = True"

fun wf_frame :: "frame \<Rightarrow> bool"
  and wf_items :: "item list \<Rightarrow> bool" where
  "wf_frame (Frame e body x) = (wf_entering e \<and> wf_items body \<and> wf_leaving x)"
| "wf_items [] = True"
| "wf_items (Sub f # is) = (wf_frame f \<and> wf_items is)"
| "wf_items (Destruct _ _ _ # is) = wf_items is"
| "wf_items (Gas g # is) = (frame_gas g \<and> wf_items is)"
| "wf_items (Quiet r # is) = (quiet r \<and> wf_items is)"

fun opening_event :: "EvmEvent \<Rightarrow> bool" where
  "opening_event (Evm_Call _ _ _ _ _ _) = True"
| "opening_event (Evm_Create _ _ _ _ _ _) = True"
| "opening_event _ = False"

fun wf_tx :: "tx \<Rightarrow> bool" where
  "wf_tx (Tx t cost s pre opening body x) =
     (list_all frame_gas pre \<and> wf_items body \<and> wf_leaving x \<and>
      (case opening of Some e \<Rightarrow> opening_event e | None \<Rightarrow> body = []))"


subsection \<open>Reference trace\<close>

text \<open>The frames and self-destructs of a tree, and the direct children of a body.\<close>

fun frame_nodes :: "frame \<Rightarrow> nat"
  and items_nodes :: "item list \<Rightarrow> nat" where
  "frame_nodes (Frame _ body _) = Suc (items_nodes body)"
| "items_nodes [] = 0"
| "items_nodes (Sub f # is) = frame_nodes f + items_nodes is"
| "items_nodes (Destruct _ _ _ # is) = Suc (items_nodes is)"
| "items_nodes (Gas _ # is) = items_nodes is"
| "items_nodes (Quiet _ # is) = items_nodes is"

fun children :: "item list \<Rightarrow> nat" where
  "children [] = 0"
| "children (Sub _ # is) = Suc (children is)"
| "children (Destruct _ _ _ # is) = Suc (children is)"
| "children (_ # is) = children is"

text \<open>The gas left after each charge that a frame sees.\<close>

fun left_gas :: "frame \<Rightarrow> GasometerEvent list" where
  "left_gas (Frame _ _ (Leaving (Some (_, _, gs)) _ _)) = gs"
| "left_gas (Frame _ _ (Leaving None _ _)) = []"

fun seen_gas :: "item list \<Rightarrow> GasometerEvent list" where
  "seen_gas [] = []"
| "seen_gas (Sub f # is) = left_gas f @ seen_gas is"
| "seen_gas (Gas g # is) = g # seen_gas is"
| "seen_gas (_ # is) = seen_gas is"

fun reading :: "GasometerEvent \<Rightarrow> u64 option" where
  "reading (RecordCost _ s) = Some (Snapshot_gas s)"
| "reading (RecordDynamicCost _ _ _ s) = Some (Snapshot_gas s)"
| "reading (RecordStipend _ s) = Some (Snapshot_gas s)"
| "reading _ = None"

definition readings :: "GasometerEvent list \<Rightarrow> u64 list" where
  "readings gs = List.map_filter reading gs"

definition first_reading :: "GasometerEvent list \<Rightarrow> u64" where
  "first_reading gs = (if readings gs = [] then 0 else hd (readings gs))"

definition last_reading :: "GasometerEvent list \<Rightarrow> u64" where
  "last_reading gs = (if readings gs = [] then 0 else last (readings gs))"

text \<open>How a frame ended: by its last step if it ran one, else by the exit event.\<close>

fun outcome_of :: "leaving \<Rightarrow> exit_reason \<times> bytes" where
  "outcome_of (Leaving (Some (reason, rv, _)) _ _) = (reason, rv)"
| "outcome_of (Leaving None reason rv) = (reason, rv)"

fun marker_type :: "call_marker \<Rightarrow> CallType" where
  "marker_type (Trapped op _) =
     (case opens_context (unat op) of Some (ContextType_Call ct) \<Rightarrow> ct | _ \<Rightarrow> CallType_Call)"
| "marker_type (Subcalled _ _ _ _ _ _) = CallType_Call"

fun frame_to :: "entering \<Rightarrow> h160" where
  "frame_to (Entering_call _ code _ _ _ _ _) = code"
| "frame_to (Entering_create _ _ _ addr _ _ _ _) = addr"

fun frame_from :: "h160 \<Rightarrow> entering \<Rightarrow> h160" where
  "frame_from parent (Entering_call _ _ _ _ _ _ _) = parent"
| "frame_from parent (Entering_create _ _ clr _ _ _ _ _) = clr"

fun frame_value :: "entering \<Rightarrow> u256" where
  "frame_value (Entering_call _ _ _ _ _ _ ctx) = cx_apparent_value ctx"
| "frame_value (Entering_create _ _ _ _ _ val _ _) = val"

fun frame_inner :: "entering \<Rightarrow> leaving \<Rightarrow> BlockscoutCallInner" where
  "frame_inner (Entering_call m code _ inp _ _ _) x =
     Inner_Call (marker_type m) code inp (case outcome_of x of (r, rv) \<Rightarrow> call_result r rv)"
| "frame_inner (Entering_create _ _ _ addr _ _ init _) x =
     Inner_Create init (case outcome_of x of (r, rv) \<Rightarrow> create_result addr r rv)"

fun tx_from :: "transact \<Rightarrow> h160" where
  "tx_from (Transact_call clr _ _ _ _) = clr"
| "tx_from (Transact_create clr _ _ _ _) = clr"
| "tx_from (Transact_create2 clr _ _ _ _ _) = clr"

fun tx_to :: "transact \<Rightarrow> h160" where
  "tx_to (Transact_call _ addr _ _ _) = addr"
| "tx_to (Transact_create _ _ _ _ addr) = addr"
| "tx_to (Transact_create2 _ _ _ _ _ addr) = addr"

fun tx_value :: "transact \<Rightarrow> u256" where
  "tx_value (Transact_call _ _ val _ _) = val"
| "tx_value (Transact_create _ val _ _ _) = val"
| "tx_value (Transact_create2 _ val _ _ _ _) = val"

fun tx_inner :: "transact \<Rightarrow> leaving \<Rightarrow> BlockscoutCallInner" where
  "tx_inner (Transact_call _ addr _ dat _) x =
     Inner_Call CallType_Call addr dat (case outcome_of x of (r, rv) \<Rightarrow> call_result r rv)"
| "tx_inner (Transact_create _ _ init _ addr) x =
     Inner_Create init (case outcome_of x of (r, rv) \<Rightarrow> create_result addr r rv)"
| "tx_inner (Transact_create2 _ _ init _ _ addr) x =
     Inner_Create init (case outcome_of x of (r, rv) \<Rightarrow> create_result addr r rv)"

text \<open>
  The entry of a frame: \<open>gs\<close> is the gas it saw, \<open>n\<close> the number of its children. The cost of the
  transaction is part of the entry with index 0.
\<close>

definition entry_of ::
    "u64 \<Rightarrow> u32 \<Rightarrow> u32 list \<Rightarrow> h160 \<Rightarrow> u256 \<Rightarrow> GasometerEvent list \<Rightarrow> nat \<Rightarrow> BlockscoutCallInner \<Rightarrow>
       BlockscoutCall" where
  "entry_of cost i addr from_address val gs n inner =
     \<lparr>bc_from = from_address, bc_trace_address = addr, bc_subtraces = of_nat n, bc_value = val,
      bc_gas = ucast (last_reading gs),
      bc_gas_used =
        ucast (first_reading gs - last_reading gs + (if i = 0 then cost else 0)),
      bc_inner = inner\<rparr>"

definition destruct_entry :: "u32 list \<Rightarrow> h160 \<Rightarrow> h160 \<Rightarrow> u256 \<Rightarrow> BlockscoutCall" where
  "destruct_entry trace_address addr target balance =
     \<lparr>bc_from = addr, bc_trace_address = trace_address, bc_subtraces = 0, bc_value = 0,
      bc_gas = 0, bc_gas_used = 0, bc_inner = Inner_SelfDestruct balance target\<rparr>"

definition frame_entry ::
    "u64 \<Rightarrow> h160 \<Rightarrow> u32 list \<Rightarrow> u32 \<Rightarrow> entering \<Rightarrow> item list \<Rightarrow> leaving \<Rightarrow> BlockscoutCall" where
  "frame_entry cost parent addr i e body x =
     entry_of cost i addr (frame_from parent e) (frame_value e) (seen_gas body) (children body)
       (frame_inner e x)"

fun flat_frame :: "u64 \<Rightarrow> h160 \<Rightarrow> u32 list \<Rightarrow> u32 \<Rightarrow> frame \<Rightarrow> (u32 \<times> BlockscoutCall) list"
  and flat_items ::
    "u64 \<Rightarrow> h160 \<Rightarrow> u32 list \<Rightarrow> nat \<Rightarrow> u32 \<Rightarrow> item list \<Rightarrow> (u32 \<times> BlockscoutCall) list" where
  "flat_frame cost parent addr i (Frame e body x) =
     (i, frame_entry cost parent addr i e body x) #
     flat_items cost (frame_to e) addr 0 (i + 1) body"
| "flat_items cost self addr n i [] = []"
| "flat_items cost self addr n i (Sub f # is) =
     flat_frame cost self (addr @ [of_nat n]) i f @
     flat_items cost self addr (Suc n) (i + of_nat (frame_nodes f)) is"
| "flat_items cost self addr n i (Destruct a t b # is) =
     (i, destruct_entry (addr @ [of_nat n]) a t b) #
     flat_items cost self addr (Suc n) (i + 1) is"
| "flat_items cost self addr n i (Gas _ # is) = flat_items cost self addr n i is"
| "flat_items cost self addr n i (Quiet _ # is) = flat_items cost self addr n i is"

fun tx_nodes :: "tx \<Rightarrow> nat" where
  "tx_nodes (Tx _ _ _ _ _ body _) = Suc (items_nodes body)"

fun tx_cost :: "tx \<Rightarrow> u64" where
  "tx_cost (Tx _ cost _ _ _ _ _) = cost"

fun flat_tx :: "u32 \<Rightarrow> tx \<Rightarrow> (u32 \<times> BlockscoutCall) list" where
  "flat_tx i (Tx t cost s pre opening body x) =
     (i, entry_of cost i [] (tx_from t) (tx_value t) (pre @ seen_gas body) (children body)
           (tx_inner t x)) #
     flat_items cost (tx_to t) [] 0 (i + 1) body"

text \<open>The traces of a block: the indices run on from one transaction to the next.\<close>

fun flat_block :: "u32 \<Rightarrow> tx list \<Rightarrow> (u32 \<times> BlockscoutCall) list list" where
  "flat_block i [] = []"
| "flat_block i (t # ts) = flat_tx i t # flat_block (i + of_nat (tx_nodes t)) ts"


section \<open>Vocabulary of the proofs\<close>

text \<open>The entries in the order in which the listener inserts them: when a frame closes.\<close>

fun post_frame :: "u64 \<Rightarrow> h160 \<Rightarrow> u32 list \<Rightarrow> u32 \<Rightarrow> frame \<Rightarrow> (u32 \<times> BlockscoutCall) list"
  and post_items ::
    "u64 \<Rightarrow> h160 \<Rightarrow> u32 list \<Rightarrow> nat \<Rightarrow> u32 \<Rightarrow> item list \<Rightarrow> (u32 \<times> BlockscoutCall) list" where
  "post_frame cost parent addr i (Frame e body x) =
     post_items cost (frame_to e) addr 0 (i + 1) body @
     [(i, frame_entry cost parent addr i e body x)]"
| "post_items cost self addr n i [] = []"
| "post_items cost self addr n i (Sub f # is) =
     post_frame cost self (addr @ [of_nat n]) i f @
     post_items cost self addr (Suc n) (i + of_nat (frame_nodes f)) is"
| "post_items cost self addr n i (Destruct a t b # is) =
     (i, destruct_entry (addr @ [of_nat n]) a t b) #
     post_items cost self addr (Suc n) (i + 1) is"
| "post_items cost self addr n i (Gas _ # is) = post_items cost self addr n i is"
| "post_items cost self addr n i (Quiet _ # is) = post_items cost self addr n i is"

text \<open>An insertion into the map of the current transaction, and the effect of a charge.\<close>

definition ins_last :: "'k::linorder \<times> 'v \<Rightarrow> ('k, 'v) btree list \<Rightarrow> ('k, 'v) btree list" where
  "ins_last e es =
     (if es = [] then [[e]] else upd_last (bt_insert (fst e) (snd e)) es)"

fun see :: "GasometerEvent \<Rightarrow> CallListContext \<Rightarrow> CallListContext" where
  "see (RecordCost _ s) = record_snapshot s"
| "see (RecordDynamicCost _ _ _ s) = record_snapshot s"
| "see (RecordStipend _ s) = record_snapshot s"
| "see (RecordRefund _ _) = (\<lambda>c. c)"
| "see (RecordTransaction _ _) = (\<lambda>c. c)"

text \<open>The entry that a context gives when it closes.\<close>

definition closing_entry :: "u64 \<Rightarrow> CallListContext \<Rightarrow> exit_reason \<times> bytes \<Rightarrow> BlockscoutCall" where
  "closing_entry cost c out =
     \<lparr>bc_from = cc_from c, bc_trace_address = cc_trace_address c,
      bc_subtraces = cc_subtraces c, bc_value = cc_value c, bc_gas = ucast (cc_gas c),
      bc_gas_used =
        ucast ((case cc_start_gas c of Some g \<Rightarrow> g | None \<Rightarrow> 0) - cc_gas c
               + (if cc_entries_index c = 0 then cost else 0)),
      bc_inner =
        (case cc_context_type c of
           ContextType_Call ct \<Rightarrow>
             Inner_Call ct (cc_to c) (cc_data c) (call_result (fst out) (snd out))
         | ContextType_Create \<Rightarrow>
             Inner_Create (cc_data c) (create_result (cc_to c) (fst out) (snd out)))\<rparr>"

fun leaving_gas :: "leaving \<Rightarrow> GasometerEvent list" where
  "leaving_gas (Leaving (Some (_, _, gs)) _ _) = gs"
| "leaving_gas (Leaving None _ _) = []"

fun entering_type :: "entering \<Rightarrow> ContextType" where
  "entering_type (Entering_call m _ _ _ _ _ _) = ContextType_Call (marker_type m)"
| "entering_type (Entering_create _ _ _ _ _ _ _ _) = ContextType_Create"

fun entering_data :: "entering \<Rightarrow> bytes" where
  "entering_data (Entering_call _ _ _ inp _ _ _) = inp"
| "entering_data (Entering_create _ _ _ _ _ _ init _) = init"

definition entered :: "h160 \<Rightarrow> u32 list \<Rightarrow> u32 \<Rightarrow> entering \<Rightarrow> CallListContext" where
  "entered parent addr i e =
     \<lparr>cc_entries_index = i, cc_context_type = entering_type e, cc_from = frame_from parent e,
      cc_trace_address = addr, cc_subtraces = 0, cc_value = frame_value e, cc_gas = 0,
      cc_start_gas = None, cc_data = entering_data e, cc_to = frame_to e\<rparr>"

definition opened :: "CallListListener \<Rightarrow> bool" where
  "opened l \<longleftrightarrow> cl_version l = EarlyTransact \<and> \<not> cl_skip_next_context l \<and> cl_step_result_entry l = None"

definition tracked :: "CallListListener \<Rightarrow> CallListContext list \<Rightarrow> CallListContext \<Rightarrow> nat \<Rightarrow> (u32 \<times> BlockscoutCall) list \<Rightarrow> CallType option \<Rightarrow> bool \<Rightarrow> CallListListener" where
  "tracked l stk c k es ct r =
     l\<lparr>cl_context_stack := stk @ [c],
       cl_entries_next_index := cl_entries_next_index l + of_nat k,
       cl_entries := fold ins_last es (cl_entries l),
       cl_call_type := ct, cl_record_transaction_event_only := r\<rparr>"

text \<open>The indices that a tree of \<open>n\<close> nodes takes from \<open>i\<close> on.\<close>

fun idx_range :: "u32 \<Rightarrow> nat \<Rightarrow> u32 list" where
  "idx_range i 0 = []"
| "idx_range i (Suc n) = i # idx_range (i + 1) n"

fun post_tx :: "u32 \<Rightarrow> tx \<Rightarrow> (u32 \<times> BlockscoutCall) list" where
  "post_tx i (Tx t cost s pre opening body x) =
     post_items cost (tx_to t) [] 0 (i + 1) body @
     [(i, entry_of cost i [] (tx_from t) (tx_value t) (pre @ seen_gas body) (children body)
           (tx_inner t x))]"

fun root_type :: "transact \<Rightarrow> ContextType" where
  "root_type (Transact_call _ _ _ _ _) = ContextType_Call CallType_Call"
| "root_type _ = ContextType_Create"

fun root_data :: "transact \<Rightarrow> bytes" where
  "root_data (Transact_call _ _ _ dat _) = dat"
| "root_data (Transact_create _ _ init _ _) = init"
| "root_data (Transact_create2 _ _ init _ _ _) = init"

definition root_context :: "u32 \<Rightarrow> transact \<Rightarrow> CallListContext" where
  "root_context i t =
     \<lparr>cc_entries_index = i, cc_context_type = root_type t, cc_from = tx_from t,
      cc_trace_address = [], cc_subtraces = 0, cc_value = tx_value t, cc_gas = 0,
      cc_start_gas = None, cc_data = root_data t, cc_to = tx_to t\<rparr>"

definition idle :: "CallListListener \<Rightarrow> bool" where
  "idle l \<longleftrightarrow> cl_context_stack l = [] \<and> cl_step_result_entry l = None"

definition traced :: "CallListListener \<Rightarrow> tx \<Rightarrow> CallType option \<Rightarrow> bool \<Rightarrow> CallListListener" where
  "traced l t ct skip =
     l\<lparr>cl_version := EarlyTransact, cl_transaction_cost := tx_cost t,
       cl_entries := fold ins_last (post_tx (cl_entries_next_index l) t) (cl_entries l),
       cl_entries_next_index := cl_entries_next_index l + of_nat (tx_nodes t),
       cl_context_stack := [], cl_call_type := ct, cl_skip_next_context := skip,
       cl_record_transaction_event_only := False\<rparr>"

text \<open>The gas that the root frame of a transaction saw being used.\<close>

fun root_gas_used :: "tx \<Rightarrow> u64" where
  "root_gas_used (Tx _ _ _ pre _ body _) =
     first_reading (pre @ seen_gas body) - last_reading (pre @ seen_gas body)"

text \<open>
  A small execution: a call that charges gas, calls a contract that destroys itself, and
  creates another one that reverts.
\<close>

definition sample_snapshot :: "u64 \<Rightarrow> Snapshot" where
  "sample_snapshot g =
     \<lparr>sn_gas_limit = g, sn_memory_gas = 0, sn_used_gas = 0, sn_refunded_gas = 0\<rparr>"

definition sample_context :: Context where
  "sample_context = \<lparr>cx_address = 2, cx_caller = 1, cx_apparent_value = 7\<rparr>"

definition sample_tx :: tx where
  "sample_tx =
     Tx (Transact_call 1 2 7 [] 100000) 21000 (sample_snapshot 79000)
       [RecordCost 3 (sample_snapshot 78997)]
       (Some (Evm_Call 2 None [] None False sample_context))
       [Sub (Frame (Entering_call (Trapped 250 []) 3 None [1] None True sample_context)
               [Destruct 3 4 9] (Leaving None (Succeed Returned) [42])),
        Quiet (SLoad 2 0 0),
        Sub (Frame (Entering_create 240 [] 2 5 (Legacy 2) 0 [2] None)
               [Gas (RecordCost 5 (sample_snapshot 500))]
               (Leaving (Some (Revert 0, [], [RecordCost 1 (sample_snapshot 400)])) (Revert 0) []))]
       (Leaving (Some (Succeed Returned, [8], [])) (Succeed Returned) [8])"


section \<open>Lemmas\<close>

named_theorems cl_simps \<open>effect of the listener's operations\<close>

lemma insert_entry_eq [cl_simps]:
  "insert_entry k v l = l\<lparr>cl_entries := ins_last (k, v) (cl_entries l)\<rparr>"
  by (simp add: insert_entry_def ins_last_def vec_last_def)

lemma pop_context_eq [cl_simps]:
  "cl_context_stack l = stk @ [c] \<Longrightarrow>
     pop_context_to_entry r rv l =
       (Some (cc_entries_index c, closing_entry (cl_transaction_cost l) c (r, rv)),
        l\<lparr>cl_context_stack := stk\<rparr>)"
  by (simp add: pop_context_to_entry_def closing_entry_def context_entry_def
      context_gas_used_def Let_def split: ContextType.splits)

lemma gasometer_event_see:
  "frame_gas g \<Longrightarrow> gasometer_event g l = l\<lparr>cl_context_stack := upd_last (see g) (cl_context_stack l)\<rparr>"
  by (cases g) (simp_all add: upd_last_id)

lemma run_gas [cl_simps]:
  "list_all frame_gas gs \<Longrightarrow>
     fold cl_event (map Gasometer gs) l =
       l\<lparr>cl_context_stack := upd_last (fold see gs) (cl_context_stack l)\<rparr>"
proof (induction gs arbitrary: l)
  case Nil
  show ?case by (simp add: upd_last_id)
next
  case (Cons g gs)
  then show ?case by (simp add: gasometer_event_see comp_def)
qed

lemma run_leaving:
  assumes "cl_context_stack l = stk @ [c]" and "cl_version l = EarlyTransact"
    and "cl_step_result_entry l = None" and "wf_leaving x"
  shows "fold cl_event (leaving_events x) l =
           l\<lparr>cl_context_stack := upd_last (fold see (leaving_gas x)) stk,
             cl_entries :=
               ins_last (cc_entries_index c, closing_entry (cl_transaction_cost l) c (outcome_of x))
                 (cl_entries l),
             cl_record_transaction_event_only := False\<rparr>"
  using assms
proof (cases x rule: leaving_events.cases)
  case (1 reason rv)
  with assms show ?thesis by (simp add: cl_simps upd_last_id)
next
  case (2 reason' rv' gs reason rv)
  with assms show ?thesis by (simp add: cl_simps)
qed

lemma run_marker:
  "wf_entering (Entering_call m c t inp tg st ctx) \<Longrightarrow>
     cl_event (marker_event m) l = l\<lparr>cl_call_type := Some (marker_type m)\<rparr>"
  by (cases m) (auto simp: ContextType_from_opcode split: option.splits ContextType.splits)

lemma run_entering:
  assumes "cl_context_stack l = stk @ [p]" and "\<not> cl_skip_next_context l" and "wf_entering e"
  shows "\<exists>ct. fold cl_event (entering_events e) l =
           l\<lparr>cl_context_stack :=
               stk @ [p\<lparr>cc_subtraces := cc_subtraces p + 1\<rparr>,
                      entered (cc_to p) (cc_trace_address p @ [cc_subtraces p])
                        (cl_entries_next_index l) e],
             cl_entries_next_index := cl_entries_next_index l + 1,
             cl_call_type := ct,
             cl_record_transaction_event_only := False\<rparr>"
proof (cases e)
  case (Entering_call m code tr inp tgas static ctx)
  with assms show ?thesis
    using run_marker[of m code tr inp tgas static ctx l]
    by (intro exI[of _ "Some (marker_type m)"])
      (simp add: entered_def push_context_def next_trace_address_def)
next
  case (Entering_create op rv clr addr sch val init tgas)
  with assms show ?thesis
    by (intro exI[of _ "cl_call_type l"])
      (simp add: ContextType_from_opcode entered_def push_context_def next_trace_address_def)
qed

lemma see_subtraces [simp]: "cc_subtraces (see g c) = cc_subtraces c"
  by (cases g) (simp_all add: record_snapshot_def Let_def)

lemma fold_see:
  "fold see gs c =
     (case readings gs of
        [] \<Rightarrow> c
      | g # gs' \<Rightarrow>
          c\<lparr>cc_start_gas := (case cc_start_gas c of None \<Rightarrow> Some g | Some s \<Rightarrow> Some s),
            cc_gas := last (g # gs')\<rparr>)"
proof (induction gs arbitrary: c)
  case Nil
  show ?case by (simp add: readings_def map_filter_def)
next
  case (Cons g gs)
  have "see g c = (case reading g of None \<Rightarrow> c
          | Some r \<Rightarrow> c\<lparr>cc_start_gas := (case cc_start_gas c of None \<Rightarrow> Some r | Some s \<Rightarrow> Some s),
                          cc_gas := r\<rparr>)"
    by (cases g) (auto simp: record_snapshot_def split: option.splits)
  then show ?case
    using Cons
    by (auto simp: readings_def map_filter_simps split: option.splits list.splits)
qed

lemma fold_see_subtraces:
  "fold see gs (c\<lparr>cc_subtraces := n\<rparr>) = (fold see gs c)\<lparr>cc_subtraces := n\<rparr>"
  by (simp add: fold_see split: list.splits)

lemma fold_see_fields [simp]:
  "cc_subtraces (fold see gs c) = cc_subtraces c"
  "cc_to (fold see gs c) = cc_to c"
  "cc_trace_address (fold see gs c) = cc_trace_address c"
  "cc_entries_index (fold see gs c) = cc_entries_index c"
  by (simp_all add: fold_see split: list.splits)

lemma closing_entered:
  "closing_entry cost ((fold see gs (entered parent addr i e))\<lparr>cc_subtraces := of_nat n\<rparr>) (outcome_of x)
     = entry_of cost i addr (frame_from parent e) (frame_value e) gs n (frame_inner e x)"
  by (cases e) (auto simp: closing_entry_def entry_of_def entered_def fold_see first_reading_def
      last_reading_def split: list.splits prod.splits)

lemma tracked_simps [simp]:
  "opened (tracked l stk c k es ct r) = opened l"
  "cl_context_stack (tracked l stk c k es ct r) = stk @ [c]"
  "cl_transaction_cost (tracked l stk c k es ct r) = cl_transaction_cost l"
  "cl_entries_next_index (tracked l stk c k es ct r) = cl_entries_next_index l + of_nat k"
  "tracked (tracked l stk c k es ct r) stk c' k' es' ct' r' =
     tracked l stk c' (k + k') (es @ es') ct' r'"
  by (simp_all add: tracked_def opened_def add_ac)

lemma leaving_gas_left: "left_gas (Frame e body x) = leaving_gas x"
  by (cases x rule: leaving_gas.cases) auto

lemma run_frame:
  "wf_frame f \<Longrightarrow> opened l \<Longrightarrow> cl_context_stack l = stk @ [p] \<Longrightarrow>
     \<exists>ct. fold cl_event (frame_events f) l =
       tracked l stk ((fold see (left_gas f) p)\<lparr>cc_subtraces := cc_subtraces p + 1\<rparr>)
         (frame_nodes f)
         (post_frame (cl_transaction_cost l) (cc_to p) (cc_trace_address p @ [cc_subtraces p])
            (cl_entries_next_index l) f) ct False"
  and run_items:
  "wf_items is \<Longrightarrow> opened l \<Longrightarrow> cl_context_stack l = stk @ [p] \<Longrightarrow> cc_subtraces p = of_nat n \<Longrightarrow>
     \<exists>ct r. fold cl_event (items_events is) l =
       tracked l stk ((fold see (seen_gas is) p)\<lparr>cc_subtraces := of_nat (n + children is)\<rparr>)
         (items_nodes is)
         (post_items (cl_transaction_cost l) (cc_to p) (cc_trace_address p) n
            (cl_entries_next_index l) is) ct r"
proof (induction f and "is" arbitrary: l stk p and l stk p n rule: frame_events_items_events.induct)
  case (1 e body x)
  define i where "i = cl_entries_next_index l"
  define addr where "addr = cc_trace_address p @ [cc_subtraces p]"
  define p1 where "p1 = p\<lparr>cc_subtraces := cc_subtraces p + 1\<rparr>"
  define c where "c = entered (cc_to p) addr i e"
  from run_entering[of l stk p e] 1(2-4) obtain ct where
    enter: "fold cl_event (entering_events e) l =
      l\<lparr>cl_context_stack := stk @ [p1, c], cl_entries_next_index := i + 1,
        cl_call_type := ct, cl_record_transaction_event_only := False\<rparr>" (is "_ = ?l1")
    by (auto simp: opened_def i_def addr_def p1_def c_def)
  have "opened ?l1" using 1(3) by (simp add: opened_def)
  with 1(1)[of ?l1 "stk @ [p1]" c 0] 1(2) obtain ct' r where
    body: "fold cl_event (items_events body) ?l1 =
      tracked ?l1 (stk @ [p1]) ((fold see (seen_gas body) c)\<lparr>cc_subtraces := of_nat (children body)\<rparr>)
        (items_nodes body)
        (post_items (cl_transaction_cost l) (frame_to e) addr 0 (i + 1) body) ct' r" (is "_ = ?l2")
    by (auto simp: c_def entered_def)
  have leave: "fold cl_event (leaving_events x) ?l2 =
      ?l2\<lparr>cl_context_stack := stk @ [fold see (leaving_gas x) p1],
          cl_entries := ins_last (i, frame_entry (cl_transaction_cost l) (cc_to p) addr i e body x)
                          (cl_entries ?l2),
          cl_record_transaction_event_only := False\<rparr>"
    using 1(2,3)
      run_leaving[of ?l2 "stk @ [p1]" "(fold see (seen_gas body) c)\<lparr>cc_subtraces := of_nat (children body)\<rparr>" x]
    by (simp add: opened_def tracked_def c_def frame_entry_def closing_entered)
      (simp add: entered_def)
  show ?case
    using enter body leave
    by (auto simp: tracked_def leaving_gas_left p1_def fold_see_subtraces i_def addr_def add_ac
        intro!: exI[of _ ct'])
next
  case (2 l stk p n)
  then show ?case by (auto simp: tracked_def opened_def intro!: exI[of _ "cl_call_type l"] exI[of _ "cl_record_transaction_event_only l"])
next
  case (3 f "is" l stk p n)
  from 3(1)[of l stk p] 3(3-6) obtain ct where
    sub: "fold cl_event (frame_events f) l =
      tracked l stk ((fold see (left_gas f) p)\<lparr>cc_subtraces := of_nat (Suc n)\<rparr>) (frame_nodes f)
        (post_frame (cl_transaction_cost l) (cc_to p) (cc_trace_address p @ [of_nat n])
           (cl_entries_next_index l) f) ct False" (is "_ = ?l1")
    by (auto simp: add_ac)
  from 3(2)[of ?l1 stk "(fold see (left_gas f) p)\<lparr>cc_subtraces := of_nat (Suc n)\<rparr>" "Suc n"] 3(3-6)
  show ?case by (simp add: sub fold_see_subtraces)
next
  case (4 addr target balance "is" l stk p n)
  have "cl_event (Evm (Evm_Suicide addr target balance)) l =
      tracked l stk (p\<lparr>cc_subtraces := of_nat (Suc n)\<rparr>) 1
        [(cl_entries_next_index l, destruct_entry (cc_trace_address p @ [of_nat n]) addr target balance)]
        (cl_call_type l) (cl_record_transaction_event_only l)" (is "_ = ?l1")
    using 4(4,5)
    by (simp add: next_trace_address_def cl_simps tracked_def destruct_entry_def add_ac)
  with 4(1)[of ?l1 stk "p\<lparr>cc_subtraces := of_nat (Suc n)\<rparr>" "Suc n"] 4(2-5)
  show ?case by (simp add: fold_see_subtraces)
next
  case (5 g "is" l stk p n)
  have "cl_event (Gasometer g) l =
      tracked l stk (see g p) 0 [] (cl_call_type l) (cl_record_transaction_event_only l)" (is "_ = ?l1")
    using 5(2,4) by (simp add: gasometer_event_see tracked_def)
  with 5(1)[of ?l1 stk "see g p" n] 5(2-5)
  show ?case using fold_see_fields[of "[g]" p] by simp
next
  case (6 r "is" l stk p n)
  have "runtime_event r l = l" using 6(2) by (cases r rule: quiet.cases) auto
  with 6 show ?case by simp
qed

lemma idx_range_add: "idx_range i (a + b) = idx_range i a @ idx_range (i + of_nat a) b"
  by (induction a arbitrary: i) (simp_all add: add_ac)

lemma idx_range_ge: "x \<in> set (idx_range i n) \<Longrightarrow> unat i + n \<le> 2 ^ 32 \<Longrightarrow> unat i \<le> unat x"
proof (induction n arbitrary: i)
  case (Suc n)
  show ?case
  proof (cases "x = i \<or> n = 0")
    case False
    with Suc.prems have "unat (i + 1) = Suc (unat i)" by (intro unat_Suc_u32) simp
    with Suc.IH[of "i + 1"] Suc.prems False show ?thesis by simp
  qed (use Suc.prems in auto)
qed simp

lemma sorted_idx_range: "unat i + n \<le> 2 ^ 32 \<Longrightarrow> sorted_wrt (<) (idx_range i n)"
proof (induction n arbitrary: i)
  case (Suc n)
  show ?case
  proof (cases "n = 0")
    case False
    with Suc.prems have 1: "unat (i + 1) = Suc (unat i)" by (intro unat_Suc_u32) simp
    with Suc.prems idx_range_ge[of _ "i + 1" n] have "i < x" if "x \<in> set (idx_range (i + 1) n)" for x
      using that by (simp add: word_less_nat_alt Suc_le_eq)
    with Suc.IH[of "i + 1"] Suc.prems 1 show ?thesis by simp
  qed simp
qed simp

lemma keys_flat:
  "map fst (flat_frame cost parent addr i f) = idx_range i (frame_nodes f)"
  "map fst (flat_items cost self addr n i is) = idx_range i (items_nodes is)"
  by (induction cost parent addr i f and cost self addr n i "is"
      rule: flat_frame_flat_items.induct) (simp_all add: idx_range_add)

lemma mset_post:
  "mset (post_frame cost parent addr i f) = mset (flat_frame cost parent addr i f)"
  "mset (post_items cost self addr n i is) = mset (flat_items cost self addr n i is)"
  by (induction cost parent addr i f and cost self addr n i "is"
      rule: post_frame_post_items.induct) simp_all

lemma keys_flat_tx: "map fst (flat_tx i t) = idx_range i (tx_nodes t)"
  by (cases t) (simp add: keys_flat)

lemma bt_inv_flat_tx: "unat i + tx_nodes t \<le> 2 ^ 32 \<Longrightarrow> bt_inv (flat_tx i t)"
  unfolding bt_inv_def keys_flat_tx by (rule sorted_idx_range)

lemma mset_post_tx: "mset (post_tx i t) = mset (flat_tx i t)"
  by (cases t) (simp add: mset_post)

lemma fold_ins_last:
  "es \<noteq> [] \<Longrightarrow> fold ins_last es [] = [fold (\<lambda>e. bt_insert (fst e) (snd e)) es []]"
  "fold ins_last es (ms @ [m]) = ms @ [fold (\<lambda>e. bt_insert (fst e) (snd e)) es m]"
proof -
  show *: "fold ins_last es (ms @ [m]) = ms @ [fold (\<lambda>e. bt_insert (fst e) (snd e)) es m]" for es ms m
    by (induction es arbitrary: m) (simp_all add: ins_last_def)
  show "es \<noteq> [] \<Longrightarrow> fold ins_last es [] = [fold (\<lambda>e. bt_insert (fst e) (snd e)) es []]"
    using *[of "tl es" "[]"] by (cases es) (simp_all add: ins_last_def)
qed

lemma closing_root:
  "closing_entry cost ((fold see gs (root_context i t))\<lparr>cc_subtraces := of_nat n\<rparr>) (outcome_of x)
     = entry_of cost i [] (tx_from t) (tx_value t) gs n (tx_inner t x)"
  by (cases t) (auto simp: closing_entry_def entry_of_def root_context_def fold_see first_reading_def
      last_reading_def split: list.splits prod.splits)

lemma run_opening:
  "opening_event e \<Longrightarrow> cl_skip_next_context l \<Longrightarrow>
     evm_event e l = l\<lparr>cl_record_transaction_event_only := False, cl_skip_next_context := False\<rparr>"
  by (cases e rule: opening_event.cases) auto

lemma run_tx_start:
  assumes "list_all frame_gas pre" and "idle l"
  shows "fold cl_event (Evm (transact_event tr) # Gasometer (RecordTransaction cost s) # map Gasometer pre) l =
      l\<lparr>cl_version := EarlyTransact, cl_transaction_cost := cost,
        cl_entries_next_index := cl_entries_next_index l + 1,
        cl_context_stack := [fold see pre (root_context (cl_entries_next_index l) tr)],
        cl_skip_next_context := True, cl_record_transaction_event_only := True\<rparr>"
  using assms
  by (cases tr) (simp_all add: cl_simps push_transaction_def push_context_def idle_def
        root_context_def)

lemma run_tx_body:
  assumes "opening_event e" and "wf_items body" and "cl_version l = EarlyTransact"
    and "cl_skip_next_context l" and "cl_step_result_entry l = None"
    and "cl_context_stack l = [c]" and "cc_subtraces c = 0"
  shows "\<exists>ct r. fold cl_event (Evm e # items_events body) l =
     (tracked l [] ((fold see (seen_gas body) c)\<lparr>cc_subtraces := of_nat (children body)\<rparr>)
       (items_nodes body)
       (post_items (cl_transaction_cost l) (cc_to c) (cc_trace_address c) 0
          (cl_entries_next_index l) body) ct r)\<lparr>cl_skip_next_context := False\<rparr>"
proof -
  from run_items[of body "evm_event e l" "[]" c 0] assms obtain ct r where
    "fold cl_event (items_events body) (evm_event e l) =
       tracked (evm_event e l) [] ((fold see (seen_gas body) c)\<lparr>cc_subtraces := of_nat (children body)\<rparr>)
         (items_nodes body)
         (post_items (cl_transaction_cost l) (cc_to c) (cc_trace_address c) 0
            (cl_entries_next_index l) body) ct r"
    by (auto simp: run_opening opened_def)
  then show ?thesis
    using assms by (cases l) (auto simp: run_opening tracked_def)
qed

lemma run_tx:
  assumes "wf_tx t" and "idle l"
  shows "\<exists>ct skip. fold cl_event (tx_events t) l = traced l t ct skip"
proof (cases t)
  case (Tx tr cost s pre opn body x)
  define i where "i = cl_entries_next_index l"
  define c where "c = fold see pre (root_context i tr)"
  define l1 where "l1 = l\<lparr>cl_version := EarlyTransact, cl_transaction_cost := cost,
    cl_entries_next_index := i + 1, cl_context_stack := [c], cl_skip_next_context := True,
    cl_record_transaction_event_only := True\<rparr>"
  have c: "cc_subtraces c = 0" "cc_to c = tx_to tr" "cc_trace_address c = []" "cc_entries_index c = i"
    by (simp_all add: c_def) (simp_all add: root_context_def)
  have same: "c\<lparr>cc_subtraces := 0\<rparr> = c"
    using c(1) by (cases c) simp
  have close: "closing_entry cost ((fold see gs c)\<lparr>cc_subtraces := of_nat n\<rparr>) (outcome_of x)
     = entry_of cost i [] (tx_from tr) (tx_value tr) (pre @ gs) n (tx_inner tr x)" for gs n
    using closing_root[of cost n "pre @ gs" i tr x] by (simp add: c_def)
  have idle: "cl_context_stack l = []" "cl_step_result_entry l = None"
    using assms(2) by (simp_all add: idle_def)
  have start: "fold cl_event (tx_events t) l =
      fold cl_event ((case opn of Some e \<Rightarrow> [Evm e] | None \<Rightarrow> []) @ items_events body @ leaving_events x) l1"
    using run_tx_start[of pre l tr cost s] assms Tx by (simp add: l1_def c_def i_def)
  show ?thesis
  proof (cases opn)
    case None
    with assms Tx have *: "body = []" "wf_leaving x" by auto
    have "closing_entry cost c (outcome_of x) = entry_of cost i [] (tx_from tr) (tx_value tr) pre 0 (tx_inner tr x)"
      using close[of 0 "[]"] same by simp
    then have "fold cl_event (tx_events t) l = traced l t (cl_call_type l) True"
      using run_leaving[of l1 "[]" c x] * None Tx idle start c
      by (simp add: traced_def l1_def i_def)
    then show ?thesis by blast
  next
    case (Some e)
    with assms Tx have *: "opening_event e" "wf_items body" "wf_leaving x" by auto
    from run_tx_body[OF *(1,2), of l1 c] idle c obtain ct r where
      body: "fold cl_event (Evm e # items_events body) l1 =
        (tracked l1 [] ((fold see (seen_gas body) c)\<lparr>cc_subtraces := of_nat (children body)\<rparr>)
          (items_nodes body) (post_items cost (tx_to tr) [] 0 (i + 1) body) ct r)
          \<lparr>cl_skip_next_context := False\<rparr>" (is "_ = ?l2")
      by (auto simp: l1_def)
    have "fold cl_event (tx_events t) l = traced l t ct False"
      using run_leaving[of ?l2 "[]" "(fold see (seen_gas body) c)\<lparr>cc_subtraces := of_nat (children body)\<rparr>" x]
        body * Some Tx idle start c close[of "children body" "seen_gas body"]
      by (simp add: traced_def l1_def i_def tracked_def add_ac)
    then show ?thesis by blast
  qed
qed

lemma finish_idle:
  "idle l \<Longrightarrow> \<not> cl_record_transaction_event_only l \<Longrightarrow> finish_transaction l = l"
  by (cases l) (simp add: finish_transaction_def idle_def)

lemma post_tx_not_Nil [simp]: "post_tx i t \<noteq> []"
  by (cases t) simp

lemma traced_entries:
  assumes "unat (cl_entries_next_index l) + tx_nodes t \<le> 2 ^ 32"
  shows "cl_entries l = [] \<Longrightarrow> cl_entries (traced l t ct skip) = [flat_tx (cl_entries_next_index l) t]"
    and "cl_entries l = ms @ [[]] \<Longrightarrow>
           cl_entries (traced l t ct skip) = ms @ [flat_tx (cl_entries_next_index l) t]"
  using inserts_sorted[OF mset_post_tx bt_inv_flat_tx[OF assms]]
  by (simp_all add: traced_def fold_ins_last)

lemma traced_idle [simp]:
  "idle l \<Longrightarrow> idle (traced l t ct skip)"
  "\<not> cl_record_transaction_event_only (traced l t ct skip)"
  "cl_entries_next_index (traced l t ct skip) = cl_entries_next_index l + of_nat (tx_nodes t)"
  "cl_call_list_first_transaction (traced l t ct skip) = cl_call_list_first_transaction l"
  by (simp_all add: traced_def idle_def)

lemma tx_nodes_pos: "0 < tx_nodes t"
  by (cases t) simp

lemma advance_bound:
  assumes "unat i + (tx_nodes t + sum_list (map tx_nodes ts)) \<le> 2 ^ 32"
  shows "unat (i + of_nat (tx_nodes t) :: u32) + sum_list (map tx_nodes ts) \<le> 2 ^ 32"
proof (cases ts)
  case Nil
  then show ?thesis using u32_less[of "i + of_nat (tx_nodes t)"] by simp
next
  case (Cons t' ts')
  with assms tx_nodes_pos[of t'] show ?thesis by (simp add: unat_advance)
qed

text \<open>One more transaction of a block, announced to a listener that is between transactions.\<close>

lemma run_next_tx:
  assumes "wf_tx t" and "idle l" and "\<not> cl_record_transaction_event_only l"
    and "\<not> cl_call_list_first_transaction l"
    and "unat (cl_entries_next_index l) + tx_nodes t \<le> 2 ^ 32"
  shows "\<exists>l'. fold cl_event (CallListNew # tx_events t) l = l' \<and> idle l' \<and>
           \<not> cl_record_transaction_event_only l' \<and> \<not> cl_call_list_first_transaction l' \<and>
           cl_entries_next_index l' = cl_entries_next_index l + of_nat (tx_nodes t) \<and>
           cl_entries l' = cl_entries l @ [flat_tx (cl_entries_next_index l) t]"
proof -
  let ?l = "l\<lparr>cl_skip_next_context := False, cl_entries := cl_entries l @ [[]]\<rparr>"
  have new: "cl_event CallListNew l = ?l"
    using assms by (simp add: finish_idle)
  have "idle ?l" using assms(2) by (simp add: idle_def)
  with run_tx[OF assms(1), of ?l] obtain ct skip where
    "fold cl_event (tx_events t) ?l = traced ?l t ct skip" by blast
  with new \<open>idle ?l\<close> traced_entries(2)[of ?l t "cl_entries l" ct skip] assms(4,5)
  show ?thesis by (simp del: cl_event.simps)
qed

lemma run_block_rest:
  "list_all wf_tx ts \<Longrightarrow> idle l \<Longrightarrow> \<not> cl_record_transaction_event_only l \<Longrightarrow>
     \<not> cl_call_list_first_transaction l \<Longrightarrow>
     unat (cl_entries_next_index l) + sum_list (map tx_nodes ts) \<le> 2 ^ 32 \<Longrightarrow>
     \<exists>l'. fold cl_event (block_events ts) l = l' \<and> idle l' \<and> \<not> cl_record_transaction_event_only l' \<and>
          cl_entries l' = cl_entries l @ flat_block (cl_entries_next_index l) ts"
proof (induction ts arbitrary: l)
  case Nil
  then show ?case by (simp add: block_events_def)
next
  case (Cons t ts)
  from run_next_tx[of t l] Cons.prems obtain l1 where
    l1: "fold cl_event (CallListNew # tx_events t) l = l1" "idle l1"
      "\<not> cl_record_transaction_event_only l1" "\<not> cl_call_list_first_transaction l1"
      "cl_entries_next_index l1 = cl_entries_next_index l + of_nat (tx_nodes t)"
      "cl_entries l1 = cl_entries l @ [flat_tx (cl_entries_next_index l) t]"
    by auto
  from advance_bound[of "cl_entries_next_index l" t ts] Cons.prems(5)
  have "unat (cl_entries_next_index l1) + sum_list (map tx_nodes ts) \<le> 2 ^ 32"
    by (simp add: l1(5))
  with Cons.IH[of l1] Cons.prems(1) l1 obtain l' where
    "fold cl_event (block_events ts) l1 = l'" "idle l'" "\<not> cl_record_transaction_event_only l'"
    "cl_entries l' = cl_entries l1 @ flat_block (cl_entries_next_index l1) ts"
    by auto
  with l1 show ?case by (simp add: block_events_def del: cl_event.simps)
qed

lemma cl_default_simps [simp]:
  "idle cl_default" "cl_entries cl_default = []" "cl_entries_next_index cl_default = 0"
  "cl_call_list_first_transaction cl_default" "\<not> cl_record_transaction_event_only cl_default"
  by (simp_all add: cl_default_def idle_def)

lemma transaction_entries:
  assumes "wf_tx t" and "tx_nodes t \<le> 2 ^ 32"
  shows "cl_entries (finish_transaction (fold cl_event (tx_events t) cl_default)) = [flat_tx 0 t]"
proof -
  from run_tx[OF assms(1), of cl_default] obtain ct skip where
    "fold cl_event (tx_events t) cl_default = traced cl_default t ct skip" by auto
  with traced_entries(1)[of cl_default t ct skip] assms(2) show ?thesis
    by (simp add: finish_idle)
qed

text \<open>
  C17. Tracing one transaction is exact: for every execution tree, the listener that saw its
  events holds one map, with an entry for each call, creation and self-destruct, numbered in
  the order in which they began, each with its address in the tree, its number of children,
  caller, value, gas and result.
\<close>

theorem trace_transaction_exact:
  assumes "wf_tx t" and "tx_nodes t \<le> 2 ^ 32"
  shows "cl_entries (finish_transaction (fold cl_event (tx_events t) cl_default)) = [flat_tx 0 t]"
  using assms by (rule transaction_entries)

lemmas sample_simps =
  sample_tx_def sample_context_def sample_snapshot_def opens_context_def

theorem trace_transaction_exact_witness:
  "wf_tx sample_tx \<and> tx_nodes sample_tx \<le> 2 ^ 32 \<and>
   map (\<lambda>m. map (\<lambda>e. (fst e, bc_trace_address (snd e), bc_subtraces (snd e))) m)
     (cl_entries (finish_transaction (fold cl_event (tx_events sample_tx) cl_default))) =
     [[(0, [], 2), (1, [0], 1), (2, [0, 0], 0), (3, [1], 0)]]"
  using trace_transaction_exact[of sample_tx]
  by (simp add: sample_simps frame_entry_def entry_of_def destruct_entry_def)

text \<open>At the end of a block the listener is idle, so closing the last transaction adds nothing.\<close>

lemma block_run:
  assumes "list_all wf_tx ts" and "sum_list (map tx_nodes ts) \<le> 2 ^ 32"
  shows "cl_entries (fold cl_event (block_events ts) cl_default) = flat_block 0 ts"
    and "finish_transaction (fold cl_event (block_events ts) cl_default) =
         fold cl_event (block_events ts) cl_default"
proof -
  have "cl_entries (fold cl_event (block_events ts) cl_default) = flat_block 0 ts \<and>
    finish_transaction (fold cl_event (block_events ts) cl_default) = fold cl_event (block_events ts) cl_default"
  proof (cases ts)
    case Nil
    then show ?thesis by (simp add: block_events_def finish_idle)
  next
    case (Cons t ts')
    let ?l = "cl_default\<lparr>cl_call_list_first_transaction := False\<rparr>"
    have "idle ?l" by (simp add: idle_def cl_default_def)
    with run_tx[of t ?l] assms(1) Cons obtain ct skip where
      run: "fold cl_event (tx_events t) ?l = traced ?l t ct skip" by auto
    let ?l1 = "traced ?l t ct skip"
    have e1: "cl_entries ?l1 = [flat_tx 0 t]"
      using traced_entries(1)[of ?l t ct skip] assms(2) Cons by simp
    from advance_bound[of 0 t ts'] assms(2) Cons
    have "unat (cl_entries_next_index ?l1) + sum_list (map tx_nodes ts') \<le> 2 ^ 32" by simp
    with run_block_rest[of ts' ?l1] \<open>idle ?l\<close> assms(1) Cons e1 obtain l' where
      "fold cl_event (block_events ts') ?l1 = l'" "idle l'" "\<not> cl_record_transaction_event_only l'"
      "cl_entries l' = flat_tx 0 t # flat_block (of_nat (tx_nodes t)) ts'"
      by auto
    with run Cons show ?thesis by (simp add: block_events_def finish_idle)
  qed
  then show "cl_entries (fold cl_event (block_events ts) cl_default) = flat_block 0 ts"
    and "finish_transaction (fold cl_event (block_events ts) cl_default) =
         fold cl_event (block_events ts) cl_default" by simp_all
qed

lemma block_entries:
  assumes "list_all wf_tx ts" and "sum_list (map tx_nodes ts) \<le> 2 ^ 32"
  shows "cl_entries (finish_transaction (fold cl_event (block_events ts) cl_default)) = flat_block 0 ts"
  using block_run[OF assms] by simp

text \<open>
  C19. Tracing a block is exact: each transaction gets a map of its own, in the order of the
  block, whose indices run on from those of the transaction before.
\<close>

theorem trace_block_exact:
  assumes "list_all wf_tx ts" and "sum_list (map tx_nodes ts) \<le> 2 ^ 32"
  shows "cl_entries (finish_transaction (fold cl_event (block_events ts) cl_default)) = flat_block 0 ts"
  using assms by (rule block_entries)

theorem trace_block_exact_witness:
  "list_all wf_tx [sample_tx, sample_tx] \<and> sum_list (map tx_nodes [sample_tx, sample_tx]) \<le> 2 ^ 32 \<and>
   map (\<lambda>m. map (\<lambda>e. (fst e, bc_trace_address (snd e))) m)
     (cl_entries (finish_transaction (fold cl_event (block_events [sample_tx, sample_tx]) cl_default))) =
     [[(0, []), (1, [0]), (2, [0, 0]), (3, [1])], [(4, []), (5, [0]), (6, [0, 0]), (7, [1])]]"
  using trace_block_exact[of "[sample_tx, sample_tx]"]
  by (simp add: sample_simps frame_entry_def entry_of_def destruct_entry_def)

lemma flat_block_nth:
  "k < length ts \<Longrightarrow>
     flat_block i ts ! k = flat_tx (i + of_nat (sum_list (map tx_nodes (take k ts)))) (ts ! k)"
  by (induction ts arbitrary: i k) (auto simp: nth_Cons add_ac split: nat.splits)

lemma root_entry_gas:
  "bc_gas_used (snd (hd (flat_tx i t))) =
     ucast (root_gas_used t + (if i = 0 then tx_cost t else 0))"
  by (cases t) (simp add: entry_of_def)

text \<open>
  In the trace of a block the intrinsic cost of a transaction is part of the gas of its root
  entry for the first transaction only: the roots of the later ones have an index other than
  0 and their own cost is left out.
\<close>

lemma block_cost_of_first_transaction_only:
  assumes "list_all wf_tx ts" and "sum_list (map tx_nodes ts) \<le> 2 ^ 32" and "k < length ts"
  shows "bc_gas_used (snd (hd (cl_entries
           (finish_transaction (fold cl_event (block_events ts) cl_default)) ! k))) =
         ucast (root_gas_used (ts ! k) + (if k = 0 then tx_cost (ts ! k) else 0))"
proof -
  let ?n = "sum_list (map tx_nodes (take k ts))"
  have "?n + tx_nodes (ts ! k) \<le> sum_list (map tx_nodes ts)"
    using assms(3) by (subst (2) id_take_nth_drop[OF assms(3)]) simp
  with assms(2) tx_nodes_pos[of "ts ! k"] have "?n < 2 ^ 32" by linarith
  then have "unat (of_nat ?n :: u32) = ?n" using unat_advance[of 0 ?n] by simp
  then have "(of_nat ?n :: u32) = 0 \<longleftrightarrow> ?n = 0" by (simp add: word_unat_eq_iff)
  moreover have "?n = 0 \<longleftrightarrow> k = 0"
  proof (cases k)
    case (Suc j)
    with assms(3) tx_nodes_pos[of "hd ts"] show ?thesis by (cases ts) auto
  qed simp
  ultimately show ?thesis
    using assms by (simp add: block_entries flat_block_nth root_entry_gas)
qed

lemma block_cost_of_first_transaction_only_sample:
  "map (\<lambda>k. bc_gas_used (snd (hd (cl_entries
       (finish_transaction (fold cl_event (block_events [sample_tx, sample_tx]) cl_default)) ! k))))
     [0, 1] = [21000 + 78597, 78597]"
  using block_cost_of_first_transaction_only[of "[sample_tx, sample_tx]" 0]
    block_cost_of_first_transaction_only[of "[sample_tx, sample_tx]" 1]
  by (simp add: sample_simps first_reading_def last_reading_def readings_def map_filter_simps Snapshot_gas_def)

end
