(* ===== verification/Runtime_Tracing.thy ===== *)
theory Runtime_Tracing
  imports Eth_Transactions Call_List_Refinement
begin

text \<open>
  The tracing calls of the runtime (\<^verbatim>\<open>node/runtime/src/lib.rs\<close>, \<^verbatim>\<open>DebugRuntimeApi\<close>): the extrinsics
  of a block are applied in order, and the traced ones run under the tracer.

  Applying an extrinsic is an argument: from a state it gives the next state and the events
  that the virtual machine emits. The tracer forwards the events of what it runs, and
  announces a new call stack with an event of its own.
\<close>

type_synonym ('s, 'x) apply_extrinsic = "'s \<Rightarrow> 'x \<Rightarrow> 's \<times> Event list"

type_synonym dispatch_error = string

fun trace_until ::
    "('s, ('r, 'c) UncheckedExtrinsic) apply_extrinsic \<Rightarrow> 'r TransactionV2 \<Rightarrow>
       ('r, 'c) UncheckedExtrinsic list \<Rightarrow> 's \<Rightarrow> Event list \<times> (dispatch_error + unit)" where
  "trace_until apply_extrinsic traced_transaction [] s =
     ([], Inl ''Failed to find Ethereum transaction among the extrinsics.'')"
| "trace_until apply_extrinsic traced_transaction (ext # exts) s =
     (case apply_extrinsic s ext of
        (s', events) \<Rightarrow>
          (case xt_function ext of
             Ethereum_transact transaction \<Rightarrow>
               (if transaction = traced_transaction then (events, Inr ())
                else trace_until apply_extrinsic traced_transaction exts s')
           | Other_call _ \<Rightarrow> trace_until apply_extrinsic traced_transaction exts s'))"

definition missing_feature :: dispatch_error where
  "missing_feature = ''Missing `evm-tracing` compile time feature flag.''"

definition runtime_trace_transaction ::
    "bool \<Rightarrow> ('s, ('r, 'c) UncheckedExtrinsic) apply_extrinsic \<Rightarrow> ('r, 'c) UncheckedExtrinsic list \<Rightarrow>
       'r TransactionV2 \<Rightarrow> 's \<Rightarrow> Event list \<times> (dispatch_error + unit)" where
  "runtime_trace_transaction evm_tracing apply_extrinsic extrinsics traced_transaction s =
     (if evm_tracing then trace_until apply_extrinsic traced_transaction extrinsics s
      else ([], Inl missing_feature))"

text \<open>\<open>hash_of\<close> is the digest of the encoded transaction.\<close>

fun trace_known ::
    "('s, ('r, 'c) UncheckedExtrinsic) apply_extrinsic \<Rightarrow> ('r TransactionV2 \<Rightarrow> h256) \<Rightarrow> h256 list \<Rightarrow>
       ('r, 'c) UncheckedExtrinsic list \<Rightarrow> 's \<Rightarrow> Event list" where
  "trace_known apply_extrinsic hash_of known_transactions [] s = []"
| "trace_known apply_extrinsic hash_of known_transactions (ext # exts) s =
     (case apply_extrinsic s ext of
        (s', events) \<Rightarrow>
          (case xt_function ext of
             Ethereum_transact transaction \<Rightarrow>
               (if hash_of transaction \<in> set known_transactions then CallListNew # events else [])
           | Other_call _ \<Rightarrow> []) @
          trace_known apply_extrinsic hash_of known_transactions exts s')"

definition runtime_trace_block ::
    "bool \<Rightarrow> ('s, ('r, 'c) UncheckedExtrinsic) apply_extrinsic \<Rightarrow> ('r TransactionV2 \<Rightarrow> h256) \<Rightarrow>
       ('r, 'c) UncheckedExtrinsic list \<Rightarrow> h256 list \<Rightarrow> 's \<Rightarrow> Event list \<times> (dispatch_error + unit)" where
  "runtime_trace_block evm_tracing apply_extrinsic hash_of extrinsics known_transactions s =
     (if evm_tracing then (trace_known apply_extrinsic hash_of known_transactions extrinsics s, Inr ())
      else ([], Inl missing_feature))"


section \<open>Executions\<close>

text \<open>
  The executions of the extrinsics of a block: \<open>run\<close> gives the next state and, for an Ethereum
  transaction, the tree of its calls. The runtime that emits the events of these trees:
\<close>

definition emits :: "('s \<Rightarrow> 'x \<Rightarrow> 's \<times> tx) \<Rightarrow> ('s, 'x) apply_extrinsic" where
  "emits run s ext = (case run s ext of (s', t) \<Rightarrow> (s', tx_events t))"

fun known_trees ::
    "('s \<Rightarrow> ('r, 'c) UncheckedExtrinsic \<Rightarrow> 's \<times> tx) \<Rightarrow> ('r TransactionV2 \<Rightarrow> h256) \<Rightarrow> h256 list \<Rightarrow>
       ('r, 'c) UncheckedExtrinsic list \<Rightarrow> 's \<Rightarrow> tx list" where
  "known_trees run hash_of known [] s = []"
| "known_trees run hash_of known (ext # exts) s =
     (case run s ext of
        (s', t) \<Rightarrow>
          (case ethereum_transaction (xt_function ext) of
             Some transaction \<Rightarrow> (if hash_of transaction \<in> set known then [t] else [])
           | None \<Rightarrow> []) @
          known_trees run hash_of known exts s')"

text \<open>The state in which a transaction runs: after everything before it in the block.\<close>

fun tree_of_transaction ::
    "('s \<Rightarrow> ('r, 'c) UncheckedExtrinsic \<Rightarrow> 's \<times> tx) \<Rightarrow> 'r TransactionV2 \<Rightarrow>
       ('r, 'c) UncheckedExtrinsic list \<Rightarrow> 's \<Rightarrow> tx option" where
  "tree_of_transaction run transaction [] s = None"
| "tree_of_transaction run transaction (ext # exts) s =
     (case run s ext of
        (s', t) \<Rightarrow>
          (if ethereum_transaction (xt_function ext) = Some transaction then Some t
           else tree_of_transaction run transaction exts s'))"

text \<open>
  The runtime replays a block in order: each traced transaction runs in the state that
  everything before it left.
\<close>

lemma trace_known_events:
  "trace_known (emits run) hash_of known exts s = block_events (known_trees run hash_of known exts s)"
  by (induction exts arbitrary: s)
    (auto simp: emits_def block_events_def split_beta split: RuntimeCall.splits)

lemma trace_until_events:
  "trace_until (emits run) transaction exts s =
     (case tree_of_transaction run transaction exts s of
        Some t \<Rightarrow> (tx_events t, Inr ())
      | None \<Rightarrow> ([], Inl ''Failed to find Ethereum transaction among the extrinsics.''))"
  by (induction exts arbitrary: s) (auto simp: emits_def split_beta split: RuntimeCall.splits)

end
