(* ===== verification/Trace_Cache.thy ===== *)
theory Trace_Cache
  imports Trace_Filter
begin

text \<open>
  The cache task behind \<^verbatim>\<open>trace_filter\<close> (\<^verbatim>\<open>client/rpc/trace/src/lib.rs\<close>, \<^verbatim>\<open>CacheTask\<close>): batches of
  blocks, the blocks that are being traced or whose traces are kept, and the requests that
  wait for them.

  A handler takes the state of the task and returns the new one with its effects in order:
  the answers sent on response channels, the response channels dropped without an answer,
  and the tracing tasks spawned. A channel is a number.
\<close>

section \<open>The cache task\<close>

type_synonym channel = nat

type_synonym traces_result = "rpc_error + BlockTransactionTrace list"

datatype CacheRequest =
  StartBatch channel "h256 list"
| GetTraces channel h256
| StopBatch u64

text \<open>
  \<^verbatim>\<open>Pooled\<close> has its flag, the response channels of the waiting requests and the channel that
  unqueues the tracing when it is dropped.
\<close>

datatype CacheBlockState =
  Pooled bool "channel list" channel
| Cached traces_result

record CacheBlock =
  active_batch_count :: usize
  cb_state :: CacheBlockState

datatype BlockingTaskMessage =
  Started h256
| Finished h256 traces_result

text \<open>The last field counts the unqueue channels made so far: it gives the next one its number.\<close>

record CacheTask =
  cached_blocks :: "(h256, CacheBlock) btree"
  batches :: "(u64, h256 list) btree"
  next_batch_id :: u64
  unqueue_channels :: nat

datatype cache_effect =
  Send_batch_id channel u64
| Send_traces channel traces_result
| Drop_channel channel
| Spawn_tracing channel h256

definition cache_new :: CacheTask where
  "cache_new = \<lparr>cached_blocks = [], batches = [], next_batch_id = 0, unqueue_channels = 0\<rparr>"

text \<open>A loop over blocks, with the effects of its rounds in order.\<close>

fun for_blocks ::
    "(h256 \<Rightarrow> CacheTask \<Rightarrow> CacheTask \<times> cache_effect list) \<Rightarrow> h256 list \<Rightarrow> CacheTask \<Rightarrow>
       CacheTask \<times> cache_effect list" where
  "for_blocks f [] t = (t, [])"
| "for_blocks f (b # bs) t =
     (case f b t of (t1, es1) \<Rightarrow> (case for_blocks f bs t1 of (t2, es2) \<Rightarrow> (t2, es1 @ es2)))"

text \<open>Starting a batch: each block is counted once more, or pooled and spawned.\<close>

definition start_block :: "h256 \<Rightarrow> CacheTask \<Rightarrow> CacheTask \<times> cache_effect list" where
  "start_block block t =
     (case bt_get (cached_blocks t) block of
        Some c \<Rightarrow>
          (t\<lparr>cached_blocks :=
               bt_insert block (c\<lparr>active_batch_count := active_batch_count c + 1\<rparr>) (cached_blocks t)\<rparr>,
           [])
      | None \<Rightarrow>
          (t\<lparr>cached_blocks :=
               bt_insert block
                 \<lparr>active_batch_count = 1, cb_state = Pooled False [] (unqueue_channels t)\<rparr>
                 (cached_blocks t),
             unqueue_channels := unqueue_channels t + 1\<rparr>,
           [Spawn_tracing (unqueue_channels t) block]))"

definition request_start_batch ::
    "channel \<Rightarrow> h256 list \<Rightarrow> CacheTask \<Rightarrow> CacheTask \<times> cache_effect list" where
  "request_start_batch sender blocks t =
     (case for_blocks start_block blocks (t\<lparr>batches := bt_insert (next_batch_id t) blocks (batches t)\<rparr>) of
        (t', es) \<Rightarrow>
          (t'\<lparr>next_batch_id := next_batch_id t' + 1\<rparr>,
           es @ [Send_batch_id sender (next_batch_id t')]))"

text \<open>\<open>show_hash\<close> is the rendering of a hash in the error message.\<close>

definition not_batched :: "(h256 \<Rightarrow> string) \<Rightarrow> h256 \<Rightarrow> rpc_error" where
  "not_batched show_hash block =
     ''RPC request asked a block ('' @ show_hash block @ '') that was not batched''"

definition request_get_traces ::
    "(h256 \<Rightarrow> string) \<Rightarrow> channel \<Rightarrow> h256 \<Rightarrow> CacheTask \<Rightarrow> CacheTask \<times> cache_effect list" where
  "request_get_traces show_hash sender block t =
     (case bt_get (cached_blocks t) block of
        Some c \<Rightarrow>
          (case cb_state c of
             Pooled started waiting unqueue \<Rightarrow>
               (t\<lparr>cached_blocks :=
                    bt_insert block (c\<lparr>cb_state := Pooled started (waiting @ [sender]) unqueue\<rparr>)
                      (cached_blocks t)\<rparr>,
                [])
           | Cached traces \<Rightarrow> (t, [Send_traces sender traces]))
      | None \<Rightarrow> (t, [Send_traces sender (Inl (not_batched show_hash block))]))"

text \<open>Removing an entry drops the channels it holds.\<close>

fun waiting_requests :: "CacheBlockState \<Rightarrow> channel list" where
  "waiting_requests (Pooled _ waiting _) = waiting"
| "waiting_requests (Cached _) = []"

definition remove_block :: "h256 \<Rightarrow> CacheTask \<Rightarrow> CacheTask \<times> cache_effect list" where
  "remove_block block t =
     (t\<lparr>cached_blocks := bt_remove block (cached_blocks t)\<rparr>,
      case bt_get (cached_blocks t) block of
        Some c \<Rightarrow> map Drop_channel (waiting_requests (cb_state c))
      | None \<Rightarrow> [])"

fun not_started :: "CacheBlockState \<Rightarrow> bool" where
  "not_started (Pooled started _ _) \<longleftrightarrow> \<not> started"
| "not_started (Cached _) \<longleftrightarrow> False"

definition stop_block :: "h256 \<Rightarrow> CacheTask \<Rightarrow> CacheTask \<times> cache_effect list" where
  "stop_block block t =
     (case bt_get (cached_blocks t) block of
        Some c \<Rightarrow>
          (if active_batch_count c = 1 \<and> not_started (cb_state c) then remove_block block t
           else (t, []))
      | None \<Rightarrow> (t, []))"

definition request_stop_batch :: "u64 \<Rightarrow> CacheTask \<Rightarrow> CacheTask \<times> cache_effect list" where
  "request_stop_batch batch_id t =
     (case bt_get (batches t) batch_id of
        Some blocks \<Rightarrow> for_blocks stop_block blocks t
      | None \<Rightarrow> (t, []))"

definition blocking_started :: "h256 \<Rightarrow> CacheTask \<Rightarrow> CacheTask \<times> cache_effect list" where
  "blocking_started block t =
     (case bt_get (cached_blocks t) block of
        Some c \<Rightarrow>
          (case cb_state c of
             Pooled _ waiting unqueue \<Rightarrow>
               (t\<lparr>cached_blocks :=
                    bt_insert block (c\<lparr>cb_state := Pooled True waiting unqueue\<rparr>) (cached_blocks t)\<rparr>,
                [])
           | Cached _ \<Rightarrow> (t, []))
      | None \<Rightarrow> (t, []))"

text \<open>The waiting requests are popped from the end of their vector.\<close>

definition blocking_finished ::
    "h256 \<Rightarrow> traces_result \<Rightarrow> CacheTask \<Rightarrow> CacheTask \<times> cache_effect list" where
  "blocking_finished block result t =
     (case bt_get (cached_blocks t) block of
        Some c \<Rightarrow>
          (case cb_state c of
             Pooled _ waiting _ \<Rightarrow>
               (t\<lparr>cached_blocks :=
                    bt_insert block (c\<lparr>cb_state := Cached result\<rparr>) (cached_blocks t)\<rparr>,
                map (\<lambda>ch. Send_traces ch result) (rev waiting))
           | Cached _ \<Rightarrow> (t, []))
      | None \<Rightarrow> (t, []))"

definition expire_block :: "h256 \<Rightarrow> CacheTask \<Rightarrow> CacheTask \<times> cache_effect list" where
  "expire_block block t =
     (case bt_get (cached_blocks t) block of
        Some c \<Rightarrow>
          (let c' = c\<lparr>active_batch_count := active_batch_count c - 1\<rparr>;
               t' = t\<lparr>cached_blocks := bt_insert block c' (cached_blocks t)\<rparr> in
           if active_batch_count c' = 0 then remove_block block t' else (t', []))
      | None \<Rightarrow> (t, []))"

definition expired_batch :: "u64 \<Rightarrow> CacheTask \<Rightarrow> CacheTask \<times> cache_effect list" where
  "expired_batch batch_id t =
     (case bt_get (batches t) batch_id of
        Some batch \<Rightarrow> for_blocks expire_block batch (t\<lparr>batches := bt_remove batch_id (batches t)\<rparr>)
      | None \<Rightarrow> (t, []))"

text \<open>The events of the main loop. The loop ends when the last requester is dropped.\<close>

datatype loop_event =
  Got_request CacheRequest
| Got_message BlockingTaskMessage
| Got_expired u64

fun loop_step ::
    "(h256 \<Rightarrow> string) \<Rightarrow> loop_event \<Rightarrow> CacheTask \<Rightarrow> CacheTask \<times> cache_effect list" where
  "loop_step show_hash (Got_request (StartBatch sender blocks)) t = request_start_batch sender blocks t"
| "loop_step show_hash (Got_request (GetTraces sender block)) t = request_get_traces show_hash sender block t"
| "loop_step show_hash (Got_request (StopBatch batch_id)) t = request_stop_batch batch_id t"
| "loop_step show_hash (Got_message (Started block)) t = blocking_started block t"
| "loop_step show_hash (Got_message (Finished block result)) t = blocking_finished block result t"
| "loop_step show_hash (Got_expired batch_id) t = expired_batch batch_id t"

fun main_loop ::
    "(h256 \<Rightarrow> string) \<Rightarrow> loop_event list \<Rightarrow> CacheTask \<Rightarrow> CacheTask \<times> cache_effect list" where
  "main_loop show_hash [] t = (t, [])"
| "main_loop show_hash (e # es) t =
     (case loop_step show_hash e t of
        (t1, es1) \<Rightarrow> (case main_loop show_hash es t1 of (t2, es2) \<Rightarrow> (t2, es1 @ es2)))"


section \<open>The requester\<close>

text \<open>
  What the handler makes of the outcome of sending a request and of the answer on its channel;
  the left summands are the renderings of the errors of the channels, and \<open>debug\<close> renders an
  error of the task.
\<close>

definition requester_start_batch :: "rpc_error + unit \<Rightarrow> rpc_error + u64 \<Rightarrow> rpc_error + u64" where
  "requester_start_batch sent response =
     (case sent of
        Inl e \<Rightarrow> Inl (''Failed to send request to the trace cache task. Error : '' @ e)
      | Inr _ \<Rightarrow>
          (case response of
             Inl e \<Rightarrow> Inl (''Trace cache task closed the response channel. Error : '' @ e)
           | Inr batch_id \<Rightarrow> Inr batch_id))"

definition requester_get_traces ::
    "(rpc_error \<Rightarrow> string) \<Rightarrow> rpc_error + unit \<Rightarrow> rpc_error + traces_result \<Rightarrow> traces_result" where
  "requester_get_traces debug sent response =
     (case sent of
        Inl e \<Rightarrow> Inl (''Failed to send request to the trace cache task. Error : '' @ e)
      | Inr _ \<Rightarrow>
          (case response of
             Inl e \<Rightarrow> Inl (''Trace cache task closed the response channel. Error : '' @ e)
           | Inr (Inl e) \<Rightarrow> Inl (''Failed to replay block. Error : '' @ debug e)
           | Inr (Inr traces) \<Rightarrow> Inr traces))"


section \<open>Channels\<close>

text \<open>
  The response channels that a state holds, that effects answer or drop, and that an event
  brings in.
\<close>

definition pending :: "CacheTask \<Rightarrow> channel list" where
  "pending t = concat (map (\<lambda>e. waiting_requests (cb_state (snd e))) (cached_blocks t))"

definition answered :: "cache_effect list \<Rightarrow> channel list" where
  "answered es = concat (map (\<lambda>e. case e of Send_traces ch _ \<Rightarrow> [ch] | _ \<Rightarrow> []) es)"

definition dropped :: "cache_effect list \<Rightarrow> channel list" where
  "dropped es = concat (map (\<lambda>e. case e of Drop_channel ch \<Rightarrow> [ch] | _ \<Rightarrow> []) es)"

fun asked :: "loop_event \<Rightarrow> channel list" where
  "asked (Got_request (GetTraces sender _)) = [sender]"
| "asked _ = []"

definition cache_wf :: "CacheTask \<Rightarrow> bool" where
  "cache_wf t \<longleftrightarrow> bt_inv (cached_blocks t) \<and> bt_inv (batches t)"

named_theorems channel_simps \<open>the channels of effects\<close>

lemma answered_simps [channel_simps]:
  "answered [] = []" "answered (es @ es') = answered es @ answered es'"
  "answered (Send_traces ch r # es) = ch # answered es" "answered (Drop_channel ch # es) = answered es"
  "answered (Send_batch_id ch i # es) = answered es" "answered (Spawn_tracing u b # es) = answered es"
  "answered (map Drop_channel cs) = []" "answered (map (\<lambda>ch. Send_traces ch r) cs) = cs"
  by (simp_all add: answered_def comp_def)

lemma dropped_simps [channel_simps]:
  "dropped [] = []" "dropped (es @ es') = dropped es @ dropped es'"
  "dropped (Drop_channel ch # es) = ch # dropped es" "dropped (Send_traces ch r # es) = dropped es"
  "dropped (Send_batch_id ch i # es) = dropped es" "dropped (Spawn_tracing u b # es) = dropped es"
  "dropped (map Drop_channel cs) = cs" "dropped (map (\<lambda>ch. Send_traces ch r) cs) = []"
  by (simp_all add: dropped_def comp_def)

lemma mset_pending:
  "mset (pending t) = (\<Sum>e \<in># mset (cached_blocks t). mset (waiting_requests (cb_state (snd e))))"
  by (simp add: pending_def mset_concat comp_def flip: sum_mset_sum_list)

lemma mset_pending_get:
  assumes "bt_inv (cached_blocks t)" and "bt_get (cached_blocks t) b = Some c"
  shows "mset (pending t) =
         mset (waiting_requests (cb_state c)) +
         mset (pending (t\<lparr>cached_blocks := bt_remove b (cached_blocks t)\<rparr>))"
  by (simp add: mset_pending mset_bt_get[OF assms])

lemma mset_pending_insert:
  assumes "bt_inv (cached_blocks t)"
  shows "mset (pending (t\<lparr>cached_blocks := bt_insert b c (cached_blocks t)\<rparr>)) =
         mset (waiting_requests (cb_state c)) +
         mset (pending (t\<lparr>cached_blocks := bt_remove b (cached_blocks t)\<rparr>))"
  by (simp add: mset_pending mset_bt_insert[OF assms])

lemma pending_update [simp]:
  "pending (t\<lparr>batches := x\<rparr>) = pending t" "pending (t\<lparr>next_batch_id := i\<rparr>) = pending t"
  "pending (t\<lparr>unqueue_channels := n\<rparr>) = pending t"
  by (simp_all add: pending_def)

text \<open>
  The contract of a round of a loop over blocks: it keeps the maps ordered and the batches
  unchanged, and every channel it holds stays or is answered or dropped.
\<close>

locale block_round =
  fixes round :: "h256 \<Rightarrow> CacheTask \<Rightarrow> CacheTask \<times> cache_effect list"
  assumes round_wf: "cache_wf t \<Longrightarrow> cache_wf (fst (round b t))"
    and round_batches: "batches (fst (round b t)) = batches t"
    and round_next_id: "next_batch_id (fst (round b t)) = next_batch_id t"
    and round_channels: "cache_wf t \<Longrightarrow>
      mset (pending t) = mset (answered (snd (round b t))) + mset (dropped (snd (round b t))) +
        mset (pending (fst (round b t)))"
begin

lemma loop_wf: "cache_wf t \<Longrightarrow> cache_wf (fst (for_blocks round bs t))"
  by (induction bs arbitrary: t) (auto simp: split_beta round_wf)

lemma loop_batches: "batches (fst (for_blocks round bs t)) = batches t"
  by (induction bs arbitrary: t) (auto simp: split_beta round_batches)

lemma loop_next_id: "next_batch_id (fst (for_blocks round bs t)) = next_batch_id t"
  by (induction bs arbitrary: t) (auto simp: split_beta round_next_id)

lemma loop_channels:
  "cache_wf t \<Longrightarrow>
     mset (pending t) = mset (answered (snd (for_blocks round bs t))) +
       mset (dropped (snd (for_blocks round bs t))) + mset (pending (fst (for_blocks round bs t)))"
proof (induction bs arbitrary: t)
  case (Cons b bs)
  from round_channels[OF Cons.prems, of b] Cons.IH[OF round_wf[OF Cons.prems], of b] show ?case
    by (simp add: split_beta channel_simps)
qed (simp add: channel_simps)

end

interpretation start: block_round start_block
proof
  fix t b
  show "cache_wf t \<Longrightarrow> cache_wf (fst (start_block b t))" "batches (fst (start_block b t)) = batches t"
    "next_batch_id (fst (start_block b t)) = next_batch_id t"
    by (auto simp: start_block_def cache_wf_def split: option.splits)
  show "mset (pending t) = mset (answered (snd (start_block b t))) + mset (dropped (snd (start_block b t))) +
        mset (pending (fst (start_block b t)))" if "cache_wf t"
  proof (cases "bt_get (cached_blocks t) b")
    case None
    with that show ?thesis
      by (simp add: start_block_def cache_wf_def channel_simps mset_pending_insert bt_remove_absent)
  next
    case (Some c)
    with that show ?thesis
      by (simp add: start_block_def cache_wf_def channel_simps mset_pending_insert mset_pending_get)
  qed
qed

lemma remove_block_channels:
  assumes "cache_wf t"
  shows "mset (pending t) = mset (answered (snd (remove_block b t))) + mset (dropped (snd (remove_block b t))) +
           mset (pending (fst (remove_block b t)))"
proof (cases "bt_get (cached_blocks t) b")
  case None
  then show ?thesis by (simp add: remove_block_def channel_simps bt_remove_absent)
next
  case (Some c)
  with assms show ?thesis by (simp add: remove_block_def channel_simps mset_pending_get cache_wf_def)
qed

lemma remove_block_fields [simp]:
  "cache_wf t \<Longrightarrow> cache_wf (fst (remove_block b t))" "batches (fst (remove_block b t)) = batches t"
  "next_batch_id (fst (remove_block b t)) = next_batch_id t"
  "cached_blocks (fst (remove_block b t)) = bt_remove b (cached_blocks t)"
  "unqueue_channels (fst (remove_block b t)) = unqueue_channels t"
  by (simp_all add: remove_block_def cache_wf_def)

interpretation stop: block_round stop_block
  by unfold_locales
    (auto simp: stop_block_def channel_simps remove_block_channels split: option.splits)

interpretation expire: block_round expire_block
proof
  fix t b
  show "cache_wf t \<Longrightarrow> cache_wf (fst (expire_block b t))" "batches (fst (expire_block b t)) = batches t"
    "next_batch_id (fst (expire_block b t)) = next_batch_id t"
    by (auto simp: expire_block_def Let_def cache_wf_def remove_block_def split: option.splits)
  show "mset (pending t) = mset (answered (snd (expire_block b t))) + mset (dropped (snd (expire_block b t))) +
        mset (pending (fst (expire_block b t)))" if "cache_wf t"
  proof (cases "bt_get (cached_blocks t) b")
    case (Some c)
    let ?t = "t\<lparr>cached_blocks := bt_insert b (c\<lparr>active_batch_count := active_batch_count c - 1\<rparr>) (cached_blocks t)\<rparr>"
    have same: "mset (pending ?t) = mset (pending t)"
      using that Some by (simp add: cache_wf_def mset_pending_insert mset_pending_get)
    have "cache_wf ?t" using that by (simp add: cache_wf_def)
    from remove_block_channels[OF this, of b] Some same show ?thesis
      by (simp add: expire_block_def Let_def channel_simps)
  qed (simp add: expire_block_def channel_simps)
qed

lemma loop_step_wf: "cache_wf t \<Longrightarrow> cache_wf (fst (loop_step show_hash e t))"
proof (induction show_hash e t rule: loop_step.induct)
  case (1 show_hash sender blocks t)
  then have "cache_wf (t\<lparr>batches := bt_insert (next_batch_id t) blocks (batches t)\<rparr>)"
    by (simp add: cache_wf_def)
  from start.loop_wf[OF this, of blocks] show ?case
    by (simp add: request_start_batch_def split_beta cache_wf_def)
next
  case (6 show_hash batch_id t)
  then have "cache_wf (t\<lparr>batches := bt_remove batch_id (batches t)\<rparr>)" by (simp add: cache_wf_def)
  then show ?case using 6 by (auto simp: expired_batch_def intro: expire.loop_wf split: option.splits)
next
  case (3 show_hash batch_id t)
  then show ?case by (auto simp: request_stop_batch_def intro: stop.loop_wf split: option.splits)
qed (auto simp: cache_wf_def request_get_traces_def blocking_started_def blocking_finished_def
      split: option.splits CacheBlockState.splits)

lemma loop_step_channels:
  "cache_wf t \<Longrightarrow> mset (asked e) + mset (pending t) =
     mset (answered (snd (loop_step show_hash e t))) + mset (dropped (snd (loop_step show_hash e t))) +
     mset (pending (fst (loop_step show_hash e t)))"
proof (induction show_hash e t rule: loop_step.induct)
  case (1 show_hash sender blocks t)
  then have "cache_wf (t\<lparr>batches := bt_insert (next_batch_id t) blocks (batches t)\<rparr>)"
    by (simp add: cache_wf_def)
  from start.loop_channels[OF this, of blocks] show ?case
    by (simp add: request_start_batch_def split_beta channel_simps)
next
  case (2 show_hash sender block t)
  then show ?case
    by (auto simp: request_get_traces_def channel_simps cache_wf_def mset_pending_insert mset_pending_get
        split: option.splits CacheBlockState.splits)
next
  case (3 show_hash batch_id t)
  then show ?case
    using stop.loop_channels[OF 3] by (auto simp: request_stop_batch_def channel_simps split: option.splits)
next
  case (6 show_hash batch_id t)
  then have "cache_wf (t\<lparr>batches := bt_remove batch_id (batches t)\<rparr>)" by (simp add: cache_wf_def)
  from expire.loop_channels[OF this] show ?case
    by (auto simp: expired_batch_def channel_simps split: option.splits)
qed (auto simp: cache_wf_def blocking_started_def blocking_finished_def channel_simps
      mset_pending_insert mset_pending_get split: option.splits CacheBlockState.splits)

lemma main_loop_wf: "cache_wf t \<Longrightarrow> cache_wf (fst (main_loop show_hash es t))"
  by (induction es arbitrary: t) (auto simp: split_beta loop_step_wf)

lemma main_loop_channels:
  "cache_wf t \<Longrightarrow> mset (concat (map asked evs)) + mset (pending t) =
     mset (answered (snd (main_loop show_hash evs t))) + mset (dropped (snd (main_loop show_hash evs t))) +
     mset (pending (fst (main_loop show_hash evs t)))"
proof (induction evs arbitrary: t)
  case (Cons e evs)
  let ?r = "mset (concat (map asked evs))" and ?t = "fst (loop_step show_hash e t)"
  have "mset (concat (map asked (e # evs))) + mset (pending t) = ?r + (mset (asked e) + mset (pending t))"
    by (simp add: ac_simps)
  also have "\<dots> = mset (answered (snd (loop_step show_hash e t))) + mset (dropped (snd (loop_step show_hash e t))) +
      (?r + mset (pending ?t))"
    unfolding loop_step_channels[OF Cons.prems, of e show_hash] by (simp only: ac_simps)
  also have "\<dots> = mset (answered (snd (main_loop show_hash (e # evs) t))) +
      mset (dropped (snd (main_loop show_hash (e # evs) t))) + mset (pending (fst (main_loop show_hash (e # evs) t)))"
    unfolding Cons.IH[OF loop_step_wf[OF Cons.prems], of show_hash e]
    by (simp add: split_beta channel_simps ac_simps)
  finally show ?case .
qed (simp add: channel_simps)

lemma cache_wf_new [simp]: "cache_wf cache_new"
  by (simp add: cache_new_def cache_wf_def)

text \<open>
  C6. No request for traces is lost or answered twice: after any sequence of events, the
  response channels received are those answered, those dropped and those still waiting,
  with multiplicity.
\<close>

theorem cache_conserves_channels:
  "mset (concat (map asked evs)) =
     mset (answered (snd (main_loop show_hash evs cache_new))) +
     mset (dropped (snd (main_loop show_hash evs cache_new))) +
     mset (pending (fst (main_loop show_hash evs cache_new)))"
  using main_loop_channels[OF cache_wf_new, of evs show_hash] by (simp add: cache_new_def pending_def)


section \<open>Counts\<close>

text \<open>How often the batches that have not expired list a block, and how many blocks they list.\<close>

definition occurrences :: "(u64, h256 list) btree \<Rightarrow> h256 \<Rightarrow> nat" where
  "occurrences bs b = sum_list (map (\<lambda>e. count_list (snd e) b) bs)"

definition listed :: "(u64, h256 list) btree \<Rightarrow> nat" where
  "listed bs = sum_list (map (\<lambda>e. length (snd e)) bs)"

text \<open>The number of batches that events start, and of the blocks in them.\<close>

fun event_load :: "loop_event \<Rightarrow> nat" where
  "event_load (Got_request (StartBatch _ blocks)) = Suc (length blocks)"
| "event_load _ = 0"

definition counts_bounded :: "(h256 \<Rightarrow> nat) \<Rightarrow> CacheTask \<Rightarrow> bool" where
  "counts_bounded f t \<longleftrightarrow>
     (\<forall>b c. bt_get (cached_blocks t) b = Some c \<longrightarrow>
        1 \<le> unat (active_batch_count c) \<and> unat (active_batch_count c) \<le> f b)"

definition counts_inv :: "nat \<Rightarrow> CacheTask \<Rightarrow> bool" where
  "counts_inv n t \<longleftrightarrow>
     cache_wf t \<and> counts_bounded (occurrences (batches t)) t \<and>
     (\<forall>i \<in> fst ` set (batches t). i < next_batch_id t) \<and>
     unat (next_batch_id t) + listed (batches t) \<le> n"

lemma occurrences_insert:
  assumes "bt_inv bs" and "bt_get bs i = None"
  shows "occurrences (bt_insert i blocks bs) b = occurrences bs b + count_list blocks b"
    and "listed (bt_insert i blocks bs) = listed bs + length blocks"
  using mset_bt_insert[OF assms(1), of i blocks] bt_remove_absent[OF assms(2)]
  by (simp_all add: occurrences_def listed_def flip: sum_mset_sum_list)

lemma occurrences_remove:
  assumes "bt_inv bs" and "bt_get bs i = Some blocks"
  shows "occurrences bs b = occurrences (bt_remove i bs) b + count_list blocks b"
    and "listed bs = listed (bt_remove i bs) + length blocks"
  using mset_bt_get[OF assms] by (simp_all add: occurrences_def listed_def flip: sum_mset_sum_list)

lemma occurrences_le_listed: "occurrences bs b \<le> listed bs"
  by (induction bs) (auto simp: occurrences_def listed_def intro!: add_mono count_le_length)

lemma start_blocks_bounded:
  assumes "counts_bounded f t" and "\<And>b. f b + count_list bs b < 2 ^ 64"
  shows "counts_bounded (\<lambda>b. f b + count_list bs b) (fst (for_blocks start_block bs t))"
  using assms
proof (induction bs arbitrary: f t)
  case (Cons b bs)
  have "unat (active_batch_count c + 1) = unat (active_batch_count c) + 1"
    if "bt_get (cached_blocks t) b = Some c" for c
  proof -
    have "unat (active_batch_count c) \<le> f b" using Cons.prems(1) that by (simp add: counts_bounded_def)
    with Cons.prems(2)[of b] have "unat (active_batch_count c) + 1 < 2 ^ 64" by simp
    then show ?thesis by (simp add: unat_word_ariths)
  qed
  with Cons.prems(1) have "counts_bounded (f(b := f b + 1)) (fst (start_block b t))"
    by (auto simp: counts_bounded_def start_block_def split: option.splits)
  moreover have "(f(b := f b + 1)) x + count_list bs x = f x + count_list (b # bs) x" for x by simp
  ultimately show ?case using Cons.IH[of "f(b := f b + 1)" "fst (start_block b t)"] Cons.prems(2)
    by (simp only: for_blocks.simps split_beta fst_conv)
qed (simp add: counts_bounded_def)

lemma expire_blocks_bounded:
  assumes "counts_bounded f t"
  shows "counts_bounded (\<lambda>b. f b - count_list bs b) (fst (for_blocks expire_block bs t))"
  using assms
proof (induction bs arbitrary: f t)
  case (Cons b bs)
  have "unat (active_batch_count c - 1) = unat (active_batch_count c) - 1"
    if "bt_get (cached_blocks t) b = Some c" for c
    using Cons.prems that by (auto simp: counts_bounded_def unat_sub word_le_nat_alt)
  with Cons.prems have "counts_bounded (f(b := f b - 1)) (fst (expire_block b t))"
    by (auto simp: counts_bounded_def expire_block_def Let_def unat_eq_zero[symmetric]
        intro: diff_le_mono split: option.splits)
  moreover have "(f(b := f b - 1)) x - count_list bs x = f x - count_list (b # bs) x" for x by simp
  ultimately show ?case using Cons.IH[of "f(b := f b - 1)" "fst (expire_block b t)"]
    by (simp only: for_blocks.simps split_beta fst_conv)
qed (simp add: counts_bounded_def)

lemma stop_blocks_bounded:
  "counts_bounded f t \<Longrightarrow> counts_bounded f (fst (for_blocks stop_block bs t))"
proof (induction bs arbitrary: t)
  case (Cons b bs)
  have "counts_bounded f (fst (stop_block b t))"
    using Cons.prems by (auto simp: counts_bounded_def stop_block_def split: option.splits)
  then show ?case using Cons.IH by (simp add: split_beta)
qed simp

lemma loop_step_counts:
  "counts_inv n t \<Longrightarrow> n + event_load e < 2 ^ 64 \<Longrightarrow>
   counts_inv (n + event_load e) (fst (loop_step show_hash e t))"
proof (induction show_hash e t rule: loop_step.induct)
  case (1 show_hash sender blocks t)
  let ?i = "next_batch_id t" and ?t = "t\<lparr>batches := bt_insert (next_batch_id t) blocks (batches t)\<rparr>"
  have fresh: "bt_get (batches t) ?i = None"
    using 1(1) by (auto simp: counts_inv_def map_of_eq_None_iff)
  have inv: "bt_inv (batches t)" using 1(1) by (simp add: counts_inv_def cache_wf_def)
  note occ = occurrences_insert[OF inv fresh]
  have next_id: "unat (?i + 1) = unat ?i + 1"
    using 1 by (simp add: counts_inv_def unat_word_ariths)
  have "counts_bounded (\<lambda>b. occurrences (batches t) b + count_list blocks b) (fst (for_blocks start_block blocks ?t))"
  proof (rule start_blocks_bounded)
    show "counts_bounded (occurrences (batches t)) ?t" using 1(1) by (simp add: counts_inv_def counts_bounded_def)
    show "occurrences (batches t) b + count_list blocks b < 2 ^ 64" for b
      using 1 occurrences_le_listed[of "batches t" b] count_le_length[of blocks b] by (simp add: counts_inv_def)
  qed
  then have "counts_bounded (occurrences (bt_insert ?i blocks (batches t)))
      (fst (loop_step show_hash (Got_request (StartBatch sender blocks)) t))"
    by (simp add: request_start_batch_def split_beta occ counts_bounded_def)
  moreover have "cache_wf (fst (loop_step show_hash (Got_request (StartBatch sender blocks)) t))"
    using 1(1) by (simp add: loop_step_wf counts_inv_def del: loop_step.simps)
  ultimately show ?case
    using 1(1) next_id
    by (auto simp: counts_inv_def request_start_batch_def split_beta start.loop_batches start.loop_next_id
        occ set_keys_bt_insert word_less_nat_alt dest!: bspec)
next
  case (3 show_hash batch_id t)
  then show ?case
    by (auto simp: counts_inv_def request_stop_batch_def stop.loop_batches stop.loop_next_id stop.loop_wf
        stop_blocks_bounded split: option.splits)
next
  case (6 show_hash batch_id t)
  show ?case
  proof (cases "bt_get (batches t) batch_id")
    case (Some blocks)
    have inv: "bt_inv (batches t)" using 6(1) by (simp add: counts_inv_def cache_wf_def)
    note occ = occurrences_remove[OF inv Some]
    let ?t = "t\<lparr>batches := bt_remove batch_id (batches t)\<rparr>"
    have "counts_bounded (\<lambda>b. occurrences (batches t) b - count_list blocks b) (fst (for_blocks expire_block blocks ?t))"
      using 6(1) by (intro expire_blocks_bounded) (simp add: counts_inv_def counts_bounded_def)
    moreover have "cache_wf ?t" using 6(1) by (simp add: counts_inv_def cache_wf_def)
    ultimately show ?thesis
      using 6(1) Some occ(2)
      by (auto simp: counts_inv_def expired_batch_def expire.loop_batches expire.loop_next_id expire.loop_wf
          occ(1) set_bt_remove)
  qed (use 6 in \<open>simp add: expired_batch_def\<close>)
qed (auto simp: counts_inv_def cache_wf_def counts_bounded_def request_get_traces_def blocking_started_def
      blocking_finished_def split: option.splits CacheBlockState.splits)

lemma main_loop_counts:
  "counts_inv n t \<Longrightarrow> n + sum_list (map event_load evs) < 2 ^ 64 \<Longrightarrow>
   counts_inv (n + sum_list (map event_load evs)) (fst (main_loop show_hash evs t))"
proof (induction evs arbitrary: n t)
  case (Cons e evs)
  have "counts_inv (n + event_load e) (fst (loop_step show_hash e t))"
    using Cons.prems by (intro loop_step_counts) simp_all
  from Cons.IH[OF this] Cons.prems(2) show ?case by (simp add: split_beta add.assoc)
qed simp

text \<open>
  C10. The batch counts neither wrap nor leak: while fewer than two to the 64 batches and blocks
  were requested, every block in the cache is counted at least once and at most as often as
  the batches that have not expired list it. So no count is decreased below zero, and when
  the last batch has expired the cache is empty.
\<close>

theorem cache_counts_bounded:
  assumes "sum_list (map event_load evs) < 2 ^ 64"
  shows "let t = fst (main_loop show_hash evs cache_new) in
           list_all (\<lambda>(b, c). 1 \<le> unat (active_batch_count c) \<and>
                              unat (active_batch_count c) \<le> occurrences (batches t) b) (cached_blocks t) \<and>
           (batches t = [] \<longrightarrow> cached_blocks t = [])"
proof -
  let ?t = "fst (main_loop show_hash evs cache_new)"
  have "counts_inv 0 cache_new"
    by (simp add: counts_inv_def counts_bounded_def) (simp add: cache_new_def listed_def)
  from main_loop_counts[OF this, of evs show_hash] assms
  have inv: "cache_wf ?t" "counts_bounded (occurrences (batches ?t)) ?t" by (simp_all add: counts_inv_def)
  have all: "1 \<le> unat (active_batch_count c) \<and> unat (active_batch_count c) \<le> occurrences (batches ?t) b"
    if "(b, c) \<in> set (cached_blocks ?t)" for b c
    using that inv map_of_is_SomeI[OF bt_inv_distinct that] by (simp add: cache_wf_def counts_bounded_def)
  have "cached_blocks ?t = []" if empty: "batches ?t = []"
  proof (cases "cached_blocks ?t")
    case (Cons e es)
    then have "(fst e, snd e) \<in> set (cached_blocks ?t)" by simp
    from all[OF this] have "1 \<le> occurrences (batches ?t) (fst e)" by linarith
    with empty show ?thesis by (simp add: occurrences_def)
  qed
  with all show ?thesis by (auto simp: Let_def list_all_iff)
qed

text \<open>Two batches of the same block; the first is stopped and expires.\<close>

definition shared_block_events :: "loop_event list" where
  "shared_block_events =
     [Got_request (StartBatch 0 [5, 6]), Got_request (StartBatch 1 [5]), Got_message (Started 5),
      Got_request (StopBatch 0), Got_expired 0]"

lemmas cache_defs = cache_new_def request_start_batch_def start_block_def request_get_traces_def
  request_stop_batch_def stop_block_def remove_block_def blocking_started_def blocking_finished_def
  expired_batch_def expire_block_def bt_remove_def Let_def

theorem cache_counts_bounded_witness:
  "sum_list (map event_load shared_block_events) = 5 \<and>
   map (\<lambda>(b, c). (b, active_batch_count c))
     (cached_blocks (fst (main_loop (\<lambda>_. []) shared_block_events cache_new))) = [(5, 1)] \<and>
   list_all (\<lambda>(b, c). 1 \<le> unat (active_batch_count c))
     (cached_blocks (fst (main_loop (\<lambda>_. []) shared_block_events cache_new)))"
  using cache_counts_bounded[of shared_block_events "\<lambda>_. []"]
  by (simp add: shared_block_events_def cache_defs)


section \<open>Stopped batches\<close>

lemma stop_block_get:
  "bt_get (cached_blocks (fst (stop_block b' t))) b =
     (case bt_get (cached_blocks t) b of
        Some c \<Rightarrow>
          (if b = b' \<and> active_batch_count c = 1 \<and> not_started (cb_state c) then None else Some c)
      | None \<Rightarrow> None)"
  by (auto simp: stop_block_def split: option.splits)

lemma stop_blocks_get:
  "bt_get (cached_blocks (fst (for_blocks stop_block bs t))) b =
     (case bt_get (cached_blocks t) b of
        Some c \<Rightarrow>
          (if b \<in> set bs \<and> active_batch_count c = 1 \<and> not_started (cb_state c) then None else Some c)
      | None \<Rightarrow> None)"
proof (induction bs arbitrary: t)
  case (Cons b' bs)
  show ?case
    by (auto simp: split_beta Cons.IH stop_block_get split: option.splits)
qed (simp split: option.splits)

text \<open>
  Stopping a batch discards exactly the blocks of the batch that no other batch uses and
  whose tracing has not started; every other entry, and the batch itself, stays.
\<close>

lemma stop_batch_discards_exactly:
  "bt_get (cached_blocks (fst (request_stop_batch i t))) b =
     (case bt_get (cached_blocks t) b of
        Some c \<Rightarrow>
          (if b \<in> set (case bt_get (batches t) i of Some bs \<Rightarrow> bs | None \<Rightarrow> []) \<and> active_batch_count c = 1 \<and>
              not_started (cb_state c)
           then None else Some c)
      | None \<Rightarrow> None) \<and>
   batches (fst (request_stop_batch i t)) = batches t"
  by (auto simp: request_stop_batch_def stop_blocks_get stop.loop_batches split: option.splits)

text \<open>Starting a batch gives a block that is not in the cache a new entry, counted once.\<close>

lemma start_block_get:
  "b \<noteq> b' \<Longrightarrow> bt_get (cached_blocks (fst (start_block b' t))) b = bt_get (cached_blocks t) b"
  by (auto simp: start_block_def split: option.splits)

lemma start_blocks_other:
  "b \<notin> set bs \<Longrightarrow> bt_get (cached_blocks (fst (for_blocks start_block bs t))) b = bt_get (cached_blocks t) b"
  by (induction bs arbitrary: t) (auto simp: split_beta start_block_get)

lemma start_blocks_new:
  assumes "b \<in> set bs" and "distinct bs" and "bt_get (cached_blocks t) b = None"
  shows "\<exists>u. bt_get (cached_blocks (fst (for_blocks start_block bs t))) b =
           Some \<lparr>active_batch_count = 1, cb_state = Pooled False [] u\<rparr>"
  using assms
proof (induction bs arbitrary: t)
  case (Cons b' bs)
  show ?case
  proof (cases "b = b'")
    case True
    with Cons.prems show ?thesis by (simp add: split_beta start_blocks_other) (simp add: start_block_def)
  next
    case False
    with Cons show ?thesis by (simp add: split_beta start_block_get)
  qed
qed simp

text \<open>An expiration removes a block that is counted once and drops the requests that wait for it.\<close>

lemma expire_block_other:
  "b \<noteq> b' \<Longrightarrow> bt_get (cached_blocks (fst (expire_block b' t))) b = bt_get (cached_blocks t) b"
  by (auto simp: expire_block_def Let_def split: option.splits)

lemma expire_blocks_absent:
  "bt_get (cached_blocks t) b = None \<Longrightarrow> bt_get (cached_blocks (fst (for_blocks expire_block bs t))) b = None"
proof (induction bs arbitrary: t)
  case (Cons b' bs)
  have "bt_get (cached_blocks (fst (expire_block b' t))) b = None"
    using Cons.prems by (cases "b = b'") (simp_all add: expire_block_other, simp add: expire_block_def)
  then show ?case using Cons.IH by (simp add: split_beta)
qed simp

lemma expire_blocks_last:
  assumes "b \<in> set bs" and "bt_get (cached_blocks t) b = Some c" and "active_batch_count c = 1"
  shows "bt_get (cached_blocks (fst (for_blocks expire_block bs t))) b = None \<and>
         set (waiting_requests (cb_state c)) \<subseteq> set (dropped (snd (for_blocks expire_block bs t)))"
  using assms
proof (induction bs arbitrary: t)
  case (Cons b' bs)
  show ?case
  proof (cases "b = b'")
    case True
    then have "bt_get (cached_blocks (fst (expire_block b' t))) b = None"
      "dropped (snd (expire_block b' t)) = waiting_requests (cb_state c)"
      using Cons.prems by (simp_all add: expire_block_def remove_block_def channel_simps Let_def)
    then show ?thesis by (simp add: split_beta expire_blocks_absent channel_simps)
  next
    case False
    with Cons.prems have "b \<in> set bs" "bt_get (cached_blocks (fst (expire_block b' t))) b = Some c"
      by (simp_all add: expire_block_other)
    from Cons.IH[OF this Cons.prems(3)] show ?thesis by (auto simp: split_beta channel_simps)
  qed
qed simp

text \<open>Reports of tracing tasks and requests for traces change neither counts nor batches.\<close>

fun starts_no_batch :: "loop_event \<Rightarrow> bool" where
  "starts_no_batch (Got_message _) \<longleftrightarrow> True"
| "starts_no_batch (Got_request (GetTraces _ _)) \<longleftrightarrow> True"
| "starts_no_batch _ \<longleftrightarrow> False"

lemma main_loop_append:
  "main_loop show_hash (es @ es') t =
     (case main_loop show_hash es t of
        (t1, fs1) \<Rightarrow> (case main_loop show_hash es' t1 of (t2, fs2) \<Rightarrow> (t2, fs1 @ fs2)))"
  by (induction es arbitrary: t) (simp_all add: split_beta)

lemma reports_keep_count:
  "list_all starts_no_batch es \<Longrightarrow>
     map_option active_batch_count (bt_get (cached_blocks (fst (main_loop show_hash es t))) b) =
       map_option active_batch_count (bt_get (cached_blocks t) b) \<and>
     batches (fst (main_loop show_hash es t)) = batches t"
proof (induction es arbitrary: t)
  case (Cons e es)
  have "map_option active_batch_count (bt_get (cached_blocks (fst (loop_step show_hash e t))) b) =
          map_option active_batch_count (bt_get (cached_blocks t) b) \<and>
        batches (fst (loop_step show_hash e t)) = batches t"
    using Cons.prems
    by (cases "(show_hash, e, t)" rule: loop_step.cases)
      (auto simp: request_get_traces_def blocking_started_def blocking_finished_def
        split: option.splits CacheBlockState.splits)
  with Cons.IH[of "fst (loop_step show_hash e t)"] Cons.prems show ?case
    by (simp add: split_beta del: loop_step.simps)
qed simp



end
