(* ===== verification/Chain_Client.thy ===== *)
theory Chain_Client
  imports Runtime_Tracing Trace_Cache
begin

text \<open>
  What the tracing handlers ask of the node: headers, bodies, the Ethereum data stored with a
  block, and the runtime calls that replay it. It is one record of functions, an argument of
  the handlers; a left summand is the rendering of an error. The replay of a block, which
  both tracing handlers share, is the definition \<open>replay_block\<close>.
\<close>

datatype BlockId = Id_Number u32 | Id_Hash h256

record header =
  hd_number :: u32
  hd_parent_hash :: h256

record 'r eth_block =
  eb_hash :: h256
  eb_transactions :: "'r TransactionV2 list"

record 'r storage_override =
  so_current_block :: "BlockId \<Rightarrow> 'r eth_block option"
  so_current_transaction_statuses :: "BlockId \<Rightarrow> h256 list option"

type_synonym replay_result = "Event list \<times> (string + (string + unit))"

record ('x, 'r) chain_client =
  co_best_number :: u32
  co_header :: "BlockId \<Rightarrow> string + header option"
  co_body :: "BlockId \<Rightarrow> string + 'x list option"
  co_schema :: "BlockId \<Rightarrow> nat"
  co_overrides :: "nat \<Rightarrow> 'r storage_override option"
  co_load_hash :: "h256 \<Rightarrow> rpc_error + BlockId option"
  co_load_transactions :: "h256 \<Rightarrow> rpc_error + (h256 \<times> u32) option"
  co_api_version :: "BlockId \<Rightarrow> string + u32 option"
  co_initialize_block :: "BlockId \<Rightarrow> header \<Rightarrow> string + unit"
  co_trace_block :: "StepEventFilter \<Rightarrow> BlockId \<Rightarrow> 'x list \<Rightarrow> h256 list \<Rightarrow> replay_result"
  co_trace_transaction :: "StepEventFilter \<Rightarrow> BlockId \<Rightarrow> 'x list \<Rightarrow> 'r TransactionV2 \<Rightarrow> replay_result"
  co_trace_transaction_before_version_4 ::
    "StepEventFilter \<Rightarrow> BlockId \<Rightarrow> 'x list \<Rightarrow> 'r PricedTransaction \<Rightarrow> replay_result"
  co_show_id :: "BlockId \<Rightarrow> string"
  co_debug_id :: "BlockId \<Rightarrow> string"
  co_show_hash :: "h256 \<Rightarrow> string"

text \<open>
  The closure that replays a block under a listener: the events it emits and its result. The
  argument \<open>block\<close> is the rendering of the block in the messages.
\<close>

definition replay_block ::
    "('x, 'r) chain_client \<Rightarrow> StepEventFilter \<Rightarrow> string \<Rightarrow> BlockId \<Rightarrow> header \<Rightarrow> 'x list \<Rightarrow> h256 list \<Rightarrow>
       Event list \<times> (rpc_error + unit)" where
  "replay_block c filt block parent header exts eth_tx_hashes =
     (case co_initialize_block c parent header of
        Inl e \<Rightarrow> ([], Inl (''Runtime api access error: '' @ e))
      | Inr _ \<Rightarrow>
          (case co_trace_block c filt parent exts eth_tx_hashes of
             (events, Inl e) \<Rightarrow>
               (events, Inl (''Blockchain error when replaying block '' @ block @ '' : '' @ e))
           | (events, Inr (Inl e)) \<Rightarrow>
               (events, Inl (''Internal runtime error when replaying block '' @ block @ '' : '' @ e))
           | (events, Inr (Inr _)) \<Rightarrow> (events, Inr ())))"

end
