(* ===== verification/Formatters.thy ===== *)
theory Formatters
  imports Call_List_Refinement
begin

text \<open>
  The Blockscout and \<^verbatim>\<open>trace_filter\<close> responses of the call-list listener
  (\<^verbatim>\<open>client/evm-tracing/src/formatters/blockscout.rs\<close> and \<^verbatim>\<open>trace_filter.rs\<close>), and what they are
  for the execution trees of \<open>Call_List_Refinement\<close>.
\<close>


section \<open>Operations\<close>

definition Blockscout_format :: "CallListListener \<Rightarrow> TransactionTrace option" where
  "Blockscout_format l =
     (case vec_last (cl_entries l) of
        Some entry \<Rightarrow> Some (CallList (map (\<lambda>e. Blockscout (snd e)) entry))
      | None \<Rightarrow> None)"

text \<open>One trace of the block response; the hash and the block are filled in by the caller.\<close>

definition filter_trace :: "u32 \<Rightarrow> BlockscoutCall \<Rightarrow> BlockTransactionTrace" where
  "filter_trace eth_tx_index trace =
     (case bc_inner trace of
        Inner_Call call_type to inp res \<Rightarrow>
          \<lparr>tt_action =
             Action_Call call_type (bc_from trace) (bc_gas trace) inp to (bc_value trace),
           tt_block_hash = 0, tt_block_number = 0,
           tt_output =
             (case res of
                Output out \<Rightarrow> Output_Result (Result_Call (bc_gas_used trace) out)
              | CallResult_Error error \<Rightarrow> Output_Error error),
           tt_subtraces = bc_subtraces trace, tt_trace_address = bc_trace_address trace,
           tt_transaction_hash = 0, tt_transaction_position = eth_tx_index\<rparr>
      | Inner_Create init res \<Rightarrow>
          \<lparr>tt_action =
             Action_Create CreateType_Create (bc_from trace) (bc_gas trace) init (bc_value trace),
           tt_block_hash = 0, tt_block_number = 0,
           tt_output =
             (case res of
                CreateResult_Success addr code \<Rightarrow>
                  Output_Result (Result_Create addr code (bc_gas_used trace))
              | CreateResult_Error error \<Rightarrow> Output_Error error),
           tt_subtraces = bc_subtraces trace, tt_trace_address = bc_trace_address trace,
           tt_transaction_hash = 0, tt_transaction_position = eth_tx_index\<rparr>
      | Inner_SelfDestruct balance to \<Rightarrow>
          \<lparr>tt_action = Action_Suicide (bc_from trace) balance to,
           tt_block_hash = 0, tt_block_number = 0, tt_output = Output_Result Result_Suicide,
           tt_subtraces = bc_subtraces trace, tt_trace_address = bc_trace_address trace,
           tt_transaction_hash = 0, tt_transaction_position = eth_tx_index\<rparr>)"

fun filter_traces ::
    "nat \<Rightarrow> (u32, BlockscoutCall) btree list \<Rightarrow> BlockTransactionTrace list" where
  "filter_traces i [] = []"
| "filter_traces i (entry # entries) =
     map (\<lambda>e. filter_trace (of_nat i) (snd e)) entry @ filter_traces (Suc i) entries"

definition TraceFilter_format :: "CallListListener \<Rightarrow> BlockTransactionTrace list option" where
  "TraceFilter_format l =
     Some (filter_traces 0 (filter (\<lambda>entry. entry \<noteq> []) (cl_entries l)))"

text \<open>Whether the output of a trace is an error.\<close>

definition failed_call :: "BlockscoutCall \<Rightarrow> bool" where
  "failed_call c =
     (case bc_inner c of
        Inner_Call _ _ _ (CallResult_Error _) \<Rightarrow> True
      | Inner_Create _ (CreateResult_Error _) \<Rightarrow> True
      | _ \<Rightarrow> False)"


section \<open>Lemmas\<close>

lemma flat_tx_not_Nil [simp]: "flat_tx i t \<noteq> []"
  by (cases t) simp

lemma filter_flat_block [simp]: "filter (\<lambda>m. m \<noteq> []) (flat_block i ts) = flat_block i ts"
  by (induction ts arbitrary: i) auto

lemma length_flat_block [simp]: "length (flat_block i ts) = length ts"
  by (induction ts arbitrary: i) auto

lemma filter_traces_enumerate:
  "filter_traces i ms = concat (map (\<lambda>(k, m). map (\<lambda>e. filter_trace (of_nat k) (snd e)) m) (enumerate i ms))"
  by (induction ms arbitrary: i) auto

text \<open>
  The Blockscout trace of a transaction lists its calls, creations and self-destructs in
  the order in which they began.
\<close>

lemma blockscout_trace_exact:
  assumes "wf_tx t" and "tx_nodes t \<le> 2 ^ 32"
  shows "Blockscout_format (finish_transaction (fold cl_event (tx_events t) cl_default)) =
         Some (CallList (map (\<lambda>e. Blockscout (snd e)) (flat_tx 0 t)))"
  using assms by (simp add: Blockscout_format_def transaction_entries vec_last_def)

lemma blockscout_trace_exact_sample:
  "wf_tx sample_tx \<and> tx_nodes sample_tx \<le> 2 ^ 32 \<and>
   Blockscout_format (finish_transaction (fold cl_event (tx_events sample_tx) cl_default)) =
     Some (CallList (map (\<lambda>e. Blockscout (snd e)) (flat_tx 0 sample_tx)))"
  using blockscout_trace_exact[of sample_tx] by (simp add: sample_simps)

text \<open>
  The \<^verbatim>\<open>trace_filter\<close> response for a block gives the traces of its transactions in block
  order, each with the position of its transaction in the block and, within a transaction, in
  the order in which the calls began; a trace has an error exactly when its call failed.
\<close>

lemma trace_filter_block_exact:
  assumes "list_all wf_tx ts" and "sum_list (map tx_nodes ts) \<le> 2 ^ 32"
  shows "TraceFilter_format (finish_transaction (fold cl_event (block_events ts) cl_default)) =
           Some (concat (map (\<lambda>(k, m). map (\<lambda>e. filter_trace (of_nat k) (snd e)) m)
                          (enumerate 0 (flat_block 0 ts)))) \<and>
         (\<forall>p c. tt_transaction_position (filter_trace p c) = p \<and>
                ((\<exists>m. tt_output (filter_trace p c) = Output_Error m) = failed_call c))"
  using assms
  by (simp_all add: TraceFilter_format_def block_entries filter_traces_enumerate filter_trace_def
      failed_call_def split: BlockscoutCallInner.splits CallResult.splits CreateResult.splits)

lemma trace_filter_block_exact_sample:
  "map_option (map (\<lambda>t. (tt_transaction_position t, tt_trace_address t)))
     (TraceFilter_format
       (finish_transaction (fold cl_event (block_events [sample_tx, sample_tx]) cl_default))) =
     Some [(0, []), (0, [0]), (0, [0, 0]), (0, [1]), (1, []), (1, [0]), (1, [0, 0]), (1, [1])]"
  using trace_filter_block_exact[of "[sample_tx, sample_tx]"]
  by (simp add: sample_simps frame_entry_def entry_of_def destruct_entry_def filter_trace_def)

end
