(* ===== verification/Trace_Block.thy ===== *)
theory Trace_Block
  imports Chain_Client Formatters
begin

text \<open>
  Tracing one block for the cache (\<^verbatim>\<open>client/rpc/trace/src/lib.rs\<close>, \<^verbatim>\<open>CacheTask::cache_block\<close>): the block
  and its Ethereum data are read, the block is replayed under the call-list listener, and the
  formatted traces get the hashes and the block number.
\<close>

section \<open>Model\<close>

definition reformat_error :: "TransactionTraceOutput \<Rightarrow> TransactionTraceOutput" where
  "reformat_error out =
     (case out of
        Output_Error e \<Rightarrow>
          if e = bytes_of ''execution reverted'' then Output_Error (bytes_of ''Reverted'') else out
      | Output_Result _ \<Rightarrow> out)"

definition replayed_bug :: "u32 \<Rightarrow> rpc_error" where
  "replayed_bug height =
     ''Bug: A transaction has been replayed while it shouldn'' @ apostrophe @ ''t (in block '' @
     decimal (unat height) @ '').''"

fun fill_missing ::
    "h256 \<Rightarrow> u32 \<Rightarrow> h256 list \<Rightarrow> BlockTransactionTrace list \<Rightarrow> traces_result" where
  "fill_missing eth_block_hash height statuses [] = Inr []"
| "fill_missing eth_block_hash height statuses (trace # traces) =
     (let i = unat (tt_transaction_position trace) in
      if i < length statuses
      then
        (case fill_missing eth_block_hash height statuses traces of
           Inl e \<Rightarrow> Inl e
         | Inr filled \<Rightarrow>
             Inr (trace\<lparr>tt_block_hash := eth_block_hash, tt_block_number := height,
                        tt_transaction_hash := statuses ! i,
                        tt_output := reformat_error (tt_output trace)\<rparr> # filled))
      else Inl (replayed_bug height))"

text \<open>The traces of a replay: the listener sees the events, and is formatted if all went well.\<close>

definition replay_traces ::
    "Event list \<times> (rpc_error + unit) \<Rightarrow> h256 \<Rightarrow> u32 \<Rightarrow> h256 list \<Rightarrow> traces_result" where
  "replay_traces replay eth_block_hash height statuses =
     (case replay of
        (_, Inl e) \<Rightarrow> Inl e
      | (events, Inr _) \<Rightarrow>
          (case TraceFilter_format (fold cl_event events cl_default) of
             None \<Rightarrow> Inl ''Fail to format proxy''
           | Some traces \<Rightarrow> fill_missing eth_block_hash height statuses traces))"

definition cache_block :: "('x, 'r) chain_client \<Rightarrow> h256 \<Rightarrow> traces_result" where
  "cache_block c substrate_hash =
     (let block_id = Id_Hash substrate_hash in
      case co_header c block_id of
        Inl e \<Rightarrow> Inl (''Error when fetching substrate block '' @ co_show_hash c substrate_hash @ '' header : '' @ e)
      | Inr None \<Rightarrow> Inl (''Subtrate block '' @ co_show_id c block_id @ '' don'' @ apostrophe @ ''t exist'')
      | Inr (Some header) \<Rightarrow>
          (let height = hd_number header; parent = Id_Hash (hd_parent_hash header) in
           case co_overrides c (co_schema c block_id) of
             None \<Rightarrow> Inl (''No storage override at '' @ co_debug_id c block_id)
           | Some schema \<Rightarrow>
               (case (so_current_block schema block_id, so_current_transaction_statuses schema block_id) of
                  (Some eth_block, Some statuses) \<Rightarrow>
                    (case co_body c block_id of
                       Inl e \<Rightarrow>
                         Inl (''Blockchain error when fetching extrinsics of block '' @ decimal (unat height) @
                              '' : '' @ e)
                     | Inr None \<Rightarrow>
                         Inl (''Could not find block '' @ decimal (unat height) @ '' when fetching extrinsics.'')
                     | Inr (Some extrinsics) \<Rightarrow>
                         replay_traces
                           (replay_block c cl_step_event_filter (decimal (unat height)) parent header
                              extrinsics statuses)
                           (eb_hash eth_block) height statuses)
                | _ \<Rightarrow>
                    Inl (''Failed to get Ethereum block data for Substrate block '' @ co_show_id c block_id))))"


section \<open>Reference\<close>

text \<open>The traces of the execution trees of a block, with the data of the block filled in.\<close>

definition filled_trace :: "h256 \<Rightarrow> u32 \<Rightarrow> h256 \<Rightarrow> u32 \<Rightarrow> BlockscoutCall \<Rightarrow> BlockTransactionTrace" where
  "filled_trace eth_block_hash height tx_hash pos call =
     (filter_trace pos call)
       \<lparr>tt_block_hash := eth_block_hash, tt_block_number := height, tt_transaction_hash := tx_hash,
        tt_output := reformat_error (tt_output (filter_trace pos call))\<rparr>"

definition block_traces :: "h256 \<Rightarrow> u32 \<Rightarrow> h256 list \<Rightarrow> tx list \<Rightarrow> BlockTransactionTrace list" where
  "block_traces eth_block_hash height statuses ts =
     concat (map (\<lambda>(k, m). map (\<lambda>e. filled_trace eth_block_hash height (statuses ! k) (of_nat k) (snd e)) m)
       (enumerate 0 (flat_block 0 ts)))"

text \<open>A node that has one block, with the given data, and replays it with the given events.\<close>

definition has_block ::
    "('x, 'r) chain_client \<Rightarrow> h256 \<Rightarrow> u32 \<Rightarrow> h256 \<Rightarrow> h256 list \<Rightarrow> 'x list \<Rightarrow> Event list \<Rightarrow> bool" where
  "has_block c substrate_hash height eth_hash statuses exts events \<longleftrightarrow>
     (case co_header c (Id_Hash substrate_hash) of
        Inr (Some header) \<Rightarrow>
          hd_number header = height \<and>
          (case co_overrides c (co_schema c (Id_Hash substrate_hash)) of
             Some schema \<Rightarrow>
               map_option eb_hash (so_current_block schema (Id_Hash substrate_hash)) = Some eth_hash \<and>
               so_current_transaction_statuses schema (Id_Hash substrate_hash) = Some statuses
           | None \<Rightarrow> False) \<and>
          co_body c (Id_Hash substrate_hash) = Inr (Some exts) \<and>
          co_initialize_block c (Id_Hash (hd_parent_hash header)) header = Inr () \<and>
          co_trace_block c cl_step_event_filter (Id_Hash (hd_parent_hash header)) exts statuses =
            (events, Inr (Inr ()))
      | _ \<Rightarrow> False)"

text \<open>A block of one call that was traced as transaction 9, on a node that has nothing else.\<close>

definition sample_extrinsic :: "(unit, unit) UncheckedExtrinsic" where
  "sample_extrinsic =
     \<lparr>xt_function = Ethereum_transact
        (Tx_Legacy \<lparr>pt_nonce = 0, pt_gas_price = 1, pt_gas_limit = 21000, pt_action = Action_to 2,
                 pt_value = 0, pt_input = [], pt_rest = ()\<rparr>)\<rparr>"

definition sample_client ::
    "Event list \<Rightarrow> ((unit, unit) UncheckedExtrinsic, unit) chain_client" where
  "sample_client events =
     \<lparr>co_best_number = 4, co_header = (\<lambda>_. Inr (Some \<lparr>hd_number = 4, hd_parent_hash = 3\<rparr>)),
      co_body = (\<lambda>_. Inr (Some [sample_extrinsic])), co_schema = (\<lambda>_. 0),
      co_overrides =
        (\<lambda>_. Some \<lparr>so_current_block = (\<lambda>_. Some \<lparr>eb_hash = 8,
                     eb_transactions = (case xt_function sample_extrinsic of
                        Ethereum_transact t \<Rightarrow> [t] | _ \<Rightarrow> [])\<rparr>),
                   so_current_transaction_statuses = (\<lambda>_. Some [9])\<rparr>),
      co_load_hash = (\<lambda>h. Inr (Some (Id_Hash h))), co_load_transactions = (\<lambda>_. Inr (Some (4, 0))),
      co_api_version = (\<lambda>_. Inr (Some 4)), co_initialize_block = (\<lambda>_ _. Inr ()),
      co_trace_block = (\<lambda>_ _ _ _. (events, Inr (Inr ()))),
      co_trace_transaction = (\<lambda>_ _ _ _. (events, Inr (Inr ()))),
      co_trace_transaction_before_version_4 = (\<lambda>_ _ _ _. (events, Inr (Inr ()))),
      co_show_id = (\<lambda>_. []), co_debug_id = (\<lambda>_. []), co_show_hash = (\<lambda>_. [])\<rparr>"


section \<open>Lemmas\<close>

lemma fill_missing_all:
  "list_all (\<lambda>t. unat (tt_transaction_position t) < length statuses) traces \<Longrightarrow>
     fill_missing eth_hash height statuses traces =
       Inr (map (\<lambda>t. t\<lparr>tt_block_hash := eth_hash, tt_block_number := height,
                       tt_transaction_hash := statuses ! unat (tt_transaction_position t),
                       tt_output := reformat_error (tt_output t)\<rparr>) traces)"
  by (induction traces) (simp_all add: Let_def)

lemma cache_block_replay:
  assumes "has_block c substrate_hash height eth_hash statuses exts events"
  shows "cache_block c substrate_hash = replay_traces (events, Inr ()) eth_hash height statuses"
  using assms
  by (auto simp: has_block_def cache_block_def replay_block_def Let_def
      split: sum.splits option.splits)

lemma length_trees: "length ts \<le> sum_list (map tx_nodes ts)"
proof (induction ts)
  case (Cons t ts)
  then show ?case by (cases t) (simp add: add_mono)
qed simp

lemma filter_trace_position [simp]: "tt_transaction_position (filter_trace p c) = p"
  by (simp add: filter_trace_def split: BlockscoutCallInner.splits)

lemma cache_block_trees:
  fixes run :: "'s \<Rightarrow> ('r, 'c) UncheckedExtrinsic \<Rightarrow> 's \<times> tx"
  assumes "has_block c substrate_hash height eth_hash statuses exts
             (fst (runtime_trace_block True (emits run) hash_of exts statuses s))"
    and "list_all wf_tx (known_trees run hash_of statuses exts s)"
    and "sum_list (map tx_nodes (known_trees run hash_of statuses exts s)) \<le> 2 ^ 32"
    and "length (known_trees run hash_of statuses exts s) \<le> length statuses"
  shows "cache_block c substrate_hash =
         Inr (block_traces eth_hash height statuses (known_trees run hash_of statuses exts s))"
proof -
  let ?ts = "known_trees run hash_of statuses exts s"
  have pos: "unat (of_nat k :: u32) = k" "k < length statuses" if "k < length ?ts" for k
    using that assms(3,4) length_trees[of ?ts] unat_advance[of 0 k] by simp_all
  have enum: "(k, m) \<in> set (enumerate 0 (flat_block 0 ?ts)) \<Longrightarrow> k < length ?ts" for k m
    by (simp add: in_set_enumerate_eq)
  have fmt: "TraceFilter_format (fold cl_event (block_events ?ts) cl_default) =
      Some (concat (map (\<lambda>(k, m). map (\<lambda>e. filter_trace (of_nat k) (snd e)) m) (enumerate 0 (flat_block 0 ?ts))))"
    by (simp add: TraceFilter_format_def block_run(1)[OF assms(2,3)] filter_traces_enumerate)
  have ok: "list_all (\<lambda>t. unat (tt_transaction_position t) < length statuses)
      (concat (map (\<lambda>(k, m). map (\<lambda>e. filter_trace (of_nat k) (snd e)) m) (enumerate 0 (flat_block 0 ?ts))))"
    using pos enum by (auto simp: list_all_iff)
  have "map (\<lambda>t. t\<lparr>tt_block_hash := eth_hash, tt_block_number := height,
                    tt_transaction_hash := statuses ! unat (tt_transaction_position t),
                    tt_output := reformat_error (tt_output t)\<rparr>)
      (concat (map (\<lambda>(k, m). map (\<lambda>e. filter_trace (of_nat k) (snd e)) m) (enumerate 0 (flat_block 0 ?ts)))) =
      block_traces eth_hash height statuses ?ts"
    unfolding block_traces_def map_concat map_map
    using pos(1) enum by (intro arg_cong[where f = concat] map_cong) (auto simp: filled_trace_def)
  with cache_block_replay[OF assms(1)] show ?thesis
    by (simp add: runtime_trace_block_def trace_known_events replay_traces_def fmt fill_missing_all[OF ok])
qed

text \<open>
  C16. The cache traces a block exactly: when the node has the block and its Ethereum data, and
  the runtime replays it, the result has the traces of every known transaction in block
  order, each with block hash and number, the hash of its transaction and its position, and
  reverts reported as such.
\<close>

theorem cache_block_exact:
  fixes run :: "'s \<Rightarrow> ('r, 'c) UncheckedExtrinsic \<Rightarrow> 's \<times> tx"
  assumes "has_block c substrate_hash height eth_hash statuses exts
             (fst (runtime_trace_block True (emits run) hash_of exts statuses s))"
    and "list_all wf_tx (known_trees run hash_of statuses exts s)"
    and "sum_list (map tx_nodes (known_trees run hash_of statuses exts s)) \<le> 2 ^ 32"
    and "length (known_trees run hash_of statuses exts s) \<le> length statuses"
  shows "cache_block c substrate_hash =
         Inr (block_traces eth_hash height statuses (known_trees run hash_of statuses exts s))"
  by (rule cache_block_trees[OF assms])

theorem cache_block_exact_witness:
  "map_sum id (map (\<lambda>t. (tt_transaction_hash t, tt_block_number t, tt_trace_address t)))
     (cache_block (sample_client (block_events [sample_tx])) 5) =
   Inr [(9, 4, []), (9, 4, [0]), (9, 4, [0, 0]), (9, 4, [1])]"
proof -
  let ?run = "\<lambda>s (_ :: (unit, unit) UncheckedExtrinsic). (s :: nat, sample_tx)"
  have trees: "known_trees ?run (\<lambda>_. 9) [9] [sample_extrinsic] 0 = [sample_tx]"
    by (simp add: sample_extrinsic_def)
  have "has_block (sample_client (block_events [sample_tx])) 5 4 8 [9] [sample_extrinsic]
      (fst (runtime_trace_block True (emits ?run) (\<lambda>_. 9) [sample_extrinsic] [9] 0))"
    by (simp add: has_block_def sample_client_def runtime_trace_block_def trace_known_events trees
        del: trace_known.simps known_trees.simps)
  from cache_block_exact[OF this] trees show ?thesis
    by (simp add: block_traces_def filled_trace_def filter_trace_def enumerate_eq_zip
        sample_simps frame_entry_def entry_of_def destruct_entry_def)
qed

text \<open>
  A transaction that only recorded its cost leaves the listener without an entry for it, and
  closing it adds one.
\<close>

lemma filter_traces_append:
  "filter_traces i (ms @ ms') = filter_traces i ms @ filter_traces (i + length ms) ms'"
  by (induction ms arbitrary: i) auto

lemma finish_clears [simp]: "cl_context_stack (finish_transaction l) = []"
  by (simp add: finish_transaction_def insert_entry_def Let_def split: list.splits option.splits)

lemma first_transaction_over:
  "\<not> cl_call_list_first_transaction l \<Longrightarrow> \<not> cl_call_list_first_transaction (cl_event e l)"
proof (cases e)
  case (Gasometer g)
  then show "\<not> cl_call_list_first_transaction l \<Longrightarrow> ?thesis" by (cases g) auto
next
  case (Runtime r)
  then show "\<not> cl_call_list_first_transaction l \<Longrightarrow> ?thesis"
    by (cases "(r, l)" rule: runtime_event.cases)
      (auto simp: pop_context_to_entry_def insert_entry_def Let_def split: option.splits ContextType.splits TracingVersion.splits)
next
  case (Evm v)
  then show "\<not> cl_call_list_first_transaction l \<Longrightarrow> ?thesis"
    by (cases v) (auto simp: push_transaction_def push_context_def next_trace_address_def pop_context_to_entry_def
        insert_entry_def Let_def split: option.splits)
qed (simp add: finish_transaction_def insert_entry_def Let_def split: list.splits option.splits)

lemma announced_twice:
  assumes "es = [] \<or> (\<exists>es'. es = CallListNew # es')"
  shows "cl_context_stack (fold cl_event (es @ [CallListNew]) cl_default) = [] \<and>
         (cl_entries (fold cl_event (es @ [CallListNew]) cl_default) = [] \<or>
          (\<exists>ms. cl_entries (fold cl_event (es @ [CallListNew]) cl_default) = ms @ [[]]))"
proof (cases es)
  case Nil
  then show ?thesis by (simp add: cl_default_def)
next
  case (Cons e es')
  have "\<not> cl_call_list_first_transaction (fold cl_event es' l)" if "\<not> cl_call_list_first_transaction l" for l
    using that by (induction es' arbitrary: l) (simp_all add: first_transaction_over del: cl_event.simps)
  with Cons assms show ?thesis by (simp add: Let_def)
qed

text \<open>
  C40. The cache loses a transaction that ends the block and cannot pay for its own data, under
  a runtime of the older versions, which announces transactions but emits no event when one
  starts or exits. Whatever the transactions before it did, the cache does not close the last
  one, so its result has the traces of the others only; closing it adds exactly one trace,
  with the error for such transactions.
\<close>

theorem cache_block_misses_last_transaction:
  assumes "has_block c substrate_hash height eth_hash statuses exts
             (es @ [CallListNew, Gasometer (RecordTransaction cost snap)])"
    and "es = [] \<or> (\<exists>es'. es = CallListNew # es')"
  shows "\<exists>traces t.
    cache_block c substrate_hash = fill_missing eth_hash height statuses traces \<and>
    TraceFilter_format (fold cl_event (es @ [CallListNew]) cl_default) = Some traces \<and>
    TraceFilter_format (finish_transaction
      (fold cl_event (es @ [CallListNew, Gasometer (RecordTransaction cost snap)]) cl_default)) = Some (traces @ [t]) \<and>
    tt_output t = Output_Error data_cost_unpaid"
proof -
  define l where "l = fold cl_event (es @ [CallListNew]) cl_default"
  have l: "cl_context_stack l = []" "cl_entries l = [] \<or> (\<exists>ms. cl_entries l = ms @ [[]])"
    using announced_twice[OF assms(2)] by (simp_all only: l_def)
  have last: "fold cl_event (es @ [CallListNew, Gasometer (RecordTransaction cost snap)]) cl_default =
      l\<lparr>cl_transaction_cost := cost, cl_record_transaction_event_only := True\<rparr>"
    by (simp add: l_def)
  define n where "n = length (filter (\<lambda>m. m \<noteq> []) (cl_entries l))"
  obtain k e where fin: "filter (\<lambda>m. m \<noteq> []) (cl_entries (finish_transaction
        (l\<lparr>cl_transaction_cost := cost, cl_record_transaction_event_only := True\<rparr>))) =
      filter (\<lambda>m. m \<noteq> []) (cl_entries l) @ [[(k, e)]]"
    and e: "bc_inner e = Inner_Call CallType_Call 0 [] (CallResult_Error data_cost_unpaid)"
    using l by (auto simp: finish_transaction_def insert_entry_def vec_last_def)
  show ?thesis
  proof (intro exI conjI)
    show "cache_block c substrate_hash =
        fill_missing eth_hash height statuses (filter_traces 0 (filter (\<lambda>m. m \<noteq> []) (cl_entries l)))"
      unfolding cache_block_replay[OF assms(1)] replay_traces_def prod.case sum.case last
      by (simp add: TraceFilter_format_def)
    show "TraceFilter_format (fold cl_event (es @ [CallListNew]) cl_default) =
        Some (filter_traces 0 (filter (\<lambda>m. m \<noteq> []) (cl_entries l)))"
      by (simp only: l_def TraceFilter_format_def)
    show "TraceFilter_format (finish_transaction
        (fold cl_event (es @ [CallListNew, Gasometer (RecordTransaction cost snap)]) cl_default)) =
        Some (filter_traces 0 (filter (\<lambda>m. m \<noteq> []) (cl_entries l)) @ [filter_trace (of_nat n) e])"
      unfolding last by (simp add: TraceFilter_format_def fin filter_traces_append n_def)
    show "tt_output (filter_trace (of_nat n) e) = Output_Error data_cost_unpaid"
      by (simp add: filter_trace_def e)
  qed
qed

text \<open>After a transaction with a call, under an older runtime, one that cannot pay for its data.\<close>

definition legacy_events :: "Event list" where
  "legacy_events =
     [CallListNew, Gasometer (RecordTransaction 21000 (sample_snapshot 0)),
      Evm (Evm_Call 2 None [] None False sample_context),
      Runtime (StepResult (Inl (Capture_Exit (Succeed Returned))) [])]"

theorem cache_block_misses_last_transaction_witness:
  "map_sum id (map tt_transaction_position)
     (cache_block (sample_client (legacy_events @ [CallListNew, Gasometer (RecordTransaction 0 (sample_snapshot 0))])) 5) =
     Inr [0] \<and>
   map_option length (TraceFilter_format (finish_transaction (fold cl_event
     (legacy_events @ [CallListNew, Gasometer (RecordTransaction 0 (sample_snapshot 0))]) cl_default))) = Some 2"
proof -
  have "has_block (sample_client (legacy_events @ [CallListNew, Gasometer (RecordTransaction 0 (sample_snapshot 0))])) 5 4 8 [9]
      [sample_extrinsic] (legacy_events @ [CallListNew, Gasometer (RecordTransaction 0 (sample_snapshot 0))])"
    by (simp add: has_block_def sample_client_def)
  from cache_block_misses_last_transaction[OF this] obtain traces t where
    "cache_block (sample_client (legacy_events @ [CallListNew, Gasometer (RecordTransaction 0 (sample_snapshot 0))])) 5 =
       fill_missing 8 4 [9] traces"
    "TraceFilter_format (fold cl_event (legacy_events @ [CallListNew]) cl_default) = Some traces"
    "TraceFilter_format (finish_transaction (fold cl_event
       (legacy_events @ [CallListNew, Gasometer (RecordTransaction 0 (sample_snapshot 0))]) cl_default)) = Some (traces @ [t])"
    by (auto simp: legacy_events_def simp del: fold_simps)
  moreover from this(2) have "length traces = 1 \<and> tt_transaction_position (traces ! 0) = 0"
    by (auto simp: legacy_events_def TraceFilter_format_def cl_default_def pop_context_to_entry_def push_context_def
        next_trace_address_def insert_entry_def finish_transaction_def vec_last_def vec_pop_def)
  ultimately show ?thesis by (cases traces) (simp_all add: Let_def)
qed

end
