(* ===== verification/Call_Tracer.thy ===== *)
theory Call_Tracer
  imports Formatters
begin

text \<open>
  The \<^verbatim>\<open>callTracer\<close> response (\<^verbatim>\<open>client/evm-tracing/src/formatters/call_tracer.rs\<close>): the flat
  entries of a transaction are sorted by depth and position and then, from the deepest up,
  each is moved into the list of calls of its parent until one call is left.

  The comparison never answers \<^verbatim>\<open>Equal\<close>; on distinct addresses it is a strict total order, so
  the sorted vector does not depend on the algorithm, here an insertion sort.
\<close>


section \<open>Operations\<close>

fun call_type_name :: "CallType \<Rightarrow> bytes" where
  "call_type_name CallType_Call = bytes_of ''CALL''"
| "call_type_name CallCode = bytes_of ''CALLCODE''"
| "call_type_name DelegateCall = bytes_of ''DELEGATECALL''"
| "call_type_name StaticCall = bytes_of ''STATICCALL''"

definition tracer_inner :: "BlockscoutCall \<Rightarrow> CallTracerInner" where
  "tracer_inner it =
     (case bc_inner it of
        Inner_Call call_type to inp res \<Rightarrow>
          Tracer_Call (call_type_name call_type) to inp res (Some (bc_value it))
      | Inner_Create init res \<Rightarrow>
          Tracer_Create (bytes_of ''CREATE'') init
            (case res of CreateResult_Success addr _ \<Rightarrow> Some addr | CreateResult_Error _ \<Rightarrow> None)
            (case res of CreateResult_Success _ code \<Rightarrow> Some code | CreateResult_Error _ \<Rightarrow> None)
            (case res of CreateResult_Success _ _ \<Rightarrow> None | CreateResult_Error error \<Rightarrow> Some error)
            (bc_value it)
      | Inner_SelfDestruct balance to \<Rightarrow>
          Tracer_SelfDestruct (bytes_of ''SELFDESTRUCT'') to balance)"

definition tracer_call :: "BlockscoutCall \<Rightarrow> Call" where
  "tracer_call it =
     CallTracer (CallTracerCall (bc_from it) (Some (bc_trace_address it)) (bc_gas it)
       (bc_gas_used it) (tracer_inner it) [])"

text \<open>Access to the fields of a \<^verbatim>\<open>Call::CallTracer\<close>.\<close>

fun call_address :: "Call \<Rightarrow> u32 list option" where
  "call_address (CallTracer c) = ct_trace_address c"
| "call_address (Blockscout _) = None"

fun clear_address :: "Call \<Rightarrow> Call" where
  "clear_address (CallTracer (CallTracerCall fr _ g gu inner calls)) =
     CallTracer (CallTracerCall fr None g gu inner calls)"
| "clear_address (Blockscout c) = Blockscout c"

fun push_child :: "Call \<Rightarrow> Call \<Rightarrow> Call" where
  "push_child child (CallTracer (CallTracerCall fr a g gu inner calls)) =
     CallTracer (CallTracerCall fr a g gu inner (calls @ [child]))"
| "push_child child (Blockscout c) = Blockscout c"

text \<open>The closure that compares siblings; \<open>None\<close> is an index out of range.\<close>

fun sibling_greater_than :: "u32 list \<Rightarrow> u32 list \<Rightarrow> bool option" where
  "sibling_greater_than [] b = Some False"
| "sibling_greater_than (x # a) [] = None"
| "sibling_greater_than (x # a) (y # b) =
     (if y < x then Some True else if x < y then Some False else sibling_greater_than a b)"

text \<open>\<open>Less\<close> in the comparison that is handed to \<^verbatim>\<open>sort_by\<close>.\<close>

definition address_less :: "u32 list \<Rightarrow> u32 list \<Rightarrow> bool" where
  "address_less a b \<longleftrightarrow>
     length a < length b \<or> (length a = length b \<and> sibling_greater_than a b = Some True)"

definition call_less :: "Call \<Rightarrow> Call \<Rightarrow> bool" where
  "call_less x y =
     (case (call_address x, call_address y) of
        (Some a, Some b) \<Rightarrow> address_less a b
      | _ \<Rightarrow> False)"

fun insert_by :: "('a \<Rightarrow> 'a \<Rightarrow> bool) \<Rightarrow> 'a \<Rightarrow> 'a list \<Rightarrow> 'a list" where
  "insert_by lt x [] = [x]"
| "insert_by lt x (y # ys) = (if lt y x then y # insert_by lt x ys else x # y # ys)"

fun sort_by :: "('a \<Rightarrow> 'a \<Rightarrow> bool) \<Rightarrow> 'a list \<Rightarrow> 'a list" where
  "sort_by lt [] = []"
| "sort_by lt (x # xs) = insert_by lt x (sort_by lt xs)"

text \<open>
  The search for the parent of the call that was taken off the end. A root among several
  calls makes the slice \<^verbatim>\<open>a[0..a.len() - 1]\<close> panic; a call without an address is \<^verbatim>\<open>unreachable!\<close>.
\<close>

fun find_parent :: "u32 list option \<Rightarrow> Call list \<Rightarrow> nat option outcome" where
  "find_parent a [] = Inr None"
| "find_parent a (current # rest) =
     (case (a, call_address current) of
        (Some a', Some b) \<Rightarrow>
          if a' = [] then Inl (Panic ''slice index out of range'')
          else if b = butlast a' then Inr (Some 0)
          else (case find_parent a rest of
                  Inr k \<Rightarrow> Inr (map_option Suc k)
                | Inl p \<Rightarrow> Inl p)
      | _ \<Rightarrow> Inl (Panic ''unreachable''))"

function pop_and_push :: "Call list \<Rightarrow> Call list outcome" where
  "pop_and_push result =
     (if length result \<le> 1 then Inr result
      else
        (let lst = last result; rest = butlast result in
         case find_parent (call_address lst) rest of
           Inl p \<Rightarrow> Inl p
         | Inr None \<Rightarrow> pop_and_push rest
         | Inr (Some index) \<Rightarrow>
             pop_and_push (rest[index := push_child (clear_address lst) (rest ! index)])))"
  by pat_completeness auto
termination
  by (relation "measure length") auto

declare pop_and_push.simps [simp del]

definition nest_entry :: "(u32, BlockscoutCall) btree \<Rightarrow> Call option outcome" where
  "nest_entry entry =
     (let result = map (\<lambda>e. tracer_call (snd e)) entry;
          nested =
            (if 1 < length result
             then (if list_all (\<lambda>c. call_address c \<noteq> None) result
                   then pop_and_push (sort_by call_less result)
                   else Inl (Panic ''unreachable''))
             else Inr result) in
      case nested of
        Inl p \<Rightarrow> Inl p
      | Inr [] \<Rightarrow> Inr None
      | Inr [c] \<Rightarrow> Inr (Some (clear_address c))
      | Inr (c # _) \<Rightarrow> Inr None)"

fun nest_entries :: "(u32, BlockscoutCall) btree list \<Rightarrow> TransactionTrace list outcome" where
  "nest_entries [] = Inr []"
| "nest_entries (entry # entries) =
     (case nest_entry entry of
        Inl p \<Rightarrow> Inl p
      | Inr r \<Rightarrow>
          (case nest_entries entries of
             Inl p \<Rightarrow> Inl p
           | Inr traces \<Rightarrow>
               Inr ((case r of Some c \<Rightarrow> [CallListNested c] | None \<Rightarrow> []) @ traces)))"

definition CallTracer_format :: "CallListListener \<Rightarrow> TransactionTrace list option outcome" where
  "CallTracer_format l =
     (case nest_entries (filter (\<lambda>entry. entry \<noteq> []) (cl_entries l)) of
        Inl p \<Rightarrow> Inl p
      | Inr traces \<Rightarrow> Inr (if traces = [] then None else Some traces))"


section \<open>Reference trees\<close>

text \<open>
  The tree of the calls of an execution; \<open>call_tree\<close> is the nested response for it, without
  addresses.
\<close>

datatype rose = Rose BlockscoutCall "rose list"

definition tree_node :: "BlockscoutCall \<Rightarrow> Call list \<Rightarrow> Call" where
  "tree_node it calls =
     CallTracer (CallTracerCall (bc_from it) None (bc_gas it) (bc_gas_used it)
       (tracer_inner it) calls)"

fun call_tree :: "rose \<Rightarrow> Call" where
  "call_tree (Rose en rs) = tree_node en (map call_tree rs)"

fun rose_frame :: "u64 \<Rightarrow> h160 \<Rightarrow> u32 list \<Rightarrow> u32 \<Rightarrow> frame \<Rightarrow> rose"
  and rose_items :: "u64 \<Rightarrow> h160 \<Rightarrow> u32 list \<Rightarrow> nat \<Rightarrow> u32 \<Rightarrow> item list \<Rightarrow> rose list" where
  "rose_frame cost parent addr i (Frame e body x) =
     Rose (frame_entry cost parent addr i e body x)
       (rose_items cost (frame_to e) addr 0 (i + 1) body)"
| "rose_items cost self addr n i [] = []"
| "rose_items cost self addr n i (Sub f # is) =
     rose_frame cost self (addr @ [of_nat n]) i f #
     rose_items cost self addr (Suc n) (i + of_nat (frame_nodes f)) is"
| "rose_items cost self addr n i (Destruct a t b # is) =
     Rose (destruct_entry (addr @ [of_nat n]) a t b) [] #
     rose_items cost self addr (Suc n) (i + 1) is"
| "rose_items cost self addr n i (Gas _ # is) = rose_items cost self addr n i is"
| "rose_items cost self addr n i (Quiet _ # is) = rose_items cost self addr n i is"

fun rose_tx :: "u32 \<Rightarrow> tx \<Rightarrow> rose" where
  "rose_tx i (Tx t cost s pre opening body x) =
     Rose (entry_of cost i [] (tx_from t) (tx_value t) (pre @ seen_gas body) (children body)
             (tx_inner t x))
       (rose_items cost (tx_to t) [] 0 (i + 1) body)"

fun rose_block :: "u32 \<Rightarrow> tx list \<Rightarrow> rose list" where
  "rose_block i [] = []"
| "rose_block i (t # ts) = rose_tx i t # rose_block (i + of_nat (tx_nodes t)) ts"


section \<open>Vocabulary of the proofs\<close>

fun root_of :: "rose \<Rightarrow> BlockscoutCall" where
  "root_of (Rose en rs) = en"

fun kids :: "rose \<Rightarrow> rose list" where
  "kids (Rose en rs) = rs"

fun subs :: "rose \<Rightarrow> rose list"
  and subs_list :: "rose list \<Rightarrow> rose list" where
  "subs (Rose en rs) = Rose en rs # subs_list rs"
| "subs_list [] = []"
| "subs_list (r # rs) = subs r @ subs_list rs"

text \<open>Every node of the tree carries its own address.\<close>

fun waddr :: "u32 list \<Rightarrow> rose \<Rightarrow> bool"
  and waddrs :: "u32 list \<Rightarrow> nat \<Rightarrow> rose list \<Rightarrow> bool" where
  "waddr addr (Rose en rs) \<longleftrightarrow> bc_trace_address en = addr \<and> waddrs addr 0 rs"
| "waddrs addr n [] \<longleftrightarrow> True"
| "waddrs addr n (r # rs) \<longleftrightarrow> waddr (addr @ [of_nat n]) r \<and> waddrs addr (Suc n) rs"

definition address :: "rose \<Rightarrow> u32 list" where
  "address r = bc_trace_address (root_of r)"

definition child_address :: "u32 list \<Rightarrow> u32 list \<Rightarrow> bool" where
  "child_address a b \<longleftrightarrow> b \<noteq> [] \<and> butlast b = a"

definition add_calls :: "Call \<Rightarrow> Call list \<Rightarrow> Call" where
  "add_calls c cs = fold push_child cs c"

text \<open>
  What is left of a call in the vector when some of the calls were popped: the flat call with
  the finished trees of its children among them.
\<close>

definition partly ::
    "(u32 list \<Rightarrow> Call) \<Rightarrow> (u32 list \<Rightarrow> Call) \<Rightarrow> u32 list list \<Rightarrow> u32 list \<Rightarrow> Call" where
  "partly node tree popped a = add_calls (node a) (map tree (filter (child_address a) (rev popped)))"

text \<open>The subtree at an address, and the flat call and the finished tree of an address.\<close>

definition sub_at :: "rose \<Rightarrow> u32 list \<Rightarrow> rose" where
  "sub_at r a = the (map_of (map (\<lambda>s. (address s, s)) (subs r)) a)"

definition flat_at :: "rose \<Rightarrow> u32 list \<Rightarrow> Call" where
  "flat_at r a = tracer_call (root_of (sub_at r a))"

definition tree_at :: "rose \<Rightarrow> u32 list \<Rightarrow> Call" where
  "tree_at r a = call_tree (sub_at r a)"

definition sorted_addresses :: "rose \<Rightarrow> u32 list list" where
  "sorted_addresses r = sort_by address_less (map address (subs r))"


section \<open>Lemmas\<close>

lemma push_child_simps [simp]:
  "call_address (push_child x c) = call_address c"
  by (cases "(x, c)" rule: push_child.cases) auto

lemma add_calls_simps [simp]:
  "add_calls c [] = c"
  "add_calls c (cs @ [d]) = push_child d (add_calls c cs)"
  "call_address (add_calls c cs) = call_address c"
  by (simp_all add: add_calls_def) (induction cs arbitrary: c, auto)

lemma find_parent_unique:
  "a \<noteq> [] \<Longrightarrow> (\<And>c. c \<in> set cs \<Longrightarrow> call_address c \<noteq> None) \<Longrightarrow> k < length cs \<Longrightarrow>
     call_address (cs ! k) = Some (butlast a) \<Longrightarrow>
     (\<And>j. j < k \<Longrightarrow> call_address (cs ! j) \<noteq> Some (butlast a)) \<Longrightarrow>
     find_parent (Some a) cs = Inr (Some k)"
proof (induction cs arbitrary: k)
  case (Cons c cs)
  show ?case
  proof (cases k)
    case 0
    with Cons.prems show ?thesis by simp
  next
    case (Suc k')
    have "find_parent (Some a) cs = Inr (Some k')"
      using Cons.prems Suc by (intro Cons.IH) force+
    moreover have "call_address c \<noteq> Some (butlast a)" using Cons.prems(5)[of 0] Suc by simp
    moreover obtain b where "call_address c = Some b" using Cons.prems(2)[of c] by auto
    ultimately show ?thesis using Cons.prems(1) Suc by simp
  qed
qed simp

lemma pop_and_push_step:
  assumes "a \<noteq> []" and "butlast a \<in> set R" and "distinct (R @ [a])"
    and addr: "\<And>b. b \<in> set (R @ [a]) \<Longrightarrow> call_address (node b) = Some b"
    and tree: "tree a = clear_address (partly node tree P a)"
  shows "pop_and_push (map (partly node tree P) (R @ [a])) = pop_and_push (map (partly node tree (a # P)) R)"
proof -
  let ?f = "partly node tree P" and ?g = "partly node tree (a # P)"
  obtain k where k: "k < length R" "R ! k = butlast a"
    using assms(2) by (auto simp: in_set_conv_nth)
  have address: "call_address (?f b) = Some b" if "b \<in> set (R @ [a])" for b
    using addr[OF that] by (simp add: partly_def)
  have other: "R ! j \<noteq> butlast a" if "j < length R" "j \<noteq> k" for j
    using assms(3) k that nth_eq_iff_index_eq[of R j k] by auto
  have found: "find_parent (Some a) (map ?f R) = Inr (Some k)"
    using assms(1,2) k address other by (intro find_parent_unique) auto
  have g_parent: "?g (butlast a) = push_child (tree a) (?f (butlast a))"
    using assms(1) by (simp add: partly_def child_address_def)
  have g_other: "?g b = ?f b" if "b \<noteq> butlast a" for b
    using that by (simp add: partly_def child_address_def)
  have upd: "(map ?f R)[k := push_child (tree a) (map ?f R ! k)] = map ?g R"
    using k g_parent g_other other by (intro nth_equalityI) (auto simp: nth_list_update)
  have "1 < length (map ?f (R @ [a]))" using k by (cases R) auto
  then show ?thesis
    using found upd address[of a] tree
    by (subst pop_and_push.simps) (simp add: Let_def butlast_append)
qed

lemma pop_and_push_tree:
  assumes "distinct ([] # S)" and order: "sorted_wrt (\<lambda>a b. length a \<le> length b) ([] # S)"
    and closed: "\<And>a. a \<in> set S \<Longrightarrow> butlast a \<in> set ([] # S)"
    and addr: "\<And>a. a \<in> set ([] # S) \<Longrightarrow> call_address (node a) = Some a"
    and tree: "\<And>a. a \<in> set ([] # S) \<Longrightarrow>
                 tree a = clear_address (add_calls (node a) (map tree (filter (child_address a) (rev ([] # S)))))"
  shows "S = R @ P \<Longrightarrow> pop_and_push (map (partly node tree P) ([] # R)) = Inr [partly node tree S []]"
proof (induction R arbitrary: P rule: rev_induct)
  case Nil
  then show ?case by (simp add: pop_and_push.simps)
next
  case (snoc a R)
  have a: "a \<in> set S" using snoc.prems by simp
  then have ne: "a \<noteq> []" using assms(1) by auto
  have "b \<notin> set P" if "length b < length a" for b
    using order snoc.prems that by (auto simp: sorted_wrt_append)
  moreover have "length (butlast a) < length a" using ne by simp
  ultimately have "butlast a \<notin> set P" by blast
  moreover have "butlast a \<noteq> a" using ne by (metis append_butlast_last_id append_self_conv list.distinct(1))
  ultimately have "butlast a \<in> set ([] # R)" using closed[OF a] snoc.prems by auto
  moreover have "filter (child_address a) (rev ([] # S)) = filter (child_address a) (rev P)"
  proof -
    have len: "length b \<le> length a" if "b \<in> set ([] # R @ [a])" for b
      using order snoc.prems that by (auto simp: sorted_wrt_append)
    then have "\<not> child_address a b" if "b \<in> set ([] # R @ [a])" for b
      using len[OF that] by (cases b rule: rev_cases) (auto simp: child_address_def)
    then show ?thesis using snoc.prems by (simp add: filter_empty_conv)
  qed
  ultimately have "pop_and_push (map (partly node tree P) (([] # R) @ [a])) =
      pop_and_push (map (partly node tree (a # P)) ([] # R))"
    using snoc.prems assms(1) a ne addr tree[of a]
    by (intro pop_and_push_step) (auto simp: partly_def)
  with snoc.IH[of "a # P"] snoc.prems show ?case by simp
qed

lemma waddr_address: "waddr addr r \<Longrightarrow> address r = addr"
  by (cases r) (simp add: address_def)

lemma subs_prefix:
  "waddr addr r \<Longrightarrow> t \<in> set (subs r) \<Longrightarrow> \<exists>p. address t = addr @ p"
  "waddrs addr n rs \<Longrightarrow> t \<in> set (subs_list rs) \<Longrightarrow>
     \<exists>k p. n \<le> k \<and> k < n + length rs \<and> address t = addr @ of_nat k # p"
proof (induction addr r and addr n rs rule: waddr_waddrs.induct)
  case (1 addr en rs)
  then show ?case by (cases "t = Rose en rs") (auto simp: address_def)
next
  case (3 addr n r rs)
  show ?case
  proof (cases "t \<in> set (subs r)")
    case True
    with 3 obtain p where "address t = addr @ of_nat n # p" by auto
    then show ?thesis by (intro exI[of _ n] exI[of _ p]) simp
  next
    case False
    with 3 obtain k p where "Suc n \<le> k" "k < Suc n + length rs" "address t = addr @ of_nat k # p"
      by auto
    then show ?thesis by (intro exI[of _ k] exI[of _ p]) simp
  qed
qed simp

lemma length_subs_list: "length rs \<le> length (subs_list rs)"
proof (induction rs)
  case (Cons r rs)
  then show ?case by (cases r) simp
qed simp

lemma of_nat_u32_inj: "j < 2 ^ 32 \<Longrightarrow> k < 2 ^ 32 \<Longrightarrow> (of_nat j :: u32) = of_nat k \<longleftrightarrow> j = k"
  using unat_advance[of 0 j] unat_advance[of 0 k] by (metis add_0 unat_0)

lemma distinct_subs:
  "waddr addr r \<Longrightarrow> length (subs r) \<le> 2 ^ 32 \<Longrightarrow> distinct (map address (subs r))"
  "waddrs addr n rs \<Longrightarrow> n + length (subs_list rs) \<le> 2 ^ 32 \<Longrightarrow> distinct (map address (subs_list rs))"
proof (induction addr r and addr n rs rule: waddr_waddrs.induct)
  case (1 addr en rs)
  then have "address t \<noteq> addr" if "t \<in> set (subs_list rs)" for t
    using that subs_prefix(2)[of addr 0 rs t] by auto
  then have "addr \<notin> address ` set (subs_list rs)" by auto
  moreover have "address (Rose en rs) = addr" using 1 by (simp add: address_def)
  ultimately show ?case using 1 by simp
next
  case (3 addr n r rs)
  have "address t \<noteq> address u" if t: "t \<in> set (subs r)" and u: "u \<in> set (subs_list rs)" for t u
  proof -
    obtain p where p: "address t = addr @ of_nat n # p"
      using 3 t subs_prefix(1)[of "addr @ [of_nat n]" r t] by auto
    obtain k q where k: "Suc n \<le> k" "k < Suc n + length rs" "address u = addr @ of_nat k # q"
      using 3 u subs_prefix(2)[of addr "Suc n" rs u] by auto
    have "0 < length (subs r)" by (cases r) simp
    then have "k < 2 ^ 32" using k(2) 3(4) length_subs_list[of rs]
      unfolding subs_list.simps length_append by linarith
    with k(1) of_nat_u32_inj[of n k] show ?thesis using p k(3) by simp
  qed
  moreover have "0 < length (subs r)" by (cases r) simp
  ultimately have "address ` set (subs r) \<inter> address ` set (subs_list rs) = {}"
    and "Suc n + length (subs_list rs) \<le> 2 ^ 32"
    using 3(4) unfolding subs_list.simps length_append by (auto, linarith)
  with 3 show ?case by simp
qed simp

lemma subs_parent:
  "t \<in> set (subs r) \<Longrightarrow> t = r \<or> (\<exists>s \<in> set (subs r). t \<in> set (kids s))"
  "t \<in> set (subs_list rs) \<Longrightarrow> t \<in> set rs \<or> (\<exists>s \<in> set (subs_list rs). t \<in> set (kids s))"
proof (induction r and rs rule: subs_subs_list.induct)
  case (1 en rs)
  then show ?case by fastforce
qed auto

lemma kids_subs:
  "s \<in> set (subs r) \<Longrightarrow> set (kids s) \<subseteq> set (subs r)"
  "s \<in> set (subs_list rs) \<Longrightarrow> set (kids s) \<subseteq> set (subs_list rs)"
proof (induction r and rs rule: subs_subs_list.induct)
  case (1 en rs)
  have "set rs \<subseteq> set (subs_list rs)"
  proof (induction rs)
    case (Cons r rs)
    then show ?case by (cases r) auto
  qed simp
  with 1 show ?case by auto
qed auto

lemma waddr_sub:
  "waddr addr r \<Longrightarrow> s \<in> set (subs r) \<Longrightarrow> waddr (address s) s"
  "waddrs addr n rs \<Longrightarrow> s \<in> set (subs_list rs) \<Longrightarrow> waddr (address s) s"
proof (induction addr r and addr n rs rule: waddr_waddrs.induct)
  case (1 addr en rs)
  then show ?case by (cases "s = Rose en rs") (auto simp: address_def)
qed auto

lemma waddrs_addresses: "waddrs addr n rs \<Longrightarrow> map address rs = map (\<lambda>k. addr @ [of_nat k]) [n..<n + length rs]"
proof (induction rs arbitrary: n)
  case (Cons r rs)
  have "[n..<n + length (r # rs)] = n # [Suc n..<Suc n + length rs]"
    by (simp add: upt_conv_Cons del: upt_Suc)
  moreover have "map address rs = map (\<lambda>k. addr @ [of_nat k]) [Suc n..<Suc n + length rs]"
    using Cons.prems by (intro Cons.IH) simp
  moreover have "address r = addr @ [of_nat n]"
    using Cons.prems by (simp add: waddr_address)
  ultimately show ?case by (simp only: list.map)
qed simp

lemma kids_addresses:
  "waddr addr r \<Longrightarrow> s \<in> set (subs r) \<Longrightarrow>
     map address (kids s) = map (\<lambda>k. address s @ [of_nat k]) [0..<length (kids s)]"
  using waddr_sub(1)[of addr r s] waddrs_addresses[of "address s" 0 "kids s"] by (cases s) simp

lemma mset_sort_by [simp]: "mset (sort_by lt xs) = mset xs"
proof -
  have "mset (insert_by lt x ys) = add_mset x (mset ys)" for x ys by (induction ys) auto
  then show ?thesis by (induction xs) auto
qed

lemma set_sort_by [simp]: "set (sort_by lt xs) = set xs"
  by (metis mset_sort_by set_mset_mset)

lemma set_insert_by [simp]: "set (insert_by lt x ys) = insert x (set ys)"
  by (induction ys) auto

lemma sorted_insert_by:
  assumes "transp lt" and "\<And>y. y \<in> set ys \<Longrightarrow> lt x y \<or> lt y x" and "sorted_wrt lt ys"
  shows "sorted_wrt lt (insert_by lt x ys)"
  using assms(2,3)
proof (induction ys)
  case (Cons y ys)
  show ?case
  proof (cases "lt y x")
    case True
    with Cons show ?thesis by simp
  next
    case False
    with Cons.prems(1) have "lt x y" by auto
    with Cons.prems(2) False transpD[OF assms(1)] show ?thesis by auto
  qed
qed simp

lemma sorted_sort_by:
  assumes "transp lt" and "distinct xs" and "\<And>x y. x \<noteq> y \<Longrightarrow> lt x y \<or> lt y x"
  shows "sorted_wrt lt (sort_by lt xs)"
  using assms(2)
proof (induction xs)
  case (Cons x xs)
  then have "lt x y \<or> lt y x" if "y \<in> set (sort_by lt xs)" for y
    using that assms(3)[of x y] by auto
  then have "sorted_wrt lt (insert_by lt x (sort_by lt xs))"
    using Cons by (intro sorted_insert_by[OF assms(1)]) auto
  then show ?case by simp
qed simp

lemma sort_by_map:
  "(\<And>x y. x \<in> set xs \<Longrightarrow> y \<in> set xs \<Longrightarrow> lt' (g x) (g y) = lt x y) \<Longrightarrow>
     sort_by lt' (map g xs) = map g (sort_by lt xs)"
proof (induction xs)
  case (Cons x xs)
  have "insert_by lt' (g x) (map g ys) = map g (insert_by lt x ys)" if "set ys \<subseteq> set xs" for ys
    using that Cons.prems by (induction ys) auto
  from this[of "sort_by lt xs"] Cons show ?case by simp
qed simp

lemma sibling_total:
  "length a = length b \<Longrightarrow> a \<noteq> b \<Longrightarrow> sibling_greater_than a b = Some True \<or> sibling_greater_than b a = Some True"
  by (induction a b rule: sibling_greater_than.induct) auto

lemma sibling_trans:
  "sibling_greater_than a b = Some True \<Longrightarrow> sibling_greater_than b c = Some True \<Longrightarrow>
     length a = length b \<Longrightarrow> length b = length c \<Longrightarrow> sibling_greater_than a c = Some True"
proof (induction a b arbitrary: c rule: sibling_greater_than.induct)
  case (3 x a y b)
  then obtain z c' where "c = z # c'" by (cases c) auto
  with 3 show ?case by (auto split: if_splits)
qed auto

lemma sibling_snoc: "sibling_greater_than (a @ [y]) (a @ [x]) = Some (x < y)"
  by (induction a) auto

lemma address_less_total: "a \<noteq> b \<Longrightarrow> address_less a b \<or> address_less b a"
  using sibling_total[of a b] by (auto simp: address_less_def)

lemma address_less_trans: "transp address_less"
  by (auto intro!: transpI simp: address_less_def dest: sibling_trans)

lemma clear_add_calls: "clear_address (add_calls (tracer_call en) cs) = tree_node en cs"
proof -
  have "add_calls (tracer_call en) cs =
      CallTracer (CallTracerCall (bc_from en) (Some (bc_trace_address en)) (bc_gas en)
        (bc_gas_used en) (tracer_inner en) cs)"
    by (induction cs rule: rev_induct) (auto simp: tracer_call_def)
  then show ?thesis by (simp add: tree_node_def)
qed

lemma length_subs_le:
  "s \<in> set (subs r) \<Longrightarrow> length (subs s) \<le> length (subs r)"
  "s \<in> set (subs_list rs) \<Longrightarrow> length (subs s) \<le> length (subs_list rs)"
  by (induction r and rs rule: subs_subs_list.induct) auto

lemma length_kids_le: "s \<in> set (subs r) \<Longrightarrow> length (kids s) < length (subs r)"
  using length_subs_le(1)[of s r] length_subs_list[of "kids s"] by (cases s) auto

lemma children_in_order:
  assumes r: "waddr [] r" and small: "length (subs r) \<le> 2 ^ 32" and s: "s \<in> set (subs r)"
    and S: "sorted_wrt address_less S" "set S = address ` set (subs r)"
  shows "filter (child_address (address s)) (rev S) = map address (kids s)"
proof -
  let ?a = "address s" let ?xs = "filter (child_address ?a) (rev S)"
  have dist: "inj_on address (set (subs r))"
    using distinct_subs(1)[OF r small] by (simp add: distinct_map)
  have kids: "map address (kids s) = map (\<lambda>k. ?a @ [of_nat k]) [0..<length (kids s)]"
    by (rule kids_addresses[OF r s])
  have "set ?xs = address ` set (kids s)"
  proof (intro equalityI subsetI)
    fix b assume "b \<in> set ?xs"
    then obtain t where t: "t \<in> set (subs r)" "b = address t" "b \<noteq> []" "butlast b = ?a"
      using S(2) by (auto simp: child_address_def)
    have "t \<noteq> r" using t(2,3) waddr_address[OF r] by auto
    with subs_parent(1)[OF t(1)] obtain s' where s': "s' \<in> set (subs r)" "t \<in> set (kids s')" by auto
    have "address t \<in> set (map address (kids s'))" using s'(2) by simp
    then have "butlast (address t) = address s'"
      unfolding kids_addresses[OF r s'(1)] by auto
    with t dist s s' have "s' = s" by (auto simp: inj_on_def)
    with t s' show "b \<in> address ` set (kids s)" by simp
  next
    fix b assume b: "b \<in> address ` set (kids s)"
    then have "b \<in> set (map address (kids s))" by simp
    then have "child_address ?a b" unfolding kids by (auto simp: child_address_def)
    with b kids_subs(1)[OF s] S(2) show "b \<in> set ?xs" by auto
  qed
  then have "set (map last ?xs) = set (map last (map address (kids s)))"
    by (simp only: set_map)
  moreover have "sorted_wrt (<) (map last (map address (kids s)))"
    using length_kids_le[OF s] small unfolding kids
    by (auto simp: sorted_wrt_map comp_def sorted_wrt_iff_nth_less word_less_nat_alt unat_advance[of 0, simplified])
  moreover have "sorted_wrt (<) (map last ?xs)"
  proof -
    have "sorted_wrt (\<lambda>x y. address_less y x) ?xs"
      using S(1) by (intro sorted_wrt_filter) (simp add: sorted_wrt_rev)
    then show ?thesis
      unfolding sorted_wrt_map
    proof (rule sorted_wrt_mono_rel[rotated])
      fix x y assume "x \<in> set ?xs" "y \<in> set ?xs" and less: "address_less y x"
      then obtain u v where uv: "x = ?a @ [u]" "y = ?a @ [v]"
        by (auto simp: child_address_def) (metis append_butlast_last_id)
      with less show "last x < last y" by (simp add: address_less_def sibling_snoc)
    qed
  qed
  ultimately have lasts: "map last ?xs = map last (map address (kids s))"
    by (metis strict_sorted_equal)
  have "?a @ [last b] = b" if "b \<in> set ?xs" for b
    using that append_butlast_last_id[of b] by (auto simp: child_address_def)
  then have "?xs = map (\<lambda>l. ?a @ [l]) (map last ?xs)"
    by (simp only: map_map comp_def) (rule map_idI[symmetric], blast)
  also have "\<dots> = map address (kids s)" unfolding lasts kids by simp
  finally show ?thesis .
qed

lemma call_tree_root: "call_tree s = tree_node (root_of s) (map call_tree (kids s))"
  by (cases s) simp

lemma sorted_addresses_root:
  assumes "sorted_wrt address_less S" and "[] \<in> set S" and "distinct S"
  shows "\<exists>S'. S = [] # S'"
proof (cases S)
  case (Cons s S')
  with assms show ?thesis by (auto simp: address_less_def)
qed (use assms in simp)

lemma self_sub: "r \<in> set (subs r)"
  by (cases r) simp

lemma butlast_closed:
  assumes "waddr [] r" and "t \<in> set (subs r)"
  shows "butlast (address t) \<in> address ` set (subs r)"
proof (cases "t = r")
  case True
  with assms self_sub[of r] show ?thesis by (force simp: waddr_address)
next
  case False
  with subs_parent(1)[OF assms(2)] obtain s where s: "s \<in> set (subs r)" "t \<in> set (kids s)" by auto
  then have "address t \<in> set (map address (kids s))" by simp
  with kids_addresses[OF assms(1) s(1)] s(1) show ?thesis by auto
qed

lemma sub_at_address:
  assumes "waddr [] r" and "length (subs r) \<le> 2 ^ 32" and "s \<in> set (subs r)"
  shows "sub_at r (address s) = s"
proof -
  have "map_of (map (\<lambda>s. (address s, s)) (subs r)) (address s) = Some s"
    using assms(3) distinct_subs(1)[OF assms(1,2)]
    by (intro map_of_is_SomeI) (auto simp: comp_def)
  then show ?thesis by (simp add: sub_at_def)
qed

lemma sorted_addresses:
  assumes "waddr [] r" and "length (subs r) \<le> 2 ^ 32"
  shows "sorted_wrt address_less (sorted_addresses r)"
    and "set (sorted_addresses r) = address ` set (subs r)"
    and "distinct (sorted_addresses r)"
    and "\<exists>S. sorted_addresses r = [] # S"
proof -
  have dist: "distinct (map address (subs r))" by (rule distinct_subs(1)[OF assms])
  show 1: "sorted_wrt address_less (sorted_addresses r)"
    unfolding sorted_addresses_def
    by (rule sorted_sort_by[OF address_less_trans dist address_less_total])
  show 2: "set (sorted_addresses r) = address ` set (subs r)"
    by (simp add: sorted_addresses_def)
  show 3: "distinct (sorted_addresses r)"
    using dist unfolding sorted_addresses_def by (metis mset_sort_by mset_eq_imp_distinct_iff)
  have "[] \<in> set (sorted_addresses r)"
    using 2 self_sub[of r] waddr_address[OF assms(1)] by force
  then show "\<exists>S. sorted_addresses r = [] # S" by (rule sorted_addresses_root[OF 1 _ 3])
qed

lemma tree_at_equation:
  assumes r: "waddr [] r" "length (subs r) \<le> 2 ^ 32" and a: "a \<in> set (sorted_addresses r)"
  shows "tree_at r a =
    clear_address (add_calls (flat_at r a)
      (map (tree_at r) (filter (child_address a) (rev (sorted_addresses r)))))"
proof -
  obtain s where s: "s \<in> set (subs r)" "a = address s"
    using a sorted_addresses(2)[OF r] by auto
  have "map (tree_at r) (map address (kids s)) = map call_tree (kids s)"
    using kids_subs(1)[OF s(1)] sub_at_address[OF r] by (auto simp: tree_at_def)
  moreover have "filter (child_address a) (rev (sorted_addresses r)) = map address (kids s)"
    unfolding s(2) by (rule children_in_order[OF r s(1) sorted_addresses(1,2)[OF r]])
  moreover have "tree_at r a = tree_node (root_of s) (map call_tree (kids s))"
    using sub_at_address[OF r s(1)] s(2) call_tree_root[of s] by (simp add: tree_at_def)
  moreover have "flat_at r a = tracer_call (root_of s)"
    using sub_at_address[OF r s(1)] s(2) by (simp add: flat_at_def)
  ultimately show ?thesis by (simp only: clear_add_calls)
qed

lemma flat_at_address:
  assumes "waddr [] r" and "length (subs r) \<le> 2 ^ 32" and "a \<in> set (sorted_addresses r)"
  shows "call_address (flat_at r a) = Some a"
  using assms sorted_addresses(2)[OF assms(1,2)] sub_at_address[OF assms(1,2)]
  by (auto simp: flat_at_def tracer_call_def address_def)

lemma loop_rose:
  assumes r: "waddr [] r" "length (subs r) \<le> 2 ^ 32"
  shows "\<exists>c. pop_and_push (map (flat_at r) (sorted_addresses r)) = Inr [c] \<and> clear_address c = call_tree r"
proof -
  obtain S where S: "sorted_addresses r = [] # S" using sorted_addresses(4)[OF r] by auto
  have order: "sorted_wrt (\<lambda>a b. length a \<le> length b) (sorted_addresses r)"
    by (rule sorted_wrt_mono_rel[OF _ sorted_addresses(1)[OF r]]) (auto simp: address_less_def)
  have "butlast a \<in> set (sorted_addresses r)" if "a \<in> set (sorted_addresses r)" for a
    using that butlast_closed[OF r(1)] sorted_addresses(2)[OF r] by auto
  then have "pop_and_push (map (partly (flat_at r) (tree_at r) []) ([] # S)) =
      Inr [partly (flat_at r) (tree_at r) S []]"
    using sorted_addresses(3)[OF r] order flat_at_address[OF r] tree_at_equation[OF r] S
    by (intro pop_and_push_tree[where S = S and P = "[]"]) auto
  moreover have "clear_address (partly (flat_at r) (tree_at r) S []) = tree_at r []"
    using tree_at_equation[OF r, of "[]"] S by (simp add: partly_def child_address_def)
  moreover have "tree_at r [] = call_tree r"
    using sub_at_address[OF r self_sub] waddr_address[OF r(1)] by (simp add: tree_at_def)
  moreover have "map (partly (flat_at r) (tree_at r) []) ([] # S) = map (flat_at r) (sorted_addresses r)"
    unfolding S by (simp add: partly_def)
  ultimately show ?thesis by (metis (no_types))
qed

lemma nest_entry_rose:
  assumes r: "waddr [] r" "length (subs r) \<le> 2 ^ 32"
    and entry: "map snd entry = map root_of (subs r)"
  shows "nest_entry entry = Inr (Some (call_tree r))"
proof (cases "kids r")
  case Nil
  then obtain en where "r = Rose en []" by (cases r) auto
  moreover from this entry have "map (\<lambda>e. tracer_call (snd e)) entry = [tracer_call en]" by auto
  ultimately show ?thesis
    using clear_add_calls[of en "[]"] by (simp add: nest_entry_def)
next
  case (Cons k ks)
  have result: "map (\<lambda>e. tracer_call (snd e)) entry = map (flat_at r) (map address (subs r))"
  proof -
    have "map (\<lambda>e. tracer_call (snd e)) entry = map tracer_call (map root_of (subs r))"
      unfolding entry[symmetric] by simp
    then show ?thesis using sub_at_address[OF r] by (simp add: flat_at_def)
  qed
  have known: "call_address (flat_at r a) = Some a" if "a \<in> address ` set (subs r)" for a
    using that flat_at_address[OF r] sorted_addresses(2)[OF r] by simp
  then have "sort_by call_less (map (flat_at r) (map address (subs r))) = map (flat_at r) (sorted_addresses r)"
    unfolding sorted_addresses_def by (intro sort_by_map) (simp add: call_less_def)
  moreover have "1 < length (subs r)" using Cons length_subs_list[of "kids r"] by (cases r) auto
  moreover have "list_all (\<lambda>c. call_address c \<noteq> None) (map (flat_at r) (map address (subs r)))"
    using known by (auto simp: list_all_iff)
  moreover obtain c where "pop_and_push (map (flat_at r) (sorted_addresses r)) = Inr [c]"
    "clear_address c = call_tree r" using loop_rose[OF r] by auto
  ultimately show ?thesis by (simp only: nest_entry_def result Let_def) simp
qed

text \<open>The tree of an execution lists its entries as the listener does.\<close>

lemma rose_frame_flat:
  "map snd (flat_frame cost parent addr i f) = map root_of (subs (rose_frame cost parent addr i f))"
  "map snd (flat_items cost self addr n i is) = map root_of (subs_list (rose_items cost self addr n i is))"
  by (induction cost parent addr i f and cost self addr n i "is"
      rule: flat_frame_flat_items.induct) simp_all

lemma rose_frame_waddr:
  "waddr addr (rose_frame cost parent addr i f)"
  "waddrs addr n (rose_items cost self addr n i is)"
  by (induction cost parent addr i f and cost self addr n i "is"
      rule: flat_frame_flat_items.induct)
    (simp_all add: frame_entry_def entry_of_def destruct_entry_def)

lemma rose_tx_flat: "map snd (flat_tx i t) = map root_of (subs (rose_tx i t))"
  by (cases t) (simp add: rose_frame_flat)

lemma rose_tx_waddr: "waddr [] (rose_tx i t)"
  by (cases t) (simp add: rose_frame_waddr entry_of_def)

lemma length_subs_rose_tx: "length (subs (rose_tx i t)) = tx_nodes t"
proof -
  have "length (idx_range i n) = n" for i n by (induction n arbitrary: i) auto
  then have "length (flat_tx i t) = tx_nodes t"
    using keys_flat_tx[of i t] by (metis length_map)
  then show ?thesis using rose_tx_flat[of i t] by (metis length_map)
qed

lemma nest_entry_tx: "tx_nodes t \<le> 2 ^ 32 \<Longrightarrow> nest_entry (flat_tx i t) = Inr (Some (call_tree (rose_tx i t)))"
  by (rule nest_entry_rose) (simp_all add: rose_tx_flat rose_tx_waddr length_subs_rose_tx)

lemma nest_entries_block:
  "sum_list (map tx_nodes ts) \<le> 2 ^ 32 \<Longrightarrow>
     nest_entries (flat_block i ts) = Inr (map (\<lambda>r. CallListNested (call_tree r)) (rose_block i ts))"
  by (induction ts arbitrary: i) (simp_all add: nest_entry_tx)

text \<open>
  C7. The \<^verbatim>\<open>callTracer\<close> response is the tree of the execution: for every block of transactions
  the listener and the formatter together give, for each transaction, the nested calls it
  made, every call under the one that made it and siblings in the order they were made. The
  sort and the pop-and-push loop never panic and lose no call.
\<close>

theorem call_tracer_block_exact:
  assumes "list_all wf_tx ts" and "sum_list (map tx_nodes ts) \<le> 2 ^ 32" and "ts \<noteq> []"
  shows "CallTracer_format (finish_transaction (fold cl_event (block_events ts) cl_default)) =
         Inr (Some (map (\<lambda>r. CallListNested (call_tree r)) (rose_block 0 ts)))"
proof -
  have "rose_block 0 ts \<noteq> []" using assms(3) by (cases ts) auto
  with assms show ?thesis
    by (simp add: CallTracer_format_def block_entries nest_entries_block)
qed

theorem call_tracer_block_exact_witness:
  "list_all wf_tx [sample_tx] \<and> sum_list (map tx_nodes [sample_tx]) \<le> 2 ^ 32 \<and>
   CallTracer_format (finish_transaction (fold cl_event (block_events [sample_tx]) cl_default)) =
     Inr (Some [CallListNested (call_tree (rose_tx 0 sample_tx))]) \<and>
   map (\<lambda>r. length (kids r)) (subs (rose_tx 0 sample_tx)) = [2, 1, 0, 0]"
  using call_tracer_block_exact[of "[sample_tx]"] by (simp add: sample_simps)

end
