(* ===== verification/Raw_Listener.thy ===== *)
theory Raw_Listener
  imports Tracing_Types
begin

text \<open>
  The opcode-level listener (\<^verbatim>\<open>client/evm-tracing/src/listeners/raw.rs\<close>) and its response
  (\<^verbatim>\<open>formatters/raw.rs\<close>). It logs every step of every context with its gas, stack, memory and
  the storage cells the context has touched.

  A step without the stack or memory that the listener asked for panics; the runtime builds
  the events with the filter that the listener returns, and then it never does.
\<close>


section \<open>State\<close>

record RawStep =
  rs_opcode :: bytes
  rs_depth :: usize
  rs_gas :: u64
  rs_gas_cost :: u64
  rs_position :: usize
  rs_memory :: "bytes option"
  rs_stack :: "h256 list option"

record RawContext =
  rc_storage_cache :: "(h256, h256) btree"
  rc_address :: h160
  rc_current_step :: "RawStep option"
  rc_global_storage_changes :: "(h160, (h256, h256) btree) btree"

record RawListener =
  rl_disable_storage :: bool
  rl_disable_memory :: bool
  rl_disable_stack :: bool
  rl_new_context :: bool
  rl_context_stack :: "RawContext list"
  rl_step_logs :: "RawStepLog list"
  rl_return_value :: bytes
  rl_final_gas :: u64

definition raw_new :: "bool \<Rightarrow> bool \<Rightarrow> bool \<Rightarrow> RawListener" where
  "raw_new disable_storage disable_memory disable_stack =
     \<lparr>rl_disable_storage = disable_storage, rl_disable_memory = disable_memory,
      rl_disable_stack = disable_stack, rl_new_context = False, rl_context_stack = [],
      rl_step_logs = [], rl_return_value = [], rl_final_gas = 0\<rparr>"


section \<open>Operations\<close>

text \<open>A charge, in the step that the innermost context is executing.\<close>

definition charge_step :: "u64 \<Rightarrow> Snapshot \<Rightarrow> RawContext \<Rightarrow> RawContext" where
  "charge_step cost s ctx =
     (case rc_current_step ctx of
        Some st \<Rightarrow> ctx\<lparr>rc_current_step := Some (st\<lparr>rs_gas := Snapshot_gas s, rs_gas_cost := cost\<rparr>)\<rparr>
      | None \<Rightarrow> ctx)"

definition charge :: "u64 \<Rightarrow> Snapshot \<Rightarrow> RawListener \<Rightarrow> RawListener" where
  "charge cost s l =
     (case vec_last (rl_context_stack l) of
        Some _ \<Rightarrow>
          l\<lparr>rl_context_stack := upd_last (charge_step cost s) (rl_context_stack l),
            rl_final_gas := sn_used_gas s\<rparr>
      | None \<Rightarrow> l)"

fun raw_gasometer_event :: "GasometerEvent \<Rightarrow> RawListener \<Rightarrow> RawListener" where
  "raw_gasometer_event (RecordTransaction cost _) l =
     l\<lparr>rl_new_context := True, rl_final_gas := cost\<rparr>"
| "raw_gasometer_event (RecordCost cost s) l = charge cost s l"
| "raw_gasometer_event (RecordDynamicCost gas_cost _ _ s) l = charge gas_cost s l"
| "raw_gasometer_event (RecordRefund _ _) l = l"
| "raw_gasometer_event (RecordStipend _ _) l = l"

text \<open>\<^verbatim>\<open>RuntimeEvent::Step\<close>\<close>

definition enter_context :: "Context \<Rightarrow> RawListener \<Rightarrow> RawListener" where
  "enter_context ctx l =
     (if rl_new_context l
      then l\<lparr>rl_new_context := False,
             rl_context_stack := rl_context_stack l @
               [\<lparr>rc_storage_cache = [], rc_address = cx_address ctx, rc_current_step = None,
                 rc_global_storage_changes = []\<rparr>]\<rparr>
      else l)"

definition begin_step ::
    "bytes \<Rightarrow> exit_reason + u64 \<Rightarrow> Stack option \<Rightarrow> Memory option \<Rightarrow> RawListener \<Rightarrow>
       RawListener outcome" where
  "begin_step opcode pos stk mem l =
     (case vec_last (rl_context_stack l) of
        None \<Rightarrow> Inr l
      | Some _ \<Rightarrow>
          if \<not> rl_disable_memory l \<and> mem = None
            then Inl (Panic ''memory data to not be filtered out'')
          else if \<not> rl_disable_stack l \<and> stk = None
            then Inl (Panic ''stack data to not be filtered out'')
          else
            Inr (l\<lparr>rl_context_stack :=
                     upd_last (\<lambda>c. c\<lparr>rc_current_step :=
                       Some \<lparr>rs_opcode = opcode, rs_depth = of_nat (length (rl_context_stack l)),
                             rs_gas = 0, rs_gas_cost = 0,
                             rs_position = (case pos of Inr p \<Rightarrow> p | Inl _ \<Rightarrow> 0),
                             rs_memory = (if rl_disable_memory l then None else map_option me_data mem),
                             rs_stack = (if rl_disable_stack l then None else map_option st_data stk)\<rparr>\<rparr>)
                       (rl_context_stack l)\<rparr>))"

text \<open>\<^verbatim>\<open>RuntimeEvent::StepResult\<close>: the log of the step, then the traps and exits.\<close>

definition step_log :: "bool \<Rightarrow> RawContext \<Rightarrow> RawStep \<Rightarrow> RawStepLog" where
  "step_log disable_storage ctx st =
     \<lparr>rl_depth = ucast (rs_depth st), rl_gas = ucast (rs_gas st),
      rl_gas_cost = ucast (rs_gas_cost st), rl_memory = map_option convert_memory (rs_memory st),
      rl_op = rs_opcode st, rl_pc = ucast (rs_position st), rl_stack = rs_stack st,
      rl_storage = (if disable_storage then None else Some (rc_storage_cache ctx))\<rparr>"

definition finish_step :: "RawListener \<Rightarrow> RawListener" where
  "finish_step l =
     (case vec_last (rl_context_stack l) of
        None \<Rightarrow> l
      | Some ctx \<Rightarrow>
          (case rc_current_step ctx of
             None \<Rightarrow> l
           | Some st \<Rightarrow>
               l\<lparr>rl_context_stack :=
                   upd_last (\<lambda>c. c\<lparr>rc_current_step := None\<rparr>) (rl_context_stack l),
                 rl_step_logs := rl_step_logs l @ [step_log (rl_disable_storage l) ctx st]\<rparr>))"

text \<open>
  The changes of a closed context, applied to the one that called it: the cells of its own
  address that it tracks are updated, the changes of other addresses are kept.
\<close>

definition update_tracked ::
    "(h256, h256) btree \<Rightarrow> (h256, h256) btree \<Rightarrow> (h256, h256) btree" where
  "update_tracked storage cache =
     map (\<lambda>(k, v). (k, case bt_get storage k of Some v' \<Rightarrow> v' | None \<Rightarrow> v)) cache"

definition apply_change :: "h160 \<times> (h256, h256) btree \<Rightarrow> RawContext \<Rightarrow> RawContext" where
  "apply_change change parent =
     (let (address, storage) = change in
      if rc_address parent = address
      then parent\<lparr>rc_storage_cache := update_tracked storage (rc_storage_cache parent)\<rparr>
      else parent\<lparr>rc_global_storage_changes :=
             bt_insert address
               (bt_append
                 (case bt_get (rc_global_storage_changes parent) address of
                    Some m \<Rightarrow> m | None \<Rightarrow> [])
                 storage)
               (rc_global_storage_changes parent)\<rparr>)"

definition absorb :: "RawContext \<Rightarrow> RawContext \<Rightarrow> RawContext" where
  "absorb ctx parent =
     fold apply_change
       (bt_insert (rc_address ctx) (rc_storage_cache ctx) (rc_global_storage_changes ctx)) parent"

definition exit_context :: "exit_reason \<Rightarrow> bytes \<Rightarrow> RawListener \<Rightarrow> RawListener" where
  "exit_context reason return_value l =
     (case vec_pop (rl_context_stack l) of
        None \<Rightarrow> l
      | Some (ctx, rest) \<Rightarrow>
          (let l1 = l\<lparr>rl_context_stack := rest\<rparr>;
               l2 = (if rest = [] then l1\<lparr>rl_return_value := return_value\<rparr> else l1) in
           if \<not> rl_disable_storage l \<and> (case reason of Succeed _ \<Rightarrow> True | _ \<Rightarrow> False)
           then l2\<lparr>rl_context_stack := upd_last (absorb ctx) rest\<rparr>
           else l2))"

fun raw_runtime_event :: "RuntimeEvent \<Rightarrow> RawListener \<Rightarrow> RawListener outcome" where
  "raw_runtime_event (Step ctx opcode pos stk mem) l =
     begin_step opcode pos stk mem (enter_context ctx l)"
| "raw_runtime_event (StepResult res return_value) l =
     (let l' = finish_step l in
      Inr (case res of
             Inl (Capture_Exit reason) \<Rightarrow> exit_context reason return_value l'
           | Inl (Capture_Trap opcode) \<Rightarrow>
               if ContextType_from opcode \<noteq> None then l'\<lparr>rl_new_context := True\<rparr> else l'
           | Inr _ \<Rightarrow> l'))"
| "raw_runtime_event (SLoad _ idx val) l =
     Inr (if rl_disable_storage l then l
          else l\<lparr>rl_context_stack :=
                   upd_last (\<lambda>c. c\<lparr>rc_storage_cache := bt_insert idx val (rc_storage_cache c)\<rparr>)
                     (rl_context_stack l)\<rparr>)"
| "raw_runtime_event (SStore _ idx val) l =
     Inr (if rl_disable_storage l then l
          else l\<lparr>rl_context_stack :=
                   upd_last (\<lambda>c. c\<lparr>rc_storage_cache := bt_insert idx val (rc_storage_cache c)\<rparr>)
                     (rl_context_stack l)\<rparr>)"

fun raw_event :: "Event \<Rightarrow> RawListener \<Rightarrow> RawListener outcome" where
  "raw_event (Gasometer e) l = Inr (raw_gasometer_event e l)"
| "raw_event (Runtime e) l = raw_runtime_event e l"
| "raw_event (Evm _) l = Inr l"
| "raw_event CallListNew l = Inr l"

definition raw_step_event_filter :: "RawListener \<Rightarrow> StepEventFilter" where
  "raw_step_event_filter l =
     \<lparr>enable_stack = (\<not> rl_disable_stack l), enable_memory = (\<not> rl_disable_memory l)\<rparr>"

definition Raw_format :: "RawListener \<Rightarrow> TransactionTrace option" where
  "Raw_format l =
     Some (TransactionTrace_Raw (ucast (rl_final_gas l)) (rl_return_value l) (rl_step_logs l))"


section \<open>Invariant\<close>

text \<open>
  The options of the listener never change; every log and every step in progress has its
  memory, stack and storage exactly when they are not disabled, and the storage maps are
  ordered.
\<close>

definition raw_step_ok :: "bool \<Rightarrow> bool \<Rightarrow> RawStep \<Rightarrow> bool" where
  "raw_step_ok dm dst st \<longleftrightarrow> (rs_memory st = None) = dm \<and> (rs_stack st = None) = dst"

definition raw_context_ok :: "bool \<Rightarrow> bool \<Rightarrow> RawContext \<Rightarrow> bool" where
  "raw_context_ok dm dst c \<longleftrightarrow>
     bt_inv (rc_storage_cache c) \<and> bt_inv (rc_global_storage_changes c) \<and>
     (case rc_current_step c of None \<Rightarrow> True | Some st \<Rightarrow> raw_step_ok dm dst st)"

definition raw_log_ok :: "bool \<Rightarrow> bool \<Rightarrow> bool \<Rightarrow> RawStepLog \<Rightarrow> bool" where
  "raw_log_ok ds dm dst log \<longleftrightarrow>
     (rl_memory log = None) = dm \<and> (rl_stack log = None) = dst \<and>
     (case rl_storage log of None \<Rightarrow> ds | Some m \<Rightarrow> \<not> ds \<and> bt_inv m)"

definition raw_inv :: "bool \<Rightarrow> bool \<Rightarrow> bool \<Rightarrow> RawListener \<Rightarrow> bool" where
  "raw_inv ds dm dst l \<longleftrightarrow>
     rl_disable_storage l = ds \<and> rl_disable_memory l = dm \<and> rl_disable_stack l = dst \<and>
     list_all (raw_context_ok dm dst) (rl_context_stack l) \<and>
     list_all (raw_log_ok ds dm dst) (rl_step_logs l)"

text \<open>The events that carry what the listener was promised.\<close>

fun raw_accepts :: "bool \<Rightarrow> bool \<Rightarrow> Event \<Rightarrow> bool" where
  "raw_accepts dm dst (Runtime (Step _ _ _ stk mem)) = ((dm \<or> mem \<noteq> None) \<and> (dst \<or> stk \<noteq> None))"
| "raw_accepts dm dst _ = True"


section \<open>Lemmas\<close>

lemma raw_inv_upd_stack:
  "raw_inv ds dm dst l \<Longrightarrow> (\<And>c. raw_context_ok dm dst c \<Longrightarrow> raw_context_ok dm dst (f c)) \<Longrightarrow>
     raw_inv ds dm dst (l\<lparr>rl_context_stack := upd_last f (rl_context_stack l)\<rparr>)"
  by (simp add: raw_inv_def list_all_upd_last)

lemma raw_inv_irrelevant [simp]:
  "raw_inv ds dm dst (l\<lparr>rl_new_context := a\<rparr>) = raw_inv ds dm dst l"
  "raw_inv ds dm dst (l\<lparr>rl_final_gas := b\<rparr>) = raw_inv ds dm dst l"
  "raw_inv ds dm dst (l\<lparr>rl_return_value := c\<rparr>) = raw_inv ds dm dst l"
  by (simp_all add: raw_inv_def)

lemma raw_inv_gasometer: "raw_inv ds dm dst l \<Longrightarrow> raw_inv ds dm dst (raw_gasometer_event e l)"
proof -
  have "raw_context_ok dm dst c \<Longrightarrow> raw_context_ok dm dst (charge_step cost s c)" for cost s c
    by (auto simp: raw_context_ok_def charge_step_def raw_step_ok_def split: option.splits)
  then have "raw_inv ds dm dst l \<Longrightarrow> raw_inv ds dm dst (charge cost s l)" for cost s
    by (simp add: charge_def raw_inv_upd_stack split: option.splits)
  then show "raw_inv ds dm dst l \<Longrightarrow> raw_inv ds dm dst (raw_gasometer_event e l)"
    by (cases e) simp_all
qed

lemma raw_inv_enter: "raw_inv ds dm dst l \<Longrightarrow> raw_inv ds dm dst (enter_context ctx l)"
  by (simp add: enter_context_def raw_inv_def raw_context_ok_def)

lemma raw_begin_step:
  assumes "raw_inv ds dm dst l" and "dm \<or> mem \<noteq> None" and "dst \<or> stk \<noteq> None"
  shows "\<exists>l'. begin_step opcode pos stk mem l = Inr l' \<and> raw_inv ds dm dst l'"
proof (cases "vec_last (rl_context_stack l)")
  case None
  with assms show ?thesis by (simp add: begin_step_def)
next
  case (Some c)
  with assms show ?thesis
    by (auto simp: begin_step_def raw_inv_def raw_context_ok_def raw_step_ok_def
        intro!: list_all_upd_last)
qed

lemma raw_inv_finish_step: "raw_inv ds dm dst l \<Longrightarrow> raw_inv ds dm dst (finish_step l)"
proof (cases "rl_context_stack l" rule: rev_cases)
  case (snoc cs c)
  assume "raw_inv ds dm dst l"
  with snoc show ?thesis
    by (auto simp: finish_step_def raw_inv_def raw_context_ok_def raw_step_ok_def raw_log_ok_def
        step_log_def split: option.splits)
qed (simp add: finish_step_def)

lemma keys_update_tracked [simp]: "map fst (update_tracked s c) = map fst c"
  by (simp add: update_tracked_def case_prod_beta comp_def)

lemma raw_context_ok_absorb:
  "raw_context_ok dm dst p \<Longrightarrow> raw_context_ok dm dst (absorb c p)"
proof -
  have "raw_context_ok dm dst p \<Longrightarrow> raw_context_ok dm dst (apply_change ch p)" for ch p
    by (auto simp: raw_context_ok_def apply_change_def Let_def split: prod.splits)
      (simp add: bt_inv_def)
  then have "raw_context_ok dm dst p \<Longrightarrow> raw_context_ok dm dst (fold apply_change chs p)" for chs p
    by (induction chs arbitrary: p) auto
  then show "raw_context_ok dm dst p \<Longrightarrow> raw_context_ok dm dst (absorb c p)"
    by (simp add: absorb_def)
qed

lemma raw_inv_exit: "raw_inv ds dm dst l \<Longrightarrow> raw_inv ds dm dst (exit_context r rv l)"
proof (cases "rl_context_stack l" rule: rev_cases)
  case (snoc cs c)
  assume "raw_inv ds dm dst l"
  with snoc show ?thesis
    by (auto simp: exit_context_def raw_inv_def Let_def list_all_upd_last raw_context_ok_absorb)
qed (simp add: exit_context_def)

lemma raw_step:
  assumes "raw_accepts dm dst e" and "raw_inv ds dm dst l"
  shows "\<exists>l'. raw_event e l = Inr l' \<and> raw_inv ds dm dst l'"
proof (cases e)
  case (Runtime r)
  then show ?thesis
  proof (cases r)
    case (Step ctx opcode pos stk mem)
    with Runtime assms show ?thesis
      using raw_begin_step[OF raw_inv_enter[OF assms(2), of ctx], of mem stk opcode pos] by simp
  next
    case (StepResult res rv)
    with Runtime assms raw_inv_finish_step[OF assms(2)] show ?thesis
      by (auto simp: Let_def raw_inv_exit split: sum.splits Capture.splits)
  next
    case (SLoad a i v)
    with Runtime assms show ?thesis by (auto simp: raw_context_ok_def intro!: raw_inv_upd_stack)
  next
    case (SStore a i v)
    with Runtime assms show ?thesis by (auto simp: raw_context_ok_def intro!: raw_inv_upd_stack)
  qed
qed (use assms in \<open>simp_all add: raw_inv_gasometer\<close>)

text \<open>The opcode-level listener accepts the events that carry what it asked for.\<close>

interpretation raw_run: event_listener raw_event "raw_accepts dm dst" "raw_inv ds dm dst" for ds dm dst
  by unfold_locales (rule raw_step)

lemma raw_accepts_filtered:
  "raw_accepts dm dst (event_of (raw_step_event_filter (raw_new ds dm dst)) e)"
proof (cases e)
  case (From_runtime r)
  then show ?thesis by (cases r) (simp_all add: raw_step_event_filter_def raw_new_def)
qed simp_all

lemma raw_new_inv: "raw_inv ds dm dst (raw_new ds dm dst)"
  by (simp add: raw_inv_def raw_new_def)

text \<open>
  C33. The listener never panics: on every stream of interpreter events that the runtime
  converts with the filter the listener returned, it accepts every event, and each of its logs
  has a memory, a stack and a storage exactly when they were not disabled.
\<close>

theorem raw_listener_never_panics:
  "\<exists>l. using_listener raw_event (map (event_of (raw_step_event_filter (raw_new ds dm dst))) srcs)
         (raw_new ds dm dst) = Inr l \<and> raw_inv ds dm dst l"
  by (rule raw_run.run_total) (auto simp: raw_accepts_filtered raw_new_inv)

end
