(* ===== verification/Raw_Refinement.thy ===== *)
theory Raw_Refinement
  imports Raw_Listener
begin

text \<open>
  The opcode-level listener against an abstract execution: a frame is the list of its steps,
  some of which call a further frame. The logs are exactly the steps, in the order in which they
  finished, each with its depth in the tree, its opcode and position, the gas of its last
  charge, and the stack and memory at its start.

  This holds for regular executions: each call starts a frame, and each frame ends with a result
  that leaves it. The listener counts contexts by these results, so its depths and the returned
  value are wrong after a call that starts no frame, as one to a precompiled contract, or whose
  frame ends without such a result, as one that runs out of gas or destroys its contract; this
  is stated as well. The storage column is not a function of the steps alone, and can be stale.
\<close>


section \<open>Executions\<close>

text \<open>
  A step with the gas that is charged before its result. The result of a step is that the
  frame goes on, a trap, or that the frame is left. An external opcode traps and is then
  executed by the runtime, which may load and store cells; it opens no context. A frame whose code
  is at its end, so also a frame without code, is left without a step.
\<close>

datatype exec_step = Exec_step evm_context u8 "exit_reason + usize" evm_stack evm_memory "GasometerEvent list"

datatype ending = Exits exec_step exit_reason bytes | Falls_off exit_reason

datatype exec_frame = Exec_frame "exec_item list" ending
and exec_item =
    Plain exec_step bytes
  | External exec_step u8 bytes
  | Calls exec_step u8 bytes exec_frame
  | Between Event


subsection \<open>Events\<close>

fun step_events :: "StepEventFilter \<Rightarrow> exec_step \<Rightarrow> Event list" where
  "step_events filt (Exec_step ctx op pos stk mem gs) =
     event_of filt (From_runtime (X_Step ctx op pos stk mem)) # map Gasometer gs"

definition result_event ::
    "StepEventFilter \<Rightarrow> (exit_reason, u8) evm_capture + unit \<Rightarrow> bytes \<Rightarrow> Event" where
  "result_event filt res rv = event_of filt (From_runtime (X_StepResult res rv))"

fun ending_events :: "StepEventFilter \<Rightarrow> ending \<Rightarrow> Event list" where
  "ending_events filt (Exits s reason rv) = step_events filt s @ [result_event filt (Inl (X_Exited reason)) rv]"
| "ending_events filt (Falls_off reason) = [result_event filt (Inl (X_Exited reason)) []]"

fun exec_frame_events :: "StepEventFilter \<Rightarrow> exec_frame \<Rightarrow> Event list"
  and exec_items_events :: "StepEventFilter \<Rightarrow> exec_item list \<Rightarrow> Event list" where
  "exec_frame_events filt (Exec_frame is e) = exec_items_events filt is @ ending_events filt e"
| "exec_items_events filt [] = []"
| "exec_items_events filt (Plain s rv # is) =
     step_events filt s @ result_event filt (Inr ()) rv # exec_items_events filt is"
| "exec_items_events filt (External s op rv # is) =
     step_events filt s @ result_event filt (Inl (X_Trapped op)) rv # exec_items_events filt is"
| "exec_items_events filt (Calls s op rv f # is) =
     step_events filt s @ result_event filt (Inl (X_Trapped op)) rv #
     exec_frame_events filt f @ exec_items_events filt is"
| "exec_items_events filt (Between e # is) = e # exec_items_events filt is"

text \<open>A transaction is announced and records its cost before its first step.\<close>

definition start_events :: "EvmEvent list \<Rightarrow> u64 \<Rightarrow> Snapshot \<Rightarrow> Event list" where
  "start_events ts cost s = map Evm ts @ [Gasometer (RecordTransaction cost s)]"

definition exec_events ::
    "StepEventFilter \<Rightarrow> EvmEvent list \<Rightarrow> u64 \<Rightarrow> Snapshot \<Rightarrow> exec_frame \<Rightarrow> Event list" where
  "exec_events filt ts cost s f = start_events ts cost s @ exec_frame_events filt f"

text \<open>
  A call that goes wrong for the listener: it starts no frame, or the frame is cut short in a
  step that it cannot pay, or an external opcode leaves it.
\<close>

datatype broken_call =
    Not_started
  | Cut_short "exec_item list" exec_step
  | Left_by "exec_item list" exec_step u8 bytes

fun broken_events :: "StepEventFilter \<Rightarrow> broken_call \<Rightarrow> Event list" where
  "broken_events filt Not_started = []"
| "broken_events filt (Cut_short is s) = exec_items_events filt is @ step_events filt s"
| "broken_events filt (Left_by is s op rv) =
     exec_items_events filt is @ step_events filt s @ [result_event filt (Inl (X_Trapped op)) rv]"


subsection \<open>Well-formed executions\<close>

fun not_transaction :: "GasometerEvent \<Rightarrow> bool" where
  "not_transaction (RecordTransaction _ _) = False"
| "not_transaction _ = True"

text \<open>What can happen between two steps: charges, accesses to cells, and events of the executor.\<close>

fun quiet_event :: "Event \<Rightarrow> bool" where
  "quiet_event (Gasometer g) = not_transaction g"
| "quiet_event (Runtime (SLoad _ _ _)) = True"
| "quiet_event (Runtime (SStore _ _ _)) = True"
| "quiet_event (Evm _) = True"
| "quiet_event _ = False"

fun wf_step :: "exec_step \<Rightarrow> bool" where
  "wf_step (Exec_step _ _ _ _ _ gs) = list_all not_transaction gs"

fun wf_ending :: "ending \<Rightarrow> bool" where
  "wf_ending (Exits s _ _) = wf_step s"
| "wf_ending (Falls_off _) = True"

fun wf_exec_frame :: "exec_frame \<Rightarrow> bool"
  and wf_exec_items :: "exec_item list \<Rightarrow> bool" where
  "wf_exec_frame (Exec_frame is e) = (wf_exec_items is \<and> wf_ending e)"
| "wf_exec_items [] = True"
| "wf_exec_items (Plain s _ # is) = (wf_step s \<and> wf_exec_items is)"
| "wf_exec_items (External s op _ # is) =
     (wf_step s \<and> opens_context (unat op) = None \<and> wf_exec_items is)"
| "wf_exec_items (Calls s op _ f # is) =
     (wf_step s \<and> opens_context (unat op) \<noteq> None \<and> wf_exec_frame f \<and> wf_exec_items is)"
| "wf_exec_items (Between e # is) = (quiet_event e \<and> wf_exec_items is)"

fun wf_broken :: "broken_call \<Rightarrow> bool" where
  "wf_broken Not_started = True"
| "wf_broken (Cut_short is s) = (wf_exec_items is \<and> wf_step s)"
| "wf_broken (Left_by is s op _) = (wf_exec_items is \<and> wf_step s \<and> opens_context (unat op) = None)"

fun starts_with_step :: "exec_frame \<Rightarrow> bool" where
  "starts_with_step (Exec_frame [] (Exits _ _ _)) = True"
| "starts_with_step (Exec_frame [] (Falls_off _)) = False"
| "starts_with_step (Exec_frame (Between _ # _) _) = False"
| "starts_with_step (Exec_frame _ _) = True"


subsection \<open>Reference logs\<close>

text \<open>The gas left and the cost of the last charge within a step.\<close>

fun last_charge :: "u64 \<times> u64 \<Rightarrow> GasometerEvent list \<Rightarrow> u64 \<times> u64" where
  "last_charge gc [] = gc"
| "last_charge gc (RecordCost cost s # gs) = last_charge (Snapshot_gas s, cost) gs"
| "last_charge gc (RecordDynamicCost cost _ _ s # gs) = last_charge (Snapshot_gas s, cost) gs"
| "last_charge gc (_ # gs) = last_charge gc gs"

text \<open>The log of a step, up to the storage.\<close>

fun ref_log :: "bool \<Rightarrow> bool \<Rightarrow> nat \<Rightarrow> exec_step \<Rightarrow> RawStepLog" where
  "ref_log dm dst d (Exec_step ctx op pos stk mem gs) =
     \<lparr>rl_depth = ucast (of_nat d :: usize), rl_gas = ucast (fst (last_charge (0, 0) gs)),
      rl_gas_cost = ucast (snd (last_charge (0, 0) gs)),
      rl_memory = (if dm then None else Some (convert_memory (em_data mem))),
      rl_op = opcodes_string op,
      rl_pc = ucast (case pos of Inr p \<Rightarrow> p | Inl _ \<Rightarrow> 0),
      rl_stack = (if dst then None else Some (es_data stk)), rl_storage = None\<rparr>"

fun ref_ending :: "bool \<Rightarrow> bool \<Rightarrow> nat \<Rightarrow> ending \<Rightarrow> RawStepLog list" where
  "ref_ending dm dst d (Exits s _ _) = [ref_log dm dst d s]"
| "ref_ending dm dst d (Falls_off _) = []"

fun ref_frame :: "bool \<Rightarrow> bool \<Rightarrow> nat \<Rightarrow> exec_frame \<Rightarrow> RawStepLog list"
  and ref_items :: "bool \<Rightarrow> bool \<Rightarrow> nat \<Rightarrow> exec_item list \<Rightarrow> RawStepLog list" where
  "ref_frame dm dst d (Exec_frame is e) = ref_items dm dst d is @ ref_ending dm dst d e"
| "ref_items dm dst d [] = []"
| "ref_items dm dst d (Plain s _ # is) = ref_log dm dst d s # ref_items dm dst d is"
| "ref_items dm dst d (External s _ _ # is) = ref_log dm dst d s # ref_items dm dst d is"
| "ref_items dm dst d (Calls s _ _ f # is) =
     ref_log dm dst d s # ref_frame dm dst (Suc d) f @ ref_items dm dst d is"
| "ref_items dm dst d (Between _ # is) = ref_items dm dst d is"

fun frame_output :: "exec_frame \<Rightarrow> bytes" where
  "frame_output (Exec_frame _ (Exits _ _ rv)) = rv"
| "frame_output (Exec_frame _ (Falls_off _)) = []"

text \<open>What the listener logs of a broken call: nothing of the step that could not be paid.\<close>

fun broken_logs :: "bool \<Rightarrow> bool \<Rightarrow> nat \<Rightarrow> broken_call \<Rightarrow> RawStepLog list" where
  "broken_logs dm dst d Not_started = []"
| "broken_logs dm dst d (Cut_short is s) = ref_items dm dst d is"
| "broken_logs dm dst d (Left_by is s _ _) = ref_items dm dst d is @ [ref_log dm dst d s]"

definition no_storage :: "RawStepLog \<Rightarrow> RawStepLog" where
  "no_storage log = log\<lparr>rl_storage := None\<rparr>"


section \<open>Vocabulary of the proofs\<close>

text \<open>
  The listener at depth \<open>d\<close>, between two steps: the context of that depth is open, or the next
  step opens it.
\<close>

definition at_depth :: "nat \<Rightarrow> RawListener \<Rightarrow> bool" where
  "at_depth d l \<longleftrightarrow>
     length (rl_context_stack l) + (if rl_new_context l then 1 else 0) = d \<and> 0 < d \<and>
     list_all (\<lambda>c. rc_current_step c = None) (rl_context_stack l) \<and> rl_return_value l = []"

text \<open>The listener inside a step of depth \<open>d\<close>.\<close>

definition in_step :: "nat \<Rightarrow> RawStep \<Rightarrow> RawListener \<Rightarrow> bool" where
  "in_step d st l \<longleftrightarrow>
     \<not> rl_new_context l \<and> rl_return_value l = [] \<and>
     (\<exists>cs c. rl_context_stack l = cs @ [c] \<and> length cs + 1 = d \<and> rc_current_step c = Some st \<and>
             list_all (\<lambda>c. rc_current_step c = None) cs)"

definition same_options :: "bool \<Rightarrow> bool \<Rightarrow> RawListener \<Rightarrow> bool" where
  "same_options dm dst l \<longleftrightarrow> rl_disable_memory l = dm \<and> rl_disable_stack l = dst"

definition logs :: "RawListener \<Rightarrow> RawStepLog list" where
  "logs l = map no_storage (rl_step_logs l)"

definition raw_filter :: "bool \<Rightarrow> bool \<Rightarrow> StepEventFilter" where
  "raw_filter dm dst = \<lparr>enable_stack = (\<not> dst), enable_memory = (\<not> dm)\<rparr>"

text \<open>The listener without the step that its innermost context is in.\<close>

definition forget :: "RawListener \<Rightarrow> RawListener" where
  "forget l = l\<lparr>rl_context_stack := upd_last (\<lambda>c. c\<lparr>rc_current_step := None\<rparr>) (rl_context_stack l)\<rparr>"

fun first_step :: "bool \<Rightarrow> bool \<Rightarrow> nat \<Rightarrow> exec_step \<Rightarrow> RawStep" where
  "first_step dm dst d (Exec_step ctx op pos stk mem gs) =
     \<lparr>rs_opcode = opcodes_string op, rs_depth = of_nat d, rs_gas = 0, rs_gas_cost = 0,
      rs_position = (case pos of Inr p \<Rightarrow> p | Inl _ \<Rightarrow> 0),
      rs_memory = (if dm then None else Some (em_data mem)),
      rs_stack = (if dst then None else Some (es_data stk))\<rparr>"

text \<open>
  Two executions. The first loads a cell, sends to an account without code, calls a contract and
  reverts it; in the second a contract at address 7 reads its cell 1, then calls code that runs
  at the same address and there calls code that writes the cell.
\<close>

definition sample_step :: "h160 \<Rightarrow> u8 \<Rightarrow> GasometerEvent list \<Rightarrow> exec_step" where
  "sample_step addr op gs =
     Exec_step \<lparr>ex_address = addr, ex_caller = 1, ex_apparent_value = 0\<rparr> op (Inr 0)
       \<lparr>es_data = [], es_limit = 1024\<rparr> \<lparr>em_data = [], em_effective_len = 0, em_limit = 0\<rparr> gs"

definition sample_gas :: "u64 \<Rightarrow> Snapshot" where
  "sample_gas g =
     \<lparr>sn_gas_limit = g, sn_memory_gas = 0, sn_used_gas = 0, sn_refunded_gas = 0\<rparr>"

definition sample_frame :: exec_frame where
  "sample_frame =
     Exec_frame
       [External (sample_step 7 84 [RecordCost 3 (sample_gas 100)]) 84 [], Between (Runtime (SLoad 7 1 5)),
        Calls (sample_step 7 241 []) 241 [] (Exec_frame [] (Falls_off (Succeed (Succeed_other 0)))),
        Calls (sample_step 7 241 []) 241 [] (Exec_frame [] (Exits (sample_step 8 253 []) (Revert 0) []))]
       (Exits (sample_step 7 243 []) (Succeed Returned) [42])"

definition stale_frame :: exec_frame where
  "stale_frame =
     Exec_frame
       [External (sample_step 7 84 []) 84 [], Between (Runtime (SLoad 7 1 5)),
        Calls (sample_step 7 244 []) 244 []
          (Exec_frame
             [Calls (sample_step 7 244 []) 244 []
                (Exec_frame [External (sample_step 7 85 []) 85 [], Between (Runtime (SStore 7 1 9))]
                   (Exits (sample_step 7 0 []) (Succeed (Succeed_other 0)) []))]
             (Exits (sample_step 7 0 []) (Succeed (Succeed_other 0)) []))]
       (Exits (sample_step 7 0 []) (Succeed (Succeed_other 0)) [])"

text \<open>What the cell of a contract holds after some events, if any of them accessed it.\<close>

fun cell_value :: "h160 \<Rightarrow> h256 \<Rightarrow> Event list \<Rightarrow> h256 option" where
  "cell_value a i [] = None"
| "cell_value a i (e # es) =
     (case cell_value a i es of
        Some v \<Rightarrow> Some v
      | None \<Rightarrow>
          (case e of
             Runtime (SLoad a' i' v) \<Rightarrow> if a' = a \<and> i' = i then Some v else None
           | Runtime (SStore a' i' v) \<Rightarrow> if a' = a \<and> i' = i then Some v else None
           | _ \<Rightarrow> None))"


section \<open>Lemmas\<close>

lemma run_step_event:
  assumes "at_depth d l" and "same_options dm dst l"
  shows "\<exists>l'. raw_event (event_of (raw_filter dm dst) (From_runtime (X_Step ctx op pos stk mem))) l = Inr l' \<and>
     in_step d (first_step dm dst d (Exec_step ctx op pos stk mem gs)) l' \<and> same_options dm dst l' \<and>
     rl_step_logs l' = rl_step_logs l"
proof -
  define l1 where "l1 = enter_context (Context_from ctx) l"
  have l1: "length (rl_context_stack l1) = d" "\<not> rl_new_context l1" "same_options dm dst l1"
    "list_all (\<lambda>c. rc_current_step c = None) (rl_context_stack l1)" "rl_step_logs l1 = rl_step_logs l"
    "rl_return_value l1 = []"
    using assms by (auto simp: l1_def enter_context_def at_depth_def same_options_def)
  moreover obtain cs c where "rl_context_stack l1 = cs @ [c]"
    using l1(1) assms(1) by (cases "rl_context_stack l1" rule: rev_cases) (auto simp: at_depth_def)
  ultimately show ?thesis
    by (auto simp: l1_def[symmetric] begin_step_def in_step_def same_options_def raw_filter_def
        Memory_from_def Stack_from_def split: sum.splits)
qed

lemma run_charges:
  assumes "list_all not_transaction gs" and "in_step d st l" and "same_options dm dst l"
  shows "\<exists>l'. using_listener raw_event (map Gasometer gs) l = Inr l' \<and>
     in_step d (st\<lparr>rs_gas := fst (last_charge (rs_gas st, rs_gas_cost st) gs),
                   rs_gas_cost := snd (last_charge (rs_gas st, rs_gas_cost st) gs)\<rparr>) l' \<and>
     same_options dm dst l' \<and> rl_step_logs l' = rl_step_logs l"
  using assms
proof (induction gs arbitrary: st l)
  case Nil
  then show ?case by simp
next
  case (Cons g gs)
  define st' where "st' = st\<lparr>rs_gas := fst (last_charge (rs_gas st, rs_gas_cost st) [g]),
                   rs_gas_cost := snd (last_charge (rs_gas st, rs_gas_cost st) [g])\<rparr>"
  have "\<exists>l1. raw_event (Gasometer g) l = Inr l1 \<and> in_step d st' l1 \<and> same_options dm dst l1 \<and>
      rl_step_logs l1 = rl_step_logs l"
    using Cons.prems by (cases g) (auto simp: in_step_def charge_def charge_step_def st'_def same_options_def)
  then obtain l1 where l1: "raw_event (Gasometer g) l = Inr l1" "in_step d st' l1"
    "same_options dm dst l1" "rl_step_logs l1 = rl_step_logs l" by auto
  have "last_charge (rs_gas st', rs_gas_cost st') gs = last_charge (rs_gas st, rs_gas_cost st) (g # gs)"
    by (cases g) (auto simp: st'_def)
  with Cons.IH[of st' l1] Cons.prems l1 show ?case by (simp add: st'_def)
qed

lemma run_step:
  assumes "at_depth d l" and "same_options dm dst l" and "wf_step s"
  shows "\<exists>l' st. using_listener raw_event (step_events (raw_filter dm dst) s) l = Inr l' \<and>
     in_step d st l' \<and> same_options dm dst l' \<and> rl_step_logs l' = rl_step_logs l \<and>
     (\<forall>ds c. no_storage (step_log ds c st) = ref_log dm dst d s)"
proof (cases s)
  case (Exec_step ctx op pos stk mem gs)
  from run_step_event[OF assms(1,2)] obtain l1 where
    l1: "raw_event (event_of (raw_filter dm dst) (From_runtime (X_Step ctx op pos stk mem))) l = Inr l1"
      "in_step d (first_step dm dst d s) l1" "same_options dm dst l1" "rl_step_logs l1 = rl_step_logs l"
    unfolding Exec_step by blast
  define st where "st = (first_step dm dst d s)\<lparr>rs_gas := fst (last_charge (0, 0) gs),
    rs_gas_cost := snd (last_charge (0, 0) gs)\<rparr>"
  from run_charges[of gs, OF _ l1(2,3)] assms(3) Exec_step obtain l2 where
    "using_listener raw_event (map Gasometer gs) l1 = Inr l2" "in_step d st l2"
    "same_options dm dst l2" "rl_step_logs l2 = rl_step_logs l1"
    by (auto simp: st_def)
  moreover have "no_storage (step_log ds c st) = ref_log dm dst d s" for ds c
    by (simp add: Exec_step st_def no_storage_def step_log_def)
  ultimately show ?thesis using l1 Exec_step by (auto simp del: event_of.simps)
qed

text \<open>The end of a step, however it ends.\<close>

lemma finish_in_step:
  assumes "in_step d st l"
  shows "\<exists>c ds. logs (finish_step l) = logs l @ [no_storage (step_log ds c st)]"
    and "length (rl_context_stack (finish_step l)) = d" and "\<not> rl_new_context (finish_step l)"
    and "list_all (\<lambda>c. rc_current_step c = None) (rl_context_stack (finish_step l))"
    and "rl_return_value (finish_step l) = []"
    and "same_options dm dst (finish_step l) = same_options dm dst l"
proof -
  from assms obtain cs c where l: "rl_context_stack l = cs @ [c]" "length cs + 1 = d" "rl_return_value l = []"
    "rc_current_step c = Some st" "list_all (\<lambda>c. rc_current_step c = None) cs" "\<not> rl_new_context l"
    by (auto simp: in_step_def)
  then have "logs (finish_step l) = logs l @ [no_storage (step_log (rl_disable_storage l) c st)]"
    by (simp add: finish_step_def logs_def)
  then show "\<exists>c ds. logs (finish_step l) = logs l @ [no_storage (step_log ds c st)]" by blast
  show "length (rl_context_stack (finish_step l)) = d" "\<not> rl_new_context (finish_step l)"
    "list_all (\<lambda>c. rc_current_step c = None) (rl_context_stack (finish_step l))"
    "rl_return_value (finish_step l) = []" "same_options dm dst (finish_step l) = same_options dm dst l"
    using l by (simp_all add: finish_step_def same_options_def)
qed

text \<open>A step and its result that does not leave the frame: the frame goes on, or calls.\<close>

lemma run_whole_step:
  assumes "at_depth d l" and "same_options dm dst l" and "wf_step s"
  obtains l1 where
    "using_listener raw_event (step_events (raw_filter dm dst) s) l = Inr l1"
    "at_depth d (finish_step l1)" "length (rl_context_stack (finish_step l1)) = d"
    "\<not> rl_new_context (finish_step l1)" "same_options dm dst (finish_step l1)"
    "logs (finish_step l1) = logs l @ [ref_log dm dst d s]"
proof -
  from run_step[OF assms] obtain l1 st where
    l1: "using_listener raw_event (step_events (raw_filter dm dst) s) l = Inr l1" "in_step d st l1"
      "same_options dm dst l1" "rl_step_logs l1 = rl_step_logs l"
      "\<forall>ds c. no_storage (step_log ds c st) = ref_log dm dst d s" by auto
  note fin = finish_in_step[OF l1(2)]
  have "at_depth d (finish_step l1)" using fin assms(1) by (auto simp: at_depth_def)
  moreover have "logs (finish_step l1) = logs l @ [ref_log dm dst d s]"
    using fin(1) l1(4,5) by (auto simp: logs_def)
  ultimately show thesis using that l1(1,3) fin(2,3,6) by blast
qed

lemma absorb_current_step [simp]: "rc_current_step (absorb c p) = rc_current_step p"
proof -
  have "rc_current_step (fold apply_change chs p) = rc_current_step p" for chs
    by (induction chs arbitrary: p) (auto simp: apply_change_def Let_def split: prod.splits)
  then show ?thesis by (simp add: absorb_def)
qed

lemma exit_context_effect:
  assumes "rl_context_stack l \<noteq> []" and "list_all (\<lambda>c. rc_current_step c = None) (rl_context_stack l)"
  shows "length (rl_context_stack (exit_context r rv l)) = length (rl_context_stack l) - 1"
    and "list_all (\<lambda>c. rc_current_step c = None) (rl_context_stack (exit_context r rv l))"
    and "rl_new_context (exit_context r rv l) = rl_new_context l"
    and "logs (exit_context r rv l) = logs l"
    and "same_options dm dst (exit_context r rv l) = same_options dm dst l"
    and "rl_return_value (exit_context r rv l) =
           (if length (rl_context_stack l) = 1 then rv else rl_return_value l)"
proof -
  from assms obtain cs c where l: "rl_context_stack l = cs @ [c]" "list_all (\<lambda>c. rc_current_step c = None) cs"
    by (cases "rl_context_stack l" rule: rev_cases) auto
  then show "length (rl_context_stack (exit_context r rv l)) = length (rl_context_stack l) - 1"
    "rl_new_context (exit_context r rv l) = rl_new_context l"
    "logs (exit_context r rv l) = logs l"
    "same_options dm dst (exit_context r rv l) = same_options dm dst l"
    "rl_return_value (exit_context r rv l) = (if length (rl_context_stack l) = 1 then rv else rl_return_value l)"
    by (auto simp: exit_context_def vec_pop_def Let_def logs_def same_options_def)
  show "list_all (\<lambda>c. rc_current_step c = None) (rl_context_stack (exit_context r rv l))"
    using l list_all_upd_last[OF l(2), of "absorb c"] by (simp add: exit_context_def Let_def)
qed

text \<open>A result that leaves a frame without a step: nothing is logged.\<close>

lemma finish_between: "at_depth d l \<Longrightarrow> finish_step l = l"
  by (cases "rl_context_stack l" rule: rev_cases) (auto simp: at_depth_def finish_step_def)

text \<open>
  The end of a frame: the listener is back in the calling frame, and the outermost frame gives the
  value that the listener returns.
\<close>

lemma run_ending:
  assumes "wf_ending e" and "at_depth d l" and "same_options dm dst l"
  shows "\<exists>l'. using_listener raw_event (ending_events (raw_filter dm dst) e) l = Inr l' \<and>
     (1 < d \<longrightarrow> at_depth (d - 1) l') \<and> same_options dm dst l' \<and> logs l' = logs l @ ref_ending dm dst d e \<and>
     (d = 1 \<longrightarrow> rl_return_value l' = frame_output (Exec_frame is e))"
proof (cases e)
  case (Exits s reason rv)
  obtain l1 where l1: "using_listener raw_event (step_events (raw_filter dm dst) s) l = Inr l1"
    "at_depth d (finish_step l1)" "length (rl_context_stack (finish_step l1)) = d"
    "\<not> rl_new_context (finish_step l1)" "same_options dm dst (finish_step l1)"
    "logs (finish_step l1) = logs l @ [ref_log dm dst d s]"
    using run_whole_step[OF assms(2,3), of s] assms(1) Exits by auto
  have "rl_context_stack (finish_step l1) \<noteq> []"
    "list_all (\<lambda>c. rc_current_step c = None) (rl_context_stack (finish_step l1))"
    using l1(2,3) by (auto simp: at_depth_def)
  from exit_context_effect[OF this, where r = reason and rv = rv] l1(2-6) show ?thesis
    by (auto simp: Exits using_listener_append l1(1) result_event_def at_depth_def)
next
  case (Falls_off reason)
  show ?thesis
  proof (cases "rl_context_stack l = []")
    case True
    then have "exit_context reason [] l = l" by (simp add: exit_context_def)
    with True assms(2,3) show ?thesis
      by (auto simp: Falls_off result_event_def finish_between[OF assms(2)] at_depth_def)
  next
    case False
    have "list_all (\<lambda>c. rc_current_step c = None) (rl_context_stack l)" using assms(2) by (simp add: at_depth_def)
    from exit_context_effect[OF False this, where r = reason and rv = "[]"] assms(2,3) show ?thesis
      by (auto simp: Falls_off result_event_def finish_between[OF assms(2)] at_depth_def)
  qed
qed

lemma run_quiet:
  assumes "quiet_event e" and "at_depth d l" and "same_options dm dst l"
  shows "\<exists>l'. raw_event e l = Inr l' \<and> at_depth d l' \<and> same_options dm dst l' \<and> logs l' = logs l"
  using assms
proof (induction e rule: quiet_event.induct)
  case (1 g)
  then show ?case
    by (cases g) (auto simp: charge_def at_depth_def same_options_def logs_def charge_step_def
        split: option.splits intro!: list_all_upd_last)
qed (auto simp: at_depth_def same_options_def logs_def intro!: list_all_upd_last)

lemma run_frame_logs:
  "wf_exec_frame f \<Longrightarrow> at_depth d l \<Longrightarrow> same_options dm dst l \<Longrightarrow>
     \<exists>l'. using_listener raw_event (exec_frame_events (raw_filter dm dst) f) l = Inr l' \<and>
          (1 < d \<longrightarrow> at_depth (d - 1) l') \<and> same_options dm dst l' \<and>
          logs l' = logs l @ ref_frame dm dst d f \<and> (d = 1 \<longrightarrow> rl_return_value l' = frame_output f)"
  and run_items_logs:
  "wf_exec_items is \<Longrightarrow> at_depth d l \<Longrightarrow> same_options dm dst l \<Longrightarrow>
     \<exists>l'. using_listener raw_event (exec_items_events (raw_filter dm dst) is) l = Inr l' \<and>
          at_depth d l' \<and> same_options dm dst l' \<and> logs l' = logs l @ ref_items dm dst d is"
proof (induction "raw_filter dm dst" f and "raw_filter dm dst" "is" arbitrary: d l and d l
    rule: exec_frame_events_exec_items_events.induct)
  case (1 "is" e d l)
  then obtain l1 where l1: "using_listener raw_event (exec_items_events (raw_filter dm dst) is) l = Inr l1"
    "at_depth d l1" "same_options dm dst l1" "logs l1 = logs l @ ref_items dm dst d is"
    by fastforce
  from run_ending[OF _ l1(2,3), of e "is"] 1(2) l1(1,4) show ?case by (auto simp: using_listener_append)
next
  case (2 d l)
  then show ?case by simp
next
  case (3 s rv "is" d l)
  have "wf_step s" using 3(2) by simp
  from run_whole_step[OF 3(3,4) this] obtain l1 where l1: "using_listener raw_event (step_events (raw_filter dm dst) s) l = Inr l1"
    "at_depth d (finish_step l1)" "same_options dm dst (finish_step l1)"
    "logs (finish_step l1) = logs l @ [ref_log dm dst d s]"
    by blast
  with 3(1)[OF _ l1(2,3)] 3(2) show ?case by (auto simp: using_listener_append result_event_def)
next
  case (4 s op rv "is" d l)
  have "wf_step s" using 4(2) by simp
  from run_whole_step[OF 4(3,4) this] obtain l1 where l1: "using_listener raw_event (step_events (raw_filter dm dst) s) l = Inr l1"
    "at_depth d (finish_step l1)" "same_options dm dst (finish_step l1)"
    "logs (finish_step l1) = logs l @ [ref_log dm dst d s]"
    by blast
  with 4(1)[OF _ l1(2,3)] 4(2) show ?case
    by (auto simp: using_listener_append result_event_def ContextType_from_opcode)
next
  case (5 s op rv f "is" d l)
  have "wf_step s" using 5(3) by simp
  from run_whole_step[OF 5(4,5) this] obtain l1 where l1: "using_listener raw_event (step_events (raw_filter dm dst) s) l = Inr l1"
    "at_depth d (finish_step l1)" "length (rl_context_stack (finish_step l1)) = d"
    "\<not> rl_new_context (finish_step l1)" "same_options dm dst (finish_step l1)"
    "logs (finish_step l1) = logs l @ [ref_log dm dst d s]"
    by blast
  define l2 where "l2 = (finish_step l1)\<lparr>rl_new_context := True\<rparr>"
  have l2: "at_depth (Suc d) l2" "same_options dm dst l2" "logs l2 = logs l @ [ref_log dm dst d s]"
    using l1(2-6) by (auto simp: at_depth_def l2_def same_options_def logs_def)
  from 5(1)[of "Suc d" l2] l2(1,2) 5(3,4) obtain l3 where
    l3: "using_listener raw_event (exec_frame_events (raw_filter dm dst) f) l2 = Inr l3"
      "at_depth d l3" "same_options dm dst l3" "logs l3 = logs l2 @ ref_frame dm dst (Suc d) f"
    by (auto simp: at_depth_def[of d l])
  from 5(2)[OF _ l3(2,3)] 5(3) obtain l4 where
    "using_listener raw_event (exec_items_events (raw_filter dm dst) is) l3 = Inr l4"
      "at_depth d l4" "same_options dm dst l4" "logs l4 = logs l3 @ ref_items dm dst d is" by auto
  moreover have "raw_event (result_event (raw_filter dm dst) (Inl (X_Trapped op)) rv) l1 = Inr l2"
    using 5(3) by (auto simp: result_event_def ContextType_from_opcode l2_def Let_def)
  ultimately show ?case
    using l1(1) l2(3) l3(1,4) by (simp add: using_listener_append)
next
  case (6 e "is" d l)
  then obtain l1 where "raw_event e l = Inr l1" "at_depth d l1" "same_options dm dst l1" "logs l1 = logs l"
    using run_quiet[OF _ 6(3,4), of e] by auto
  with 6(1)[of d l1] 6(2) show ?case by fastforce
qed

text \<open>The listener before the first step of a transaction.\<close>

lemma run_start:
  obtains l where "using_listener raw_event (start_events ts cost s) (raw_new ds dm dst) = Inr l"
    "at_depth 1 l" "same_options dm dst l" "logs l = []"
proof -
  have evm: "using_listener raw_event (map Evm ts) l = Inr l" for l
    by (induction ts) simp_all
  show thesis
    by (rule that[of "(raw_new ds dm dst)\<lparr>rl_new_context := True, rl_final_gas := cost\<rparr>"])
      (simp_all add: start_events_def using_listener_append evm at_depth_def same_options_def logs_def raw_new_def)
qed

lemma raw_filter_new: "raw_step_event_filter (raw_new ds dm dst) = raw_filter dm dst"
  by (simp add: raw_step_event_filter_def raw_new_def raw_filter_def)

lemma raw_trace_run:
  assumes "wf_exec_frame f"
  shows "\<exists>l g ls.
     using_listener raw_event (exec_events (raw_step_event_filter (raw_new ds dm dst)) ts cost s f)
       (raw_new ds dm dst) = Inr l \<and>
     Raw_format l = Some (TransactionTrace_Raw g (frame_output f) ls) \<and>
     map no_storage ls = ref_frame dm dst 1 f"
proof -
  obtain l0 where l0: "using_listener raw_event (start_events ts cost s) (raw_new ds dm dst) = Inr l0"
    "at_depth 1 l0" "same_options dm dst l0" "logs l0 = []" by (rule run_start)
  with run_frame_logs[OF assms l0(2,3)] obtain l where
    "using_listener raw_event (exec_frame_events (raw_filter dm dst) f) l0 = Inr l"
    "logs l = ref_frame dm dst 1 f" "rl_return_value l = frame_output f" by auto
  with l0(1) show ?thesis
    by (simp add: exec_events_def Raw_format_def logs_def using_listener_append raw_filter_new)
qed

text \<open>
  A step that is in progress when a new one begins is lost: until then it makes no difference but
  to itself.
\<close>

lemma forget_quiet:
  assumes "quiet_event e" and "raw_event e l = Inr l'"
  shows "raw_event e (forget l) = Inr (forget l')"
  using assms
proof (induction e rule: quiet_event.induct)
  case (1 g)
  have "forget (charge c s l) = charge c s (forget l)" for c s
    by (cases "rl_context_stack l" rule: rev_cases)
      (auto simp: charge_def charge_step_def forget_def split: option.splits)
  with 1 show ?case by (cases g) (auto simp: forget_def)
qed (cases "rl_context_stack l" rule: rev_cases; auto simp: forget_def)+

lemma forget_quiets:
  "list_all quiet_event qs \<Longrightarrow> using_listener raw_event qs l = Inr l' \<Longrightarrow>
     using_listener raw_event qs (forget l) = Inr (forget l')"
proof (induction qs arbitrary: l)
  case (Cons q qs)
  then obtain l1 where "raw_event q l = Inr l1" "using_listener raw_event qs l1 = Inr l'"
    by (auto split: sum.splits)
  with Cons forget_quiet[of q l l1] show ?case by simp
qed simp

lemma quiets_in_step:
  assumes "list_all quiet_event qs" and "in_step d st l"
  shows "\<exists>l' st'. using_listener raw_event qs l = Inr l' \<and> in_step d st' l'"
  using assms
proof (induction qs arbitrary: l st)
  case (Cons q qs)
  have "\<exists>l1 st1. raw_event q l = Inr l1 \<and> in_step d st1 l1"
    using Cons.prems
  proof (induction q rule: quiet_event.induct)
    case (1 g)
    then show ?case by (cases g) (auto simp: in_step_def charge_def charge_step_def)
  qed (auto simp: in_step_def)
  with Cons show ?case by fastforce
qed auto

lemma forget_step:
  assumes "in_step d st l"
  shows "using_listener raw_event (step_events filt s) l = using_listener raw_event (step_events filt s) (forget l)"
proof (cases s)
  case (Exec_step ctx op pos stk mem gs)
  from assms obtain cs c where "rl_context_stack l = cs @ [c]" "\<not> rl_new_context l"
    by (auto simp: in_step_def)
  then show ?thesis by (simp add: Exec_step forget_def enter_context_def begin_step_def)
qed

lemma forget_frame:
  assumes "in_step d st l" and "starts_with_step f"
  shows "using_listener raw_event (exec_frame_events filt f) l =
         using_listener raw_event (exec_frame_events filt f) (forget l)"
  using assms(2)
  by (cases f rule: starts_with_step.cases)
    (simp_all add: using_listener_append forget_step[OF assms(1)])

lemma forget_in_step:
  assumes "in_step d st l"
  shows "at_depth d (forget l)" "logs (forget l) = logs l" "same_options dm dst (forget l) = same_options dm dst l"
  using assms by (auto simp: in_step_def at_depth_def forget_def logs_def same_options_def)

text \<open>
  After a broken call of a frame at depth \<open>d\<close> the listener takes what the frame does next for steps
  of a frame one level further in.
\<close>

lemma run_quiets:
  "list_all quiet_event qs \<Longrightarrow> at_depth d l \<Longrightarrow> same_options dm dst l \<Longrightarrow>
     \<exists>l'. using_listener raw_event qs l = Inr l' \<and> at_depth d l' \<and> same_options dm dst l' \<and> logs l' = logs l"
proof (induction qs arbitrary: l)
  case (Cons q qs)
  then obtain l1 where "raw_event q l = Inr l1" "at_depth d l1" "same_options dm dst l1" "logs l1 = logs l"
    using run_quiet[of q d l dm dst] by auto
  with Cons.IH[of l1] Cons.prems show ?case by auto
qed simp

lemma run_broken:
  assumes "wf_broken b" and "list_all quiet_event qs" and "wf_exec_frame f" and "starts_with_step f"
    and l: "at_depth (Suc d) l" "same_options dm dst l"
  shows "\<exists>l'. using_listener raw_event
            (broken_events (raw_filter dm dst) b @ qs @ exec_frame_events (raw_filter dm dst) f) l = Inr l' \<and>
          (0 < d \<longrightarrow> at_depth d l') \<and>
          logs l' = logs l @ broken_logs dm dst (Suc d) b @ ref_frame dm dst (Suc d) f"
proof (cases b)
  case Not_started
  from run_quiets[OF assms(2) l] obtain l1 where
    l1: "using_listener raw_event qs l = Inr l1" "at_depth (Suc d) l1" "same_options dm dst l1" "logs l1 = logs l"
    by blast
  from run_frame_logs[OF assms(3) l1(2,3)] l1(1,4) show ?thesis
    by (auto simp: Not_started using_listener_append)
next
  case (Left_by "is" s op rv)
  from run_items_logs[OF _ l, of "is"] assms(1) Left_by obtain l1 where
    l1: "using_listener raw_event (exec_items_events (raw_filter dm dst) is) l = Inr l1" "at_depth (Suc d) l1"
      "same_options dm dst l1" "logs l1 = logs l @ ref_items dm dst (Suc d) is" by auto
  have "wf_step s" using assms(1) Left_by by simp
  from run_whole_step[OF l1(2,3) this] obtain l2 where
    l2: "using_listener raw_event (step_events (raw_filter dm dst) s) l1 = Inr l2" "at_depth (Suc d) (finish_step l2)"
      "same_options dm dst (finish_step l2)" "logs (finish_step l2) = logs l1 @ [ref_log dm dst (Suc d) s]"
    by blast
  from run_quiets[OF assms(2) l2(2,3)] obtain l3 where
    l3: "using_listener raw_event qs (finish_step l2) = Inr l3" "at_depth (Suc d) l3" "same_options dm dst l3"
      "logs l3 = logs (finish_step l2)" by blast
  have "raw_event (result_event (raw_filter dm dst) (Inl (X_Trapped op)) rv) l2 = Inr (finish_step l2)"
    using assms(1) Left_by by (simp add: result_event_def ContextType_from_opcode)
  with run_frame_logs[OF assms(3) l3(2,3)] l1(1,4) l2(1,4) l3(1,4) show ?thesis
    by (auto simp: Left_by using_listener_append)
next
  case (Cut_short "is" s)
  from run_items_logs[OF _ l, of "is"] assms(1) Cut_short obtain l1 where
    l1: "using_listener raw_event (exec_items_events (raw_filter dm dst) is) l = Inr l1" "at_depth (Suc d) l1"
      "same_options dm dst l1" "logs l1 = logs l @ ref_items dm dst (Suc d) is" by auto
  from run_step[OF l1(2,3), of s] assms(1) Cut_short obtain l2 st where
    l2: "using_listener raw_event (step_events (raw_filter dm dst) s) l1 = Inr l2" "in_step (Suc d) st l2"
      "same_options dm dst l2" "rl_step_logs l2 = rl_step_logs l1" by auto
  from quiets_in_step[OF assms(2) l2(2)] obtain l3 st' where
    l3: "using_listener raw_event qs l2 = Inr l3" "in_step (Suc d) st' l3" by blast
  note fl = forget_in_step[OF l2(2)]
  from run_quiets[OF assms(2) fl(1)] fl(3)[of dm dst] l2(3) forget_quiets[OF assms(2) l3(1)] have
    l4: "at_depth (Suc d) (forget l3)" "same_options dm dst (forget l3)" "logs (forget l3) = logs l2"
    using fl(2) by auto
  from run_frame_logs[OF assms(3) l4(1,2)] forget_frame[OF l3(2) assms(4), of "raw_filter dm dst"]
    l1(1,4) l2(1,4) l3(1) l4(3) show ?thesis
    by (auto simp: Cut_short using_listener_append logs_def)
qed

lemmas sample_raw_simps =
  sample_frame_def stale_frame_def sample_step_def sample_gas_def opens_context_def

text \<open>
  C8. The opcode trace of a regular execution is exact up to its storage column: the response logs
  every step once, in the order in which the steps finished, with its depth in the call tree,
  opcode, position, gas, stack and memory, and returns what the outermost frame returned. In a
  regular execution each call starts a frame and each frame ends with a result that leaves it;
  calls to accounts without code, external opcodes and reverts are regular.
\<close>

theorem raw_trace_exact:
  assumes "wf_exec_frame f"
  shows "\<exists>l g ls.
     using_listener raw_event (exec_events (raw_step_event_filter (raw_new ds dm dst)) ts cost s f)
       (raw_new ds dm dst) = Inr l \<and>
     Raw_format l = Some (TransactionTrace_Raw g (frame_output f) ls) \<and>
     map no_storage ls = ref_frame dm dst 1 f"
  by (rule raw_trace_run[OF assms])

theorem raw_trace_exact_witness:
  "wf_exec_frame sample_frame \<and>
   (\<exists>l g ls.
      using_listener raw_event (exec_events (raw_step_event_filter (raw_new False True True)) [] 21000
        (sample_gas 0) sample_frame) (raw_new False True True) = Inr l \<and>
      Raw_format l = Some (TransactionTrace_Raw g [42] ls) \<and>
      map no_storage ls = ref_frame True True 1 sample_frame) \<and>
   map rl_depth (ref_frame True True 1 sample_frame) = [1, 1, 1, 2, 1]"
  using raw_trace_exact[of sample_frame False True True "[]" 21000 "sample_gas 0"]
  by (simp add: sample_raw_simps)

text \<open>
  C35. After a call that starts no frame, or whose frame is cut short by a step that it cannot pay
  or left by an external opcode, the opcode trace is wrong: every later step of the calling frame
  is logged one level too deep, the step that could not be paid is missing, and the value that
  the transaction returned is lost. The calling frame here is the outermost one, and goes on with
  a step.
\<close>

theorem raw_depth_after_broken_call:
  assumes "wf_exec_items is" and "wf_step s" and "opens_context (unat op) \<noteq> None" and "wf_broken b"
    and "list_all quiet_event qs" and "wf_exec_frame f" and "starts_with_step f"
    and "filt = raw_step_event_filter (raw_new ds dm dst)"
  shows "\<exists>l g ls.
     using_listener raw_event
       (start_events ts cost snap @ exec_items_events filt is @
        step_events filt s @ [result_event filt (Inl (X_Trapped op)) rv] @
        broken_events filt b @ qs @ exec_frame_events filt f) (raw_new ds dm dst) = Inr l \<and>
     Raw_format l = Some (TransactionTrace_Raw g [] ls) \<and>
     map no_storage ls =
       ref_items dm dst 1 is @ [ref_log dm dst 1 s] @ broken_logs dm dst 2 b @ ref_frame dm dst 2 f"
proof -
  obtain l0 where l0: "using_listener raw_event (start_events ts cost snap) (raw_new ds dm dst) = Inr l0"
    "at_depth 1 l0" "same_options dm dst l0" "logs l0 = []" by (rule run_start)
  from run_items_logs[OF assms(1) l0(2,3)] obtain l1 where
    l1: "using_listener raw_event (exec_items_events (raw_filter dm dst) is) l0 = Inr l1" "at_depth 1 l1"
      "same_options dm dst l1" "logs l1 = ref_items dm dst 1 is" using l0(4) by auto
  from run_whole_step[OF l1(2,3) assms(2)] obtain l2 where
    l2: "using_listener raw_event (step_events (raw_filter dm dst) s) l1 = Inr l2" "at_depth 1 (finish_step l2)"
      "length (rl_context_stack (finish_step l2)) = 1" "same_options dm dst (finish_step l2)"
      "logs (finish_step l2) = logs l1 @ [ref_log dm dst 1 s]" by blast
  define l3 where "l3 = (finish_step l2)\<lparr>rl_new_context := True\<rparr>"
  have l3: "at_depth (Suc 1) l3" "same_options dm dst l3" "logs l3 = logs (finish_step l2)"
    "raw_event (result_event (raw_filter dm dst) (Inl (X_Trapped op)) rv) l2 = Inr l3"
    using l2(2-4) assms(3)
    by (auto simp: at_depth_def l3_def same_options_def logs_def result_event_def ContextType_from_opcode)
  from run_broken[OF assms(4-7) l3(1,2)] obtain l4 where
    "using_listener raw_event (broken_events (raw_filter dm dst) b @ qs @ exec_frame_events (raw_filter dm dst) f) l3 = Inr l4"
    "rl_return_value l4 = []" "logs l4 = logs l3 @ broken_logs dm dst 2 b @ ref_frame dm dst 2 f"
    by (auto simp: at_depth_def numeral_2_eq_2)
  with l0(1) l1(1,4) l2(1,5) l3(3,4) show ?thesis
    unfolding assms(8) raw_filter_new by (simp add: using_listener_append Raw_format_def logs_def)
qed

text \<open>
  The outermost frame calls a precompiled contract and returns 42: its last step is logged at
  depth 2, and nothing is returned.
\<close>

theorem raw_depth_after_broken_call_witness:
  "\<exists>l g ls.
     using_listener raw_event
       (start_events [] 21000 (sample_gas 0) @
        step_events (raw_filter True True) (sample_step 7 241 []) @
        [result_event (raw_filter True True) (Inl (X_Trapped 241)) []] @
        exec_frame_events (raw_filter True True)
          (Exec_frame [] (Exits (sample_step 7 243 []) (Succeed Returned) [42]))) (raw_new False True True) = Inr l \<and>
     Raw_format l = Some (TransactionTrace_Raw g [] ls) \<and> map rl_depth ls = [1, 2]"
proof -
  have depth: "map rl_depth ls = map rl_depth (map no_storage ls)" for ls by (simp add: no_storage_def)
  obtain l g ls where
    "using_listener raw_event
       (start_events [] 21000 (sample_gas 0) @
        step_events (raw_filter True True) (sample_step 7 241 []) @
        [result_event (raw_filter True True) (Inl (X_Trapped 241)) []] @
        exec_frame_events (raw_filter True True)
          (Exec_frame [] (Exits (sample_step 7 243 []) (Succeed Returned) [42]))) (raw_new False True True) = Inr l"
    "Raw_format l = Some (TransactionTrace_Raw g [] ls)"
    "map no_storage ls = ref_log True True 1 (sample_step 7 241 []) # [ref_log True True 2 (sample_step 7 243 [])]"
    using raw_depth_after_broken_call[of "[]" "sample_step 7 241 []" 241 Not_started "[]"
        "Exec_frame [] (Exits (sample_step 7 243 []) (Succeed Returned) [42])" "raw_filter True True" False True True
        "[]" 21000 "sample_gas 0" "[]"]
    by (auto simp: raw_filter_new sample_step_def opens_context_def)
  then show ?thesis using depth[of ls] by (auto simp: sample_step_def)
qed

text \<open>
  The storage column can be stale: in \<open>stale_frame\<close>, where no frame reverts, cell 1 of the contract
  holds 9 at the end, but the last log shows the 5 that the outermost frame read. The write was
  made two frames further in, at the same address, and the frame between had not touched the cell.
\<close>

lemma raw_storage_can_be_stale:
  "wf_exec_frame stale_frame \<and>
   cell_value 7 1 (exec_events (raw_step_event_filter (raw_new False True True)) [] 0 (sample_gas 0)
     stale_frame) = Some 9 \<and>
   (\<exists>l. using_listener raw_event
          (exec_events (raw_step_event_filter (raw_new False True True)) [] 0 (sample_gas 0) stale_frame)
          (raw_new False True True) = Inr l \<and>
        rl_storage (last (rl_step_logs l)) = Some [(1, 5)])"
  by (simp add: sample_raw_simps exec_events_def start_events_def result_event_def raw_step_event_filter_def raw_new_def
      enter_context_def begin_step_def finish_step_def exit_context_def vec_last_def vec_pop_def
      ContextType_from_opcode absorb_def apply_change_def update_tracked_def step_log_def bt_append_def)

end
