(* ===== verification/Debug_Handler.thy ===== *)
theory Debug_Handler
  imports Trace_Block Call_Tracer Raw_Refinement
begin

text \<open>
  The \<^verbatim>\<open>debug\<close> RPC (\<^verbatim>\<open>client/rpc/debug/src/lib.rs\<close>): the parameters of a request, the replay of a
  transaction or of a block under the listener they choose, the response of the formatter,
  and the answer that the RPC method makes of it.

  A handler runs in a task of its own, so its panics are values; the task that awaits it turns
  them into errors.
\<close>

section \<open>Model\<close>

datatype TracerInput = Tracer_None | Tracer_Blockscout | Tracer_CallTracer

datatype RequesterInput = Requester_Transaction h256 | Requester_Block RequestBlockId

datatype Response = Response_Single TransactionTrace | Response_Block "TransactionTrace list"

record TraceParams =
  tp_disable_storage :: "bool option"
  tp_disable_memory :: "bool option"
  tp_disable_stack :: "bool option"
  tp_tracer :: "string option"
  tp_timeout :: "string option"

type_synonym rpc_result = "rpc_error + Response"

definition BLOCKSCOUT_JS_CODE_HASH :: bytes where
  "BLOCKSCOUT_JS_CODE_HASH =
     [0x94, 0xd9, 0xf0, 0x87, 0x96, 0xf9, 0x1e, 0xb1, 0x3a, 0x2e, 0x82, 0xa6, 0x06, 0x68, 0x82, 0xf7]"

definition BLOCKSCOUT_JS_CODE_HASH_V2 :: bytes where
  "BLOCKSCOUT_JS_CODE_HASH_V2 =
     [0x89, 0xdb, 0x13, 0x69, 0x46, 0x75, 0x69, 0x29, 0x51, 0x67, 0x3a, 0x1e, 0x6e, 0x18, 0xff, 0x02]"

text \<open>\<^verbatim>\<open>format!("{:?}", ..)\<close> of an array of bytes.\<close>

fun debug_items :: "bytes \<Rightarrow> string" where
  "debug_items [] = []"
| "debug_items [b] = decimal (unat b)"
| "debug_items (b # bs) = decimal (unat b) @ '', '' @ debug_items bs"

definition debug_bytes :: "bytes \<Rightarrow> string" where
  "debug_bytes bs = ''['' @ debug_items bs @ '']''"

text \<open>\<open>twox_128\<close> is the hash function of the host.\<close>

definition resolve_tracer :: "(string \<Rightarrow> bytes) \<Rightarrow> string \<Rightarrow> TracerInput option" where
  "resolve_tracer twox_128 tracer =
     (let hash = twox_128 tracer in
      if hash = BLOCKSCOUT_JS_CODE_HASH \<or> hash = BLOCKSCOUT_JS_CODE_HASH_V2 then Some Tracer_Blockscout
      else if tracer = ''callTracer'' then Some Tracer_CallTracer
      else None)"

definition unwrap_or :: "'a option \<Rightarrow> 'a \<Rightarrow> 'a" where
  "unwrap_or x d = (case x of Some v \<Rightarrow> v | None \<Rightarrow> d)"

definition handle_params ::
    "(string \<Rightarrow> bytes) \<Rightarrow> TraceParams option \<Rightarrow> rpc_error + TracerInput \<times> TraceType" where
  "handle_params twox_128 params =
     (case params of
        Some p \<Rightarrow>
          (case tp_tracer p of
             Some tracer \<Rightarrow>
               (case resolve_tracer twox_128 tracer of
                  Some t \<Rightarrow> Inr (t, TraceType_CallList)
                | None \<Rightarrow>
                    Inl (''javascript based tracing is not available (hash :'' @
                         debug_bytes (twox_128 tracer) @ '')''))
           | None \<Rightarrow>
               Inr (Tracer_None,
                    TraceType_Raw (unwrap_or (tp_disable_storage p) False)
                      (unwrap_or (tp_disable_memory p) False) (unwrap_or (tp_disable_stack p) False)))
      | None \<Rightarrow> Inr (Tracer_None, TraceType_Raw False False False))"

text \<open>The block that a request names.\<close>

definition reference_id :: "('x, 'r) chain_client \<Rightarrow> RequestBlockId \<Rightarrow> rpc_error + BlockId" where
  "reference_id c request_block_id =
     (case request_block_id of
        Block_Number n \<Rightarrow> Inr (Id_Number n)
      | Block_Tag Latest \<Rightarrow> Inr (Id_Number (co_best_number c))
      | Block_Tag Earliest \<Rightarrow> Inr (Id_Number 0)
      | Block_Tag Pending \<Rightarrow> Inl (apostrophe @ ''pending'' @ apostrophe @ '' blocks are not supported'')
      | Block_Hash eth_hash \<Rightarrow>
          (case co_load_hash c eth_hash of
             Inr (Some i) \<Rightarrow> Inr i
           | Inr None \<Rightarrow> Inl ''Block hash not found''
           | Inl e \<Rightarrow> Inl e))"

definition quoted :: "string \<Rightarrow> string" where
  "quoted s = [CHR 0x22] @ s @ [CHR 0x22]"

definition unresolved_tracer :: rpc_error where
  "unresolved_tracer = ''Bug: failed to resolve the tracer format.''"

definition call_list_only :: rpc_error where
  "call_list_only =
     ''debug_traceBlock functions currently only support callList mode (enabled'' @ [CHR 0x0A] @
     replicate 4 (CHR 0x09) @ ''by providing `{{'' @ apostrophe @ ''tracer'' @ apostrophe @ '': '' @
     apostrophe @ ''callTracer'' @ apostrophe @ ''}}` in the request).''"

definition block_response ::
    "TracerInput \<Rightarrow> Event list \<times> (rpc_error + unit) \<Rightarrow> rpc_result outcome" where
  "block_response tracer_input replay =
     (case replay of
        (_, Inl e) \<Rightarrow> Inr (Inl e)
      | (events, Inr _) \<Rightarrow>
          (let proxy = finish_transaction (fold cl_event events cl_default) in
           if tracer_input = Tracer_CallTracer
           then
             (case CallTracer_format proxy of
                Inl p \<Rightarrow> Inl p
              | Inr None \<Rightarrow> Inr (Inl (quoted ''Trace result is empty.''))
              | Inr (Some traces) \<Rightarrow> Inr (Inr (Response_Block traces)))
           else Inr (Inl unresolved_tracer)))"

definition handle_block_request ::
    "(string \<Rightarrow> bytes) \<Rightarrow> ('x, 'r) chain_client \<Rightarrow> RequestBlockId \<Rightarrow> TraceParams option \<Rightarrow> rpc_result outcome" where
  "handle_block_request twox_128 c request_block_id params =
     (case handle_params twox_128 params of
        Inl e \<Rightarrow> Inr (Inl e)
      | Inr (tracer_input, trace_type) \<Rightarrow>
     (case reference_id c request_block_id of
        Inl e \<Rightarrow> Inr (Inl e)
      | Inr i \<Rightarrow>
     (case co_header c i of
        Inr (Some header) \<Rightarrow>
          (case co_overrides c (co_schema c i) of
             None \<Rightarrow> Inr (Inl (''No storage override at '' @ co_debug_id c i))
           | Some schema \<Rightarrow>
               (let eth_tx_hashes = unwrap_or (so_current_transaction_statuses schema i) [] in
                if eth_tx_hashes = [] then Inr (Inr (Response_Block []))
                else
                  (case co_body c i of
                     Inl e \<Rightarrow> Inr (Inl (''Fail to read blockchain db: '' @ e))
                   | Inr exts \<Rightarrow>
                       if trace_type = TraceType_CallList
                       then block_response tracer_input
                              (replay_block c cl_step_event_filter (co_show_id c i)
                                 (Id_Hash (hd_parent_hash header)) header (unwrap_or exts []) eth_tx_hashes)
                       else Inr (Inl call_list_only))))
      | _ \<Rightarrow> Inr (Inl ''Block header not found''))))"

text \<open>The closure that replays a transaction under a listener.\<close>

definition replay_transaction ::
    "('x, 'r) chain_client \<Rightarrow> u32 \<Rightarrow> BlockId \<Rightarrow> header \<Rightarrow> 'x list \<Rightarrow> 'r TransactionV2 \<Rightarrow> StepEventFilter \<Rightarrow>
       Event list \<times> (rpc_error + unit)" where
  "replay_transaction c trace_api_version parent header exts transaction filt =
     (case co_initialize_block c parent header of
        Inl e \<Rightarrow> ([], Inl (''Runtime api access error: '' @ e))
      | Inr _ \<Rightarrow>
          (if 4 \<le> trace_api_version
           then
             (case co_trace_transaction c filt parent exts transaction of
                (events, Inl e) \<Rightarrow>
                  (events, Inl (''Runtime api access error (version '' @ decimal (unat trace_api_version) @
                                ''): '' @ e))
              | (events, Inr (Inl e)) \<Rightarrow> (events, Inl (''DispatchError: '' @ e))
              | (events, Inr (Inr _)) \<Rightarrow> (events, Inr ()))
           else
             (case transaction of
                Tx_Legacy tx \<Rightarrow>
                  (case co_trace_transaction_before_version_4 c filt parent exts tx of
                     (events, Inl e) \<Rightarrow> (events, Inl (''Runtime api access error (legacy): '' @ e))
                   | (events, Inr (Inl e)) \<Rightarrow> (events, Inl (''DispatchError: '' @ e))
                   | (events, Inr (Inr _)) \<Rightarrow> (events, Inr ()))
              | _ \<Rightarrow> ([], Inl ''Bug: pre-london runtime expects legacy transactions''))))"

definition raw_response ::
    "bool \<Rightarrow> bool \<Rightarrow> bool \<Rightarrow> Event list \<times> (rpc_error + unit) \<Rightarrow> rpc_result outcome" where
  "raw_response disable_storage disable_memory disable_stack replay =
     (case using_listener raw_event (fst replay) (raw_new disable_storage disable_memory disable_stack) of
        Inl p \<Rightarrow> Inl p
      | Inr proxy \<Rightarrow>
          (case snd replay of
             Inl e \<Rightarrow> Inr (Inl e)
           | Inr _ \<Rightarrow>
               (case Raw_format proxy of
                  None \<Rightarrow> Inr (Inl ''Fail to format proxy'')
                | Some trace \<Rightarrow> Inr (Inr (Response_Single trace)))))"

definition call_list_response ::
    "TracerInput \<Rightarrow> Event list \<times> (rpc_error + unit) \<Rightarrow> rpc_result outcome" where
  "call_list_response tracer_input replay =
     (case replay of
        (_, Inl e) \<Rightarrow> Inr (Inl e)
      | (events, Inr _) \<Rightarrow>
          (let proxy = finish_transaction (fold cl_event events cl_default) in
           case tracer_input of
             Tracer_Blockscout \<Rightarrow>
               (case Blockscout_format proxy of
                  None \<Rightarrow> Inr (Inl (quoted ''Trace result is empty.''))
                | Some trace \<Rightarrow> Inr (Inr (Response_Single trace)))
           | Tracer_CallTracer \<Rightarrow>
               (case CallTracer_format proxy of
                  Inl p \<Rightarrow> Inl p
                | Inr None \<Rightarrow> Inr (Inl (quoted ''Trace result is empty.''))
                | Inr (Some res) \<Rightarrow>
                    (case vec_last res of
                       None \<Rightarrow> Inl (Panic ''Trace result is empty.'')
                     | Some trace \<Rightarrow> Inr (Inr (Response_Single trace))))
           | Tracer_None \<Rightarrow> Inr (Inl unresolved_tracer)))"

text \<open>\<open>debug_type\<close> renders a trace type that the handler does not support.\<close>

definition transaction_response ::
    "(TraceType \<Rightarrow> string) \<Rightarrow> TracerInput \<Rightarrow> TraceType \<Rightarrow>
       (StepEventFilter \<Rightarrow> Event list \<times> (rpc_error + unit)) \<Rightarrow> rpc_result outcome" where
  "transaction_response debug_type tracer_input trace_type replay =
     (case trace_type of
        TraceType_Raw ds dm dst \<Rightarrow> raw_response ds dm dst (replay (raw_step_event_filter (raw_new ds dm dst)))
      | TraceType_CallList \<Rightarrow> call_list_response tracer_input (replay cl_step_event_filter)
      | TraceType_Block \<Rightarrow>
          Inr (Inl (''Bug: `handle_transaction_request` does not support '' @ debug_type trace_type @ ''.'')))"

definition handle_transaction_request ::
    "(string \<Rightarrow> bytes) \<Rightarrow> (TraceType \<Rightarrow> string) \<Rightarrow> ('x, 'r) chain_client \<Rightarrow> h256 \<Rightarrow> TraceParams option \<Rightarrow>
       rpc_result outcome" where
  "handle_transaction_request twox_128 debug_type c transaction_hash params =
     (case handle_params twox_128 params of
        Inl e \<Rightarrow> Inr (Inl e)
      | Inr (tracer_input, trace_type) \<Rightarrow>
     (case co_load_transactions c transaction_hash of
        Inl e \<Rightarrow> Inr (Inl e)
      | Inr None \<Rightarrow> Inr (Inl ''Transaction hash not found'')
      | Inr (Some (hash, index)) \<Rightarrow>
     (case co_load_hash c hash of
        Inl e \<Rightarrow> Inr (Inl e)
      | Inr None \<Rightarrow> Inr (Inl ''Block hash not found'')
      | Inr (Some i) \<Rightarrow>
     (case co_header c i of
        Inr (Some header) \<Rightarrow>
     (let parent = Id_Hash (hd_parent_hash header) in
      case co_body c i of
        Inl e \<Rightarrow> Inr (Inl (''Fail to read blockchain db: '' @ e))
      | Inr exts \<Rightarrow>
     (case co_api_version c parent of
        Inr (Some trace_api_version) \<Rightarrow>
     (case co_overrides c (co_schema c i) of
        None \<Rightarrow> Inr (Inl (''No storage override at '' @ co_debug_id c i))
      | Some schema \<Rightarrow>
     (case so_current_block schema i of
        Some block \<Rightarrow>
          (if unat index < length (eb_transactions block)
           then transaction_response debug_type tracer_input trace_type
                  (replay_transaction c trace_api_version parent header (unwrap_or exts [])
                     (eb_transactions block ! unat index))
           else Inr (Inl ''Runtime block call failed''))
      | None \<Rightarrow> Inr (Inl ''Runtime block call failed'')))
      | _ \<Rightarrow> Inr (Inl ''Runtime api version call failed (trace)'')))
      | _ \<Rightarrow> Inr (Inl ''Block header not found'')))))"

text \<open>
  The service task: a panic of the handler is an error of the task it runs in. \<open>debug_panic\<close>
  renders that error.
\<close>

definition answer :: "(panic \<Rightarrow> string) \<Rightarrow> rpc_result outcome \<Rightarrow> rpc_result" where
  "answer debug_panic r =
     (case r of
        Inl p \<Rightarrow> Inl (''Internal error on spawned task : '' @ debug_panic p)
      | Inr res \<Rightarrow> res)"

definition debug_task ::
    "(string \<Rightarrow> bytes) \<Rightarrow> (TraceType \<Rightarrow> string) \<Rightarrow> (panic \<Rightarrow> string) \<Rightarrow> ('x, 'r) chain_client \<Rightarrow>
       RequesterInput \<times> TraceParams option \<Rightarrow> rpc_result" where
  "debug_task twox_128 debug_type debug_panic c request =
     (case request of
        (Requester_Transaction transaction_hash, params) \<Rightarrow>
          answer debug_panic (handle_transaction_request twox_128 debug_type c transaction_hash params)
      | (Requester_Block request_block_id, params) \<Rightarrow>
          answer debug_panic (handle_block_request twox_128 c request_block_id params))"

text \<open>
  The RPC methods: what they make of sending the request and of the answer of the service. A
  response of the wrong kind would be a panic.
\<close>

definition rpc_trace_transaction ::
    "rpc_error + unit \<Rightarrow> rpc_error + rpc_result \<Rightarrow> (rpc_error + TransactionTrace) outcome" where
  "rpc_trace_transaction sent received =
     (case sent of
        Inl e \<Rightarrow> Inr (Inl (''failed to send request to debug service : '' @ e))
      | Inr _ \<Rightarrow>
          (case received of
             Inl e \<Rightarrow> Inr (Inl (''debug service dropped the channel : '' @ e))
           | Inr (Inl e) \<Rightarrow> Inr (Inl e)
           | Inr (Inr (Response_Single res)) \<Rightarrow> Inr (Inr res)
           | Inr (Inr _) \<Rightarrow> Inl (Panic ''unreachable'')))"

definition rpc_trace_block ::
    "rpc_error + unit \<Rightarrow> rpc_error + rpc_result \<Rightarrow> (rpc_error + TransactionTrace list) outcome" where
  "rpc_trace_block sent received =
     (case sent of
        Inl e \<Rightarrow> Inr (Inl (''failed to send request to debug service : '' @ e))
      | Inr _ \<Rightarrow>
          (case received of
             Inl e \<Rightarrow> Inr (Inl (''debug service dropped the channel : '' @ e))
           | Inr (Inl e) \<Rightarrow> Inr (Inl e)
           | Inr (Inr (Response_Block res)) \<Rightarrow> Inr (Inr res)
           | Inr (Inr _) \<Rightarrow> Inl (Panic ''unreachable'')))"


section \<open>Requests that a node can serve\<close>

definition call_tracer_params :: TraceParams where
  "call_tracer_params =
     \<lparr>tp_disable_storage = None, tp_disable_memory = None, tp_disable_stack = None,
      tp_tracer = Some ''callTracer'', tp_timeout = None\<rparr>"

text \<open>The hash of the host does not confuse the name of the tracer with the Blockscout scripts.\<close>

definition separates_tracers :: "(string \<Rightarrow> bytes) \<Rightarrow> bool" where
  "separates_tracers twox_128 \<longleftrightarrow>
     twox_128 ''callTracer'' \<noteq> BLOCKSCOUT_JS_CODE_HASH \<and> twox_128 ''callTracer'' \<noteq> BLOCKSCOUT_JS_CODE_HASH_V2"

text \<open>
  A node serves a request with a replay when it has the block, its extrinsics and its Ethereum
  data, and its runtime gives that replay.
\<close>

inductive serves_block ::
    "('x, 'r) chain_client \<Rightarrow> RequestBlockId \<Rightarrow> 'x list \<Rightarrow> h256 list \<Rightarrow> Event list \<times> (dispatch_error + unit) \<Rightarrow> bool"
  for c r exts hashes replay where
  serves_blockI:
    "reference_id c r = Inr i \<Longrightarrow> co_header c i = Inr (Some header) \<Longrightarrow>
     co_overrides c (co_schema c i) = Some schema \<Longrightarrow>
     so_current_transaction_statuses schema i = Some hashes \<Longrightarrow> hashes \<noteq> [] \<Longrightarrow>
     co_body c i = Inr (Some exts) \<Longrightarrow>
     co_initialize_block c (Id_Hash (hd_parent_hash header)) header = Inr () \<Longrightarrow>
     co_trace_block c cl_step_event_filter (Id_Hash (hd_parent_hash header)) exts hashes =
       (fst replay, Inr (snd replay)) \<Longrightarrow>
     serves_block c r exts hashes replay"

inductive serves_transaction ::
    "('x, 'r) chain_client \<Rightarrow> h256 \<Rightarrow> 'x list \<Rightarrow> 'r TransactionV2 \<Rightarrow> StepEventFilter \<Rightarrow>
       Event list \<times> (dispatch_error + unit) \<Rightarrow> bool"
  for c h exts transaction filt replay where
  serves_transactionI:
    "co_load_transactions c h = Inr (Some (hash, index)) \<Longrightarrow> co_load_hash c hash = Inr (Some i) \<Longrightarrow>
     co_header c i = Inr (Some header) \<Longrightarrow> co_body c i = Inr (Some exts) \<Longrightarrow>
     co_api_version c (Id_Hash (hd_parent_hash header)) = Inr (Some v) \<Longrightarrow> 4 \<le> v \<Longrightarrow>
     co_overrides c (co_schema c i) = Some schema \<Longrightarrow> so_current_block schema i = Some block \<Longrightarrow>
     unat index < length (eb_transactions block) \<Longrightarrow> eb_transactions block ! unat index = transaction \<Longrightarrow>
     co_initialize_block c (Id_Hash (hd_parent_hash header)) header = Inr () \<Longrightarrow>
     co_trace_transaction c filt (Id_Hash (hd_parent_hash header)) exts transaction =
       (fst replay, Inr (snd replay)) \<Longrightarrow>
     serves_transaction c h exts transaction filt replay"

lemma unwrap_or_simps [simp]: "unwrap_or (Some x) d = x" "unwrap_or None d = d"
  by (simp_all add: unwrap_or_def)

lemma handle_params_call_tracer:
  "separates_tracers twox_128 \<Longrightarrow>
     handle_params twox_128 (Some call_tracer_params) = Inr (Tracer_CallTracer, TraceType_CallList)"
  by (simp add: handle_params_def call_tracer_params_def resolve_tracer_def separates_tracers_def)

lemma handle_block_served:
  assumes "serves_block c r exts hashes (events, Inr ())"
  shows "handle_block_request twox_128 c r params =
    (case handle_params twox_128 params of
       Inl e \<Rightarrow> Inr (Inl e)
     | Inr (tracer_input, trace_type) \<Rightarrow>
         if trace_type = TraceType_CallList then block_response tracer_input (events, Inr ())
         else Inr (Inl call_list_only))"
  using assms
  by (cases rule: serves_block.cases)
    (auto simp: handle_block_request_def replay_block_def Let_def split: sum.splits)

lemma handle_transaction_served:
  assumes "serves_transaction c h exts transaction filt (events, Inr ())"
    and params: "handle_params twox_128 params = Inr (tracer_input, trace_type)"
    and filt: "filt = (case trace_type of TraceType_Raw ds dm dst \<Rightarrow> raw_step_event_filter (raw_new ds dm dst)
                                  | _ \<Rightarrow> cl_step_event_filter)"
  shows "handle_transaction_request twox_128 debug_type c h params =
         transaction_response debug_type tracer_input trace_type (\<lambda>_. (events, Inr ()))"
  using assms(1)
proof (cases rule: serves_transaction.cases)
  case (serves_transactionI hash index i header v schema block)
  note s = this
  have "replay_transaction c v (Id_Hash (hd_parent_hash header)) header exts transaction filt = (events, Inr ())"
    using s by (simp add: replay_transaction_def)
  then have "transaction_response debug_type tracer_input trace_type
      (replay_transaction c v (Id_Hash (hd_parent_hash header)) header exts transaction) =
      transaction_response debug_type tracer_input trace_type (\<lambda>_. (events, Inr ()))"
    by (cases trace_type) (simp_all add: transaction_response_def filt)
  with s show ?thesis by (simp add: handle_transaction_request_def params)
qed


section \<open>Kinds of responses\<close>

lemma block_response_kind: "block_response ti r \<noteq> Inr (Inr (Response_Single t))"
  by (auto simp: block_response_def Let_def split: prod.splits sum.splits option.splits if_splits)

lemma transaction_response_kind: "transaction_response dt ti ty r \<noteq> Inr (Inr (Response_Block ts))"
  by (auto simp: transaction_response_def raw_response_def call_list_response_def Let_def
      split: prod.splits sum.splits option.splits TraceType.splits TracerInput.splits)

lemma handle_transaction_kind: "handle_transaction_request tw dt c h params \<noteq> Inr (Inr (Response_Block ts))"
  by (auto simp: handle_transaction_request_def transaction_response_kind Let_def
      split: prod.splits sum.splits option.splits)

lemma handle_block_kind: "handle_block_request tw c i params \<noteq> Inr (Inr (Response_Single t))"
  by (auto simp: handle_block_request_def block_response_kind Let_def
      split: prod.splits sum.splits option.splits)

lemma answer_Inr: "answer dp r = Inr x \<longleftrightarrow> r = Inr (Inr x)"
  by (auto simp: answer_def split: sum.splits)

text \<open>
  C30. The service answers a request with a response of its kind: whatever the node and the
  parameters, the RPC methods do not reach the arm that would panic.
\<close>

theorem debug_rpc_never_panics:
  "(\<exists>res. rpc_trace_transaction sent
       (Inr (debug_task twox_128 debug_type debug_panic c (Requester_Transaction h, params))) = Inr res) \<and>
   (\<exists>res. rpc_trace_block sent
       (Inr (debug_task twox_128 debug_type debug_panic c (Requester_Block i, params))) = Inr res)"
  using handle_transaction_kind[of twox_128 debug_type c h params] handle_block_kind[of twox_128 c i params]
  by (auto simp: rpc_trace_transaction_def rpc_trace_block_def debug_task_def answer_def
      split: sum.splits Response.splits)


section \<open>Exact responses\<close>

lemma call_tracer_of_block:
  assumes "list_all wf_tx ts" and "sum_list (map tx_nodes ts) \<le> 2 ^ 32" and "ts \<noteq> []"
  shows "CallTracer_format (finish_transaction (fold cl_event (block_events ts) cl_default)) =
         Inr (Some (map (\<lambda>r. CallListNested (call_tree r)) (rose_block 0 ts)))"
proof -
  have "rose_block 0 ts \<noteq> []" using assms(3) by (cases ts) auto
  with assms show ?thesis by (simp add: CallTracer_format_def block_entries nest_entries_block)
qed

lemma call_tracer_of_transaction:
  assumes "wf_tx t" and "tx_nodes t \<le> 2 ^ 32"
  shows "CallTracer_format (finish_transaction (fold cl_event (tx_events t) cl_default)) =
         Inr (Some [CallListNested (call_tree (rose_tx 0 t))])"
  using nest_entries_block[of "[t]" 0] assms by (simp add: CallTracer_format_def transaction_entries)

text \<open>The sample node serves its block and its transaction.\<close>

definition sample_transaction :: "unit TransactionV2" where
  "sample_transaction =
     Tx_Legacy \<lparr>pt_nonce = 0, pt_gas_price = 1, pt_gas_limit = 21000, pt_action = Action_to 2,
                pt_value = 0, pt_input = [], pt_rest = ()\<rparr>"

definition sample_run :: "nat \<Rightarrow> (unit, unit) UncheckedExtrinsic \<Rightarrow> nat \<times> tx" where
  "sample_run s xt = (s, sample_tx)"

lemma sample_extrinsic_function: "xt_function sample_extrinsic = Ethereum_transact sample_transaction"
  by (simp add: sample_extrinsic_def sample_transaction_def)

lemma sample_trees:
  "known_trees sample_run (\<lambda>_. 9) [9] [sample_extrinsic] 0 = [sample_tx]"
  "tree_of_transaction sample_run sample_transaction [sample_extrinsic] 0 = Some sample_tx"
  by (simp_all add: sample_run_def sample_extrinsic_function)

lemma sample_serves_block:
  "serves_block (sample_client events) (Block_Number 4) [sample_extrinsic] [9] (events, Inr ())"
  by (rule serves_blockI[of _ _ "Id_Number 4" "\<lparr>hd_number = 4, hd_parent_hash = 3\<rparr>"
        "the (co_overrides (sample_client events) 0)"])
    (simp_all add: reference_id_def sample_client_def)

lemma sample_serves_transaction:
  "serves_transaction (sample_client events) 9 [sample_extrinsic] sample_transaction filt (events, Inr ())"
  by (rule serves_transactionI[of _ _ 4 0 "Id_Hash 4" "\<lparr>hd_number = 4, hd_parent_hash = 3\<rparr>" _ 4
        "the (co_overrides (sample_client events) 0)" "\<lparr>eb_hash = 8, eb_transactions = [sample_transaction]\<rparr>"])
    (simp_all add: sample_client_def sample_extrinsic_function)

lemma separates_sample: "separates_tracers (\<lambda>_. [])"
  by (simp add: separates_tracers_def BLOCKSCOUT_JS_CODE_HASH_def BLOCKSCOUT_JS_CODE_HASH_V2_def)

text \<open>
  C1. \<^verbatim>\<open>debug_traceBlock\<close> with the call tracer is exact, from the request to the response: on a node
  that has the block, and whose runtime replays it, the response has for each known
  transaction, in block order, the tree of the calls it made.
\<close>

theorem debug_trace_block_exact:
  fixes run :: "'s \<Rightarrow> ('r, 'c) UncheckedExtrinsic \<Rightarrow> 's \<times> tx"
  assumes "separates_tracers twox_128"
    and "serves_block c r exts hashes (runtime_trace_block True (emits run) hash_of exts hashes s)"
    and "list_all wf_tx (known_trees run hash_of hashes exts s)"
    and "sum_list (map tx_nodes (known_trees run hash_of hashes exts s)) \<le> 2 ^ 32"
    and "known_trees run hash_of hashes exts s \<noteq> []"
  shows "debug_task twox_128 debug_type debug_panic c (Requester_Block r, Some call_tracer_params) =
         Inr (Response_Block (map (\<lambda>t. CallListNested (call_tree t))
                (rose_block 0 (known_trees run hash_of hashes exts s))))"
proof -
  have "serves_block c r exts hashes (block_events (known_trees run hash_of hashes exts s), Inr ())"
    using assms(2) by (simp add: runtime_trace_block_def trace_known_events)
  from handle_block_served[OF this] call_tracer_of_block[OF assms(3-5)] show ?thesis
    by (simp add: debug_task_def answer_def handle_params_call_tracer[OF assms(1)] block_response_def)
qed

theorem debug_trace_block_exact_witness:
  "debug_task (\<lambda>_. []) (\<lambda>_. []) (\<lambda>_. []) (sample_client (block_events [sample_tx]))
     (Requester_Block (Block_Number 4), Some call_tracer_params) =
   Inr (Response_Block [CallListNested (call_tree (rose_tx 0 sample_tx))])"
proof -
  have "serves_block (sample_client (block_events [sample_tx])) (Block_Number 4) [sample_extrinsic] [9]
      (runtime_trace_block True (emits sample_run) (\<lambda>_. 9) [sample_extrinsic] [9] 0)"
    unfolding runtime_trace_block_def trace_known_events sample_trees using sample_serves_block by simp
  from debug_trace_block_exact[OF separates_sample this] show ?thesis
    unfolding sample_trees by (simp add: sample_simps)
qed

text \<open>
  C2. \<^verbatim>\<open>debug_traceTransaction\<close> with the call tracer is exact, from the request to the response: the
  transaction is run in the state that the extrinsics before it leave, and the response is
  the tree of the calls it made there.
\<close>

theorem debug_trace_transaction_exact:
  fixes run :: "'s \<Rightarrow> ('r, 'c) UncheckedExtrinsic \<Rightarrow> 's \<times> tx"
  assumes "separates_tracers twox_128"
    and "serves_transaction c h exts transaction cl_step_event_filter
           (runtime_trace_transaction True (emits run) exts transaction s)"
    and "tree_of_transaction run transaction exts s = Some t"
    and "wf_tx t" and "tx_nodes t \<le> 2 ^ 32"
  shows "debug_task twox_128 debug_type debug_panic c (Requester_Transaction h, Some call_tracer_params) =
         Inr (Response_Single (CallListNested (call_tree (rose_tx 0 t))))"
proof -
  have served: "serves_transaction c h exts transaction cl_step_event_filter (tx_events t, Inr ())"
    using assms(2,3) by (simp add: runtime_trace_transaction_def trace_until_events)
  from handle_transaction_served[OF served handle_params_call_tracer[OF assms(1)], of debug_type]
    call_tracer_of_transaction[OF assms(4,5)] show ?thesis
    by (simp add: debug_task_def answer_def transaction_response_def call_list_response_def vec_last_def)
qed

theorem debug_trace_transaction_exact_witness:
  "debug_task (\<lambda>_. []) (\<lambda>_. []) (\<lambda>_. []) (sample_client (tx_events sample_tx))
     (Requester_Transaction 9, Some call_tracer_params) =
   Inr (Response_Single (CallListNested (call_tree (rose_tx 0 sample_tx))))"
proof -
  have "serves_transaction (sample_client (tx_events sample_tx)) 9 [sample_extrinsic] sample_transaction
      cl_step_event_filter (runtime_trace_transaction True (emits sample_run) [sample_extrinsic] sample_transaction 0)"
    unfolding runtime_trace_transaction_def trace_until_events sample_trees
    using sample_serves_transaction by simp
  from debug_trace_transaction_exact[OF separates_sample this sample_trees(2)] show ?thesis
    by (simp add: sample_simps)
qed

text \<open>
  C20. \<^verbatim>\<open>debug_traceTransaction\<close> without a tracer is exact up to the storage column for a regular
  execution, in which each call starts a frame and each frame ends with a result that leaves it:
  the response has one log for each step, in order, and what the outermost frame returned.
\<close>

theorem debug_trace_raw_exact:
  assumes "serves_transaction c h exts transaction (raw_step_event_filter (raw_new False False False))
             (exec_events (raw_step_event_filter (raw_new False False False)) ts cost snap f, Inr ())"
    and "wf_exec_frame f"
  shows "\<exists>g ls. debug_task twox_128 debug_type debug_panic c (Requester_Transaction h, None) =
                  Inr (Response_Single (TransactionTrace_Raw g (frame_output f) ls)) \<and>
                map no_storage ls = ref_frame False False 1 f"
proof -
  have params: "handle_params twox_128 None = Inr (Tracer_None, TraceType_Raw False False False)"
    by (simp add: handle_params_def)
  from raw_trace_run[OF assms(2), of False False False ts cost snap] obtain l g ls where
    "using_listener raw_event (exec_events (raw_step_event_filter (raw_new False False False)) ts cost snap f)
       (raw_new False False False) = Inr l"
    "Raw_format l = Some (TransactionTrace_Raw g (frame_output f) ls)" "map no_storage ls = ref_frame False False 1 f"
    by blast
  with handle_transaction_served[OF assms(1) params, of debug_type] show ?thesis
    by (simp add: debug_task_def answer_def transaction_response_def raw_response_def)
qed

theorem debug_trace_raw_exact_witness:
  "wf_exec_frame sample_frame \<and>
   (\<exists>g ls. debug_task (\<lambda>_. []) (\<lambda>_. []) (\<lambda>_. [])
      (sample_client (exec_events (raw_step_event_filter (raw_new False False False)) [] 21000 (sample_gas 0) sample_frame))
      (Requester_Transaction 9, None) = Inr (Response_Single (TransactionTrace_Raw g [42] ls)) \<and>
      map rl_depth ls = [1, 1, 1, 2, 1])"
proof -
  have wf: "wf_exec_frame sample_frame" by (simp add: sample_raw_simps)
  have ref: "frame_output sample_frame = [42]" "map rl_depth (ref_frame False False 1 sample_frame) = [1, 1, 1, 2, 1]"
    by (simp_all add: sample_raw_simps)
  have depth: "map rl_depth ls = map rl_depth (map no_storage ls)" for ls by (simp add: no_storage_def)
  from debug_trace_raw_exact[OF sample_serves_transaction wf, of "\<lambda>_. []" "\<lambda>_. []" "\<lambda>_. []"]
  show ?thesis using wf ref depth by metis
qed

text \<open>
  Of a block with transactions only the call tracer gives a response: without a tracer the
  request is refused, and a Blockscout request ends, after the whole replay, with the message
  that the tracer could not be resolved.
\<close>

lemma debug_trace_block_other_tracers:
  assumes "serves_block c r exts hashes (events, Inr ())"
  shows "debug_task twox_128 debug_type debug_panic c (Requester_Block r, None) = Inl call_list_only \<and>
         (twox_128 script = BLOCKSCOUT_JS_CODE_HASH \<longrightarrow>
          debug_task twox_128 debug_type debug_panic c
            (Requester_Block r, Some (call_tracer_params\<lparr>tp_tracer := Some script\<rparr>)) = Inl unresolved_tracer)"
  by (simp add: debug_task_def answer_def handle_block_served[OF assms] handle_params_def resolve_tracer_def
      call_tracer_params_def block_response_def Let_def)

lemma debug_trace_block_other_tracers_sample:
  "debug_task (\<lambda>_. BLOCKSCOUT_JS_CODE_HASH) (\<lambda>_. []) (\<lambda>_. []) (sample_client (block_events [sample_tx]))
     (Requester_Block (Block_Number 4), Some (call_tracer_params\<lparr>tp_tracer := Some ''script''\<rparr>)) =
   Inl unresolved_tracer"
  using debug_trace_block_other_tracers[OF sample_serves_block, of "\<lambda>_. BLOCKSCOUT_JS_CODE_HASH"] by blast

end
