(* ===== verification/Trace_Service.thy ===== *)
theory Trace_Service
  imports Trace_Cache
begin

text \<open>
  The cache task together with what runs beside it (\<^verbatim>\<open>client/rpc/trace/src/lib.rs\<close>): the tracing
  tasks it spawns, the permits that bound them, the channel on which they report, and the
  expiration timers. One transition function gives every atomic action of the whole service,
  so a property of the reachable states holds for every interleaving.
\<close>

section \<open>The service\<close>

text \<open>
  A spawned tracing task waits for a permit or for its unqueue channel to be dropped, reports
  that it started, traces the block, reports the result and gives the permit back. The
  channel on which it reports holds a bounded number of messages. The permits are those of a
  semaphore that the debug handler uses too (\<^verbatim>\<open>node/rpc/src/tracing.rs\<close>): each of its requests waits for
  a permit, runs and gives it back.
\<close>

datatype tracing_phase = Awaiting_permit | Permitted | Tracing | Traced traces_result

record tracing_task =
  tk_unqueue :: channel
  tk_block :: h256
  tk_phase :: tracing_phase

record service =
  sv_cache :: CacheTask
  sv_tracing :: "tracing_task list"
  sv_channel :: "BlockingTaskMessage list"
  sv_timers :: "u64 list"
  sv_effects :: "cache_effect list"
  sv_asked :: "channel list"
  sv_debug_waiting :: nat
  sv_debug_running :: nat

definition service_new :: service where
  "service_new =
     \<lparr>sv_cache = cache_new, sv_tracing = [], sv_channel = [], sv_timers = [], sv_effects = [], sv_asked = [],
      sv_debug_waiting = 0, sv_debug_running = 0\<rparr>"

text \<open>
  What can happen: a round of a tracing task, by its index, of the main loop or of the debug
  handler. All but the requests happens by itself.
\<close>

datatype service_action =
  Cancel nat
| Acquire nat
| Send_started nat
| Trace_block nat traces_result
| Send_finished nat
| Deliver
| Receive CacheRequest
| Expire nat
| Debug_request
| Debug_acquire
| Debug_release

fun internal_action :: "service_action \<Rightarrow> bool" where
  "internal_action (Receive _) \<longleftrightarrow> False"
| "internal_action Debug_request \<longleftrightarrow> False"
| "internal_action _ \<longleftrightarrow> True"

fun is_expiration :: "service_action \<Rightarrow> bool" where
  "is_expiration (Expire _) \<longleftrightarrow> True"
| "is_expiration _ \<longleftrightarrow> False"

text \<open>The unqueue channels that the state still holds; the others are dropped.\<close>

fun unqueue_sender :: "CacheBlockState \<Rightarrow> channel option" where
  "unqueue_sender (Pooled _ _ u) = Some u"
| "unqueue_sender (Cached _) = None"

definition unqueue_open :: "CacheTask \<Rightarrow> channel \<Rightarrow> bool" where
  "unqueue_open t u \<longleftrightarrow> list_ex (\<lambda>e. unqueue_sender (cb_state (snd e)) = Some u) (cached_blocks t)"

definition permits_used :: "service \<Rightarrow> nat" where
  "permits_used s =
     length (filter (\<lambda>k. tk_phase k \<noteq> Awaiting_permit) (sv_tracing s)) + sv_debug_running s"

definition remove_nth :: "nat \<Rightarrow> 'a list \<Rightarrow> 'a list" where
  "remove_nth i xs = take i xs @ drop (Suc i) xs"

fun spawned :: "cache_effect list \<Rightarrow> tracing_task list" where
  "spawned [] = []"
| "spawned (Spawn_tracing u b # es) =
     \<lparr>tk_unqueue = u, tk_block = b, tk_phase = Awaiting_permit\<rparr> # spawned es"
| "spawned (e # es) = spawned es"

definition handle :: "(h256 \<Rightarrow> string) \<Rightarrow> loop_event \<Rightarrow> service \<Rightarrow> service" where
  "handle show_hash e s =
     (case loop_step show_hash e (sv_cache s) of
        (t, es) \<Rightarrow>
          s\<lparr>sv_cache := t, sv_tracing := sv_tracing s @ spawned es, sv_effects := sv_effects s @ es,
            sv_asked := sv_asked s @ asked e\<rparr>)"

definition set_phase :: "nat \<Rightarrow> tracing_phase \<Rightarrow> service \<Rightarrow> service" where
  "set_phase i p s = s\<lparr>sv_tracing := (sv_tracing s)[i := (sv_tracing s ! i)\<lparr>tk_phase := p\<rparr>]\<rparr>"

definition in_phase :: "nat \<Rightarrow> tracing_phase \<Rightarrow> service \<Rightarrow> bool" where
  "in_phase i p s \<longleftrightarrow> i < length (sv_tracing s) \<and> tk_phase (sv_tracing s ! i) = p"

text \<open>
  \<open>permits\<close> is the size of the semaphore and \<open>capacity\<close> that of the channel; an action that is
  not possible gives \<open>None\<close>.
\<close>

fun service_do ::
    "(h256 \<Rightarrow> string) \<Rightarrow> nat \<Rightarrow> nat \<Rightarrow> service_action \<Rightarrow> service \<Rightarrow> service option" where
  "service_do show_hash permits capacity (Cancel i) s =
     (if in_phase i Awaiting_permit s \<and> \<not> unqueue_open (sv_cache s) (tk_unqueue (sv_tracing s ! i))
      then Some (s\<lparr>sv_tracing := remove_nth i (sv_tracing s)\<rparr>) else None)"
| "service_do show_hash permits capacity (Acquire i) s =
     (if in_phase i Awaiting_permit s \<and> permits_used s < permits
      then Some (set_phase i Permitted s) else None)"
| "service_do show_hash permits capacity (Send_started i) s =
     (if in_phase i Permitted s \<and> length (sv_channel s) < capacity
      then Some ((set_phase i Tracing s)\<lparr>sv_channel := sv_channel s @ [Started (tk_block (sv_tracing s ! i))]\<rparr>)
      else None)"
| "service_do show_hash permits capacity (Trace_block i r) s =
     (if in_phase i Tracing s then Some (set_phase i (Traced r) s) else None)"
| "service_do show_hash permits capacity (Send_finished i) s =
     (if i < length (sv_tracing s) \<and> length (sv_channel s) < capacity
      then
        (case tk_phase (sv_tracing s ! i) of
           Traced r \<Rightarrow>
             Some (s\<lparr>sv_tracing := remove_nth i (sv_tracing s),
                     sv_channel := sv_channel s @ [Finished (tk_block (sv_tracing s ! i)) r]\<rparr>)
         | _ \<Rightarrow> None)
      else None)"
| "service_do show_hash permits capacity Deliver s =
     (case sv_channel s of
        [] \<Rightarrow> None
      | m # ms \<Rightarrow> Some (handle show_hash (Got_message m) (s\<lparr>sv_channel := ms\<rparr>)))"
| "service_do show_hash permits capacity (Receive r) s =
     Some (handle show_hash (Got_request r)
       (s\<lparr>sv_timers := sv_timers s @ (case r of StopBatch i \<Rightarrow> [i] | _ \<Rightarrow> [])\<rparr>))"
| "service_do show_hash permits capacity (Expire i) s =
     (if i < length (sv_timers s)
      then Some (handle show_hash (Got_expired (sv_timers s ! i))
                  (s\<lparr>sv_timers := remove_nth i (sv_timers s)\<rparr>))
      else None)"
| "service_do show_hash permits capacity Debug_request s =
     Some (s\<lparr>sv_debug_waiting := Suc (sv_debug_waiting s)\<rparr>)"
| "service_do show_hash permits capacity Debug_acquire s =
     (if 0 < sv_debug_waiting s \<and> permits_used s < permits
      then Some (s\<lparr>sv_debug_waiting := sv_debug_waiting s - 1, sv_debug_running := Suc (sv_debug_running s)\<rparr>)
      else None)"
| "service_do show_hash permits capacity Debug_release s =
     (if 0 < sv_debug_running s then Some (s\<lparr>sv_debug_running := sv_debug_running s - 1\<rparr>) else None)"

fun service_run ::
    "(h256 \<Rightarrow> string) \<Rightarrow> nat \<Rightarrow> nat \<Rightarrow> service_action list \<Rightarrow> service \<Rightarrow> service option" where
  "service_run show_hash permits capacity [] s = Some s"
| "service_run show_hash permits capacity (a # as) s =
     (case service_do show_hash permits capacity a s of
        Some s' \<Rightarrow> service_run show_hash permits capacity as s'
      | None \<Rightarrow> None)"

text \<open>The states that some interleaving reaches.\<close>

inductive reachable :: "(h256 \<Rightarrow> string) \<Rightarrow> nat \<Rightarrow> nat \<Rightarrow> service \<Rightarrow> bool"
  for show_hash permits capacity where
  reach_new: "reachable show_hash permits capacity service_new"
| reach_step: "reachable show_hash permits capacity s \<Longrightarrow>
    service_do show_hash permits capacity a s = Some s' \<Longrightarrow> reachable show_hash permits capacity s'"

text \<open>
  The states from which the service can still answer: every pooled block has a tracing task
  that will report, or the report is on its way; the permits and the channel are within
  their bounds; and no response channel is lost.
\<close>

definition pooled :: "CacheTask \<Rightarrow> h256 \<Rightarrow> channel option" where
  "pooled t b = Option.bind (bt_get (cached_blocks t) b) (\<lambda>c. unqueue_sender (cb_state c))"

definition covered :: "service \<Rightarrow> h256 \<Rightarrow> channel \<Rightarrow> bool" where
  "covered s b u \<longleftrightarrow>
     list_ex (\<lambda>k. tk_unqueue k = u \<and> tk_block k = b) (sv_tracing s) \<or>
     list_ex (\<lambda>m. case m of Finished b' _ \<Rightarrow> b' = b | _ \<Rightarrow> False) (sv_channel s)"

definition service_inv :: "nat \<Rightarrow> nat \<Rightarrow> service \<Rightarrow> bool" where
  "service_inv permits capacity s \<longleftrightarrow>
     cache_wf (sv_cache s) \<and>
     (\<forall>b u. pooled (sv_cache s) b = Some u \<longrightarrow> covered s b u) \<and>
     permits_used s \<le> permits \<and> length (sv_channel s) \<le> capacity \<and>
     mset (sv_asked s) =
       mset (answered (sv_effects s)) + mset (dropped (sv_effects s)) + mset (pending (sv_cache s))"

text \<open>The work that is left, as a bound on the number of internal actions.\<close>

fun phase_work :: "tracing_phase \<Rightarrow> nat" where
  "phase_work Awaiting_permit = 6"
| "phase_work Permitted = 5"
| "phase_work Tracing = 3"
| "phase_work (Traced _) = 2"

definition work_left :: "service \<Rightarrow> nat" where
  "work_left s =
     sum_list (map (\<lambda>k. phase_work (tk_phase k)) (sv_tracing s)) + length (sv_channel s) +
     length (sv_timers s) + 2 * sv_debug_waiting s + sv_debug_running s"

text \<open>At rest nothing can happen but requests and the expirations whose time has not come.\<close>

definition quiescent :: "(h256 \<Rightarrow> string) \<Rightarrow> nat \<Rightarrow> nat \<Rightarrow> service \<Rightarrow> bool" where
  "quiescent show_hash permits capacity s \<longleftrightarrow>
     (\<forall>a. internal_action a \<and> \<not> is_expiration a \<longrightarrow> service_do show_hash permits capacity a s = None)"


section \<open>Pooled blocks\<close>

text \<open>A round of a loop over blocks pools a block only together with a tracing task for it.\<close>

locale pooling_round = block_round +
  assumes round_pooled: "pooled (fst (round b t)) b' = Some u \<Longrightarrow>
    pooled t b' = Some u \<or> Spawn_tracing u b' \<in> set (snd (round b t))"
begin

lemma loop_pooled:
  "pooled (fst (for_blocks round bs t)) b' = Some u \<Longrightarrow>
     pooled t b' = Some u \<or> Spawn_tracing u b' \<in> set (snd (for_blocks round bs t))"
proof (induction bs arbitrary: t)
  case (Cons b bs)
  then show ?case using round_pooled[of b t b' u] by (auto simp: split_beta)
qed simp

end

lemma pooled_update [simp]:
  "pooled (t\<lparr>batches := x\<rparr>) = pooled t" "pooled (t\<lparr>next_batch_id := i\<rparr>) = pooled t"
  "pooled (t\<lparr>unqueue_channels := n\<rparr>) = pooled t"
  by (simp_all add: pooled_def fun_eq_iff)

lemma pooled_insert [simp]:
  "pooled (t\<lparr>cached_blocks := bt_insert b c m\<rparr>) = (pooled (t\<lparr>cached_blocks := m\<rparr>))(b := unqueue_sender (cb_state c))"
  by (simp add: pooled_def fun_eq_iff)

lemma pooled_remove_block [simp]: "pooled (fst (remove_block b t)) = (pooled t)(b := None)"
  by (simp add: pooled_def fun_eq_iff)

lemma pooled_self [simp]: "pooled (t\<lparr>cached_blocks := cached_blocks t\<rparr>) = pooled t"
  by simp

interpretation start: pooling_round start_block
  by unfold_locales (auto simp: start_block_def pooled_def split: option.splits if_splits)

interpretation stop: pooling_round stop_block
  by unfold_locales (auto simp: stop_block_def split: option.splits if_splits)

interpretation expire: pooling_round expire_block
  by unfold_locales (auto simp: expire_block_def Let_def pooled_def split: option.splits if_splits)

text \<open>A report removes its block from the pool, and nothing else does but the loops.\<close>

lemma loop_step_pooled:
  assumes "pooled (fst (loop_step show_hash e t)) b = Some u"
  shows "(pooled t b = Some u \<and> (\<forall>r. e \<noteq> Got_message (Finished b r))) \<or>
         Spawn_tracing u b \<in> set (snd (loop_step show_hash e t))"
  using assms
proof (induction show_hash e t rule: loop_step.induct)
  case (1 show_hash sender blocks t)
  then show ?case
    using start.loop_pooled[of blocks "t\<lparr>batches := bt_insert (next_batch_id t) blocks (batches t)\<rparr>" b u]
    by (auto simp: request_start_batch_def split_beta)
next
  case (3 show_hash batch_id t)
  then show ?case using stop.loop_pooled[of _ t b u] by (auto simp: request_stop_batch_def split: option.splits)
next
  case (6 show_hash batch_id t)
  then show ?case
    using expire.loop_pooled[of _ "t\<lparr>batches := bt_remove batch_id (batches t)\<rparr>" b u]
    by (auto simp: expired_batch_def split: option.splits)
qed (auto simp: request_get_traces_def blocking_started_def blocking_finished_def pooled_def
      split: option.splits CacheBlockState.splits if_splits)

lemma spawned_mem:
  "Spawn_tracing u b \<in> set es \<Longrightarrow>
     \<lparr>tk_unqueue = u, tk_block = b, tk_phase = Awaiting_permit\<rparr> \<in> set (spawned es)"
  by (induction es rule: spawned.induct) auto

lemma spawned_append: "spawned (es @ fs) = spawned es @ spawned fs"
  by (induction es rule: spawned.induct) auto

lemma spawned_awaiting: "filter (\<lambda>k. tk_phase k \<noteq> Awaiting_permit) (spawned es) = []"
  by (induction es rule: spawned.induct) auto

lemma handle_fields [simp]:
  "sv_channel (handle show_hash e s) = sv_channel s"
  "sv_timers (handle show_hash e s) = sv_timers s"
  "sv_debug_waiting (handle show_hash e s) = sv_debug_waiting s"
  "sv_debug_running (handle show_hash e s) = sv_debug_running s"
  "permits_used (handle show_hash e s) = permits_used s"
  by (simp_all add: handle_def split_beta permits_used_def spawned_awaiting)

text \<open>Handling an event keeps the invariant; a report may be taken off the channel with it.\<close>

lemma handle_inv:
  assumes wf: "cache_wf (sv_cache s)"
    and cov: "\<And>b u. pooled (sv_cache s) b = Some u \<Longrightarrow> (\<forall>r. e \<noteq> Got_message (Finished b r)) \<Longrightarrow> covered s b u"
    and bounds: "permits_used s \<le> permits" "length (sv_channel s) \<le> capacity"
    and chs: "mset (sv_asked s) =
       mset (answered (sv_effects s)) + mset (dropped (sv_effects s)) + mset (pending (sv_cache s))"
  shows "service_inv permits capacity (handle show_hash e s)"
proof -
  obtain t es where step: "loop_step show_hash e (sv_cache s) = (t, es)" by fastforce
  let ?s = "handle show_hash e s"
  have "covered ?s b u" if "pooled (sv_cache ?s) b = Some u" for b u
  proof -
    have "pooled t b = Some u" using that step by (simp add: handle_def)
    with loop_step_pooled[of show_hash e "sv_cache s" b u] step
    consider "covered s b u" | "Spawn_tracing u b \<in> set es" using cov by fastforce
    then show ?thesis
    proof cases
      case 1
      then show ?thesis using step by (auto simp: covered_def handle_def)
    next
      case 2
      then show ?thesis using spawned_mem[OF 2] step
        by (auto simp: covered_def handle_def list_ex_iff intro!: bexI)
    qed
  qed
  moreover have "mset (sv_asked ?s) =
       mset (answered (sv_effects ?s)) + mset (dropped (sv_effects ?s)) + mset (pending (sv_cache ?s))"
    using loop_step_channels[OF wf, of e show_hash] step chs
    by (simp add: handle_def channel_simps) (simp add: ac_simps)
  moreover have "cache_wf (sv_cache ?s)" using loop_step_wf[OF wf, of show_hash e] step by (simp add: handle_def)
  ultimately show ?thesis using bounds by (simp add: service_inv_def)
qed


section \<open>Actions\<close>

lemma nth_split:
  assumes "i < length xs"
  obtains pre post where "xs = pre @ xs ! i # post" and "length pre = i"
  using id_take_nth_drop[OF assms] assms by (metis length_take min.absorb4)

lemma task_split:
  assumes "i < length (sv_tracing s)"
  obtains pre k post where "sv_tracing s = pre @ k # post" and "length pre = i" and "sv_tracing s ! i = k"
  using assms by (metis nth_split)

text \<open>What the actions of a tracing task do to the list of tasks, with the task in focus.\<close>

lemma remove_nth_split [simp]: "length pre = i \<Longrightarrow> remove_nth i (pre @ k # post) = pre @ post"
  by (auto simp: remove_nth_def)

lemma set_phase_split:
  assumes "sv_tracing s = pre @ k # post" and "length pre = i"
  shows "set_phase i p s = s\<lparr>sv_tracing := pre @ k\<lparr>tk_phase := p\<rparr> # post\<rparr>"
  using assms by (auto simp: set_phase_def)

lemmas action_simps = in_phase_def permits_used_def covered_def service_inv_def work_left_def

lemma unqueue_openI: "pooled t b = Some u \<Longrightarrow> unqueue_open t u"
  by (auto simp: pooled_def unqueue_open_def list_ex_iff split: Option.bind_splits dest!: map_of_SomeD)
    (metis snd_conv)

text \<open>A task that stays keeps its block covered; a task that leaves must leave its report.\<close>

lemma task_action_inv:
  assumes inv: "service_inv permits capacity s" and sp: "sv_tracing s = pre @ k # post"
    and s': "sv_cache s' = sv_cache s" "sv_effects s' = sv_effects s" "sv_asked s' = sv_asked s"
      "sv_tracing s' = pre @ ks @ post" "sv_channel s' = sv_channel s @ ms"
    and cov: "\<And>b u. pooled (sv_cache s) b = Some u \<Longrightarrow> tk_unqueue k = u \<Longrightarrow> tk_block k = b \<Longrightarrow> covered s' b u"
    and bounds: "permits_used s' \<le> permits" "length (sv_channel s') \<le> capacity"
  shows "service_inv permits capacity s'"
proof -
  have "covered s' b u" if "pooled (sv_cache s) b = Some u" for b u
  proof (cases "tk_unqueue k = u \<and> tk_block k = b")
    case False
    have "covered s b u" using inv that by (simp add: service_inv_def)
    with False show ?thesis by (auto simp: covered_def s' sp)
  qed (use cov that in blast)
  with inv bounds show ?thesis by (simp add: service_inv_def s')
qed

lemma service_do_inv:
  assumes inv: "service_inv permits capacity s" and step: "service_do show_hash permits capacity a s = Some s'"
  shows "service_inv permits capacity s'"
proof (cases a)
  case (Cancel i)
  with step have i: "i < length (sv_tracing s)" by (simp add: in_phase_def split: if_splits)
  obtain pre k post where sp: "sv_tracing s = pre @ k # post" "length pre = i" "sv_tracing s ! i = k"
    using task_split[OF i] .
  have "\<not> unqueue_open (sv_cache s) (tk_unqueue k)" and s': "s' = s\<lparr>sv_tracing := pre @ post\<rparr>"
    using step Cancel sp by (auto split: if_splits)
  then have "pooled (sv_cache s) b = Some u \<Longrightarrow> tk_unqueue k \<noteq> u" for b u using unqueue_openI by blast
  with inv sp(1) show ?thesis
    by (intro task_action_inv[where ks = "[]" and ms = "[]", OF inv sp(1)])
      (auto simp: action_simps s' split: if_splits)
next
  case (Acquire i)
  with step have i: "i < length (sv_tracing s)" by (simp add: in_phase_def split: if_splits)
  obtain pre k post where sp: "sv_tracing s = pre @ k # post" "length pre = i" "sv_tracing s ! i = k"
    using task_split[OF i] .
  with step Acquire inv show ?thesis
    by (intro task_action_inv[where ks = "[k\<lparr>tk_phase := Permitted\<rparr>]" and ms = "[]", OF inv sp(1)])
      (auto simp: action_simps set_phase_split[OF sp(1,2)] split: if_splits)
next
  case (Send_started i)
  with step have i: "i < length (sv_tracing s)" by (simp add: in_phase_def split: if_splits)
  obtain pre k post where sp: "sv_tracing s = pre @ k # post" "length pre = i" "sv_tracing s ! i = k"
    using task_split[OF i] .
  with step Send_started inv show ?thesis
    by (intro task_action_inv[where ks = "[k\<lparr>tk_phase := Tracing\<rparr>]" and ms = "[Started (tk_block k)]", OF inv sp(1)])
      (auto simp: action_simps set_phase_split[OF sp(1,2)] split: if_splits)
next
  case (Trace_block i r)
  with step have i: "i < length (sv_tracing s)" by (simp add: in_phase_def split: if_splits)
  obtain pre k post where sp: "sv_tracing s = pre @ k # post" "length pre = i" "sv_tracing s ! i = k"
    using task_split[OF i] .
  with step Trace_block inv show ?thesis
    by (intro task_action_inv[where ks = "[k\<lparr>tk_phase := Traced r\<rparr>]" and ms = "[]", OF inv sp(1)])
      (auto simp: action_simps set_phase_split[OF sp(1,2)] split: if_splits)
next
  case (Send_finished i)
  with step have i: "i < length (sv_tracing s)" by (simp split: if_splits)
  obtain pre k post where sp: "sv_tracing s = pre @ k # post" "length pre = i" "sv_tracing s ! i = k"
    using task_split[OF i] .
  from step Send_finished sp obtain r where "tk_phase k = Traced r"
    by (auto split: if_splits tracing_phase.splits)
  with step Send_finished inv sp show ?thesis
    by (intro task_action_inv[where ks = "[]" and ms = "[Finished (tk_block k) r]", OF inv sp(1)])
      (auto simp: action_simps split: if_splits)
next
  case Deliver
  then obtain m ms where ch: "sv_channel s = m # ms"
    and s': "s' = handle show_hash (Got_message m) (s\<lparr>sv_channel := ms\<rparr>)"
    using step by (auto split: list.splits)
  show ?thesis unfolding s'
  proof (rule handle_inv)
    fix b u
    assume "pooled (sv_cache (s\<lparr>sv_channel := ms\<rparr>)) b = Some u" and no: "\<forall>r. Got_message m \<noteq> Got_message (Finished b r)"
    with inv have "covered s b u" by (simp add: service_inv_def)
    with ch no show "covered (s\<lparr>sv_channel := ms\<rparr>) b u"
      by (cases m) (auto simp: covered_def)
  qed (use inv ch in \<open>auto simp: action_simps\<close>)
next
  case (Receive r)
  then have "s' = handle show_hash (Got_request r)
       (s\<lparr>sv_timers := sv_timers s @ (case r of StopBatch i \<Rightarrow> [i] | _ \<Rightarrow> [])\<rparr>)" using step by simp
  with inv show ?thesis by (simp only:) (rule handle_inv, auto simp: action_simps)
next
  case (Expire i)
  then have "s' = handle show_hash (Got_expired (sv_timers s ! i))
                  (s\<lparr>sv_timers := remove_nth i (sv_timers s)\<rparr>)" using step by (simp split: if_splits)
  with inv show ?thesis by (simp only:) (rule handle_inv, auto simp: action_simps)
next
  case Debug_request
  with step have "s' = s\<lparr>sv_debug_waiting := Suc (sv_debug_waiting s)\<rparr>" by simp
  with inv show ?thesis by (simp add: action_simps)
next
  case Debug_acquire
  with step have "s' = s\<lparr>sv_debug_waiting := sv_debug_waiting s - 1, sv_debug_running := Suc (sv_debug_running s)\<rparr>"
    and "permits_used s < permits" by (simp_all split: if_splits)
  with inv show ?thesis by (simp add: action_simps)
next
  case Debug_release
  with step have "s' = s\<lparr>sv_debug_running := sv_debug_running s - 1\<rparr>" by (simp split: if_splits)
  moreover have "permits_used (s\<lparr>sv_debug_running := sv_debug_running s - 1\<rparr>) \<le> permits_used s"
    by (simp add: permits_used_def)
  ultimately show ?thesis using inv by (simp add: service_inv_def covered_def)
qed

lemma service_inv_new: "service_inv permits capacity service_new"
  by (simp add: service_inv_def service_new_def permits_used_def pooled_def pending_def channel_simps)
     (simp add: cache_new_def)

lemma reachable_inv: "reachable show_hash permits capacity s \<Longrightarrow> service_inv permits capacity s"
  by (induction rule: reachable.induct) (auto intro: service_inv_new service_do_inv)


section \<open>Progress\<close>

lemma message_effects:
  "spawned (snd (loop_step show_hash (Got_message m) t)) = []"
  "dropped (snd (loop_step show_hash (Got_message m) t)) = []"
proof -
  have "spawned (map (\<lambda>ch. Send_traces ch r) cs) = []" for r cs by (induction cs) auto
  then show "spawned (snd (loop_step show_hash (Got_message m) t)) = []"
    by (cases m) (auto simp: blocking_started_def blocking_finished_def split: option.splits CacheBlockState.splits)
  show "dropped (snd (loop_step show_hash (Got_message m) t)) = []"
    by (cases m) (auto simp: blocking_started_def blocking_finished_def channel_simps
        split: option.splits CacheBlockState.splits)
qed

lemma expiration_spawns_none: "spawned (snd (loop_step show_hash (Got_expired i) t)) = []"
proof -
  have "spawned (map Drop_channel cs) = []" for cs by (induction cs) auto
  then have "spawned (snd (expire_block b u)) = []" for b u
    by (auto simp: expire_block_def remove_block_def Let_def split: option.splits if_splits)
  then have "spawned (snd (for_blocks expire_block bs u)) = []" for bs u
    by (induction bs arbitrary: u) (simp_all add: split_beta spawned_append)
  then show ?thesis by (simp add: expired_batch_def split: option.splits)
qed

text \<open>An internal action uses up work; it receives no request, and only an expiration drops one.\<close>

lemma internal_work:
  assumes "internal_action a" and "service_do show_hash permits capacity a s = Some s'"
  shows "work_left s' < work_left s"
proof -
  have task: "work_left s' < work_left s"
    if i: "i < length (sv_tracing s)"
      and act: "a \<in> {Cancel i, Acquire i, Send_started i, Trace_block i r, Send_finished i}" for i r
  proof -
    obtain pre k post where sp: "sv_tracing s = pre @ k # post" "length pre = i" "sv_tracing s ! i = k"
      using task_split[OF i] .
    with assms act show ?thesis
      by (auto simp: work_left_def in_phase_def set_phase_split[OF sp(1) refl] split: if_splits tracing_phase.splits)
  qed
  show ?thesis
  proof (cases a)
    case Deliver
    then show ?thesis using assms(2)
      by (auto simp: work_left_def handle_def split_beta message_effects simp del: loop_step.simps split: list.splits)
  next
    case (Expire i)
    then have i: "i < length (sv_timers s)" using assms(2) by (simp split: if_splits)
    then obtain pre post where "sv_timers s = pre @ sv_timers s ! i # post" "length pre = i" by (rule nth_split)
    then have "length (remove_nth i (sv_timers s)) < length (sv_timers s)" using remove_nth_split by (metis length_append length_Cons add_Suc_right lessI)
    with Expire i show ?thesis using assms(2)
      by (auto simp: work_left_def handle_def split_beta expiration_spawns_none simp del: loop_step.simps)
  next
    case Debug_acquire
    then show ?thesis using assms(2) by (auto simp: work_left_def split: if_splits)
  next
    case Debug_release
    then show ?thesis using assms(2) by (auto simp: work_left_def split: if_splits)
  qed (use assms task in \<open>auto simp: in_phase_def split: if_splits\<close>)
qed

lemma internal_channels:
  assumes "internal_action a" and "service_do show_hash permits capacity a s = Some s'"
  shows "sv_asked s' = sv_asked s \<and>
         (\<not> is_expiration a \<longrightarrow> dropped (sv_effects s') = dropped (sv_effects s))"
  using assms
  by (cases a) (auto simp: handle_def split_beta message_effects channel_simps set_phase_def
      simp del: loop_step.simps split: if_splits list.splits tracing_phase.splits)

lemma internal_enabled:
  assumes "0 < permits" and "0 < capacity" and work: "sv_tracing s \<noteq> [] \<or> sv_channel s \<noteq> []"
  shows "\<exists>a. internal_action a \<and> \<not> is_expiration a \<and> service_do show_hash permits capacity a s \<noteq> None"
proof (cases "sv_channel s")
  case (Cons m ms)
  then show ?thesis by (intro exI[of _ Deliver]) simp
next
  case Nil
  consider "0 < sv_debug_running s"
    | "sv_debug_running s = 0" "list_all (\<lambda>k. tk_phase k = Awaiting_permit) (sv_tracing s)"
    | "\<not> list_all (\<lambda>k. tk_phase k = Awaiting_permit) (sv_tracing s)" by blast
  then show ?thesis
  proof cases
    case 1
    then show ?thesis by (intro exI[of _ Debug_release]) simp
  next
    case True: 2
    then have "permits_used s = 0" by (auto simp: permits_used_def list_all_iff filter_empty_conv)
    moreover have "in_phase 0 Awaiting_permit s"
      using True(2) work Nil by (cases "sv_tracing s") (auto simp: in_phase_def)
    ultimately show ?thesis using assms(1) by (intro exI[of _ "Acquire 0"]) simp
  next
    case 3
    then obtain i where i: "i < length (sv_tracing s)" "tk_phase (sv_tracing s ! i) \<noteq> Awaiting_permit"
      by (auto simp: list_all_length)
    consider "in_phase i Permitted s" | "in_phase i Tracing s" | r where "tk_phase (sv_tracing s ! i) = Traced r"
      using i by (cases "tk_phase (sv_tracing s ! i)") (auto simp: in_phase_def)
    then show ?thesis
    proof cases
      case 1
      then show ?thesis using Nil assms(2) by (intro exI[of _ "Send_started i"]) simp
    next
      case 2
      then show ?thesis by (intro exI[of _ "Trace_block i (Inr [])"]) simp
    next
      case 3
      then show ?thesis using Nil assms(2) i(1) by (intro exI[of _ "Send_finished i"]) simp
    qed
  qed
qed

lemma internal_run:
  assumes "list_all internal_action acts" and "service_run show_hash permits capacity acts s = Some s'"
  shows "length acts + work_left s' \<le> work_left s" and "sv_asked s' = sv_asked s"
    and "list_all (\<lambda>a. \<not> is_expiration a) acts \<Longrightarrow> dropped (sv_effects s') = dropped (sv_effects s)"
    and "service_inv permits capacity s \<Longrightarrow> service_inv permits capacity s'"
  using assms
proof (atomize (full), induction acts arbitrary: s)
  case (Cons a acts)
  then obtain s1 where s1: "service_do show_hash permits capacity a s = Some s1"
    "service_run show_hash permits capacity acts s1 = Some s'" by (auto split: option.splits)
  from internal_work[OF _ s1(1)] internal_channels[OF _ s1(1)] service_do_inv[OF _ s1(1)]
    Cons.IH[of s1] Cons.prems s1
  show ?case by auto
qed simp

lemma run_to_quiescence:
  "\<exists>acts s'. list_all (\<lambda>a. internal_action a \<and> \<not> is_expiration a) acts \<and>
     service_run show_hash permits capacity acts s = Some s' \<and> quiescent show_hash permits capacity s'"
proof (induction "work_left s" arbitrary: s rule: less_induct)
  case less
  show ?case
  proof (cases "quiescent show_hash permits capacity s")
    case True
    then show ?thesis by (intro exI[of _ "[]"] exI[of _ s]) simp
  next
    case False
    then obtain a s1 where a: "internal_action a" "service_do show_hash permits capacity a s = Some s1"
      and ne: "\<not> is_expiration a"
      by (auto simp: quiescent_def)
    from less[OF internal_work[OF a]] obtain acts s'
      where "list_all (\<lambda>a. internal_action a \<and> \<not> is_expiration a) acts" "service_run show_hash permits capacity acts s1 = Some s'" "quiescent show_hash permits capacity s'" by blast
    with a ne show ?thesis by (intro exI[of _ "a # acts"] exI[of _ s']) simp
  qed
qed

text \<open>In a state where nothing can happen by itself, no block is pooled and no request waits.\<close>

lemma quiescent_pending:
  assumes inv: "service_inv permits capacity s" and "quiescent show_hash permits capacity s"
    and "0 < permits" and "0 < capacity"
  shows "pending (sv_cache s) = []"
proof -
  have "sv_tracing s = [] \<and> sv_channel s = []"
  proof (rule ccontr)
    assume "\<not> (sv_tracing s = [] \<and> sv_channel s = [])"
    then have "sv_tracing s \<noteq> [] \<or> sv_channel s \<noteq> []" by simp
    from internal_enabled[OF assms(3,4) this, of show_hash] assms(2) show False by (auto simp: quiescent_def)
  qed
  then have none: "pooled (sv_cache s) b = None" for b
    using inv by (cases "pooled (sv_cache s) b") (auto simp: service_inv_def covered_def)
  have "waiting_requests (cb_state c) = []" if "(b, c) \<in> set (cached_blocks (sv_cache s))" for b c
  proof -
    have "distinct (map fst (cached_blocks (sv_cache s)))"
      using inv by (simp add: service_inv_def cache_wf_def bt_inv_distinct)
    from none[of b] map_of_is_SomeI[OF this that] show ?thesis
      by (cases "cb_state c") (auto simp: pooled_def)
  qed
  then show ?thesis by (auto simp: pending_def)
qed

text \<open>
  C4. The service answers. From every reachable state, as long as no further request comes in,
  the tracing tasks, the debug tasks, the main loop and the pending expirations can only take
  a bounded number of actions, in whatever order, and they can come to rest without waiting for
  an expiration. At rest no request waits: every one that was waiting has been answered, or its
  channel was dropped by an expiration; if none of the actions was an expiration, all have been
  answered.
\<close>

theorem service_answers_pending:
  assumes "reachable show_hash permits capacity s" and "0 < permits" and "0 < capacity"
  shows "(\<exists>acts s'. list_all (\<lambda>a. internal_action a \<and> \<not> is_expiration a) acts \<and>
            service_run show_hash permits capacity acts s = Some s' \<and> quiescent show_hash permits capacity s') \<and>
         (\<forall>acts s'. list_all internal_action acts \<and>
            service_run show_hash permits capacity acts s = Some s' \<longrightarrow>
              length acts \<le> work_left s \<and>
              (quiescent show_hash permits capacity s' \<longrightarrow>
                 pending (sv_cache s') = [] \<and>
                 mset (answered (sv_effects s')) + mset (dropped (sv_effects s')) =
                   mset (answered (sv_effects s)) + mset (dropped (sv_effects s)) + mset (pending (sv_cache s)) \<and>
                 (list_all (\<lambda>a. \<not> is_expiration a) acts \<longrightarrow>
                    mset (answered (sv_effects s')) =
                      mset (answered (sv_effects s)) + mset (pending (sv_cache s)))))"
proof (intro conjI run_to_quiescence allI impI)
  fix acts s'
  assume run: "list_all internal_action acts \<and> service_run show_hash permits capacity acts s = Some s'"
  note r = internal_run[OF conjunct1[OF run] conjunct2[OF run]]
  note inv = reachable_inv[OF assms(1)]
  show "length acts \<le> work_left s" using r(1) by simp
  assume q: "quiescent show_hash permits capacity s'"
  show pend: "pending (sv_cache s') = []"
    by (rule quiescent_pending[OF r(4)[OF inv] q assms(2,3)])
  show all: "mset (answered (sv_effects s')) + mset (dropped (sv_effects s')) =
      mset (answered (sv_effects s)) + mset (dropped (sv_effects s)) + mset (pending (sv_cache s))"
    using r(4)[OF inv] inv r(2) pend by (simp add: service_inv_def)
  assume "list_all (\<lambda>a. \<not> is_expiration a) acts"
  from r(3)[OF this] all show "mset (answered (sv_effects s')) = mset (answered (sv_effects s)) + mset (pending (sv_cache s))"
    by (simp add: ac_simps)
qed

text \<open>A block is pooled, and a request for it waits.\<close>

definition sample_service :: service where
  "sample_service =
     (case service_run (\<lambda>_. []) 1 2 [Debug_request, Receive (StartBatch 0 [5]), Receive (GetTraces 1 5)] service_new of
        Some s \<Rightarrow> s | None \<Rightarrow> service_new)"

lemma reachable_run:
  "reachable show_hash permits capacity s \<Longrightarrow> service_run show_hash permits capacity acts s = Some s' \<Longrightarrow>
     reachable show_hash permits capacity s'"
  by (induction acts arbitrary: s) (auto split: option.splits intro: reach_step)

lemma sample_service_reachable: "reachable (\<lambda>_. []) 1 2 sample_service"
  unfolding sample_service_def by (auto intro: reach_new reachable_run simp del: service_run.simps split: option.splits)

theorem service_answers_pending_witness:
  "pending (sv_cache sample_service) = [1] \<and> work_left sample_service = 8 \<and>
   (\<exists>acts s'. service_run (\<lambda>_. []) 1 2 acts sample_service = Some s' \<and> answered (sv_effects s') = [1])"
proof -
  have p: "pending (sv_cache sample_service) = [1]" and w: "work_left sample_service = 8"
    and e: "answered (sv_effects sample_service) = []"
    by (simp_all add: sample_service_def service_new_def handle_def cache_defs pending_def work_left_def channel_simps)
  obtain acts s' where acts: "list_all (\<lambda>a. internal_action a \<and> \<not> is_expiration a) acts"
      "service_run (\<lambda>_. []) 1 2 acts sample_service = Some s'" "quiescent (\<lambda>_. []) 1 2 s'"
    using service_answers_pending[OF sample_service_reachable] by fastforce
  moreover have "list_all internal_action acts" "list_all (\<lambda>a. \<not> is_expiration a) acts"
    using acts(1) by (auto simp: list_all_iff)
  ultimately have "mset (answered (sv_effects s')) = {#1#}"
    using service_answers_pending[OF sample_service_reachable] p e by fastforce
  with p w acts(2) show ?thesis by (metis mset_single_iff)
qed

text \<open>
  Without that condition it fails: a batch is stopped, a second batch takes over its block and
  a request for the block waits; the expiration of the first batch then drops the request.
\<close>

lemma expiration_drops_request:
  "map_option (\<lambda>s. (pending (sv_cache s), answered (sv_effects s), dropped (sv_effects s)))
     (service_run (\<lambda>_. []) 1 2
        [Receive (StartBatch 0 [5]), Receive (StopBatch 0), Receive (StartBatch 1 [5]), Receive (GetTraces 2 5),
         Expire 0] service_new) = Some ([], [], [2])"
  by (simp add: service_new_def handle_def cache_defs pending_def channel_simps remove_nth_def)

end
