(* ===== verification/Tx_Pool.thy ===== *)
theory Tx_Pool
  imports Eth_Transactions
begin

text \<open>
  The \<^verbatim>\<open>txpool\<close> RPC (\<^verbatim>\<open>client/rpc/txpool/src/lib.rs\<close>) with its response types
  (\<^verbatim>\<open>client/rpc-core/txpool/src/types\<close>): the transactions of the pool by sender and nonce, in full
  or as a summary, and the size of the pool.

  The pool, the client and the recovery of the sender's key are arguments. A hash map is an
  ordered map; the order of its entries is not observed.
\<close>

section \<open>Responses\<close>

record Transaction =
  tx_hash :: h256
  tx_nonce :: u256
  tx_block_hash :: "h256 option"
  tx_block_number :: "u256 option"
  tx_from :: h160
  tx_to :: "h160 option"
  tx_value :: u256
  tx_gas_price :: u256
  tx_gas :: u256
  tx_input :: bytes
  tx_transaction_index :: "u256 option"

record Summary =
  su_to :: "h160 option"
  su_value :: u256
  su_gas :: u256
  su_gas_price :: u256

type_synonym 't TransactionMap = "(h160, (u256, 't) btree) btree"

record 't TxPoolResult =
  tp_pending :: 't
  tp_queued :: 't

text \<open>\<^verbatim>\<open>format!("{:x}", ..)\<close> of a hash with \<open>n\<close> digits.\<close>

fun hex_fixed :: "nat \<Rightarrow> nat \<Rightarrow> string" where
  "hex_fixed 0 v = []"
| "hex_fixed (Suc n) v = hex_fixed n (v div 16) @ [''0123456789abcdef'' ! (v mod 16)]"

definition block_hash_serialize :: "h256 option \<Rightarrow> string" where
  "block_hash_serialize h = ''0x'' @ hex_fixed 64 (unat (case h of Some h \<Rightarrow> h | None \<Rightarrow> 0))"

definition to_serialize :: "h160 option \<Rightarrow> string" where
  "to_serialize h = ''0x'' @ hex_fixed 40 (unat (case h of Some h \<Rightarrow> h | None \<Rightarrow> 0))"

fun action_to :: "TransactionAction \<Rightarrow> h160 option" where
  "action_to (Action_to to) = Some to"
| "action_to Action_create = None"

fun Transaction_get :: "h256 \<Rightarrow> h160 \<Rightarrow> 'r TransactionV2 \<Rightarrow> Transaction" where
  "Transaction_get hash from_address (Tx_Legacy t) =
     \<lparr>tx_hash = hash, tx_nonce = pt_nonce t, tx_block_hash = None, tx_block_number = None,
      tx_from = from_address, tx_to = action_to (pt_action t), tx_value = pt_value t,
      tx_gas_price = pt_gas_price t, tx_gas = pt_gas_limit t, tx_input = pt_input t,
      tx_transaction_index = None\<rparr>"
| "Transaction_get hash from_address (Tx_EIP2930 t) =
     \<lparr>tx_hash = hash, tx_nonce = pt_nonce t, tx_block_hash = None, tx_block_number = None,
      tx_from = from_address, tx_to = action_to (pt_action t), tx_value = pt_value t,
      tx_gas_price = pt_gas_price t, tx_gas = pt_gas_limit t, tx_input = pt_input t,
      tx_transaction_index = None\<rparr>"
| "Transaction_get hash from_address (Tx_EIP1559 t) =
     \<lparr>tx_hash = hash, tx_nonce = dt_nonce t, tx_block_hash = None, tx_block_number = None,
      tx_from = from_address, tx_to = action_to (dt_action t), tx_value = dt_value t,
      tx_gas_price = dt_max_fee_per_gas t, tx_gas = dt_gas_limit t, tx_input = dt_input t,
      tx_transaction_index = None\<rparr>"

fun Summary_get :: "h256 \<Rightarrow> h160 \<Rightarrow> 'r TransactionV2 \<Rightarrow> Summary" where
  "Summary_get _ _ (Tx_Legacy t) =
     \<lparr>su_to = action_to (pt_action t), su_value = pt_value t, su_gas = pt_gas_limit t,
      su_gas_price = pt_gas_price t\<rparr>"
| "Summary_get _ _ (Tx_EIP2930 t) =
     \<lparr>su_to = action_to (pt_action t), su_value = pt_value t, su_gas = pt_gas_limit t,
      su_gas_price = pt_gas_price t\<rparr>"
| "Summary_get _ _ (Tx_EIP1559 t) =
     \<lparr>su_to = action_to (dt_action t), su_value = dt_value t, su_gas = dt_gas_limit t,
      su_gas_price = dt_max_fee_per_gas t\<rparr>"

definition Summary_serialize :: "Summary \<Rightarrow> string" where
  "Summary_serialize s =
     to_serialize (su_to s) @ '': '' @ decimal (unat (su_value s)) @ '' wei + '' @
     decimal (unat (su_gas s)) @ '' gas x '' @ decimal (unat (su_gas_price s)) @ '' wei''"


section \<open>Handlers\<close>

fun txn_nonce :: "'r TransactionV2 \<Rightarrow> u256" where
  "txn_nonce (Tx_Legacy t) = pt_nonce t"
| "txn_nonce (Tx_EIP2930 t) = pt_nonce t"
| "txn_nonce (Tx_EIP1559 t) = dt_nonce t"

text \<open>
  The address of the sender: the low bytes of the digest of the key, or zero when the key
  cannot be recovered.
\<close>

definition from_address ::
    "('r TransactionV2 \<Rightarrow> bytes option) \<Rightarrow> (bytes \<Rightarrow> h256) \<Rightarrow> 'r TransactionV2 \<Rightarrow> h160" where
  "from_address public_key keccak256 txn =
     (case public_key txn of Some pk \<Rightarrow> ucast (keccak256 pk) | None \<Rightarrow> 0)"

definition map_insert :: "h160 \<Rightarrow> u256 \<Rightarrow> 't \<Rightarrow> 't TransactionMap \<Rightarrow> 't TransactionMap" where
  "map_insert a nonce v m =
     bt_insert a (bt_insert nonce v (case bt_get m a of Some inner \<Rightarrow> inner | None \<Rightarrow> [])) m"

definition map_transactions ::
    "('r TransactionV2 \<Rightarrow> h256) \<Rightarrow> ('r TransactionV2 \<Rightarrow> h160) \<Rightarrow>
       (h256 \<Rightarrow> h160 \<Rightarrow> 'r TransactionV2 \<Rightarrow> 't) \<Rightarrow> 'r TransactionV2 list \<Rightarrow> 't TransactionMap" where
  "map_transactions hash_of sender_of get txns =
     fold (\<lambda>txn. map_insert (sender_of txn) (txn_nonce txn) (get (hash_of txn) (sender_of txn) txn)) txns []"

text \<open>
  \<open>api_version\<close> is the version the runtime reports, and the two filters are its calls before
  and from version 2; a left summand is the rendering of the error of a call.
\<close>

definition ethereum_transactions ::
    "string + nat option \<Rightarrow> ('x list \<Rightarrow> 'x list \<Rightarrow> string + 'r PricedTransaction list \<times> 'r PricedTransaction list) \<Rightarrow>
       ('x list \<Rightarrow> 'x list \<Rightarrow> string + 'r TxPoolResponse) \<Rightarrow> 'x list \<Rightarrow> 'x list \<Rightarrow> string + 'r TxPoolResponse" where
  "ethereum_transactions api_version filter_before_version_2 filter_xts txs_ready txs_future =
     (case api_version of
        Inr (Some v) \<Rightarrow>
          (if v = 1
           then
             (case filter_before_version_2 txs_ready txs_future of
                Inl e \<Rightarrow> Inl (''fetch runtime extrinsic filter failed: '' @ e)
              | Inr (ready, future) \<Rightarrow> Inr \<lparr>tr_ready = map Tx_Legacy ready, tr_future = map Tx_Legacy future\<rparr>)
           else
             (case filter_xts txs_ready txs_future of
                Inl e \<Rightarrow> Inl (''fetch runtime extrinsic filter failed: '' @ e)
              | Inr r \<Rightarrow> Inr r))
      | _ \<Rightarrow> Inl ''failed to retrieve Runtime Api version'')"

definition map_build ::
    "('r TransactionV2 \<Rightarrow> h256) \<Rightarrow> ('r TransactionV2 \<Rightarrow> h160) \<Rightarrow>
       (h256 \<Rightarrow> h160 \<Rightarrow> 'r TransactionV2 \<Rightarrow> 't) \<Rightarrow> string + 'r TxPoolResponse \<Rightarrow>
       string + 't TransactionMap TxPoolResult" where
  "map_build hash_of sender_of get ethereum_txns =
     (case ethereum_txns of
        Inl e \<Rightarrow> Inl e
      | Inr r \<Rightarrow>
          Inr \<lparr>tp_pending = map_transactions hash_of sender_of get (tr_ready r),
               tp_queued = map_transactions hash_of sender_of get (tr_future r)\<rparr>)"

definition txpool_content ::
    "('r TransactionV2 \<Rightarrow> h256) \<Rightarrow> ('r TransactionV2 \<Rightarrow> h160) \<Rightarrow> string + 'r TxPoolResponse \<Rightarrow>
       string + Transaction TransactionMap TxPoolResult" where
  "txpool_content hash_of sender_of = map_build hash_of sender_of Transaction_get"

definition txpool_inspect ::
    "('r TransactionV2 \<Rightarrow> h256) \<Rightarrow> ('r TransactionV2 \<Rightarrow> h160) \<Rightarrow> string + 'r TxPoolResponse \<Rightarrow>
       string + Summary TransactionMap TxPoolResult" where
  "txpool_inspect hash_of sender_of = map_build hash_of sender_of Summary_get"

definition txpool_status :: "nat \<Rightarrow> nat \<Rightarrow> u256 TxPoolResult" where
  "txpool_status ready future = \<lparr>tp_pending = of_nat ready, tp_queued = of_nat future\<rparr>"

text \<open>The entry of a sender and a nonce.\<close>

definition map_lookup :: "'t TransactionMap \<Rightarrow> h160 \<Rightarrow> u256 \<Rightarrow> 't option" where
  "map_lookup m a nonce = Option.bind (bt_get m a) (\<lambda>inner. bt_get inner nonce)"

text \<open>What the summary keeps of a transaction.\<close>

definition summary_of :: "Transaction \<Rightarrow> Summary" where
  "summary_of t = \<lparr>su_to = tx_to t, su_value = tx_value t, su_gas = tx_gas t, su_gas_price = tx_gas_price t\<rparr>"

definition map_entries :: "('t \<Rightarrow> 'u) \<Rightarrow> 't TransactionMap \<Rightarrow> 'u TransactionMap" where
  "map_entries f m = map (\<lambda>(a, inner). (a, map (\<lambda>(n, v). (n, f v)) inner)) m"

fun hex_value :: "nat \<Rightarrow> string \<Rightarrow> nat" where
  "hex_value acc [] = acc"
| "hex_value acc (c # cs) =
     hex_value (16 * acc + (let n = of_char c in if n < 58 then n - 48 else n - 87)) cs"


section \<open>Lemmas\<close>

lemma map_lookup_insert:
  "map_lookup (map_insert a n v m) a' n' = (if a' = a \<and> n' = n then Some v else map_lookup m a' n')"
  by (auto simp: map_lookup_def map_insert_def split: option.splits)

lemma map_lookup_Nil [simp]: "map_lookup [] a n = None"
  by (simp add: map_lookup_def)

lemma map_lookup_fold:
  "map_lookup (fold (\<lambda>x. map_insert (f x) (g x) (h x)) xs m) a n =
     (case filter (\<lambda>x. f x = a \<and> g x = n) xs of
        [] \<Rightarrow> map_lookup m a n
      | y # ys \<Rightarrow> Some (h (last (y # ys))))"
proof (induction xs arbitrary: m)
  case (Cons x xs)
  show ?case
    by (cases "filter (\<lambda>x. f x = a \<and> g x = n) xs") (auto simp: Cons.IH map_lookup_insert)
qed simp

text \<open>
  C31. The pool is shown by sender and nonce: the entry of a sender and a nonce is the rendering
  of the last transaction of the queue that has them, with its hash and sender; there is none
  if the queue has no such transaction.
\<close>

theorem map_transactions_lookup:
  "map_lookup (map_transactions hash_of sender_of get txns) a nonce =
     (case filter (\<lambda>t. sender_of t = a \<and> txn_nonce t = nonce) txns of
        [] \<Rightarrow> None
      | t # ts \<Rightarrow> Some (get (hash_of (last (t # ts))) a (last (t # ts))))"
proof (cases "filter (\<lambda>t. sender_of t = a \<and> txn_nonce t = nonce) txns")
  case (Cons t ts)
  then have "last (t # ts) \<in> set (filter (\<lambda>t. sender_of t = a \<and> txn_nonce t = nonce) txns)"
    by (metis last_in_set list.distinct(1))
  then have "sender_of (last (t # ts)) = a" by simp
  with Cons show ?thesis
    by (simp only: map_transactions_def map_lookup_fold list.case)
qed (simp add: map_transactions_def map_lookup_fold)

lemma bt_insert_map:
  "bt_insert k (f v) (map (\<lambda>(k, v). (k, f v)) m) = map (\<lambda>(k, v). (k, f v)) (bt_insert k v m)"
  by (induction m) (auto simp: split_beta)

lemma map_of_map_entries: "map_of (map (\<lambda>(k, v). (k, f v)) m) k = map_option f (map_of m k)"
  by (induction m) auto

lemma map_entries_insert:
  "map_entries f (map_insert a n v m) = map_insert a n (f v) (map_entries f m)"
proof -
  let ?g = "\<lambda>inner. map (\<lambda>(n, v). (n, f v)) inner"
  have "map_insert a n (f v) (map_entries f m) =
      bt_insert a (bt_insert n (f v) (?g (case bt_get m a of Some i \<Rightarrow> i | None \<Rightarrow> []))) (map_entries f m)"
    by (auto simp: map_insert_def map_entries_def map_of_map_entries[of ?g] split: option.splits)
  then show ?thesis
    by (simp add: map_insert_def map_entries_def bt_insert_map bt_insert_map[of a ?g])
qed

lemma map_entries_fold:
  "map_entries f (fold (\<lambda>x. map_insert (p x) (q x) (h x)) xs m) =
     fold (\<lambda>x. map_insert (p x) (q x) (f (h x))) xs (map_entries f m)"
  by (induction xs arbitrary: m) (simp_all add: map_entries_insert)

lemma summary_of_get: "summary_of (Transaction_get h a t) = Summary_get h a t"
  by (cases t) (simp_all add: summary_of_def)

text \<open>
  The two views of the pool agree: \<^verbatim>\<open>txpool_inspect\<close> is \<^verbatim>\<open>txpool_content\<close> with every transaction
  reduced to recipient, value, gas and price, under the same senders and nonces, and one
  fails exactly when the other does.
\<close>

lemma inspect_summarises_content:
  "txpool_inspect hash_of sender_of r =
     map_sum id (\<lambda>c. \<lparr>tp_pending = map_entries summary_of (tp_pending c),
                      tp_queued = map_entries summary_of (tp_queued c)\<rparr>)
       (txpool_content hash_of sender_of r)"
  by (cases r)
    (simp_all add: txpool_inspect_def txpool_content_def map_build_def map_transactions_def
      map_entries_fold summary_of_get, simp_all add: map_entries_def)

lemma hex_value_append: "hex_value acc (xs @ ys) = hex_value (hex_value acc xs) ys"
  by (induction xs arbitrary: acc) auto

lemma hex_digit_values:
  "\<forall>d \<in> set [0..<16]. hex_value acc [''0123456789abcdef'' ! d] = 16 * acc + d"
  by (simp add: upt_rec Let_def)

lemma hex_value_fixed: "v < 16 ^ n \<Longrightarrow> hex_value 0 (hex_fixed n v) = v"
proof (induction n arbitrary: v)
  case (Suc n)
  then have "v div 16 < 16 ^ n" by (simp add: less_mult_imp_div_less mult.commute)
  with Suc.IH[of "v div 16"] hex_digit_values[of "v div 16"] show ?case
    by (simp add: hex_value_append del: hex_value.simps)
qed simp

text \<open>
  Addresses are rendered in full and can be read back: the text after the prefix has the
  value of the address, so two recipients have the same text only if they are equal, or one
  is the zero address and the other a contract creation.
\<close>

lemma to_serialize_roundtrip:
  "hex_value 0 (drop 2 (to_serialize h)) = unat (case h of Some a \<Rightarrow> a | None \<Rightarrow> 0) \<and>
   length (to_serialize h) = 42"
proof
  have "unat (a :: h160) < 16 ^ 40" for a using unsigned_less[of a] by simp
  then show "hex_value 0 (drop 2 (to_serialize h)) = unat (case h of Some a \<Rightarrow> a | None \<Rightarrow> 0)"
    by (simp add: to_serialize_def hex_value_fixed)
  have "length (hex_fixed n v) = n" for n v by (induction n arbitrary: v) auto
  then show "length (to_serialize h) = 42" by (simp add: to_serialize_def)
qed

end
