(* ===== verification/Runtime_Config.thy ===== *)
theory Runtime_Config
  imports Prelude
begin

text \<open>
  The parts of the runtime that decide something (\<^verbatim>\<open>node/runtime/src/lib.rs\<close> and
  \<^verbatim>\<open>node/runtime/src/precompiles.rs\<close>): the calls a proxy may make, the precompiled contracts, the
  conversion between gas and weight with the gas limit of a block, and the address of the
  author of a block.
\<close>

section \<open>Proxies\<close>

text \<open>The runtime calls, as far as the filter tells them apart.\<close>

datatype vesting_call = vested_transfer | other_vesting_call

datatype indices_call = indices_transfer | other_indices_call

datatype proxied_call =
  Call_Balances
| Call_Vesting vesting_call
| Call_Indices indices_call
| Call_Democracy
| Call_Council
| Call_PhragmenElection
| Call_Treasury
| Call_Staking
| Call_other

datatype ProxyType = Proxy_Any | NonTransfer | Governance | Staking

definition ProxyType_default :: ProxyType where
  "ProxyType_default = Proxy_Any"

fun proxy_filter :: "ProxyType \<Rightarrow> proxied_call \<Rightarrow> bool" where
  "proxy_filter Proxy_Any c \<longleftrightarrow> True"
| "proxy_filter NonTransfer c \<longleftrightarrow>
     \<not> (case c of
          Call_Balances \<Rightarrow> True
        | Call_Vesting vested_transfer \<Rightarrow> True
        | Call_Indices indices_transfer \<Rightarrow> True
        | _ \<Rightarrow> False)"
| "proxy_filter Governance c \<longleftrightarrow>
     (case c of
        Call_Democracy \<Rightarrow> True | Call_Council \<Rightarrow> True | Call_PhragmenElection \<Rightarrow> True | Call_Treasury \<Rightarrow> True
      | _ \<Rightarrow> False)"
| "proxy_filter Staking c \<longleftrightarrow> (case c of Call_Staking \<Rightarrow> True | _ \<Rightarrow> False)"

definition is_superset :: "ProxyType \<Rightarrow> ProxyType \<Rightarrow> bool" where
  "is_superset x y =
     (if x = y then True
      else if x = Proxy_Any then True
      else if y = Proxy_Any then False
      else if x = NonTransfer then True
      else False)"


section \<open>Precompiled contracts\<close>

definition hash_of_u64 :: "u64 \<Rightarrow> h160" where
  "hash_of_u64 a = ucast a"

definition used_addresses :: "h160 list" where
  "used_addresses = map hash_of_u64 [1, 2, 3, 4, 5, 1024, 1025, 1026, 1027, 1028]"

datatype precompile =
  ECRecover | Sha256 | Ripemd160 | Identity | Modexp | Bn128Add | Bn128Mul | Bn128Pairing | Blake2F
| Sha3FIPS256 | ECRecoverPublicKey | Ed25519Verify | Curve25519Add | Curve25519ScalarMul

text \<open>The contract that runs at an address; what it computes is the argument \<open>run\<close>.\<close>

definition precompile_at :: "h160 \<Rightarrow> precompile option" where
  "precompile_at address =
     (if address = hash_of_u64 1 then Some ECRecover
      else if address = hash_of_u64 2 then Some Sha256
      else if address = hash_of_u64 3 then Some Ripemd160
      else if address = hash_of_u64 4 then Some Identity
      else if address = hash_of_u64 5 then Some Modexp
      else if address = hash_of_u64 6 then Some Bn128Add
      else if address = hash_of_u64 7 then Some Bn128Mul
      else if address = hash_of_u64 8 then Some Bn128Pairing
      else if address = hash_of_u64 9 then Some Blake2F
      else if address = hash_of_u64 1024 then Some Sha3FIPS256
      else if address = hash_of_u64 1025 then Some ECRecoverPublicKey
      else if address = hash_of_u64 1026 then Some Ed25519Verify
      else if address = hash_of_u64 1027 then Some Curve25519Add
      else if address = hash_of_u64 1028 then Some Curve25519ScalarMul
      else None)"

definition precompile_execute ::
    "(precompile \<Rightarrow> bytes \<Rightarrow> u64 option \<Rightarrow> bool \<Rightarrow> 'res) \<Rightarrow> h160 \<Rightarrow> bytes \<Rightarrow> u64 option \<Rightarrow> bool \<Rightarrow> 'res option" where
  "precompile_execute run address inp target_gas is_static =
     map_option (\<lambda>p. run p inp target_gas is_static) (precompile_at address)"

definition is_precompile :: "h160 \<Rightarrow> bool" where
  "is_precompile address \<longleftrightarrow> address \<in> set used_addresses"


section \<open>Gas and weight\<close>

text \<open>\<^verbatim>\<open>WEIGHT_PER_SECOND\<close> of the framework, and the gas per second of the main network.\<close>

definition WEIGHT_PER_SECOND :: u64 where
  "WEIGHT_PER_SECOND = 1000000000000"

definition GAS_PER_SECOND :: u64 where
  "GAS_PER_SECOND = 8000000"

definition WEIGHT_PER_GAS :: u64 where
  "WEIGHT_PER_GAS = WEIGHT_PER_SECOND div GAS_PER_SECOND"

definition MAXIMUM_BLOCK_WEIGHT :: u64 where
  "MAXIMUM_BLOCK_WEIGHT = 2 * WEIGHT_PER_SECOND"

text \<open>\<^verbatim>\<open>u64::saturating_mul\<close>\<close>

definition saturating_mul :: "u64 \<Rightarrow> u64 \<Rightarrow> u64" where
  "saturating_mul a b = (if unat a * unat b < 2 ^ 64 then a * b else 2 ^ 64 - 1)"

definition gas_to_weight :: "u64 \<Rightarrow> u64" where
  "gas_to_weight gas = saturating_mul gas WEIGHT_PER_GAS"

definition weight_to_gas :: "u64 \<Rightarrow> u64" where
  "weight_to_gas weight = weight div WEIGHT_PER_GAS"

text \<open>The share of normal extrinsics in parts per billion, applied to a weight.\<close>

definition NORMAL_DISPATCH_RATIO :: nat where
  "NORMAL_DISPATCH_RATIO = 75 * 10000000"

definition perbill_mul :: "nat \<Rightarrow> u64 \<Rightarrow> u64" where
  "perbill_mul parts x = of_nat (parts * unat x div 1000000000)"

definition BlockGasLimit :: u256 where
  "BlockGasLimit = ucast (perbill_mul NORMAL_DISPATCH_RATIO MAXIMUM_BLOCK_WEIGHT div WEIGHT_PER_GAS)"


section \<open>Authors\<close>

text \<open>\<open>author_index\<close> is what the consensus finds in the digests, \<open>authorities\<close> the raw keys.\<close>

definition find_author :: "u32 option \<Rightarrow> bytes list \<Rightarrow> bytes option outcome" where
  "find_author author_index authorities =
     (case author_index of
        None \<Rightarrow> Inr None
      | Some i \<Rightarrow>
          (if unat i < length authorities
           then (let raw = authorities ! unat i in
                 if 24 \<le> length raw then Inr (Some (take 20 (drop 4 raw)))
                 else Inl (Panic ''range end index 24 out of range for slice''))
           else Inl (Panic ''index out of bounds'')))"


section \<open>Properties\<close>

text \<open>
  The order of proxy types is sound: when a type is called a superset of another, it allows
  every call that the other allows. So a proxy cannot grant more than it has; and the order
  is reflexive and transitive.
\<close>

lemma proxy_superset_sound:
  "(is_superset x y \<longrightarrow> proxy_filter y c \<longrightarrow> proxy_filter x c) \<and> is_superset x x \<and>
   (is_superset x y \<longrightarrow> is_superset y z \<longrightarrow> is_superset x z)"
  by (cases x; cases y; cases z; cases c) (simp_all add: is_superset_def)

lemma proxy_superset_sound_sample:
  "is_superset NonTransfer Governance \<and> proxy_filter NonTransfer Call_Treasury \<and> \<not> proxy_filter NonTransfer Call_Balances"
  using proxy_superset_sound[of NonTransfer Governance Call_Treasury Staking] by (simp add: is_superset_def)

text \<open>
  The precompiled contracts that are reported all run, but four that run are not reported:
  the address list leaves out the contracts at 6 to 9.
\<close>

lemma precompiles_reported:
  "(is_precompile a \<longrightarrow> precompile_execute run a inp target_gas is_static \<noteq> None) \<and>
   (precompile_execute run a inp target_gas is_static \<noteq> None \<longleftrightarrow> is_precompile a \<or> a \<in> {6, 7, 8, 9}) \<and>
   \<not> is_precompile 6 \<and> \<not> is_precompile 7 \<and> \<not> is_precompile 8 \<and> \<not> is_precompile 9"
  by (auto simp: precompile_execute_def precompile_at_def is_precompile_def used_addresses_def hash_of_u64_def)

lemma precompiles_reported_sample:
  "is_precompile 5 \<and> precompile_execute (\<lambda>p _ _ _. p) 5 [] None False = Some Modexp \<and>
   precompile_execute (\<lambda>p _ _ _. p) 8 [] None False = Some Bn128Pairing"
  using precompiles_reported[of 5 "\<lambda>p _ _ _. p" "[]" None False]
  by (simp add: precompile_execute_def precompile_at_def is_precompile_def used_addresses_def hash_of_u64_def)

text \<open>
  Converting gas to weight and back never gives more gas: it gives the gas itself while the
  weight fits in 64 bits, and less when it saturates. The gas limit of a block is 12000000.
\<close>

lemma gas_weight_roundtrip:
  "weight_to_gas (gas_to_weight gas) \<le> gas \<and>
   (weight_to_gas (gas_to_weight gas) = gas \<longleftrightarrow> unat gas * 125000 < 2 ^ 64) \<and> BlockGasLimit = 12000000"
proof -
  have W: "unat WEIGHT_PER_GAS = 125000" by (simp add: WEIGHT_PER_GAS_def WEIGHT_PER_SECOND_def GAS_PER_SECOND_def)
  have g: "unat (weight_to_gas (gas_to_weight gas)) =
      (if unat gas * 125000 < 2 ^ 64 then unat gas else (2 ^ 64 - 1) div 125000)"
    by (simp add: weight_to_gas_def gas_to_weight_def saturating_mul_def unat_div W unat_word_ariths)
  have "BlockGasLimit = 12000000"
    by (simp add: BlockGasLimit_def perbill_mul_def NORMAL_DISPATCH_RATIO_def MAXIMUM_BLOCK_WEIGHT_def
        WEIGHT_PER_GAS_def WEIGHT_PER_SECOND_def GAS_PER_SECOND_def)
  moreover have "unat (weight_to_gas (gas_to_weight gas)) = unat gas \<longleftrightarrow> unat gas * 125000 < 2 ^ 64"
    and "unat (weight_to_gas (gas_to_weight gas)) \<le> unat gas"
    unfolding g by auto
  ultimately show ?thesis by (simp add: word_le_nat_alt word_unat_eq_iff)
qed

end
