(* ===== verification/Runtime_Params.thy ===== *)
theory Runtime_Params
  imports Complex_Main Runtime_Config Chain_Spec
begin

text \<open>
  The configuration of the pallets (\<^verbatim>\<open>node/runtime/src/lib.rs\<close>, \<^verbatim>\<open>constants.rs\<close>): the time units, the
  constants of every pallet that has some, who may act for it, and the indices of the pallets.
  A record holds the constants of a pallet; the feature for a fast runtime is an argument.
  Ratios are natural numbers of parts: \<^verbatim>\<open>Perbill\<close> of a billion, \<^verbatim>\<open>Permill\<close> of a million, \<^verbatim>\<open>Percent\<close> of
  a hundred and \<^verbatim>\<open>FixedU128\<close> of a quintillion.
\<close>

section \<open>Time\<close>

type_synonym u16 = "16 word"

definition MILLISECS_PER_BLOCK :: u64 where "MILLISECS_PER_BLOCK = 6000"

definition SECS_PER_BLOCK :: u64 where "SECS_PER_BLOCK = MILLISECS_PER_BLOCK div 1000"

definition SLOT_DURATION :: u64 where "SLOT_DURATION = MILLISECS_PER_BLOCK"

definition MINUTES :: u32 where "MINUTES = 60 div ucast SECS_PER_BLOCK"

definition HOURS :: u32 where "HOURS = MINUTES * 60"

definition DAYS :: u32 where "DAYS = HOURS * 24"

definition EPOCH_DURATION_IN_BLOCKS :: "bool \<Rightarrow> u32" where
  "EPOCH_DURATION_IN_BLOCKS fast = (if fast then 1 * MINUTES else 1 * HOURS)"

text \<open>The doubles of this computation are exact, so they are rational numbers.\<close>

definition EPOCH_DURATION_IN_SLOTS :: "bool \<Rightarrow> u64" where
  "EPOCH_DURATION_IN_SLOTS fast =
     (let SLOT_FILL_RATE = rat_of_nat (unat MILLISECS_PER_BLOCK) / rat_of_nat (unat SLOT_DURATION)
      in of_int \<lfloor>rat_of_nat (unat (EPOCH_DURATION_IN_BLOCKS fast)) * SLOT_FILL_RATE\<rfloor>)"


section \<open>Version and limits of a block\<close>

record RuntimeVersion =
  rv_spec_name :: string
  rv_impl_name :: string
  rv_authoring_version :: u32
  rv_spec_version :: u32
  rv_impl_version :: u32
  rv_transaction_version :: u32
  rv_state_version :: u8

definition VERSION :: "bool \<Rightarrow> RuntimeVersion" where
  "VERSION beresheet =
     (if beresheet
      then \<lparr>rv_spec_name = ''beresheet'', rv_impl_name = ''beresheet-node'', rv_authoring_version = 16,
            rv_spec_version = 10053, rv_impl_version = 10053, rv_transaction_version = 2, rv_state_version = 53\<rparr>
      else \<lparr>rv_spec_name = ''edgeware'', rv_impl_name = ''edgeware-node'', rv_authoring_version = 16,
            rv_spec_version = 53, rv_impl_version = 53, rv_transaction_version = 2, rv_state_version = 53\<rparr>)"

definition AVERAGE_ON_INITIALIZE_RATIO :: nat where
  "AVERAGE_ON_INITIALIZE_RATIO = 100000000"

text \<open>What is set for the classes of extrinsics: the total of a class and what is reserved for it.\<close>

record class_weights =
  cw_normal_max_total :: u64
  cw_operational_max_total :: u64
  cw_operational_reserved :: u64

definition RuntimeBlockWeights :: class_weights where
  "RuntimeBlockWeights =
     \<lparr>cw_normal_max_total = perbill_mul NORMAL_DISPATCH_RATIO MAXIMUM_BLOCK_WEIGHT,
      cw_operational_max_total = MAXIMUM_BLOCK_WEIGHT,
      cw_operational_reserved = MAXIMUM_BLOCK_WEIGHT - perbill_mul NORMAL_DISPATCH_RATIO MAXIMUM_BLOCK_WEIGHT\<rparr>"


section \<open>Origins\<close>

text \<open>
  Who may act: the types of the framework that check an origin. A motion of the council
  carries the number of its ayes and of the seats.
\<close>

datatype privileged =
    EnsureRoot
  | EnsureNever
  | EnsureMember
  | EnsureProportionAtLeast nat nat
  | EnsureProportionMoreThan nat nat
  | EnsureOneOf privileged privileged

datatype governance_origin = Root | Council_motion nat nat | Council_member | Signed_by account

definition EnsureRootOrHalfCouncil :: privileged where
  "EnsureRootOrHalfCouncil = EnsureOneOf EnsureRoot (EnsureProportionMoreThan 1 2)"


section \<open>Constants of the pallets\<close>

record multisig_params =
  ms_DepositBase :: u128
  ms_DepositFactor :: u128
  ms_MaxSignatories :: u16

definition multisig_params :: multisig_params where
  "multisig_params = \<lparr>ms_DepositBase = deposit 1 88, ms_DepositFactor = deposit 0 32, ms_MaxSignatories = 100\<rparr>"

record proxy_params =
  px_ProxyDepositBase :: u128
  px_ProxyDepositFactor :: u128
  px_AnnouncementDepositBase :: u128
  px_AnnouncementDepositFactor :: u128
  px_MaxProxies :: u32
  px_MaxPending :: u32

definition proxy_params :: proxy_params where
  "proxy_params =
     \<lparr>px_ProxyDepositBase = deposit 1 8, px_ProxyDepositFactor = deposit 0 33,
      px_AnnouncementDepositBase = deposit 1 8, px_AnnouncementDepositFactor = deposit 0 66,
      px_MaxProxies = 32, px_MaxPending = 32\<rparr>"

text \<open>\<open>max_block\<close> is the weight of a whole block that the builder of the weights computes.\<close>

record scheduler_params =
  sc_MaximumWeight :: u64
  sc_NoPreimagePostponement :: "u32 option"
  sc_ScheduleOrigin :: privileged
  sc_MaxScheduledPerBlock :: u32

definition scheduler_params :: "u64 \<Rightarrow> scheduler_params" where
  "scheduler_params max_block =
     \<lparr>sc_MaximumWeight = perbill_mul 800000000 max_block, sc_NoPreimagePostponement = Some 10,
      sc_ScheduleOrigin = EnsureRoot, sc_MaxScheduledPerBlock = 50\<rparr>"

record preimage_params =
  pi_MaxSize :: u32
  pi_BaseDeposit :: u128
  pi_ByteDeposit :: u128
  pi_ManagerOrigin :: privileged

definition preimage_params :: preimage_params where
  "preimage_params =
     \<lparr>pi_MaxSize = 4096 * 1024, pi_BaseDeposit = 1 * DOLLARS, pi_ByteDeposit = 1 * CENTS,
      pi_ManagerOrigin = EnsureRoot\<rparr>"

definition IndexDeposit :: u128 where "IndexDeposit = 1 * DOLLARS"

record balances_params =
  bl_ExistentialDeposit :: u128
  bl_MaxLocks :: u32
  bl_MaxReserves :: u32

definition balances_params :: "bool \<Rightarrow> balances_params" where
  "balances_params no_reaping =
     \<lparr>bl_ExistentialDeposit = (if no_reaping then 0 else 1 * MILLICENTS), bl_MaxLocks = 50, bl_MaxReserves = 50\<rparr>"

record payment_params =
  tp_TransactionByteFee :: u128
  tp_OperationalFeeMultiplier :: u8
  tp_TargetBlockFullness :: nat
  tp_AdjustmentVariable :: nat
  tp_MinimumMultiplier :: nat

definition payment_params :: payment_params where
  "payment_params =
     \<lparr>tp_TransactionByteFee = 10 * MILLICENTS, tp_OperationalFeeMultiplier = 5,
      tp_TargetBlockFullness = 25 * 10 ^ 16, tp_AdjustmentVariable = 3 * 10 ^ 18 div 100000,
      tp_MinimumMultiplier = 10 ^ 18 div 1000000\<rparr>"

definition MinimumPeriod :: u64 where "MinimumPeriod = SLOT_DURATION div 2"

definition UncleGenerations :: u32 where "UncleGenerations = 5"

record session_params =
  se_Period :: u32
  se_Offset :: u32

definition session_params :: "bool \<Rightarrow> session_params" where
  "session_params fast = \<lparr>se_Period = (if fast then 1 * MINUTES else 1 * HOURS), se_Offset = 0\<rparr>"

record staking_params =
  sk_SessionsPerEra :: u32
  sk_BondingDuration :: u32
  sk_SlashDeferDuration :: u32
  sk_MaxNominatorRewardedPerValidator :: u32
  sk_OffendingValidatorsThreshold :: nat
  sk_OffchainRepeat :: u32
  sk_SlashCancelOrigin :: privileged

definition staking_params :: "bool \<Rightarrow> staking_params" where
  "staking_params fast =
     \<lparr>sk_SessionsPerEra = (if fast then 3 else 6), sk_BondingDuration = (if fast then 1 else 2 * 28),
      sk_SlashDeferDuration = (if fast then 1 else 28), sk_MaxNominatorRewardedPerValidator = 128,
      sk_OffendingValidatorsThreshold = 170000000, sk_OffchainRepeat = 5,
      sk_SlashCancelOrigin = EnsureOneOf EnsureRoot (EnsureProportionAtLeast 3 4)\<rparr>"

definition ReportLongevity :: "bool \<Rightarrow> u64" where
  "ReportLongevity fast =
     ucast (sk_BondingDuration (staking_params fast)) * ucast (sk_SessionsPerEra (staking_params fast)) *
     EPOCH_DURATION_IN_SLOTS fast"

definition ImOnlineUnsignedPriority :: u64 where "ImOnlineUnsignedPriority = - 1"

definition StakingUnsignedPriority :: u64 where "StakingUnsignedPriority = - 1 div 2"

definition MaxAuthorities :: u32 where "MaxAuthorities = 100"

record election_params =
  ep_SignedPhase :: u32
  ep_UnsignedPhase :: u32
  ep_SignedRewardBase :: u128
  ep_SignedDepositBase :: u128
  ep_SignedDepositByte :: u128
  ep_SolutionImprovementThreshold :: nat
  ep_MultiPhaseUnsignedPriority :: u64

definition election_params :: "bool \<Rightarrow> election_params" where
  "election_params fast =
     \<lparr>ep_SignedPhase = EPOCH_DURATION_IN_BLOCKS fast div 4, ep_UnsignedPhase = EPOCH_DURATION_IN_BLOCKS fast div 4,
      ep_SignedRewardBase = 1 * DOLLARS, ep_SignedDepositBase = 1 * DOLLARS, ep_SignedDepositByte = 1 * CENTS,
      ep_SolutionImprovementThreshold = 1000000000 div 10000,
      ep_MultiPhaseUnsignedPriority = StakingUnsignedPriority - 1\<rparr>"

text \<open>
  What the miner of solutions may use. \<open>max_extrinsic\<close> and \<open>normal_length\<close> are the limits of the
  normal class that the weights and the lengths of a block give.
\<close>

definition MinerMaxWeight :: "u64 option \<Rightarrow> u64 \<Rightarrow> u64 outcome" where
  "MinerMaxWeight max_extrinsic BlockExecutionWeight =
     (case max_extrinsic of
        None \<Rightarrow> Inl (Panic ''Normal extrinsics have a weight limit configured; qed'')
      | Some w \<Rightarrow> Inr (if w < BlockExecutionWeight then 0 else w - BlockExecutionWeight))"

definition MinerMaxLength :: "u32 \<Rightarrow> u32" where
  "MinerMaxLength normal_length = ucast (perbill_mul (9 * 1000000000 div 10) (ucast normal_length))"

definition MaxElectingVoters :: u32 where "MaxElectingVoters = 10000"

record onchain_bounds =
  oc_VotersBound :: u32
  oc_TargetsBound :: u32

definition onchain_bounds :: onchain_bounds where
  "onchain_bounds = \<lparr>oc_VotersBound = 20000, oc_TargetsBound = 2000\<rparr>"

record election_config =
  ec_OffchainRepeat :: u32
  ec_MinerTxPriority :: u64
  ec_SignedMaxSubmissions :: u32
  ec_ForceOrigin :: privileged
  ec_MaxElectableTargets :: u16
  ec_MaxElectingVoters :: u32

definition election_config :: "bool \<Rightarrow> election_config" where
  "election_config fast =
     \<lparr>ec_OffchainRepeat = sk_OffchainRepeat (staking_params fast),
      ec_MinerTxPriority = ep_MultiPhaseUnsignedPriority (election_params fast), ec_SignedMaxSubmissions = 10,
      ec_ForceOrigin = EnsureRootOrHalfCouncil, ec_MaxElectableTargets = - 1,
      ec_MaxElectingVoters = MaxElectingVoters\<rparr>"

definition VoteLockingPeriod :: "bool \<Rightarrow> u32" where
  "VoteLockingPeriod fast = (if fast then 1 * MINUTES else 7 * DAYS)"

definition UndecidingTimeout :: "bool \<Rightarrow> u32" where
  "UndecidingTimeout fast = (if fast then 28 * DAYS else 3 * MINUTES)"

record democracy_params =
  dm_LaunchPeriod :: u32
  dm_VotingPeriod :: u32
  dm_FastTrackVotingPeriod :: u32
  dm_MinimumDeposit :: u128
  dm_EnactmentPeriod :: u32
  dm_CooloffPeriod :: u32
  dm_MaxProposals :: u32

definition democracy_params :: "bool \<Rightarrow> democracy_params" where
  "democracy_params fast =
     (if fast
      then \<lparr>dm_LaunchPeriod = 1 * MINUTES, dm_VotingPeriod = 3 * MINUTES, dm_FastTrackVotingPeriod = 1 * MINUTES,
            dm_MinimumDeposit = 100 * DOLLARS, dm_EnactmentPeriod = 1 * MINUTES, dm_CooloffPeriod = 2 * MINUTES,
            dm_MaxProposals = 100\<rparr>
      else \<lparr>dm_LaunchPeriod = 2 * 24 * 60 * MINUTES, dm_VotingPeriod = 7 * 24 * 60 * MINUTES,
            dm_FastTrackVotingPeriod = 2 * 24 * 60 * MINUTES, dm_MinimumDeposit = 100 * DOLLARS,
            dm_EnactmentPeriod = 1 * 24 * 60 * MINUTES, dm_CooloffPeriod = 7 * 24 * 60 * MINUTES,
            dm_MaxProposals = 100\<rparr>)"

record democracy_origins =
  do_ExternalOrigin :: privileged
  do_ExternalMajorityOrigin :: privileged
  do_ExternalDefaultOrigin :: privileged
  do_FastTrackOrigin :: privileged
  do_InstantOrigin :: privileged
  do_InstantAllowed :: bool
  do_CancellationOrigin :: privileged
  do_CancelProposalOrigin :: privileged
  do_BlacklistOrigin :: privileged
  do_VetoOrigin :: privileged
  do_OperationalPreimageOrigin :: privileged

definition democracy_origins :: democracy_origins where
  "democracy_origins =
     \<lparr>do_ExternalOrigin = EnsureProportionAtLeast 1 2,
      do_ExternalMajorityOrigin = EnsureOneOf (EnsureProportionAtLeast 3 5) EnsureRoot,
      do_ExternalDefaultOrigin = EnsureOneOf (EnsureProportionAtLeast 1 1) EnsureRoot,
      do_FastTrackOrigin = EnsureOneOf (EnsureProportionAtLeast 3 4) EnsureRoot,
      do_InstantOrigin = EnsureNever,
      do_InstantAllowed = True,
      do_CancellationOrigin = EnsureProportionAtLeast 2 3,
      do_CancelProposalOrigin = EnsureOneOf (EnsureProportionAtLeast 2 3) EnsureRoot,
      do_BlacklistOrigin = EnsureRoot,
      do_VetoOrigin = EnsureNever,
      do_OperationalPreimageOrigin = EnsureMember\<rparr>"

record council_params =
  cc_MotionDuration :: u32
  cc_MaxProposals :: u32
  cc_MaxMembers :: u32

definition council_params :: "bool \<Rightarrow> council_params" where
  "council_params fast =
     \<lparr>cc_MotionDuration = (if fast then 3 * MINUTES else 14 * DAYS), cc_MaxProposals = 100, cc_MaxMembers = 100\<rparr>"

record phragmen_params =
  ph_CandidacyBond :: u128
  ph_VotingBondBase :: u128
  ph_VotingBondFactor :: u128
  ph_TermDuration :: u32
  ph_DesiredMembers :: u32
  ph_DesiredRunnersUp :: u32
  ph_PalletId :: string

definition phragmen_params :: "bool \<Rightarrow> phragmen_params" where
  "phragmen_params fast =
     \<lparr>ph_CandidacyBond = 1000 * DOLLARS, ph_VotingBondBase = deposit 1 64, ph_VotingBondFactor = deposit 0 32,
      ph_TermDuration = (if fast then 6 * MINUTES else 28 * DAYS), ph_DesiredMembers = 13, ph_DesiredRunnersUp = 7,
      ph_PalletId = ''phrelect''\<rparr>"

record treasury_params =
  ty_ProposalBond :: nat
  ty_ProposalBondMinimum :: u128
  ty_SpendPeriod :: u32
  ty_Burn :: nat
  ty_TipCountdown :: u32
  ty_TipFindersFee :: nat
  ty_TipReportDepositBase :: u128
  ty_DataDepositPerByte :: u128
  ty_PalletId :: string
  ty_MaximumReasonLength :: u32
  ty_MaxApprovals :: u32

definition treasury_params :: "bool \<Rightarrow> treasury_params" where
  "treasury_params fast =
     \<lparr>ty_ProposalBond = 50000, ty_ProposalBondMinimum = 1000 * DOLLARS,
      ty_SpendPeriod = (if fast then 3 * MINUTES else 3 * DAYS), ty_Burn = 0,
      ty_TipCountdown = (if fast then 2 * MINUTES else 1 * DAYS), ty_TipFindersFee = 20,
      ty_TipReportDepositBase = 1 * DOLLARS, ty_DataDepositPerByte = 1 * CENTS, ty_PalletId = ''py/trsry'',
      ty_MaximumReasonLength = 16384, ty_MaxApprovals = 100\<rparr>"

record treasury_origins =
  to_ApproveOrigin :: privileged
  to_RejectOrigin :: privileged

definition treasury_origins :: treasury_origins where
  "treasury_origins =
     \<lparr>to_ApproveOrigin = EnsureOneOf EnsureRoot (EnsureProportionAtLeast 3 5),
      to_RejectOrigin = EnsureOneOf EnsureRoot (EnsureProportionMoreThan 1 2)\<rparr>"

record bounties_params =
  bo_ValueMinimum :: u128
  bo_DepositBase :: u128
  bo_CuratorDepositMultiplier :: nat
  bo_CuratorDepositMin :: u128
  bo_CuratorDepositMax :: u128
  bo_DepositPayoutDelay :: u32
  bo_UpdatePeriod :: u32

definition bounties_params :: "bool \<Rightarrow> bounties_params" where
  "bounties_params fast =
     \<lparr>bo_ValueMinimum = 100 * DOLLARS, bo_DepositBase = 10 * DOLLARS, bo_CuratorDepositMultiplier = 500000,
      bo_CuratorDepositMin = 1 * DOLLARS, bo_CuratorDepositMax = 100 * DOLLARS,
      bo_DepositPayoutDelay = (if fast then 2 * MINUTES else 7 * DAYS),
      bo_UpdatePeriod = (if fast then 2 * MINUTES else 3 * DAYS)\<rparr>"

record contracts_params =
  ct_DepositPerItem :: u128
  ct_DepositPerByte :: u128
  ct_MaxValueSize :: u32

definition contracts_params :: contracts_params where
  "contracts_params = \<lparr>ct_DepositPerItem = deposit 1 0, ct_DepositPerByte = deposit 0 1, ct_MaxValueSize = 16 * 1024\<rparr>"

text \<open>
  The lazy deletion takes a tenth of a block; its queue is as deep as a fifth of that allows.
  There is none when an item has no weight, since the division then panics.
\<close>

definition DeletionWeightLimit :: "u64 \<Rightarrow> u64" where
  "DeletionWeightLimit max_block = perbill_mul AVERAGE_ON_INITIALIZE_RATIO max_block"

definition DeletionQueueDepth :: "(nat \<Rightarrow> u64) \<Rightarrow> u64 \<Rightarrow> u32 option" where
  "DeletionQueueDepth on_initialize_per_queue_item max_block =
     (let per_item = on_initialize_per_queue_item 1 - on_initialize_per_queue_item 0 in
      if per_item = 0 then None else Some (ucast ((DeletionWeightLimit max_block div per_item) div 5)))"

record identity_params =
  id_BasicDeposit :: u128
  id_FieldDeposit :: u128
  id_SubAccountDeposit :: u128
  id_MaxSubAccounts :: u32
  id_MaxAdditionalFields :: u32
  id_MaxRegistrars :: u32
  id_ForceOrigin :: privileged
  id_RegistrarOrigin :: privileged

definition identity_params :: identity_params where
  "identity_params =
     \<lparr>id_BasicDeposit = 5 * DOLLARS, id_FieldDeposit = 250 * CENTS, id_SubAccountDeposit = 1 * DOLLARS,
      id_MaxSubAccounts = 100, id_MaxAdditionalFields = 100, id_MaxRegistrars = 20,
      id_ForceOrigin = EnsureRootOrHalfCouncil, id_RegistrarOrigin = EnsureRootOrHalfCouncil\<rparr>"

record recovery_params =
  rc_ConfigDepositBase :: u128
  rc_FriendDepositFactor :: u128
  rc_MaxFriends :: u16
  rc_RecoveryDeposit :: u128

definition recovery_params :: recovery_params where
  "recovery_params =
     \<lparr>rc_ConfigDepositBase = 5 * DOLLARS, rc_FriendDepositFactor = 50 * CENTS, rc_MaxFriends = 9,
      rc_RecoveryDeposit = 5 * DOLLARS\<rparr>"

definition MinVestedTransfer :: u128 where "MinVestedTransfer = 100 * DOLLARS"

definition MAX_VESTING_SCHEDULES :: u32 where "MAX_VESTING_SCHEDULES = 28"

record assets_params =
  as_AssetDeposit :: u128
  as_ApprovalDeposit :: u128
  as_StringLimit :: u32
  as_MetadataDepositBase :: u128
  as_MetadataDepositPerByte :: u128
  as_AssetAccountDeposit :: u128
  as_ForceOrigin :: privileged

definition assets_params :: assets_params where
  "assets_params =
     \<lparr>as_AssetDeposit = 100 * DOLLARS, as_ApprovalDeposit = 1 * DOLLARS, as_StringLimit = 50,
      as_MetadataDepositBase = 10 * DOLLARS, as_MetadataDepositPerByte = 1 * DOLLARS,
      as_AssetAccountDeposit = DOLLARS, as_ForceOrigin = EnsureRoot\<rparr>"

definition EthChainId :: "bool \<Rightarrow> u64" where
  "EthChainId beresheet = (if beresheet then 2022 else 2021)"

record base_fee_params =
  bf_lower :: nat
  bf_ideal :: nat
  bf_upper :: nat
  bf_DefaultBaseFeePerGas :: u256
  bf_IsActive :: bool

definition base_fee_params :: base_fee_params where
  "base_fee_params =
     \<lparr>bf_lower = 0, bf_ideal = 500000, bf_upper = 1000000, bf_DefaultBaseFeePerGas = 1000000000, bf_IsActive = True\<rparr>"


section \<open>The pallets of the runtime\<close>

definition pallets :: "(string \<times> u8) list" where
  "pallets =
     [(''System'', 0), (''Utility'', 1), (''Aura'', 2), (''Timestamp'', 3), (''Authorship'', 4), (''Indices'', 5),
      (''Balances'', 6), (''TransactionPayment'', 7), (''Staking'', 8), (''Session'', 9), (''Democracy'', 10),
      (''Council'', 11), (''PhragmenElection'', 12), (''Grandpa'', 14), (''Treasury'', 15), (''Contracts'', 16),
      (''Sudo'', 17), (''ImOnline'', 18), (''AuthorityDiscovery'', 19), (''Offences'', 20), (''Historical'', 21),
      (''RandomnessCollectiveFlip'', 22), (''Identity'', 23), (''Recovery'', 24), (''Vesting'', 25),
      (''Scheduler'', 26), (''Proxy'', 27), (''Multisig'', 28), (''Assets'', 29), (''TreasuryReward'', 32),
      (''Ethereum'', 33), (''EVM'', 34), (''Bounties'', 37), (''Tips'', 38), (''ElectionProviderMultiPhase'', 39),
      (''DynamicFee'', 40), (''BaseFee'', 41), (''BagsList'', 42), (''Preimage'', 43)]"

definition pallet_index :: "string \<Rightarrow> u8 option" where
  "pallet_index name = map_of pallets name"

definition pallet_at :: "u8 \<Rightarrow> string option" where
  "pallet_at i = map_option fst (List.find (\<lambda>p. snd p = i) pallets)"

end
