(* ===== verification/Runtime_Limits.thy ===== *)
theory Runtime_Limits
  imports Runtime_Params
begin

text \<open>
  What the configuration of the runtime guarantees: which origins a council can reach, that the
  periods of staking, voting and elections fit together, and that the genesis configurations
  respect the limits of the pallets.
\<close>

section \<open>Reference definitions\<close>

text \<open>
  The documented behaviour of the types that check an origin: a motion passes a proportion
  when its ayes are at least, or more than, that part of the seats.
\<close>

definition origin_laws :: "(privileged \<Rightarrow> governance_origin \<Rightarrow> bool) \<Rightarrow> bool" where
  "origin_laws ok \<longleftrightarrow>
     (\<forall>org. ok EnsureRoot org \<longleftrightarrow> org = Root) \<and> (\<forall>org. \<not> ok EnsureNever org) \<and>
     (\<forall>org. ok EnsureMember org \<longleftrightarrow> org = Council_member) \<and>
     (\<forall>a b org. ok (EnsureOneOf a b) org \<longleftrightarrow> ok a org \<or> ok b org) \<and>
     (\<forall>n d org. ok (EnsureProportionAtLeast n d) org \<longleftrightarrow>
        (\<exists>ayes seats. org = Council_motion ayes seats \<and> n * seats \<le> ayes * d)) \<and>
     (\<forall>n d org. ok (EnsureProportionMoreThan n d) org \<longleftrightarrow>
        (\<exists>ayes seats. org = Council_motion ayes seats \<and> n * seats < ayes * d))"

text \<open>Every origin that the configuration gives a power to.\<close>

definition privileged_origins :: "bool \<Rightarrow> u64 \<Rightarrow> privileged list" where
  "privileged_origins fast max_block =
     [do_ExternalOrigin democracy_origins, do_ExternalMajorityOrigin democracy_origins,
      do_ExternalDefaultOrigin democracy_origins, do_FastTrackOrigin democracy_origins,
      do_InstantOrigin democracy_origins, do_CancellationOrigin democracy_origins,
      do_CancelProposalOrigin democracy_origins, do_BlacklistOrigin democracy_origins,
      do_VetoOrigin democracy_origins, do_OperationalPreimageOrigin democracy_origins,
      to_ApproveOrigin treasury_origins, to_RejectOrigin treasury_origins,
      sk_SlashCancelOrigin (staking_params fast), ec_ForceOrigin (election_config fast),
      id_ForceOrigin identity_params, id_RegistrarOrigin identity_params,
      sc_ScheduleOrigin (scheduler_params max_block), pi_ManagerOrigin preimage_params, as_ForceOrigin assets_params]"

fun sample_ok :: "privileged \<Rightarrow> governance_origin \<Rightarrow> bool" where
  "sample_ok EnsureRoot org = (org = Root)"
| "sample_ok EnsureNever org = False"
| "sample_ok EnsureMember org = (org = Council_member)"
| "sample_ok (EnsureProportionAtLeast n d) org =
     (case org of Council_motion ayes seats \<Rightarrow> n * seats \<le> ayes * d | _ \<Rightarrow> False)"
| "sample_ok (EnsureProportionMoreThan n d) org =
     (case org of Council_motion ayes seats \<Rightarrow> n * seats < ayes * d | _ \<Rightarrow> False)"
| "sample_ok (EnsureOneOf a b) org = (sample_ok a org \<or> sample_ok b org)"

text \<open>The milliseconds of some eras, from the sessions of an era and the blocks of a session.\<close>

definition eras_ms :: "bool \<Rightarrow> u32 \<Rightarrow> nat" where
  "eras_ms fast eras =
     unat eras * unat (sk_SessionsPerEra (staking_params fast)) * unat (se_Period (session_params fast)) *
     unat MILLISECS_PER_BLOCK"

definition day_ms :: nat where
  "day_ms = 24 * 60 * 60 * 1000"

text \<open>
  A genesis configuration within the limits that the runtime sets for its pallets: the existential
  deposit, the numbers of validators and authorities and the size of the council. That no account is
  endowed twice is a matter of its own.
\<close>

definition genesis_fits :: "bool \<Rightarrow> GenesisConfigs \<Rightarrow> bool" where
  "genesis_fits fast g \<longleftrightarrow>
     list_all (\<lambda>(_, b). bl_ExistentialDeposit (balances_params False) \<le> b) (gn_balances g) \<and>
     list_all (\<lambda>(_, _, stake, _). bl_ExistentialDeposit (balances_params False) \<le> stake) (gn_stakers g) \<and>
     gn_minimum_validator_count g \<le> gn_validator_count g \<and>
     gn_validator_count g \<le> MaxAuthorities \<and>
     length (gn_council_members g) \<le> unat (cc_MaxMembers (council_params fast))"

definition sample_allocation :: Allocation where
  "sample_allocation = \<lparr>al_balances = [(repeated_account, repeated_amount)], al_vesting = []\<rparr>"


section \<open>Lemmas\<close>

lemmas time_defs =
  MILLISECS_PER_BLOCK_def SECS_PER_BLOCK_def SLOT_DURATION_def MINUTES_def HOURS_def DAYS_def
  EPOCH_DURATION_IN_BLOCKS_def

lemma time_values:
  "MINUTES = 10" "HOURS = 600" "DAYS = 14400" "EPOCH_DURATION_IN_SLOTS fast = (if fast then 10 else 600)"
  by (simp_all add: time_defs EPOCH_DURATION_IN_SLOTS_def Let_def)

lemma money_values:
  "MILLICENTS = 10000000000000" "CENTS = 10000000000000000" "DOLLARS = 1000000000000000000"
  by (simp_all add: MILLICENTS_def CENTS_def DOLLARS_def)

text \<open>A deposit does not wrap, for any number of items and bytes.\<close>

lemma deposit_exact:
  "unat (deposit items len) = unat items * 15 * unat CENTS + unat len * 6 * unat CENTS"
proof -
  have "deposit items len = of_nat (unat items * 15 * 10000000000000000 + unat len * 6 * 10000000000000000)"
    by (simp add: deposit_def money_values)
  moreover have "unat items * 15 * 10000000000000000 + unat len * 6 * 10000000000000000 < 2 ^ 128"
    using u32_less [of items] u32_less [of len] by simp
  ultimately show ?thesis
    by (simp add: unat_of_nat money_values del: of_nat_add of_nat_mult)
qed

lemma sample_origin_laws: "origin_laws sample_ok"
  by (auto simp: origin_laws_def split: governance_origin.splits)

lemma pallet_indices_distinct: "distinct (map snd pallets) \<and> distinct (map fst pallets) \<and> sorted (map snd pallets)"
  by (simp add: pallets_def)

lemma find_snd:
  "distinct (map snd xs) \<Longrightarrow> map_option fst (List.find (\<lambda>p. snd p = i) xs) = Some x \<longleftrightarrow> (x, i) \<in> set xs"
  by (induction xs) force+

lemma pallet_index_roundtrip: "pallet_index name = Some i \<longleftrightarrow> pallet_at i = Some name"
proof -
  have "pallet_index name = Some i \<longleftrightarrow> (name, i) \<in> set pallets"
    unfolding pallet_index_def using pallet_indices_distinct by (metis map_of_eq_Some_iff)
  moreover have "pallet_at i = Some name \<longleftrightarrow> (name, i) \<in> set pallets"
    unfolding pallet_at_def using pallet_indices_distinct by (metis find_snd)
  ultimately show ?thesis by simp
qed

lemma genesis_fits_testnet:
  assumes "length auths \<le> 7"
  shows "genesis_fits fast (testnet_genesis from_string auths root_key endowed pr bs vesting founders alice)"
proof -
  have stash: "bl_ExistentialDeposit (balances_params False) \<le> STASH"
    by (simp add: balances_params_def STASH_def money_values)
  have "(of_nat (length auths) :: u32) \<le> 7"
    using assms by (simp add: word_le_nat_alt unat_of_nat)
  then show ?thesis
    using stash
    by (auto simp: genesis_fits_def testnet_genesis_def Let_def list_all_iff MaxAuthorities_def council_params_def)
qed

lemma genesis_fits_mainnet:
  assumes "list_all (\<lambda>(_, b). MILLICENTS \<le> b) bs"
  shows "genesis_fits fast (mainnet_genesis get_cw_mainnet_validators get_commonwealth_allocation bs vesting)"
proof -
  have "list_all (\<lambda>(_, b). MILLICENTS \<le> b) get_commonwealth_allocation"
    by (simp add: get_commonwealth_allocation_def money_values COMMONWEALTH_ENDOWMENT_def STASH_ENDOWMENT_def
        CONTROLLER_ENDOWMENT_def)
  moreover have "list_all (\<lambda>(_, _, stake, _). MILLICENTS \<le> stake)
      (map (\<lambda>(stash, controller, stake, _). (stash, controller, stake, Validator)) get_cw_mainnet_validators)"
    by (simp add: get_cw_mainnet_validators_def money_values STAKED_ENDOWMENT_def)
  moreover have "length get_cw_mainnet_validators = 10" "length get_mainnet_election_members = 1"
    by (simp_all add: get_cw_mainnet_validators_def get_mainnet_election_members_def)
  ultimately show ?thesis
    using assms
    by (simp add: genesis_fits_def mainnet_genesis_def balances_params_def MaxAuthorities_def council_params_def)
qed

lemma traverse_length: "traverse f xs = Inr ys \<Longrightarrow> length ys = length xs"
  by (induction xs arbitrary: ys) (auto split: sum.splits)

lemma beresheet_authorities_length:
  "get_beresheet_initial_authorities from_ss58check = Inr auths \<Longrightarrow> length auths = 4"
  unfolding get_beresheet_initial_authorities_def by (drule traverse_length) simp

lemma sample_allocation_read:
  "allocation_balances (\<lambda>_. Inr a) sample_allocation = Inr [(a, 354063408254192269317334954)]"
  "allocation_vesting (\<lambda>_. Inr a) sample_allocation = Inr []"
  by (simp_all add: allocation_balances_def allocation_vesting_def sample_allocation_def unwrap_def
      repeated_amount_parsed)


section \<open>Properties\<close>

text \<open>
  C18. A minority of the council has no power, and powers are ordered: with fewer ayes than half of
  the seats a motion satisfies none of the origins of the configuration; who may have a vote
  carried by default may fast-track, who may fast-track may propose a majority vote, who may
  do so by a motion may propose externally, and who approves spending may also reject it.
\<close>

theorem governance_ordered:
  assumes "origin_laws ok" and "0 < seats"
  shows "(2 * ayes < seats \<longrightarrow> list_all (\<lambda>p. \<not> ok p (Council_motion ayes seats)) (privileged_origins fast max_block)) \<and>
    (\<forall>org \<in> {Root, Council_motion ayes seats}.
      (ok (do_ExternalDefaultOrigin democracy_origins) org \<longrightarrow> ok (do_FastTrackOrigin democracy_origins) org) \<and>
      (ok (do_FastTrackOrigin democracy_origins) org \<longrightarrow> ok (do_ExternalMajorityOrigin democracy_origins) org) \<and>
      (ok (do_ExternalMajorityOrigin democracy_origins) org \<longrightarrow> org = Root \<or> ok (do_ExternalOrigin democracy_origins) org) \<and>
      (ok (to_ApproveOrigin treasury_origins) org \<longrightarrow> ok (to_RejectOrigin treasury_origins) org))"
  using assms
  by (auto simp: origin_laws_def privileged_origins_def democracy_origins_def treasury_origins_def staking_params_def
      election_config_def identity_params_def scheduler_params_def preimage_params_def assets_params_def
      EnsureRootOrHalfCouncil_def)

theorem governance_ordered_witness:
  "\<not> sample_ok (to_RejectOrigin treasury_origins) (Council_motion 6 13) \<and>
   sample_ok (do_FastTrackOrigin democracy_origins) (Council_motion 10 13) \<and>
   sample_ok (do_ExternalMajorityOrigin democracy_origins) (Council_motion 10 13)"
proof -
  have "sample_ok (do_FastTrackOrigin democracy_origins) (Council_motion 10 13)"
    by (simp add: democracy_origins_def)
  then show ?thesis
    using governance_ordered[OF sample_origin_laws, of 13 6 False 0] governance_ordered[OF sample_origin_laws, of 13 10 False 0]
    by (simp add: privileged_origins_def)
qed

text \<open>
  The periods of the runtime fit together: a bond is locked for fourteen days and a slash
  deferred for seven; reports of misbehaviour are accepted for as long as a bond is locked; a
  slash is applied before the bond is free, except on a fast runtime, where the two periods
  are equal; votes stay locked at least until what they decided is enacted; the two
  phases of an election end within a session; and the transactions of the pallets that share the
  unsigned transactions of the pool have different priorities.
\<close>

lemma runtime_periods_fit:
  "eras_ms False (sk_BondingDuration (staking_params False)) = 14 * day_ms \<and>
   eras_ms False (sk_SlashDeferDuration (staking_params False)) = 7 * day_ms \<and>
   unat (ReportLongevity fast) * unat SLOT_DURATION = eras_ms fast (sk_BondingDuration (staking_params fast)) \<and>
   (sk_SlashDeferDuration (staking_params fast) < sk_BondingDuration (staking_params fast) \<longleftrightarrow> \<not> fast) \<and>
   dm_EnactmentPeriod (democracy_params fast) \<le> VoteLockingPeriod fast \<and>
   unat (ep_SignedPhase (election_params fast)) + unat (ep_UnsignedPhase (election_params fast)) \<le>
     unat (se_Period (session_params fast)) \<and>
   ep_MultiPhaseUnsignedPriority (election_params fast) < StakingUnsignedPriority \<and>
   StakingUnsignedPriority < ImOnlineUnsignedPriority"
  by (simp add: eras_ms_def day_ms_def staking_params_def session_params_def ReportLongevity_def democracy_params_def
      VoteLockingPeriod_def election_params_def StakingUnsignedPriority_def ImOnlineUnsignedPriority_def time_values
      MILLISECS_PER_BLOCK_def SLOT_DURATION_def EPOCH_DURATION_IN_BLOCKS_def)

text \<open>
  C23. The genesis of each of the five chain specifications is within the limits of the runtime: every
  account is endowed with, and every validator stakes, at least the existential deposit, the
  minimum of validators is at most their number, which is at most the authorities Aura
  holds, and the council fits. The allocation of the lockdrop must have no smaller amount.
\<close>

theorem genesis_within_limits:
  assumes "edgeware_mainnet_config_genesis from_hex (Inr al) = Inr mainnet"
    and "edgeware_testnet_config_genesis from_string from_hex from_ss58check (Inr al) = Inr testnet"
    and "allocation_balances from_hex al = Inr bs" and "list_all (\<lambda>(_, b). MILLICENTS \<le> b) bs"
  shows "genesis_fits fast (development_config_genesis from_string) \<and>
    genesis_fits fast (multi_development_config_genesis from_string) \<and>
    genesis_fits fast (local_testnet_genesis from_string) \<and>
    genesis_fits fast testnet \<and> genesis_fits fast mainnet"
proof -
  have "genesis_fits fast testnet"
    using assms(2,3)
    by (auto simp: edgeware_testnet_config_genesis_def unwrap_def beresheet_authorities_length
        intro!: genesis_fits_testnet split: sum.splits)
  moreover have "genesis_fits fast mainnet"
    using assms(1,3,4)
    by (auto simp: edgeware_mainnet_config_genesis_def unwrap_def intro!: genesis_fits_mainnet split: sum.splits)
  ultimately show ?thesis
    unfolding development_config_genesis_def multi_development_config_genesis_def local_testnet_genesis_def
    by (simp add: genesis_fits_testnet)
qed

theorem genesis_within_limits_witness:
  "genesis_fits False (mainnet_genesis get_cw_mainnet_validators get_commonwealth_allocation
     [(5, 354063408254192269317334954)] []) \<and>
   genesis_fits False (development_config_genesis sample_from_string)"
proof -
  have m: "edgeware_mainnet_config_genesis (\<lambda>_. Inr 5) (Inr sample_allocation) =
      Inr (mainnet_genesis get_cw_mainnet_validators get_commonwealth_allocation
        [(5, 354063408254192269317334954)] [])"
    by (simp add: edgeware_mainnet_config_genesis_def sample_allocation_read unwrap_def)
  obtain t where t:
    "edgeware_testnet_config_genesis sample_from_string (\<lambda>_. Inr 5) (\<lambda>_. Inr 7) (Inr sample_allocation) = Inr t"
    by (simp add: edgeware_testnet_config_genesis_def sample_allocation_read unwrap_def
        get_beresheet_initial_authorities_def read_authority_def get_testnet_root_key_def)
  show ?thesis
    using genesis_within_limits[OF m t sample_allocation_read(1), of False] by (simp add: money_values)
qed

end
