(* ===== verification/Runtime_Api.thy ===== *)
theory Runtime_Api
  imports Runtime_Params
begin

text \<open>
  Methods of the runtime interface that do more than call a pallet (\<^verbatim>\<open>impl_runtime_apis!\<close> of
  \<^verbatim>\<open>node/runtime/src/lib.rs\<close>): the storage of a contract, the Ethereum transactions of a block and of the
  pool, the reports of equivocations of Grandpa and the dry runs of contracts. What a pallet
  answers is an argument.
\<close>

section \<open>Ethereum\<close>

definition chain_id :: "bool \<Rightarrow> u64" where
  "chain_id beresheet = EthChainId beresheet"

text \<open>The bytes of a number, the most significant one first, and the number that they are.\<close>

definition to_big_endian :: "u256 \<Rightarrow> bytes" where
  "to_big_endian index = rev (map (\<lambda>i. of_nat (unat index div 256 ^ i)) [0..<32])"

definition from_slice :: "bytes \<Rightarrow> h256" where
  "from_slice bs = of_nat (horner_sum unat 256 (rev bs))"

definition storage_at :: "(h160 \<Rightarrow> h256 \<Rightarrow> h256) \<Rightarrow> h160 \<Rightarrow> u256 \<Rightarrow> h256" where
  "storage_at account_storages address index = account_storages address (from_slice (to_big_endian index))"

definition current_all :: "'b option \<Rightarrow> 'r list option \<Rightarrow> 's list option \<Rightarrow> 'b option \<times> 'r list option \<times> 's list option" where
  "current_all current_block current_receipts current_transaction_statuses =
     (current_block, current_receipts, current_transaction_statuses)"

definition eth_extrinsic_filter :: "('r, 'c) UncheckedExtrinsic list \<Rightarrow> 'r TransactionV2 list" where
  "eth_extrinsic_filter xts =
     List.map_filter (\<lambda>xt. case xt_function xt of Ethereum_transact transaction \<Rightarrow> Some transaction | Other_call _ \<Rightarrow> None) xts"

text \<open>The extrinsic of a transaction in the form in which the pool of the node keeps it.\<close>

definition convert_transaction_opaque ::
    "(('r, 'c) UncheckedExtrinsic \<Rightarrow> bytes) \<Rightarrow> (bytes \<Rightarrow> 'o option) \<Rightarrow> 'r TransactionV2 \<Rightarrow> 'o outcome" where
  "convert_transaction_opaque encode decode transaction =
     (let encoded = encode (convert_transaction transaction) in
      case decode encoded of
        None \<Rightarrow> Inl (Panic ''Encoded extrinsic is always valid'')
      | Some xt \<Rightarrow> Inr xt)"

definition api_elasticity :: "nat \<Rightarrow> nat option" where
  "api_elasticity elasticity = Some elasticity"


section \<open>Grandpa\<close>

text \<open>
  \<open>prove\<close> is the history of the sessions, \<open>submit\<close> the pallet, which may change the state. A proof
  travels encoded.
\<close>

definition submit_report_equivocation_unsigned_extrinsic ::
    "(bytes \<Rightarrow> 'p option) \<Rightarrow> ('e \<Rightarrow> 'p \<Rightarrow> 's \<Rightarrow> unit option \<times> 's) \<Rightarrow> 'e \<Rightarrow> bytes \<Rightarrow> 's \<Rightarrow> unit option \<times> 's" where
  "submit_report_equivocation_unsigned_extrinsic decode submit equivocation_proof key_owner_proof s =
     (case decode key_owner_proof of
        None \<Rightarrow> (None, s)
      | Some key_owner_proof \<Rightarrow> submit equivocation_proof key_owner_proof s)"

definition generate_key_ownership_proof ::
    "('p \<Rightarrow> bytes) \<Rightarrow> ('k \<times> 'a \<Rightarrow> 'p option) \<Rightarrow> 'k \<Rightarrow> u64 \<Rightarrow> 'a \<Rightarrow> bytes option" where
  "generate_key_ownership_proof encode prove KEY_TYPE set_id authority_id =
     map_option encode (prove (KEY_TYPE, authority_id))"


section \<open>Contracts\<close>

text \<open>A dry run asks the pallet for the messages of the contract: its last argument is true.\<close>

definition contracts_call ::
    "(account \<Rightarrow> account \<Rightarrow> u128 \<Rightarrow> u64 \<Rightarrow> u128 option \<Rightarrow> bytes \<Rightarrow> bool \<Rightarrow> 'x) \<Rightarrow>
     account \<Rightarrow> account \<Rightarrow> u128 \<Rightarrow> u64 \<Rightarrow> u128 option \<Rightarrow> bytes \<Rightarrow> 'x" where
  "contracts_call bare_call origin dest val gas_limit storage_deposit_limit input_data =
     bare_call origin dest val gas_limit storage_deposit_limit input_data True"

definition contracts_instantiate ::
    "(account \<Rightarrow> u128 \<Rightarrow> u64 \<Rightarrow> u128 option \<Rightarrow> 'code \<Rightarrow> bytes \<Rightarrow> bytes \<Rightarrow> bool \<Rightarrow> 'x) \<Rightarrow>
     account \<Rightarrow> u128 \<Rightarrow> u64 \<Rightarrow> u128 option \<Rightarrow> 'code \<Rightarrow> bytes \<Rightarrow> bytes \<Rightarrow> 'x" where
  "contracts_instantiate bare_instantiate origin val gas_limit storage_deposit_limit code data salt =
     bare_instantiate origin val gas_limit storage_deposit_limit code data salt True"


section \<open>Lemmas\<close>

lemma horner_bytes:
  "horner_sum unat 256 (map (\<lambda>i. of_nat (n div 256 ^ i) :: u8) [0..<k]) = n mod 256 ^ k"
proof (induction k arbitrary: n)
  case (Suc k)
  have "map (\<lambda>i. of_nat (n div 256 ^ i) :: u8) [0..<Suc k] =
      of_nat n # map (\<lambda>i. of_nat (n div 256 div 256 ^ i)) [0..<k]"
    by (simp only: upt_conv_Cons map_Suc_upt[symmetric]) (simp add: div_mult2_eq o_def)
  then show ?case
    by (simp only: horner_sum_simps Suc) (simp add: unat_of_nat mod_mult2_eq)
qed simp

text \<open>The cell of a contract that an index names is the cell of that number.\<close>

lemma storage_at_index: "storage_at account_storages address index = account_storages address index"
proof -
  have "unat index < 256 ^ 32"
    by (rule order_less_le_trans[OF unsigned_less]) simp
  then show ?thesis
    by (simp add: storage_at_def from_slice_def to_big_endian_def horner_bytes)
qed

text \<open>The transactions of the pool are those that the filter finds in its two queues.\<close>

lemma pool_transactions_filtered:
  "extrinsic_filter ready future = \<lparr>tr_ready = eth_extrinsic_filter ready, tr_future = eth_extrinsic_filter future\<rparr>"
proof -
  have "ethereum_transaction c = (case c of Ethereum_transact t \<Rightarrow> Some t | Other_call _ \<Rightarrow> None)" for c :: "('a, 'b) RuntimeCall"
    by (cases c) simp_all
  then show ?thesis by (simp add: extrinsic_filter_def eth_extrinsic_filter_def)
qed

lemma eth_extrinsic_filter_convert: "eth_extrinsic_filter (map convert_transaction ts) = ts"
  by (induction ts) (simp_all add: eth_extrinsic_filter_def convert_transaction_def map_filter_simps)

text \<open>
  A proof that the interface gives out is one it accepts: reporting an equivocation with it submits
  the proof of the session history itself.
\<close>

lemma key_ownership_roundtrip:
  assumes "\<And>p. decode (encode p) = Some p"
    and "generate_key_ownership_proof encode prove KEY_TYPE set_id authority_id = Some opaque"
  obtains p where "prove (KEY_TYPE, authority_id) = Some p"
    and "submit_report_equivocation_unsigned_extrinsic decode submit e opaque s = submit e p s"
  using assms by (auto simp: generate_key_ownership_proof_def submit_report_equivocation_unsigned_extrinsic_def)

end
