(* ===== verification/Startup_Monad.thy ===== *)
theory Startup_Monad
  imports Prelude
begin

text \<open>
  Starting a node is a sequence of fallible calls with effects. It is written in a state monad
  with errors: an error keeps the state that was reached. A shared object (\<^verbatim>\<open>Arc\<close>, the two ends
  of a channel) is a handle, so that two components that share it have the same number.
\<close>

section \<open>A state monad with errors\<close>

type_synonym handle = nat

datatype start_error = ServiceError string | Panicked panic

type_synonym ('s, 'a) startup = "'s \<Rightarrow> (start_error + 'a) \<times> 's"

named_theorems run_simps \<open>running the commands of the startup monad\<close>

definition s_return :: "'a \<Rightarrow> ('s, 'a) startup" where
  "s_return a = (\<lambda>s. (Inr a, s))"

definition s_throw :: "start_error \<Rightarrow> ('s, 'a) startup" where
  "s_throw e = (\<lambda>s. (Inl e, s))"

definition s_bind :: "('s, 'a) startup \<Rightarrow> ('a \<Rightarrow> ('s, 'b) startup) \<Rightarrow> ('s, 'b) startup" where
  "s_bind m f = (\<lambda>s. case m s of (Inl e, s') \<Rightarrow> (Inl e, s') | (Inr a, s') \<Rightarrow> f a s')"

abbreviation s_then :: "('s, 'a) startup \<Rightarrow> ('s, 'b) startup \<Rightarrow> ('s, 'b) startup" where
  "s_then m n \<equiv> s_bind m (\<lambda>_. n)"

definition s_modify :: "('s \<Rightarrow> 's) \<Rightarrow> ('s, unit) startup" where
  "s_modify f = (\<lambda>s. (Inr (), f s))"

definition s_when :: "bool \<Rightarrow> ('s, unit) startup \<Rightarrow> ('s, unit) startup" where
  "s_when b m = (if b then m else s_return ())"

text \<open>The operator \<^verbatim>\<open>?\<close> on a result of the framework.\<close>

definition s_try :: "string + 'a \<Rightarrow> ('s, 'a) startup" where
  "s_try r = (case r of Inl e \<Rightarrow> s_throw (ServiceError e) | Inr a \<Rightarrow> s_return a)"

definition s_expect :: "string \<Rightarrow> 'a option \<Rightarrow> ('s, 'a) startup" where
  "s_expect msg x = (case x of None \<Rightarrow> s_throw (Panicked (Panic msg)) | Some a \<Rightarrow> s_return a)"

text \<open>A command keeps a property of the state when every run does, a failing one included.\<close>

definition keeps :: "('s \<Rightarrow> bool) \<Rightarrow> ('s, 'a) startup \<Rightarrow> bool" where
  "keeps P m \<longleftrightarrow> (\<forall>s. P s \<longrightarrow> P (snd (m s)))"

named_theorems keeps_intros \<open>commands that keep a property of the state\<close>


section \<open>Rules\<close>

lemma run_monad [run_simps]:
  "s_return a s = (Inr a, s)"
  "s_throw e s = (Inl e, s)"
  "s_modify f s = (Inr (), f s)"
  "s_try (Inr a) s = (Inr a, s)"
  "s_try (Inl x) s = (Inl (ServiceError x), s)"
  "s_expect msg (Some a) s = (Inr a, s)"
  "s_expect msg None s = (Inl (Panicked (Panic msg)), s)"
  "s_when True m s = m s"
  "s_when False m s = (Inr (), s)"
  by (simp_all add: s_return_def s_throw_def s_modify_def s_try_def s_expect_def s_when_def)

lemma run_bind [run_simps]:
  "m s = (Inr a, s') \<Longrightarrow> s_bind m f s = f a s'"
  "m s = (Inl e, s') \<Longrightarrow> s_bind m f s = (Inl e, s')"
  by (simp_all add: s_bind_def)

lemma s_bind_assoc: "s_bind (s_bind m f) g = s_bind m (\<lambda>a. s_bind (f a) g)"
  by (rule ext) (auto simp: s_bind_def split: prod.splits sum.splits)

lemma s_bind_Inr: "s_bind m f s = (Inr b, s'') \<Longrightarrow> \<exists>a s'. m s = (Inr a, s') \<and> f a s' = (Inr b, s'')"
  by (auto simp: s_bind_def split: prod.splits sum.splits)

lemma keeps_bind [keeps_intros]: "keeps P m \<Longrightarrow> (\<And>a. keeps P (f a)) \<Longrightarrow> keeps P (s_bind m f)"
  by (fastforce simp: keeps_def s_bind_def split: prod.splits sum.splits)

lemma keeps_basic [keeps_intros]:
  "keeps P (s_return a)" "keeps P (s_throw e)" "keeps P (s_try r)" "keeps P (s_expect msg x)"
  by (auto simp: keeps_def s_return_def s_throw_def s_try_def s_expect_def split: sum.splits option.splits)

lemma keeps_when [keeps_intros]: "keeps P m \<Longrightarrow> keeps P (s_when b m)"
  by (simp add: s_when_def keeps_basic)

lemma keeps_modify: "(\<And>s. P s \<Longrightarrow> P (f s)) \<Longrightarrow> keeps P (s_modify f)"
  by (simp add: keeps_def s_modify_def)

lemma keeps_cases [keeps_intros]:
  "(\<And>a. keeps P (f a)) \<Longrightarrow> keeps P g \<Longrightarrow> keeps P (case x of None \<Rightarrow> g | Some a \<Rightarrow> f a)"
  "(b \<Longrightarrow> keeps P m) \<Longrightarrow> (\<not> b \<Longrightarrow> keeps P n) \<Longrightarrow> keeps P (if b then m else n)"
  by (auto split: option.splits)

end
