(* ===== verification/Cli_Options.thy ===== *)
theory Cli_Options
  imports Trace_Filter
begin

text \<open>
  The options of the command line (\<^verbatim>\<open>node/cli-opt/src/lib.rs\<close>): the block authoring scheme and the
  names of the Ethereum APIs, read from and shown as text, and the options of the RPC server.
\<close>

datatype Sealing = Instant | Manual | Interval u64

definition u64_from_str_radix :: "string \<Rightarrow> nat \<Rightarrow> string + u64" where
  "u64_from_str_radix s radix =
     (if s = [] then Inl ''Empty''
      else if s = ''+'' \<or> s = ''-'' then Inl ''InvalidDigit''
      else
        (case parse_digits (2 ^ 64) radix 0 (if hd s = CHR ''+'' then tl s else s) of
           Inl e \<Rightarrow> Inl e
         | Inr n \<Rightarrow> Inr (of_nat n)))"

definition Sealing_from_str :: "string \<Rightarrow> string + Sealing" where
  "Sealing_from_str s =
     (if s = ''instant'' then Inr Instant
      else if s = ''manual'' then Inr Manual
      else
        (case u64_from_str_radix s 10 of
           Inl _ \<Rightarrow> Inl (''couldn'' @ apostrophe @ ''t decode sealing param'')
         | Inr millis \<Rightarrow> Inr (Interval millis)))"

datatype EthApi = Txpool | Debug | Trace

definition EthApi_from_str :: "string \<Rightarrow> string + EthApi" where
  "EthApi_from_str s =
     (if s = ''txpool'' then Inr Txpool
      else if s = ''debug'' then Inr Debug
      else if s = ''trace'' then Inr Trace
      else Inl (''`'' @ s @ ''` is not recognized as a supported Ethereum Api''))"

fun EthApi_fmt :: "EthApi \<Rightarrow> string" where
  "EthApi_fmt Txpool = ''txpool''"
| "EthApi_fmt Debug = ''debug''"
| "EthApi_fmt Trace = ''trace''"

record RpcConfig =
  rc_ethapi :: "EthApi list"
  rc_ethapi_max_permits :: u32
  rc_ethapi_trace_max_count :: u32
  rc_ethapi_trace_cache_duration :: u64
  rc_eth_log_block_cache :: u64
  rc_eth_statuses_cache :: u64
  rc_fee_history_limit :: u64
  rc_max_past_logs :: u32
  rc_relay_chain_rpc_url :: "string option"

text \<open>The text of an authoring scheme.\<close>

fun sealing_text :: "Sealing \<Rightarrow> string" where
  "sealing_text Instant = ''instant''"
| "sealing_text Manual = ''manual''"
| "sealing_text (Interval millis) = decimal (unat millis)"

text \<open>
  Options survive the round trip through text: the shown name of an API is read back as that
  API, no other text is read as one, and an authoring scheme is read back from its text, for
  every 64-bit interval.
\<close>

lemma options_roundtrip:
  "EthApi_from_str (EthApi_fmt a) = Inr a \<and> (EthApi_from_str s = Inr a \<longleftrightarrow> s = EthApi_fmt a) \<and>
   Sealing_from_str (sealing_text x) = Inr x"
proof (intro conjI)
  show "EthApi_from_str (EthApi_fmt a) = Inr a" and "EthApi_from_str s = Inr a \<longleftrightarrow> s = EthApi_fmt a"
    by (cases a; auto simp: EthApi_from_str_def)+
  show "Sealing_from_str (sealing_text x) = Inr x"
  proof (cases x)
    case (Interval millis)
    have dec: "parse_digits (2 ^ 64) 10 0 (decimal (unat millis)) = Inr (unat millis)"
      using unsigned_less[of millis] by (intro parse_decimal) simp
    note digits = parse_ok_digits[OF dec]
    have no_n: "CHR ''n'' \<notin> set (decimal (unat millis))"
      using digits[of "CHR ''n''"] by (auto simp: digit_value_def)
    then have "decimal (unat millis) \<noteq> ''instant''" and "decimal (unat millis) \<noteq> ''manual''" by auto
    moreover have "u64_from_str_radix (decimal (unat millis)) 10 = Inr millis"
      using parse_ok_no_sign[OF dec] dec decimal_not_Nil[of "unat millis"]
      by (cases "decimal (unat millis)") (auto simp: u64_from_str_radix_def)
    ultimately show ?thesis using Interval by (simp add: Sealing_from_str_def)
  qed (simp_all add: Sealing_from_str_def)
qed

end
