(* ===== verification/Node_Rpc.thy ===== *)
theory Node_Rpc
  imports Startup_Monad Cli_Options
begin

text \<open>
  The RPC extensions and the essential tasks of a node (\<^verbatim>\<open>node/rpc/src/lib.rs\<close>, \<^verbatim>\<open>node/rpc/src/tracing.rs\<close>).

  The state of a node that starts holds the tasks that were spawned, the objects that were
  allocated, the modules of the RPC server and whether the network runs. A task and a module
  carry the arguments that decide what they do; the client, the transaction pool, the graph
  and the backends exist once per node and are left out.
\<close>

section \<open>Storage overrides\<close>

text \<open>The storage schemas that have an override, in the order of the framework.\<close>

datatype EthereumStorageSchema = SchemaV1 | SchemaV2 | SchemaV3

datatype storage_override = SchemaV1Override | SchemaV2Override | SchemaV3Override | RuntimeApiStorageOverride

fun schema_version :: "EthereumStorageSchema \<Rightarrow> nat" where
  "schema_version SchemaV1 = 1"
| "schema_version SchemaV2 = 2"
| "schema_version SchemaV3 = 3"

instantiation EthereumStorageSchema :: linorder
begin

definition less_eq_EthereumStorageSchema :: "EthereumStorageSchema \<Rightarrow> EthereumStorageSchema \<Rightarrow> bool" where
  "less_eq_EthereumStorageSchema a b \<longleftrightarrow> schema_version a \<le> schema_version b"

definition less_EthereumStorageSchema :: "EthereumStorageSchema \<Rightarrow> EthereumStorageSchema \<Rightarrow> bool" where
  "less_EthereumStorageSchema a b \<longleftrightarrow> schema_version a < schema_version b"

instance
proof
  fix a b c :: EthereumStorageSchema
  show "a \<le> b \<Longrightarrow> b \<le> a \<Longrightarrow> a = b"
    by (cases a; cases b) (simp_all add: less_eq_EthereumStorageSchema_def)
qed (auto simp: less_eq_EthereumStorageSchema_def less_EthereumStorageSchema_def)

end

record OverrideHandle =
  oh_schemas :: "(EthereumStorageSchema, storage_override) btree"
  oh_fallback :: storage_override

definition overrides_handle :: OverrideHandle where
  "overrides_handle =
     (let overrides_map = [];
          overrides_map = bt_insert SchemaV1 SchemaV1Override overrides_map;
          overrides_map = bt_insert SchemaV2 SchemaV2Override overrides_map;
          overrides_map = bt_insert SchemaV3 SchemaV3Override overrides_map
      in \<lparr>oh_schemas = overrides_map, oh_fallback = RuntimeApiStorageOverride\<rparr>)"


section \<open>Tasks, modules and the state of a node\<close>

datatype semaphore = Semaphore (sem_handle: handle) (sem_permits: nat)

record GrandpaConfig =
  gr_gossip_duration :: u64
  gr_justification_period :: u32
  gr_name :: "string option"
  gr_observer_enabled :: bool
  gr_keystore :: bool
  gr_is_authority :: bool
  gr_protocol_name :: string

text \<open>What a task runs; \<open>'w\<close> is a worker that makes blocks.\<close>

datatype 'w task_body =
    Telemetry_worker
  | Mapping_sync_worker u64 nat nat
  | Filter_pool_task handle u64
  | Ethereum_schema_cache_task
  | Fee_history_task OverrideHandle handle u64
  | Trace_cache_task handle u64 semaphore OverrideHandle
  | Debug_task handle semaphore OverrideHandle
  | Aura_proposer 'w
  | Authority_discovery_worker bool
  | Grandpa_voter GrandpaConfig handle

record 'w task =
  tk_name :: string
  tk_group :: "string option"
  tk_essential :: bool
  tk_blocking :: bool
  tk_body :: "'w task_body"

datatype eth_signer = EthDevSigner

text \<open>What is registered with the RPC server, with the objects that it reads.\<close>

datatype rpc_module =
    SystemApi bool
  | ContractsApi
  | TransactionPaymentApi
  | GrandpaApi handle
  | DevApi bool
  | EthApiServer "eth_signer list" OverrideHandle bool handle handle u64
  | EthFilterApi handle nat u32 handle
  | NetApi bool
  | Web3Api
  | EthPubSubApi OverrideHandle
  | TxPoolServer
  | ManualSealApi handle
  | TraceServer handle u32
  | DebugServer handle

text \<open>
  The state: \<open>'v\<close> is what checks the blocks that the network receives. The modules of the RPC
  server depend on whether unsafe calls are denied.
\<close>

record ('w, 'v) node_state =
  ns_next :: handle
  ns_tasks :: "'w task list"
  ns_peer_sets :: "string list"
  ns_network :: "'v option"
  ns_offchain_workers :: bool
  ns_rpc :: "(bool \<Rightarrow> rpc_module list) option"
  ns_started :: bool

definition alloc :: "(('w, 'v) node_state, handle) startup" where
  "alloc = (\<lambda>s. (Inr (ns_next s), s\<lparr>ns_next := Suc (ns_next s)\<rparr>))"

definition spawn :: "'w task \<Rightarrow> (('w, 'v) node_state, unit) startup" where
  "spawn t = s_modify (\<lambda>s. s\<lparr>ns_tasks := ns_tasks s @ [t]\<rparr>)"

definition essential :: "string \<Rightarrow> string option \<Rightarrow> 'w task_body \<Rightarrow> 'w task" where
  "essential name grp body =
     \<lparr>tk_name = name, tk_group = grp, tk_essential = True, tk_blocking = False, tk_body = body\<rparr>"


section \<open>The modules of a full node\<close>

record FullDeps =
  fd_deny_unsafe :: bool
  fd_shared_voter_state :: handle
  fd_is_authority :: bool
  fd_enable_dev_signer :: bool
  fd_filter_pool :: "handle option"
  fd_ethapi_cmd :: "EthApi list"
  fd_max_past_logs :: u32
  fd_fee_history_cache :: handle
  fd_fee_history_cache_limit :: u64
  fd_overrides :: OverrideHandle
  fd_block_data_cache :: handle
  fd_command_sink :: "handle option"

definition create_full :: "FullDeps \<Rightarrow> rpc_module list" where
  "create_full deps =
     (let io = [];
          io = io @ [SystemApi (fd_deny_unsafe deps)];
          io = io @ [ContractsApi];
          io = io @ [TransactionPaymentApi];
          io = io @ [GrandpaApi (fd_shared_voter_state deps)];
          io = io @ [DevApi (fd_deny_unsafe deps)];
          signers = (if fd_enable_dev_signer deps then [EthDevSigner] else []);
          io = io @ [EthApiServer signers (fd_overrides deps) (fd_is_authority deps) (fd_block_data_cache deps)
                       (fd_fee_history_cache deps) (fd_fee_history_cache_limit deps)];
          io = (case fd_filter_pool deps of
                  None \<Rightarrow> io
                | Some filter_pool \<Rightarrow>
                    io @ [EthFilterApi filter_pool 500 (fd_max_past_logs deps) (fd_block_data_cache deps)]);
          io = io @ [NetApi True];
          io = io @ [Web3Api];
          io = io @ [EthPubSubApi (fd_overrides deps)];
          io = (if Txpool \<in> set (fd_ethapi_cmd deps) then io @ [TxPoolServer] else io)
      in case fd_command_sink deps of
           None \<Rightarrow> io
         | Some command_sink \<Rightarrow> io @ [ManualSealApi command_sink])"


section \<open>Essential tasks\<close>

record SpawnTasksParams =
  sp_filter_pool :: "handle option"
  sp_overrides :: OverrideHandle
  sp_fee_history_limit :: u64
  sp_fee_history_cache :: handle

definition FILTER_RETAIN_THRESHOLD :: u64 where
  "FILTER_RETAIN_THRESHOLD = 100"

definition spawn_essential_tasks :: "SpawnTasksParams \<Rightarrow> (('w, 'v) node_state, unit) startup" where
  "spawn_essential_tasks params =
     s_then (spawn (essential ''frontier-mapping-sync-worker'' (Some ''frontier'') (Mapping_sync_worker 6 3 0)))
     (s_then
        (case sp_filter_pool params of
           None \<Rightarrow> s_return ()
         | Some filter_pool \<Rightarrow>
             spawn (essential ''frontier-filter-pool'' (Some ''frontier'')
                      (Filter_pool_task filter_pool FILTER_RETAIN_THRESHOLD)))
     (s_then (spawn (essential ''frontier-schema-cache-task'' (Some ''frontier'') Ethereum_schema_cache_task))
     (spawn (essential ''frontier-fee-history'' (Some ''frontier'')
        (Fee_history_task (sp_overrides params) (sp_fee_history_cache params) (sp_fee_history_limit params))))))"


section \<open>Tracing\<close>

text \<open>A requester is the sending end of the channel of its task.\<close>

record RpcRequesters =
  rq_debug :: "handle option"
  rq_trace :: "handle option"

definition extend_with_tracing :: "RpcRequesters \<Rightarrow> u32 \<Rightarrow> rpc_module list \<Rightarrow> rpc_module list" where
  "extend_with_tracing requesters trace_filter_max_count io =
     (let io = (case rq_trace requesters of
                  None \<Rightarrow> io
                | Some trace_filter_requester \<Rightarrow> io @ [TraceServer trace_filter_requester trace_filter_max_count])
      in case rq_debug requesters of
           None \<Rightarrow> io
         | Some debug_requester \<Rightarrow> io @ [DebugServer debug_requester])"

text \<open>Creating a task makes its channel; the task and its requester are returned.\<close>

definition spawn_tracing_tasks :: "RpcConfig \<Rightarrow> SpawnTasksParams \<Rightarrow> (('w, 'v) node_state, RpcRequesters) startup" where
  "spawn_tracing_tasks rpc_config params =
     s_bind alloc (\<lambda>sem. let permit_pool = Semaphore sem (unat (rc_ethapi_max_permits rpc_config)) in
     s_bind (if Trace \<in> set (rc_ethapi rpc_config)
             then s_bind alloc (\<lambda>ch. s_return (Some
                    (Trace_cache_task ch (rc_ethapi_trace_cache_duration rpc_config) permit_pool (sp_overrides params)), Some ch))
             else s_return (None, None)) (\<lambda>(trace_filter_task, trace_filter_requester).
     s_bind (if Debug \<in> set (rc_ethapi rpc_config)
             then s_bind alloc (\<lambda>ch. s_return (Some (Debug_task ch permit_pool (sp_overrides params)), Some ch))
             else s_return (None, None)) (\<lambda>(debug_task, debug_requester).
     s_then (case trace_filter_task of
               None \<Rightarrow> s_return ()
             | Some body \<Rightarrow> spawn (essential ''trace-filter-cache'' (Some ''frontier-tracing'') body))
     (s_then (case debug_task of
               None \<Rightarrow> s_return ()
             | Some body \<Rightarrow> spawn (essential ''ethapi-debug'' (Some ''frontier-tracing'') body))
     (s_return \<lparr>rq_debug = debug_requester, rq_trace = trace_filter_requester\<rparr>)))))"

end
