(* ===== verification/Aura_Start.thy ===== *)
theory Aura_Start
  imports Aura
begin

text \<open>
  Starting Aura: the worker that makes blocks (\<^verbatim>\<open>aura/src/lib.rs\<close>) and the queue that checks the
  blocks of others (\<^verbatim>\<open>aura/src/import_queue.rs\<close>), built from the parameters of a node. The proposer
  factory and the keystore are the functions that the worker calls; the chain selection, the
  synchronisation oracle and the telemetry are only passed on to the framework.
\<close>

record ('d, 'a, 'x, 'r, 'p, 'n, 'u, 'q, 'i) StartAuraParams =
  sa_slot_duration :: u64
  sa_client :: "('d, 'a, 'x, 'r, 'p, 'n, 'u, 'q) aura_client"
  sa_proposer_factory :: "'d block_header \<Rightarrow> string + 'i"
  sa_force_authoring :: bool
  sa_backoff_authoring_blocks :: "(block_no \<Rightarrow> slot \<Rightarrow> block_no \<Rightarrow> slot \<Rightarrow> string \<Rightarrow> bool) option"
  sa_has_keys :: "(bytes \<times> string) list \<Rightarrow> bool"
  sa_sign_with :: "string \<Rightarrow> 'a \<Rightarrow> h256 \<Rightarrow> string + bytes option"
  sa_compatibility_mode :: CompatibilityMode

definition build_aura_worker ::
    "('d, 'a, 'x, 'r, 'p, 'n, 'u, 'q, 'i) StartAuraParams \<Rightarrow> ('d, 'a, 'x, 'r, 'p, 'n, 'u, 'q, 'i) aura_worker" where
  "build_aura_worker p =
     \<lparr>aw_client = sa_client p, aw_has_keys = sa_has_keys p, aw_sign_with = sa_sign_with p,
      aw_force_authoring = sa_force_authoring p, aw_backoff = sa_backoff_authoring_blocks p,
      aw_compatibility_mode = sa_compatibility_mode p, aw_env_init = sa_proposer_factory p\<rparr>"

text \<open>The future is the loop of the framework over the slots, given their duration and the worker.\<close>

definition start_aura ::
    "('d, 'a, 'x, 'r, 'p, 'n, 'u, 'q, 'i) StartAuraParams \<Rightarrow>
       string + u64 \<times> ('d, 'a, 'x, 'r, 'p, 'n, 'u, 'q, 'i) aura_worker" where
  "start_aura p = (let worker = build_aura_worker p in Inr (sa_slot_duration p, worker))"

record ('d, 'a, 'x, 'r, 'p, 'n, 'u, 'q) ImportQueueParams =
  iq_client :: "('d, 'a, 'x, 'r, 'p, 'n, 'u, 'q) aura_client"
  iq_check_for_equivocation :: CheckForEquivocation
  iq_compatibility_mode :: CompatibilityMode

text \<open>The queue is that of the framework, with this verifier.\<close>

definition import_queue ::
    "('d, 'a, 'x, 'r, 'p, 'n, 'u, 'q) ImportQueueParams \<Rightarrow> string + ('d, 'a, 'x, 'r, 'p, 'n, 'u, 'q) aura_verifier" where
  "import_queue p =
     (let verifier = build_verifier (iq_client p) (iq_check_for_equivocation p) (iq_compatibility_mode p)
      in Inr verifier)"

end
