(* ===== verification/Node_Service.thy ===== *)
theory Node_Service
  imports Node_Rpc Aura_Start
begin

text \<open>
  The service of a node (\<^verbatim>\<open>node/cli/src/service.rs\<close>) and the commands (\<^verbatim>\<open>command.rs\<close>, \<^verbatim>\<open>cli.rs\<close>).

  What the service asks of the framework is the record \<open>node_env\<close>: a call that can fail is its
  result. Building the network hands over the import queue; spawning the tasks of the framework
  hands over the function that builds the modules of the RPC server. The feature of the test
  network is an argument; the block import is that of the framework with either setting of the
  feature for Frontier.
\<close>

section \<open>Configuration\<close>

type_synonym path = "string list"

datatype DatabaseSource =
    RocksDb path nat
  | ParityDb path
  | Auto path path nat
  | Custom

datatype Role = Full | Authority

record Configuration =
  cf_chain_spec_id :: string
  cf_base_path :: "path option"
  cf_database :: DatabaseSource
  cf_telemetry_endpoints :: "string list option"
  cf_role :: Role
  cf_force_authoring :: bool
  cf_disable_grandpa :: bool
  cf_offchain_worker_enabled :: bool
  cf_node_name :: string
  cf_allow_non_globals_in_dht :: bool

record RunCmd =
  rn_enable_dev_signer :: bool
  rn_target_gas_price :: u64
  rn_ethapi :: "EthApi list"
  rn_ethapi_max_permits :: u32
  rn_ethapi_trace_max_count :: u32
  rn_ethapi_trace_cache_duration :: u64
  rn_eth_log_block_cache :: u64
  rn_eth_statuses_cache :: u64
  rn_max_past_logs :: u32
  rn_fee_history_limit :: u64

datatype Subcommand =
    Key | Benchmark | Verify | Vanity | Sign | BuildSpec | CheckBlock | ExportBlocks
  | ExportState | ImportBlocks | PurgeChain | Revert

record Cli =
  cli_subcommand :: "Subcommand option"
  cli_run :: RunCmd

text \<open>The values of the options that are not given.\<close>

definition RunCmd_default :: RunCmd where
  "RunCmd_default =
     \<lparr>rn_enable_dev_signer = False, rn_target_gas_price = 1, rn_ethapi = [], rn_ethapi_max_permits = 10,
      rn_ethapi_trace_max_count = 500, rn_ethapi_trace_cache_duration = 300,
      rn_eth_log_block_cache = 300000000, rn_eth_statuses_cache = 300000000,
      rn_max_past_logs = 10000, rn_fee_history_limit = 2048\<rparr>"

text \<open>The providers of inherent data: the time, its slot and the gas price.\<close>

type_synonym providers = "u64 \<times> slot \<times> u256"

record ('d, 'a, 'x, 'r, 'n, 'u, 'q, 'i) node_env =
  fw_create_runner :: "string + Configuration"
  fw_command :: "Subcommand \<Rightarrow> string + unit"
  fw_from_project :: "string \<Rightarrow> string \<Rightarrow> string \<Rightarrow> path"
  fw_config_dir :: "path \<Rightarrow> string \<Rightarrow> path"
  fw_frontier_backend :: "DatabaseSource \<Rightarrow> string + unit"
  fw_telemetry_worker :: "nat \<Rightarrow> string + unit"
  fw_full_parts :: "string + ('d, 'a, 'x, 'r, providers, 'n, 'u, 'q) aura_client"
  fw_grandpa_block_import :: "string + unit"
  fw_genesis_hash :: "h256 option"
  fw_protocol_name :: "h256 \<Rightarrow> string \<Rightarrow> string"
  fw_build_network :: "string + unit"
  fw_spawn_tasks :: "string + unit"
  fw_grandpa_voter :: "string + unit"
  fw_clock :: "h256 \<Rightarrow> u64"
  fw_slot_from_timestamp :: "u64 \<Rightarrow> u64 \<Rightarrow> slot"
  fw_proposer_factory :: "'d block_header \<Rightarrow> string + 'i"
  fw_has_keys :: "(bytes \<times> string) list \<Rightarrow> bool"
  fw_sign_with :: "string \<Rightarrow> 'a \<Rightarrow> h256 \<Rightarrow> string + bytes option"


section \<open>The database of Frontier\<close>

definition frontier_database_dir ::
    "('d, 'a, 'x, 'r, 'n, 'u, 'q, 'i) node_env \<Rightarrow> Configuration \<Rightarrow> string \<Rightarrow> path" where
  "frontier_database_dir env config p =
     (let config_dir = (case cf_base_path config of
                          Some base_path \<Rightarrow> fw_config_dir env base_path (cf_chain_spec_id config)
                        | None \<Rightarrow> fw_config_dir env (fw_from_project env '''' '''' ''moonbeam'') (cf_chain_spec_id config))
      in config_dir @ [''frontier''] @ [p])"

definition open_frontier_backend ::
    "('d, 'a, 'x, 'r, 'n, 'u, 'q, 'i) node_env \<Rightarrow> Configuration \<Rightarrow> string + unit" where
  "open_frontier_backend env config =
     (case cf_database config of
        RocksDb _ _ \<Rightarrow> fw_frontier_backend env (RocksDb (frontier_database_dir env config ''db'') 0)
      | ParityDb _ \<Rightarrow> fw_frontier_backend env (ParityDb (frontier_database_dir env config ''paritydb''))
      | Auto _ _ _ \<Rightarrow>
          fw_frontier_backend env
            (Auto (frontier_database_dir env config ''db'') (frontier_database_dir env config ''paritydb'') 0)
      | Custom \<Rightarrow> Inl ''Supported db sources: `rocksdb` | `paritydb` | `auto`'')"


section \<open>Partial components\<close>

definition compatibility_mode :: "bool \<Rightarrow> CompatibilityMode" where
  "compatibility_mode beresheet = UseInitializeBlock (if beresheet then 8888 else 14555555)"

text \<open>The closure that creates the providers of inherent data.\<close>

definition with_providers ::
    "('d, 'a, 'x, 'r, 'n, 'u, 'q, 'i) node_env \<Rightarrow> u64 \<Rightarrow> u256 \<Rightarrow>
     ('d, 'a, 'x, 'r, providers, 'n, 'u, 'q) aura_client \<Rightarrow> ('d, 'a, 'x, 'r, providers, 'n, 'u, 'q) aura_client" where
  "with_providers env duration target_gas_price client =
     client\<lparr>create_providers := (\<lambda>parent.
              let timestamp = fw_clock env parent;
                  s = fw_slot_from_timestamp env timestamp duration
              in Inr (timestamp, s, target_gas_price))\<rparr>"

record ('d, 'a, 'x, 'r, 'n, 'u, 'q) PartialComponents =
  pc_client :: "('d, 'a, 'x, 'r, providers, 'n, 'u, 'q) aura_client"
  pc_import_queue :: "('d, 'a, 'x, 'r, providers, 'n, 'u, 'q) aura_verifier"
  pc_filter_pool :: "handle option"
  pc_telemetry :: bool
  pc_fee_history_cache :: handle

type_synonym ('d, 'a, 'x, 'r, 'n, 'u, 'q, 'i) service_state =
  "(u64 \<times> ('d, 'a, 'x, 'r, providers, 'n, 'u, 'q, 'i) aura_worker,
    ('d, 'a, 'x, 'r, providers, 'n, 'u, 'q) aura_verifier) node_state"

definition new_partial ::
    "bool \<Rightarrow> ('d, 'a, 'x, 'r, 'n, 'u, 'q, 'i) node_env \<Rightarrow> Configuration \<Rightarrow> Cli \<Rightarrow>
     (('d, 'a, 'x, 'r, 'n, 'u, 'q, 'i) service_state, ('d, 'a, 'x, 'r, 'n, 'u, 'q) PartialComponents) startup" where
  "new_partial beresheet env config cli =
     s_bind (case cf_telemetry_endpoints config of
               None \<Rightarrow> s_return False
             | Some endpoints \<Rightarrow>
                 if endpoints = [] then s_return False
                 else s_then (s_try (fw_telemetry_worker env 16)) (s_return True)) (\<lambda>telemetry.
     s_bind (s_try (fw_full_parts env)) (\<lambda>client.
     s_then (s_when telemetry
       (spawn \<lparr>tk_name = ''telemetry'', tk_group = None, tk_essential = False, tk_blocking = False,
               tk_body = Telemetry_worker\<rparr>))
     (s_bind alloc (\<lambda>filter_pool.
     s_bind alloc (\<lambda>fee_history_cache.
     s_then (s_try (open_frontier_backend env config))
     (s_then (s_try (fw_grandpa_block_import env))
     (s_bind (s_try (slot_duration client)) (\<lambda>duration.
     let target_gas_price = ucast (rn_target_gas_price (cli_run cli)) in
     s_bind (s_try (import_queue
       \<lparr>iq_client = with_providers env duration target_gas_price client,
        iq_check_for_equivocation = CheckForEquivocation_default,
        iq_compatibility_mode = compatibility_mode beresheet\<rparr>)) (\<lambda>queue.
     s_return
       \<lparr>pc_client = client, pc_import_queue = queue, pc_filter_pool = Some filter_pool,
        pc_telemetry = telemetry, pc_fee_history_cache = fee_history_cache\<rparr>)))))))))"


section \<open>The full service\<close>

definition ethapi_commands :: "EthApi list \<Rightarrow> EthApi list" where
  "ethapi_commands ethapi =
     concat (map (\<lambda>v. case EthApi_from_str (EthApi_fmt v) of Inl _ \<Rightarrow> [] | Inr a \<Rightarrow> [a]) ethapi)"

definition tracing_enabled :: "EthApi list \<Rightarrow> bool" where
  "tracing_enabled ethapi_cmd \<longleftrightarrow> Debug \<in> set ethapi_cmd \<or> Trace \<in> set ethapi_cmd"

text \<open>The network is built with the import queue, after its extra peer set was configured.\<close>

definition build_network ::
    "('d, 'a, 'x, 'r, 'n, 'u, 'q, 'i) node_env \<Rightarrow> Configuration \<Rightarrow> ('d, 'a, 'x, 'r, 'n, 'u, 'q) PartialComponents \<Rightarrow>
     (('d, 'a, 'x, 'r, 'n, 'u, 'q, 'i) service_state, string) startup" where
  "build_network env config pc =
     s_bind (s_expect ''Genesis block exists; qed'' (fw_genesis_hash env)) (\<lambda>genesis.
     let grandpa_protocol_name = fw_protocol_name env genesis (cf_chain_spec_id config) in
     s_then (s_modify (\<lambda>s. s\<lparr>ns_peer_sets := ns_peer_sets s @ [grandpa_protocol_name]\<rparr>))
     (s_then (s_try (fw_build_network env))
     (s_then (s_modify (\<lambda>s. s\<lparr>ns_network := Some (pc_import_queue pc)\<rparr>))
     (s_then (s_when (cf_offchain_worker_enabled config) (s_modify (\<lambda>s. s\<lparr>ns_offchain_workers := True\<rparr>)))
     (s_return grandpa_protocol_name)))))"

text \<open>The modules of the RPC server, built for a connection.\<close>

definition rpc_extensions_builder ::
    "Configuration \<Rightarrow> Cli \<Rightarrow> RpcConfig \<Rightarrow> RpcRequesters \<Rightarrow> handle option \<Rightarrow> handle \<Rightarrow> handle \<Rightarrow> handle \<Rightarrow> bool \<Rightarrow>
     rpc_module list" where
  "rpc_extensions_builder config cli rpc_config tracing_requesters filter_pool fee_history_cache voter_state
       block_data_cache deny_unsafe =
     (let ethapi_cmd = ethapi_commands (rn_ethapi (cli_run cli));
          deps = \<lparr>fd_deny_unsafe = deny_unsafe, fd_shared_voter_state = voter_state,
                  fd_is_authority = (cf_role config = Authority),
                  fd_enable_dev_signer = rn_enable_dev_signer (cli_run cli),
                  fd_filter_pool = filter_pool, fd_ethapi_cmd = ethapi_cmd,
                  fd_max_past_logs = rc_max_past_logs rpc_config,
                  fd_fee_history_cache = fee_history_cache,
                  fd_fee_history_cache_limit = rn_fee_history_limit (cli_run cli),
                  fd_overrides = overrides_handle, fd_block_data_cache = block_data_cache,
                  fd_command_sink = None\<rparr>;
          io = create_full deps
      in if tracing_enabled ethapi_cmd
         then extend_with_tracing tracing_requesters (rc_ethapi_trace_max_count rpc_config) io
         else io)"

text \<open>The tasks of Frontier and of tracing, and the RPC server; the state of the voter is returned.\<close>

definition start_rpc ::
    "('d, 'a, 'x, 'r, 'n, 'u, 'q, 'i) node_env \<Rightarrow> Configuration \<Rightarrow> Cli \<Rightarrow> RpcConfig \<Rightarrow>
     ('d, 'a, 'x, 'r, 'n, 'u, 'q) PartialComponents \<Rightarrow>
     (('d, 'a, 'x, 'r, 'n, 'u, 'q, 'i) service_state, handle) startup" where
  "start_rpc env config cli rpc_config pc =
     s_bind alloc (\<lambda>fee_history_cache.
     let params = \<lparr>sp_filter_pool = pc_filter_pool pc, sp_overrides = overrides_handle,
                   sp_fee_history_limit = rn_fee_history_limit (cli_run cli),
                   sp_fee_history_cache = fee_history_cache\<rparr> in
     s_then (spawn_essential_tasks params)
     (s_bind alloc (\<lambda>shared_voter_state.
     s_bind alloc (\<lambda>block_data_cache.
     s_bind (if tracing_enabled (ethapi_commands (rn_ethapi (cli_run cli)))
             then spawn_tracing_tasks rpc_config params
             else s_return \<lparr>rq_debug = None, rq_trace = None\<rparr>) (\<lambda>tracing_requesters.
     s_then (s_try (fw_spawn_tasks env))
     (s_then (s_modify (\<lambda>s. s\<lparr>ns_rpc := Some (rpc_extensions_builder config cli rpc_config tracing_requesters
                (pc_filter_pool pc) fee_history_cache shared_voter_state block_data_cache)\<rparr>))
     (s_return shared_voter_state)))))))"

text \<open>An authority makes blocks.\<close>

definition start_authoring ::
    "bool \<Rightarrow> ('d, 'a, 'x, 'r, 'n, 'u, 'q, 'i) node_env \<Rightarrow> Configuration \<Rightarrow> Cli \<Rightarrow>
     ('d, 'a, 'x, 'r, 'n, 'u, 'q) PartialComponents \<Rightarrow>
     (('d, 'a, 'x, 'r, 'n, 'u, 'q, 'i) service_state, unit) startup" where
  "start_authoring beresheet env config cli pc =
     s_when (cf_role config = Authority)
      (s_bind (s_try (slot_duration (pc_client pc))) (\<lambda>duration.
       let target_gas_price = ucast (rn_target_gas_price (cli_run cli)) in
       s_bind (s_try (start_aura
         \<lparr>sa_slot_duration = duration,
          sa_client = with_providers env duration target_gas_price (pc_client pc),
          sa_proposer_factory = fw_proposer_factory env,
          sa_force_authoring = cf_force_authoring config,
          sa_backoff_authoring_blocks = None,
          sa_has_keys = fw_has_keys env, sa_sign_with = fw_sign_with env,
          sa_compatibility_mode = compatibility_mode beresheet\<rparr>)) (\<lambda>aura.
       spawn \<lparr>tk_name = ''aura-proposer'', tk_group = None, tk_essential = True, tk_blocking = True,
              tk_body = Aura_proposer aura\<rparr>)))"

definition start_discovery ::
    "Configuration \<Rightarrow> (('d, 'a, 'x, 'r, 'n, 'u, 'q, 'i) service_state, unit) startup" where
  "start_discovery config =
     s_when (cf_role config = Authority)
       (spawn \<lparr>tk_name = ''authority-discovery-worker'', tk_group = Some ''networking'', tk_essential = False,
               tk_blocking = False, tk_body = Authority_discovery_worker (cf_allow_non_globals_in_dht config)\<rparr>)"

definition start_grandpa ::
    "('d, 'a, 'x, 'r, 'n, 'u, 'q, 'i) node_env \<Rightarrow> Configuration \<Rightarrow> string \<Rightarrow> handle \<Rightarrow>
     (('d, 'a, 'x, 'r, 'n, 'u, 'q, 'i) service_state, unit) startup" where
  "start_grandpa env config grandpa_protocol_name shared_voter_state =
     (let keystore = (cf_role config = Authority);
          gr_config = \<lparr>gr_gossip_duration = 333, gr_justification_period = 512, gr_name = Some (cf_node_name config),
                       gr_observer_enabled = False, gr_keystore = keystore, gr_is_authority = (cf_role config = Authority),
                       gr_protocol_name = grandpa_protocol_name\<rparr>
      in s_when (\<not> cf_disable_grandpa config)
           (s_then (s_try (fw_grandpa_voter env))
             (spawn \<lparr>tk_name = ''grandpa-voter'', tk_group = None, tk_essential = True, tk_blocking = True,
                     tk_body = Grandpa_voter gr_config shared_voter_state\<rparr>)))"

definition start_network :: "(('w, 'v) node_state, unit) startup" where
  "start_network = s_modify (\<lambda>s. s\<lparr>ns_started := True\<rparr>)"

definition new_full_base ::
    "bool \<Rightarrow> ('d, 'a, 'x, 'r, 'n, 'u, 'q, 'i) node_env \<Rightarrow> Configuration \<Rightarrow> Cli \<Rightarrow> RpcConfig \<Rightarrow>
     (('d, 'a, 'x, 'r, 'n, 'u, 'q, 'i) service_state, unit) startup" where
  "new_full_base beresheet env config cli rpc_config =
     s_bind (new_partial beresheet env config cli) (\<lambda>pc.
     s_bind (build_network env config pc) (\<lambda>grandpa_protocol_name.
     s_bind (start_rpc env config cli rpc_config pc) (\<lambda>shared_voter_state.
     s_then (start_authoring beresheet env config cli pc)
     (s_then (start_discovery config)
     (s_then (start_grandpa env config grandpa_protocol_name shared_voter_state)
     start_network)))))"


section \<open>Commands\<close>

definition cli_rpc_config :: "RunCmd \<Rightarrow> RpcConfig" where
  "cli_rpc_config r =
     \<lparr>rc_ethapi = rn_ethapi r, rc_ethapi_max_permits = rn_ethapi_max_permits r,
      rc_ethapi_trace_max_count = rn_ethapi_trace_max_count r,
      rc_ethapi_trace_cache_duration = rn_ethapi_trace_cache_duration r,
      rc_eth_log_block_cache = rn_eth_log_block_cache r, rc_eth_statuses_cache = rn_eth_statuses_cache r,
      rc_fee_history_limit = rn_fee_history_limit r, rc_max_past_logs = rn_max_past_logs r,
      rc_relay_chain_rpc_url = None\<rparr>"

text \<open>A command of the framework on the partial components of a node.\<close>

definition on_partial ::
    "bool \<Rightarrow> ('d, 'a, 'x, 'r, 'n, 'u, 'q, 'i) node_env \<Rightarrow> Cli \<Rightarrow> Subcommand \<Rightarrow>
     (('d, 'a, 'x, 'r, 'n, 'u, 'q, 'i) service_state, unit) startup" where
  "on_partial beresheet env cli cmd =
     s_bind (s_try (fw_create_runner env)) (\<lambda>config.
     s_then (new_partial beresheet env config cli)
     (s_try (fw_command env cmd)))"

definition run_cli ::
    "bool \<Rightarrow> ('d, 'a, 'x, 'r, 'n, 'u, 'q, 'i) node_env \<Rightarrow> Cli \<Rightarrow>
     (('d, 'a, 'x, 'r, 'n, 'u, 'q, 'i) service_state, unit) startup" where
  "run_cli beresheet env cli =
     (case cli_subcommand cli of
        Some Benchmark \<Rightarrow>
          s_try (Inl (''Benchmarking wasn'' @ apostrophe @ ''t enabled when building the node. '' @
                      ''You can enable it with `--features runtime-benchmarks`.''))
      | Some Key \<Rightarrow> s_try (fw_command env Key)
      | Some Sign \<Rightarrow> s_try (fw_command env Sign)
      | Some Verify \<Rightarrow> s_try (fw_command env Verify)
      | Some Vanity \<Rightarrow> s_try (fw_command env Vanity)
      | Some BuildSpec \<Rightarrow> s_bind (s_try (fw_create_runner env)) (\<lambda>config. s_try (fw_command env BuildSpec))
      | Some CheckBlock \<Rightarrow> on_partial beresheet env cli CheckBlock
      | Some ExportBlocks \<Rightarrow> on_partial beresheet env cli ExportBlocks
      | Some ExportState \<Rightarrow> on_partial beresheet env cli ExportState
      | Some ImportBlocks \<Rightarrow> on_partial beresheet env cli ImportBlocks
      | Some PurgeChain \<Rightarrow> s_bind (s_try (fw_create_runner env)) (\<lambda>config. s_try (fw_command env PurgeChain))
      | Some Revert \<Rightarrow> on_partial beresheet env cli Revert
      | None \<Rightarrow>
          s_bind (s_try (fw_create_runner env)) (\<lambda>config.
          let rpc_config = cli_rpc_config (cli_run cli) in
          new_full_base beresheet env config cli rpc_config))"

end
