(* ===== verification/Service_Startup.thy ===== *)
theory Service_Startup
  imports Node_Service
begin

text \<open>
  What starting a node gives: which modules the RPC server has and which tasks serve them, when
  the network starts, and that the blocks a node makes are accepted by the nodes of its network.
\<close>

section \<open>Reference definitions\<close>

text \<open>
  What a module of the RPC server relies on others to maintain, from what it is built with. The
  modules that get the database of Frontier need its two tasks, the one that maps Ethereum
  blocks and transactions and the one that keeps the storage schemas; the fee history needs the
  task with the same overrides, cache and limit; filters need the task of their pool; requests
  and commands need the task at the other end of their channel; the Grandpa module needs the voter
  that shares its state. The other modules are built with the client, the pool, the graph and
  the network, which no task of the service maintains.
\<close>

datatype need =
    Frontier_mapping
  | Frontier_schemas
  | Fee_history OverrideHandle handle u64
  | Filters handle
  | Trace_requests handle
  | Debug_requests handle
  | Voter_state handle
  | Seal_commands handle

fun module_needs :: "rpc_module \<Rightarrow> need list" where
  "module_needs (EthApiServer sg ov a bc cache lim) = [Frontier_mapping, Frontier_schemas, Fee_history ov cache lim]"
| "module_needs (EthFilterApi pool n m bc) = [Frontier_mapping, Frontier_schemas, Filters pool]"
| "module_needs (TraceServer ch n) = [Trace_requests ch]"
| "module_needs (DebugServer ch) = [Frontier_mapping, Frontier_schemas, Debug_requests ch]"
| "module_needs (GrandpaApi vs) = [Voter_state vs]"
| "module_needs (ManualSealApi ch) = [Seal_commands ch]"
| "module_needs _ = []"

fun meets :: "'w task_body \<Rightarrow> need \<Rightarrow> bool" where
  "meets (Mapping_sync_worker _ _ _) Frontier_mapping \<longleftrightarrow> True"
| "meets Ethereum_schema_cache_task Frontier_schemas \<longleftrightarrow> True"
| "meets (Fee_history_task ov cache lim) (Fee_history ov' cache' lim') \<longleftrightarrow> ov = ov' \<and> cache = cache' \<and> lim = lim'"
| "meets (Filter_pool_task pool _) (Filters pool') \<longleftrightarrow> pool = pool'"
| "meets (Trace_cache_task ch _ _ _) (Trace_requests ch') \<longleftrightarrow> ch = ch'"
| "meets (Debug_task ch _ _) (Debug_requests ch') \<longleftrightarrow> ch = ch'"
| "meets (Grandpa_voter _ vs) (Voter_state vs') \<longleftrightarrow> vs = vs'"
| "meets _ _ \<longleftrightarrow> False"

definition provided :: "'w task list \<Rightarrow> need \<Rightarrow> bool" where
  "provided ts d \<longleftrightarrow> list_ex (\<lambda>t. tk_essential t \<and> meets (tk_body t) d) ts"

text \<open>The operator can turn off the voter.\<close>

fun turned_off :: "Configuration \<Rightarrow> need \<Rightarrow> bool" where
  "turned_off config (Voter_state _) \<longleftrightarrow> cf_disable_grandpa config"
| "turned_off config _ \<longleftrightarrow> False"

definition module_served :: "Configuration \<Rightarrow> 'w task list \<Rightarrow> rpc_module \<Rightarrow> bool" where
  "module_served config ts m \<longleftrightarrow> list_all (\<lambda>d. provided ts d \<or> turned_off config d) (module_needs m)"

text \<open>A task that makes no blocks.\<close>

definition no_aura :: "'w task \<Rightarrow> bool" where
  "no_aura t \<longleftrightarrow> (case tk_body t of Aura_proposer _ \<Rightarrow> False | _ \<Rightarrow> True)"

text \<open>A command that starts the network exactly when it succeeds.\<close>

definition starts :: "(('w, 'v) node_state, unit) startup \<Rightarrow> bool" where
  "starts m \<longleftrightarrow> (\<forall>s r s'. \<not> ns_started s \<longrightarrow> m s = (r, s') \<longrightarrow> (ns_started s' \<longleftrightarrow> r = Inr ()))"

text \<open>Nothing but the last step starts the network, and only the RPC part registers modules.\<close>

definition service_step_ok :: "(('w, 'v) node_state \<Rightarrow> bool) \<Rightarrow> bool" where
  "service_step_ok P \<longleftrightarrow>
     (\<forall>s n t ps q b. P s \<longrightarrow> P (s\<lparr>ns_next := n\<rparr>) \<and> P (s\<lparr>ns_tasks := ns_tasks s @ [t]\<rparr>) \<and>
        P (s\<lparr>ns_peer_sets := ps\<rparr>) \<and> P (s\<lparr>ns_network := q\<rparr>) \<and> P (s\<lparr>ns_offchain_workers := b\<rparr>))"

text \<open>The tasks that trace, given the first free handle.\<close>

definition tracing_tasks :: "RpcConfig \<Rightarrow> handle \<Rightarrow> 'w task list" where
  "tracing_tasks rc n =
     (let pool = Semaphore n (unat (rc_ethapi_max_permits rc)); trace = Trace \<in> set (rc_ethapi rc) in
      (if trace
       then [essential ''trace-filter-cache'' (Some ''frontier-tracing'')
               (Trace_cache_task (Suc n) (rc_ethapi_trace_cache_duration rc) pool overrides_handle)]
       else []) @
      (if Debug \<in> set (rc_ethapi rc)
       then [essential ''ethapi-debug'' (Some ''frontier-tracing'')
               (Debug_task (if trace then Suc (Suc n) else Suc n) pool overrides_handle)]
       else []))"

definition tracing_requesters :: "RpcConfig \<Rightarrow> handle \<Rightarrow> RpcRequesters" where
  "tracing_requesters rc n =
     (let trace = Trace \<in> set (rc_ethapi rc) in
      \<lparr>rq_debug = (if Debug \<in> set (rc_ethapi rc) then Some (if trace then Suc (Suc n) else Suc n) else None),
       rq_trace = (if trace then Some (Suc n) else None)\<rparr>)"

definition frontier_tasks :: "handle option \<Rightarrow> handle \<Rightarrow> u64 \<Rightarrow> 'w task list" where
  "frontier_tasks pool cache lim =
     [essential ''frontier-mapping-sync-worker'' (Some ''frontier'') (Mapping_sync_worker 6 3 0)] @
     (case pool of
        None \<Rightarrow> []
      | Some p \<Rightarrow> [essential ''frontier-filter-pool'' (Some ''frontier'') (Filter_pool_task p FILTER_RETAIN_THRESHOLD)]) @
     [essential ''frontier-schema-cache-task'' (Some ''frontier'') Ethereum_schema_cache_task,
      essential ''frontier-fee-history'' (Some ''frontier'') (Fee_history_task overrides_handle cache lim)]"


section \<open>A sample node\<close>

text \<open>A node whose framework calls succeed: the third of three authorities, with a clock in slot 4.\<close>

definition sample_node_client :: "(slot + bytes, u8, unit, unit, providers, unit, unit, unit) aura_client" where
  "sample_node_client =
     \<lparr>best_hash = 0, finalized_number = 0, runtime_api = (),
      rt_slot_duration = (\<lambda>_ _. Inr 6000),
      rt_initialize_block = (\<lambda>_ _ r. Inr r),
      rt_authorities = (\<lambda>_ _. Inr [1, 2, 3]),
      rt_has_api_with = (\<lambda>_ q _. Inr (q 6)),
      rt_check_inherents = (\<lambda>_ _ _ _ _. Inr \<lparr>ci_ok = True, ci_errors = []\<rparr>),
      check_equivocation = (\<lambda>_ _ _ _ u. (Inr None, u)),
      can_author_with = (\<lambda>_. Inr ()),
      create_providers = (\<lambda>_. Inl ''no providers yet''),
      create_inherent_data = (\<lambda>_. Inr ()),
      provider_slot = (\<lambda>p. fst (snd p)),
      try_handle_error = (\<lambda>_ _ _. None),
      aura_replace_inherent_data = (\<lambda>_ n. n),
      application_error = id,
      execution_context = (\<lambda>_. ())\<rparr>"

definition sample_configuration :: Configuration where
  "sample_configuration =
     \<lparr>cf_chain_spec_id = ''dev'', cf_base_path = Some [''tmp''], cf_database = RocksDb [''tmp'', ''db''] 64,
      cf_telemetry_endpoints = None, cf_role = Authority, cf_force_authoring = True, cf_disable_grandpa = False,
      cf_offchain_worker_enabled = True, cf_node_name = ''alice'', cf_allow_non_globals_in_dht = False\<rparr>"

definition sample_node_env :: "(slot + bytes, u8, unit, unit, unit, unit, unit, unit) node_env" where
  "sample_node_env =
     \<lparr>fw_create_runner = Inr sample_configuration, fw_command = (\<lambda>_. Inr ()),
      fw_from_project = (\<lambda>_ _ app. [''home'', app]), fw_config_dir = (\<lambda>base chain. base @ [''chains'', chain]),
      fw_frontier_backend = (\<lambda>_. Inr ()), fw_telemetry_worker = (\<lambda>_. Inr ()),
      fw_full_parts = Inr sample_node_client, fw_grandpa_block_import = Inr (), fw_genesis_hash = Some 0,
      fw_protocol_name = (\<lambda>_ chain. chain @ ''/grandpa/1''), fw_build_network = Inr (), fw_spawn_tasks = Inr (),
      fw_grandpa_voter = Inr (), fw_clock = (\<lambda>_. 24500), fw_slot_from_timestamp = (\<lambda>t d. of_nat (unat t div unat d)),
      fw_proposer_factory = (\<lambda>_. Inr ()), fw_has_keys = (\<lambda>_. True),
      fw_sign_with = (\<lambda>_ a m. Inr (Some [a, of_nat (unat m)]))\<rparr>"

definition sample_cli :: Cli where
  "sample_cli = \<lparr>cli_subcommand = None, cli_run = RunCmd_default\<lparr>rn_ethapi := [Debug, Trace, Txpool]\<rparr>\<rparr>"

definition sample_node_worker :: "(slot + bytes, u8, unit, unit, providers, unit, unit, unit, unit) aura_worker" where
  "sample_node_worker =
     \<lparr>aw_client = with_providers sample_node_env 6000 1 sample_node_client, aw_has_keys = (\<lambda>_. True),
      aw_sign_with = (\<lambda>_ a m. Inr (Some [a, of_nat (unat m)])), aw_force_authoring = True, aw_backoff = None,
      aw_compatibility_mode = compatibility_mode False, aw_env_init = (\<lambda>_. Inr ())\<rparr>"

definition sample_node_verifier :: "(slot + bytes, u8, unit, unit, providers, unit, unit, unit) aura_verifier" where
  "sample_node_verifier =
     build_verifier (with_providers sample_node_env 6000 1 sample_node_client) CheckForEquivocation_default
       (compatibility_mode False)"

definition fresh_state :: "('w, 'v) node_state" where
  "fresh_state =
     \<lparr>ns_next = 0, ns_tasks = [], ns_peer_sets = [], ns_network = None, ns_offchain_workers = False,
      ns_rpc = None, ns_started = False\<rparr>"


section \<open>Lemmas\<close>

text \<open>Every storage schema has its override, and the fallback is none of them.\<close>

lemma overrides_every_schema:
  "bt_inv (oh_schemas overrides_handle) \<and> dom (bt_get (oh_schemas overrides_handle)) = UNIV \<and>
   (\<forall>v. bt_get (oh_schemas overrides_handle) v \<noteq> Some (oh_fallback overrides_handle))"
proof -
  have "oh_schemas overrides_handle =
      [(SchemaV1, SchemaV1Override), (SchemaV2, SchemaV2Override), (SchemaV3, SchemaV3Override)]"
    by (simp add: overrides_handle_def less_EthereumStorageSchema_def)
  then show ?thesis
    by (auto simp: bt_inv_def less_EthereumStorageSchema_def overrides_handle_def intro: EthereumStorageSchema.exhaust)
qed

lemma ethapi_commands_id [simp]: "ethapi_commands xs = xs"
  by (induction xs) (simp_all add: ethapi_commands_def options_roundtrip)

lemma run_node [run_simps]:
  "alloc s = (Inr (ns_next s), s\<lparr>ns_next := Suc (ns_next s)\<rparr>)"
  "spawn t s = (Inr (), s\<lparr>ns_tasks := ns_tasks s @ [t]\<rparr>)"
  by (simp_all add: alloc_def spawn_def s_modify_def)

lemma keeps_node [keeps_intros]:
  "(\<And>s n. P s \<Longrightarrow> P (s\<lparr>ns_next := n\<rparr>)) \<Longrightarrow> keeps P alloc"
  "(\<And>s. P s \<Longrightarrow> P (s\<lparr>ns_tasks := ns_tasks s @ [t]\<rparr>)) \<Longrightarrow> keeps P (spawn t)"
  by (simp_all add: keeps_def alloc_def spawn_def s_modify_def)

lemma keeps_service_modify [keeps_intros]:
  assumes "service_step_ok P"
  shows "keeps P alloc" "keeps P (spawn t)"
    "keeps P (s_modify (\<lambda>s. s\<lparr>ns_peer_sets := ns_peer_sets s @ ps\<rparr>))"
    "keeps P (s_modify (\<lambda>s. s\<lparr>ns_network := q\<rparr>))"
    "keeps P (s_modify (\<lambda>s. s\<lparr>ns_offchain_workers := b\<rparr>))"
  using assms unfolding service_step_ok_def by (auto intro!: keeps_node keeps_modify)

lemma keeps_spawn_tasks [keeps_intros]:
  assumes "service_step_ok P"
  shows "keeps P (spawn_essential_tasks params)" "keeps P (spawn_tracing_tasks rc params)"
  unfolding spawn_essential_tasks_def spawn_tracing_tasks_def Let_def
  using assms by (auto intro!: keeps_intros split: prod.splits)

lemma keeps_start [keeps_intros]:
  assumes "service_step_ok P"
  shows "keeps P (start_authoring beresheet nv config cli pc)" "keeps P (start_discovery config)"
    "keeps P (start_grandpa nv config name vs)"
  unfolding start_authoring_def start_discovery_def start_grandpa_def Let_def
  using assms by (auto intro!: keeps_intros)

lemma keeps_partial [keeps_intros]:
  assumes "service_step_ok P"
  shows "keeps P (new_partial beresheet nv config cli)" "keeps P (build_network nv config pc)"
  unfolding new_partial_def build_network_def Let_def
  using assms by (auto intro!: keeps_intros)

lemma service_step_ok_started: "service_step_ok (\<lambda>s. \<not> ns_started s)"
  by (simp add: service_step_ok_def)

lemma spawn_essential_run:
  "spawn_essential_tasks params s =
     (Inr (), s\<lparr>ns_tasks := ns_tasks s @ frontier_tasks (sp_filter_pool params) (sp_fee_history_cache params)
                                           (sp_fee_history_limit params)\<rparr>)"
  if "sp_overrides params = overrides_handle"
  using that by (simp add: spawn_essential_tasks_def frontier_tasks_def run_simps split: option.splits)

lemma spawn_tracing_run:
  "spawn_tracing_tasks rc params s =
     (Inr (tracing_requesters rc (ns_next s)),
      s\<lparr>ns_next := ns_next s + 1 + (if Trace \<in> set (rc_ethapi rc) then 1 else 0) + (if Debug \<in> set (rc_ethapi rc) then 1 else 0),
        ns_tasks := ns_tasks s @ tracing_tasks rc (ns_next s)\<rparr>)"
  if "sp_overrides params = overrides_handle"
  using that by (auto simp: spawn_tracing_tasks_def tracing_requesters_def tracing_tasks_def Let_def run_simps)

text \<open>The result of the RPC part and the state that it reaches.\<close>

lemmas start_rpc_simps = start_rpc_def Let_def run_simps spawn_essential_run spawn_tracing_run

lemma start_rpc_fails:
  "fw_spawn_tasks nv = Inl e \<Longrightarrow> fst (start_rpc nv config cli rc pc s) = Inl (ServiceError e)"
  by (cases "tracing_enabled (rn_ethapi (cli_run cli))") (simp_all add: start_rpc_simps)

lemma start_rpc_ok:
  assumes "fw_spawn_tasks nv = Inr u"
    and "n = ns_next s" and "on = tracing_enabled (rn_ethapi (cli_run cli))"
  shows "fst (start_rpc nv config cli rc pc s) = Inr (Suc n)"
    "ns_tasks (snd (start_rpc nv config cli rc pc s)) =
       ns_tasks s @ frontier_tasks (pc_filter_pool pc) n (rn_fee_history_limit (cli_run cli)) @
       (if on then tracing_tasks rc (Suc (Suc (Suc n))) else [])"
    "ns_rpc (snd (start_rpc nv config cli rc pc s)) = Some (rpc_extensions_builder config cli rc
       (if on then tracing_requesters rc (Suc (Suc (Suc n))) else \<lparr>rq_debug = None, rq_trace = None\<rparr>)
       (pc_filter_pool pc) n (Suc n) (Suc (Suc n)))"
  using assms(1) unfolding assms(2,3)
  by (cases "tracing_enabled (rn_ethapi (cli_run cli))"; simp add: start_rpc_simps)+

text \<open>The modules that the builder registers are served by the tasks of Frontier and of tracing.\<close>

lemma builder_served:
  assumes "rc_ethapi rc = rn_ethapi (cli_run cli)"
    and "on = tracing_enabled (rn_ethapi (cli_run cli))"
    and "cf_disable_grandpa config \<or> provided us (Voter_state vs)"
  shows "list_all (module_served config (ts @ frontier_tasks (Some p) n (rn_fee_history_limit (cli_run cli)) @
             (if on then tracing_tasks rc k else []) @ us))
           (rpc_extensions_builder config cli rc
              (if on then tracing_requesters rc k else \<lparr>rq_debug = None, rq_trace = None\<rparr>) (Some p) n vs bc deny)"
  using assms
  by (auto simp: rpc_extensions_builder_def create_full_def extend_with_tracing_def Let_def module_served_def provided_def
      essential_def frontier_tasks_def tracing_tasks_def tracing_requesters_def tracing_enabled_def)

text \<open>Which modules there are.\<close>

lemma builder_modules:
  assumes "rc_ethapi rc = rn_ethapi (cli_run cli)"
    and "on = tracing_enabled (rn_ethapi (cli_run cli))"
    and "io = rpc_extensions_builder config cli rc
              (if on then tracing_requesters rc k else \<lparr>rq_debug = None, rq_trace = None\<rparr>) (Some p) n vs bc deny"
  shows "(\<exists>ch m. TraceServer ch m \<in> set io) \<longleftrightarrow> Trace \<in> set (rn_ethapi (cli_run cli))"
    "(\<exists>ch. DebugServer ch \<in> set io) \<longleftrightarrow> Debug \<in> set (rn_ethapi (cli_run cli))"
    "TxPoolServer \<in> set io \<longleftrightarrow> Txpool \<in> set (rn_ethapi (cli_run cli))"
    "\<exists>sg ov a bc cache lim. EthApiServer sg ov a bc cache lim \<in> set io"
    "\<exists>pool n m bc. EthFilterApi pool n m bc \<in> set io"
    "\<exists>vs. GrandpaApi vs \<in> set io" "ManualSealApi sink \<notin> set io"
  using assms(1,2) unfolding assms(3)
  by (auto simp: rpc_extensions_builder_def create_full_def extend_with_tracing_def Let_def
      tracing_requesters_def tracing_enabled_def split: option.splits)

lemma keeps_start_rpc: "keeps (\<lambda>s. \<not> ns_started s) (start_rpc nv config cli rc pc)"
  unfolding start_rpc_def Let_def
  by (auto intro!: keeps_intros service_step_ok_started keeps_modify)

text \<open>Successful runs of the parts.\<close>

lemma new_partial_Inr:
  assumes "new_partial beresheet nv config cli s = (Inr pc, s')"
  shows "\<exists>client duration. fw_full_parts nv = Inr client \<and> slot_duration client = Inr duration \<and>
    pc_client pc = client \<and> (\<exists>p. pc_filter_pool pc = Some p) \<and>
    pc_import_queue pc = build_verifier (with_providers nv duration (ucast (rn_target_gas_price (cli_run cli))) client)
      CheckForEquivocation_default (compatibility_mode beresheet) \<and>
    (\<exists>ts. ns_tasks s' = ns_tasks s @ ts)"
  using assms unfolding new_partial_def Let_def
  by (auto simp: run_simps import_queue_def s_try_def s_when_def s_return_def s_throw_def
      dest!: s_bind_Inr split: option.splits if_splits sum.splits)

lemma build_network_Inr:
  assumes "build_network nv config pc s = (Inr name, s')"
  shows "ns_network s' = Some (pc_import_queue pc) \<and> ns_tasks s' = ns_tasks s"
  using assms unfolding build_network_def Let_def
  by (auto simp: run_simps s_try_def s_when_def s_return_def s_throw_def s_expect_def
      dest!: s_bind_Inr split: option.splits if_splits sum.splits)

lemma keepsD: "keeps P m \<Longrightarrow> P s \<Longrightarrow> m s = (r, s') \<Longrightarrow> P s'"
  by (auto simp: keeps_def dest!: spec[of _ s])

lemma start_authoring_Inr:
  assumes "start_authoring beresheet nv config cli pc s = (Inr u, s')"
  shows "s' = s \<and> cf_role config \<noteq> Authority \<or>
    (\<exists>duration w. cf_role config = Authority \<and> slot_duration (pc_client pc) = Inr duration \<and>
       aw_client w = with_providers nv duration (ucast (rn_target_gas_price (cli_run cli))) (pc_client pc) \<and>
       aw_sign_with w = fw_sign_with nv \<and> aw_compatibility_mode w = compatibility_mode beresheet \<and>
       ns_tasks s' = ns_tasks s @
         [\<lparr>tk_name = ''aura-proposer'', tk_group = None, tk_essential = True, tk_blocking = True,
           tk_body = Aura_proposer (duration, w)\<rparr>])"
  using assms unfolding start_authoring_def Let_def
  by (auto simp: run_simps start_aura_def build_aura_worker_def s_try_def s_when_def s_return_def s_throw_def
      dest!: s_bind_Inr split: sum.splits if_splits)

lemma new_full_Inr:
  assumes "new_full_base beresheet nv config cli rc s = (Inr u, s')"
  obtains pc s1 name s2 vs s3 s4 where "new_partial beresheet nv config cli s = (Inr pc, s1)"
    "build_network nv config pc s1 = (Inr name, s2)" "start_rpc nv config cli rc pc s2 = (Inr vs, s3)"
    "start_authoring beresheet nv config cli pc s3 = (Inr (), s4)"
    "s_then (start_discovery config) (s_then (start_grandpa nv config name vs) start_network) s4 = (Inr u, s')"
proof -
  obtain pc s1 where 1: "new_partial beresheet nv config cli s = (Inr pc, s1)"
      "s_bind (build_network nv config pc) (\<lambda>name. s_bind (start_rpc nv config cli rc pc) (\<lambda>vs.
         s_then (start_authoring beresheet nv config cli pc) (s_then (start_discovery config)
           (s_then (start_grandpa nv config name vs) start_network)))) s1 = (Inr u, s')"
    using s_bind_Inr[OF assms[unfolded new_full_base_def]] by blast
  obtain name s2 where 2: "build_network nv config pc s1 = (Inr name, s2)"
      "s_bind (start_rpc nv config cli rc pc) (\<lambda>vs.
         s_then (start_authoring beresheet nv config cli pc) (s_then (start_discovery config)
           (s_then (start_grandpa nv config name vs) start_network))) s2 = (Inr u, s')"
    using s_bind_Inr[OF 1(2)] by blast
  obtain vs s3 where 3: "start_rpc nv config cli rc pc s2 = (Inr vs, s3)"
      "s_then (start_authoring beresheet nv config cli pc) (s_then (start_discovery config)
         (s_then (start_grandpa nv config name vs) start_network)) s3 = (Inr u, s')"
    using s_bind_Inr[OF 2(2)] by blast
  show thesis
    using s_bind_Inr[OF 3(2)] 1(1) 2(1) 3(1) that by auto
qed

text \<open>The steps after the RPC part only add tasks and start the network.\<close>

lemma service_tail:
  assumes "s_then (start_discovery config) (s_then (start_grandpa nv config name vs) start_network) s = (r, s')"
  shows "ns_rpc s' = ns_rpc s \<and> ns_network s' = ns_network s \<and>
    (\<exists>us. ns_tasks s' = ns_tasks s @ us \<and> list_all no_aura us \<and>
       (r = Inr u \<longrightarrow> cf_disable_grandpa config \<or> provided us (Voter_state vs)))"
  using assms unfolding start_discovery_def start_grandpa_def start_network_def Let_def
  by (auto simp: s_bind_def s_when_def s_return_def spawn_def s_modify_def s_try_def s_throw_def no_aura_def
      provided_def split: if_splits sum.splits)

text \<open>Only the last step of the service starts the network.\<close>

lemma starts_bind: "keeps (\<lambda>s. \<not> ns_started s) m \<Longrightarrow> (\<And>a. starts (f a)) \<Longrightarrow> starts (s_bind m f)"
  unfolding starts_def s_bind_def by (auto split: prod.splits sum.splits dest: keepsD)

lemma starts_network: "starts start_network"
  by (simp add: starts_def start_network_def s_modify_def)

lemma starts_new_full: "starts (new_full_base beresheet nv config cli rc)"
  unfolding new_full_base_def
  by (intro starts_bind starts_network keeps_partial keeps_start keeps_start_rpc service_step_ok_started)

lemma partial_started: "keeps (\<lambda>s. \<not> ns_started s) (on_partial beresheet nv cli cmd)"
  unfolding on_partial_def by (intro keeps_intros service_step_ok_started)

lemma run_full:
  assumes "cli_subcommand cli = None" and "run_cli beresheet nv cli s = (Inr u, s')"
  obtains config where "fw_create_runner nv = Inr config"
    "new_full_base beresheet nv config cli (cli_rpc_config (cli_run cli)) s = (Inr u, s')"
  using assms by (cases "fw_create_runner nv") (auto simp: run_cli_def run_simps Let_def)

text \<open>The modules and the tasks of a node that started.\<close>

lemma new_full_modules:
  assumes "new_full_base beresheet nv config cli rc s = (Inr u, s')"
  obtains ts p n k us on where "on = tracing_enabled (rn_ethapi (cli_run cli))"
    "cf_disable_grandpa config \<or> provided us (Voter_state (Suc n))"
    "ns_tasks s' = ts @ frontier_tasks (Some p) n (rn_fee_history_limit (cli_run cli)) @
       (if on then tracing_tasks rc k else []) @ us"
    "ns_rpc s' = Some (rpc_extensions_builder config cli rc
       (if on then tracing_requesters rc k else \<lparr>rq_debug = None, rq_trace = None\<rparr>) (Some p) n (Suc n) (Suc (Suc n)))"
proof -
  obtain pc s1 name s2 vs s3 s4 where
      run: "new_partial beresheet nv config cli s = (Inr pc, s1)" "start_rpc nv config cli rc pc s2 = (Inr vs, s3)"
      "start_authoring beresheet nv config cli pc s3 = (Inr (), s4)"
      "s_then (start_discovery config) (s_then (start_grandpa nv config name vs) start_network) s4 = (Inr u, s')"
    by (rule new_full_Inr[OF assms]) blast
  obtain p where p: "pc_filter_pool pc = Some p"
    using new_partial_Inr[OF run(1)] by blast
  obtain x where "fw_spawn_tasks nv = Inr x"
    using start_rpc_fails[of nv _ config cli rc pc s2] run(2) by (cases "fw_spawn_tasks nv") auto
  note rpc = start_rpc_ok[where s = s2 and config = config and cli = cli and rc = rc and pc = pc,
      OF this refl refl, unfolded run(2) snd_conv p]
  obtain us where "ns_tasks s' = ns_tasks s3 @ us" "ns_rpc s' = ns_rpc s3"
    "cf_disable_grandpa config \<or> provided us (Voter_state vs)"
    using start_authoring_Inr[OF run(3)] keepsD[OF keeps_start(1) _ run(3), of "\<lambda>s. ns_rpc s = ns_rpc s3"]
      service_tail[OF run(4), of u] by (auto simp: service_step_ok_def provided_def)
  moreover have "vs = Suc (ns_next s2)" using rpc(1) by simp
  ultimately show thesis using rpc(2,3) by (intro that[OF refl]) auto
qed

text \<open>The worker and the verifier of a node that started.\<close>

lemma authorities_with_providers [simp]:
  "authorities (with_providers nv d g client) = authorities client"
  by (intro ext) (simp add: authorities_def with_providers_def split: CompatibilityMode.splits sum.splits)

lemma with_providers_simps [simp]:
  "create_providers (with_providers nv d g client) parent =
     Inr (fw_clock nv parent, fw_slot_from_timestamp nv (fw_clock nv parent) d, g)"
  "create_inherent_data (with_providers nv d g client) = create_inherent_data client"
  "provider_slot (with_providers nv d g client) = provider_slot client"
  "check_equivocation (with_providers nv d g client) = check_equivocation client"
  by (simp_all add: with_providers_def Let_def)

lemmas keeps_parts = keeps_bind keeps_basic keeps_when keeps_cases keeps_node keeps_modify

lemma keeps_prod: "(\<And>a b. keeps P (f a b)) \<Longrightarrow> keeps P (case x of (a, b) \<Rightarrow> f a b)"
  by (cases x) simp

lemma no_aura_tracing:
  "sp_overrides params = overrides_handle \<Longrightarrow>
     keeps (\<lambda>s. list_all no_aura (ns_tasks s)) (spawn_tracing_tasks rc params)"
  by (auto simp: keeps_def spawn_tracing_run tracing_tasks_def no_aura_def essential_def Let_def)

lemma no_aura_before:
  "keeps (\<lambda>s. list_all no_aura (ns_tasks s)) (new_partial beresheet nv config cli)"
  "keeps (\<lambda>s. list_all no_aura (ns_tasks s)) (build_network nv config pc)"
  "keeps (\<lambda>s. list_all no_aura (ns_tasks s)) (start_rpc nv config cli rc pc)"
  unfolding new_partial_def build_network_def start_rpc_def spawn_essential_tasks_def Let_def
  by (auto intro!: keeps_parts no_aura_tracing simp: no_aura_def essential_def)

lemma keeps_network:
  "keeps (\<lambda>s. ns_network s = q) (start_rpc nv config cli rc pc)"
  "keeps (\<lambda>s. ns_network s = q) (start_authoring beresheet nv config cli pc)"
  unfolding start_rpc_def start_authoring_def spawn_essential_tasks_def spawn_tracing_tasks_def Let_def
  by (auto intro!: keeps_parts keeps_prod)

lemma started_worker:
  assumes "new_full_base beresheet nv config cli rc s = (Inr u, s')" and "ns_tasks s = []"
    and "t \<in> set (ns_tasks s')" and "tk_body t = Aura_proposer (d, w)" and "fw_full_parts nv = Inr client"
  shows "aw_sign_with w = fw_sign_with nv \<and> aw_compatibility_mode w = compatibility_mode beresheet \<and>
    authorities (aw_client w) = authorities client"
proof -
  obtain pc s1 name s2 vs s3 s4 where
      run: "new_partial beresheet nv config cli s = (Inr pc, s1)" "build_network nv config pc s1 = (Inr name, s2)"
      "start_rpc nv config cli rc pc s2 = (Inr vs, s3)" "start_authoring beresheet nv config cli pc s3 = (Inr (), s4)"
      "s_then (start_discovery config) (s_then (start_grandpa nv config name vs) start_network) s4 = (Inr u, s')"
    by (rule new_full_Inr[OF assms(1)])
  have "list_all no_aura (ns_tasks s3)"
    using keepsD[OF no_aura_before(1) _ run(1)] keepsD[OF no_aura_before(2) _ run(2)]
      keepsD[OF no_aura_before(3) _ run(3)] assms(2) by simp
  moreover have "\<not> no_aura t"
    using assms(4) by (simp add: no_aura_def)
  ultimately show ?thesis
    using start_authoring_Inr[OF run(4)] service_tail[OF run(5)] assms(3-5) new_partial_Inr[OF run(1)]
    by (auto simp: list_all_iff)
qed

lemma started_verifier:
  assumes "new_full_base beresheet nv config cli rc s = (Inr u, s')" and "ns_network s' = Some v"
    and "fw_full_parts nv = Inr client" and "slot_duration client = Inr duration"
  shows "v = build_verifier (with_providers nv duration (ucast (rn_target_gas_price (cli_run cli))) client)
      CheckForEquivocation_default (compatibility_mode beresheet)"
proof -
  obtain pc s1 name s2 vs s3 s4 where
      run: "new_partial beresheet nv config cli s = (Inr pc, s1)" "build_network nv config pc s1 = (Inr name, s2)"
      "start_rpc nv config cli rc pc s2 = (Inr vs, s3)" "start_authoring beresheet nv config cli pc s3 = (Inr (), s4)"
      "s_then (start_discovery config) (s_then (start_grandpa nv config name vs) start_network) s4 = (Inr u, s')"
    by (rule new_full_Inr[OF assms(1)])
  have "ns_network s' = Some (pc_import_queue pc)"
    using build_network_Inr[OF run(2)] keepsD[OF keeps_network(1) _ run(3)] keepsD[OF keeps_network(2) _ run(4)]
      service_tail[OF run(5)] by simp
  then show ?thesis
    using assms(2-4) new_partial_Inr[OF run(1)] by auto
qed

lemmas monad_defs =
  s_bind_def s_return_def s_throw_def s_modify_def s_when_def s_try_def s_expect_def alloc_def spawn_def

lemmas service_defs =
  new_full_base_def new_partial_def build_network_def start_rpc_def start_authoring_def start_discovery_def
  start_grandpa_def start_network_def spawn_essential_tasks_def spawn_tracing_tasks_def open_frontier_backend_def
  import_queue_def start_aura_def slot_duration_def tracing_enabled_def

lemmas sample_node_defs =
  sample_node_env_def sample_configuration_def sample_cli_def sample_node_client_def RunCmd_default_def
  cli_rpc_config_def

lemma sample_runs: "fst (new_full_base b sample_node_env sample_configuration sample_cli
    (cli_rpc_config (cli_run sample_cli)) fresh_state) = Inr ()"
  by (simp add: service_defs sample_node_defs monad_defs Let_def)

lemma sample_reached:
  fixes st' :: "(slot + bytes, u8, unit, unit, unit, unit, unit, unit) service_state"
  assumes "new_full_base False sample_node_env sample_configuration sample_cli
    (cli_rpc_config (cli_run sample_cli)) fresh_state = (r, st')"
  shows "\<exists>t \<in> set (ns_tasks st'). tk_body t = Aura_proposer (6000, sample_node_worker)"
    and "ns_network st' = Some sample_node_verifier"
proof -
  have st': "st' = snd (new_full_base False sample_node_env sample_configuration sample_cli
      (cli_rpc_config (cli_run sample_cli)) fresh_state)"
    using assms by simp
  show "\<exists>t \<in> set (ns_tasks st'). tk_body t = Aura_proposer (6000, sample_node_worker)"
    unfolding st'
    by (simp add: service_defs sample_node_defs sample_node_worker_def build_aura_worker_def monad_defs Let_def)
  show "ns_network st' = Some sample_node_verifier"
    unfolding st'
    by (simp add: service_defs sample_node_defs sample_node_verifier_def monad_defs Let_def)
qed

lemma sample_run_cli: "\<exists>s'. run_cli b sample_node_env sample_cli fresh_state = (Inr (), s')"
proof -
  have "run_cli b sample_node_env sample_cli =
      new_full_base b sample_node_env sample_configuration sample_cli (cli_rpc_config (cli_run sample_cli))"
    by (rule ext) (simp add: run_cli_def monad_defs sample_cli_def sample_node_env_def Let_def)
  then show ?thesis
    using sample_runs[of b] by (metis prod.collapse)
qed


section \<open>Properties\<close>

text \<open>
  C15. The network of a node starts exactly when there is no subcommand and the whole start of the
  service succeeds: whatever call of the framework fails, with whatever configuration, the node
  does not join the network, and no subcommand makes it do so.
\<close>

theorem network_starts_iff:
  assumes "\<not> ns_started s" and "run_cli beresheet nv cli s = (r, s')"
  shows "ns_started s' \<longleftrightarrow> cli_subcommand cli = None \<and> r = Inr ()"
proof (cases "cli_subcommand cli")
  case None
  have "starts (run_cli beresheet nv cli)"
    unfolding run_cli_def None by (simp add: Let_def starts_bind keeps_basic starts_new_full)
  with None assms show ?thesis unfolding starts_def by blast
next
  case (Some cmd)
  have "keeps (\<lambda>s. \<not> ns_started s) (run_cli beresheet nv cli)"
    unfolding run_cli_def Some by (cases cmd; simp; intro keeps_intros partial_started)
  from keepsD[OF this assms] Some show ?thesis by simp
qed

theorem network_starts_iff_witness:
  "ns_started (snd (run_cli False sample_node_env sample_cli fresh_state))"
proof -
  obtain s' where s': "run_cli False sample_node_env sample_cli fresh_state = (Inr (), s')"
    using sample_run_cli by blast
  then show ?thesis
    using network_starts_iff[OF _ s'] by (simp add: fresh_state_def sample_cli_def)
qed

text \<open>
  C9. The modules of the RPC server of a running node find what they rely on: the database of
  Frontier, the fee history, the pool of filters and the channels for traces and debugging are
  each maintained by an essential task that was spawned, with the same handle, overrides and
  limit, and so is the state of the Grandpa voter unless the voter is turned off. The Ethereum, the
  filter and the Grandpa module are always there, those for traces, debugging and the pool exactly when
  the command line asks for them, and that for manual sealing never.
\<close>

theorem rpc_modules_served:
  assumes "cli_subcommand cli = None" and "fw_create_runner nv = Inr config"
    and "run_cli beresheet nv cli s = (Inr u, s')"
  shows "\<exists>rpc. ns_rpc s' = Some rpc \<and>
    (\<forall>deny. list_all (module_served config (ns_tasks s')) (rpc deny) \<and>
      (\<exists>sg ov a bc cache lim. EthApiServer sg ov a bc cache lim \<in> set (rpc deny)) \<and>
      (\<exists>pool n m bc. EthFilterApi pool n m bc \<in> set (rpc deny)) \<and>
      (\<exists>vs. GrandpaApi vs \<in> set (rpc deny)) \<and>
      ((\<exists>ch n. TraceServer ch n \<in> set (rpc deny)) \<longleftrightarrow> Trace \<in> set (rn_ethapi (cli_run cli))) \<and>
      ((\<exists>ch. DebugServer ch \<in> set (rpc deny)) \<longleftrightarrow> Debug \<in> set (rn_ethapi (cli_run cli))) \<and>
      (TxPoolServer \<in> set (rpc deny) \<longleftrightarrow> Txpool \<in> set (rn_ethapi (cli_run cli))) \<and>
      (\<forall>ch. ManualSealApi ch \<notin> set (rpc deny)))"
proof -
  have "new_full_base beresheet nv config cli (cli_rpc_config (cli_run cli)) s = (Inr u, s')"
    using run_full[OF assms(1,3)] assms(2) by auto
  then show ?thesis
  proof (rule new_full_modules)
    fix ts p n k us on
    assume on: "on = tracing_enabled (rn_ethapi (cli_run cli))"
      and voter: "cf_disable_grandpa config \<or> provided us (Voter_state (Suc n))"
      and tasks: "ns_tasks s' = ts @ frontier_tasks (Some p) n (rn_fee_history_limit (cli_run cli)) @
         (if on then tracing_tasks (cli_rpc_config (cli_run cli)) k else []) @ us"
      and rpc: "ns_rpc s' = Some (rpc_extensions_builder config cli (cli_rpc_config (cli_run cli))
         (if on then tracing_requesters (cli_rpc_config (cli_run cli)) k else \<lparr>rq_debug = None, rq_trace = None\<rparr>)
         (Some p) n (Suc n) (Suc (Suc n)))"
    have "rc_ethapi (cli_rpc_config (cli_run cli)) = rn_ethapi (cli_run cli)"
      by (simp add: cli_rpc_config_def)
    note api = builder_served[OF this on voter] builder_modules[OF this on refl]
    show ?thesis
      unfolding rpc tasks by (rule exI, rule conjI[OF refl], intro allI conjI api)
  qed
qed

theorem rpc_modules_served_witness:
  "\<exists>s' rpc. run_cli False sample_node_env sample_cli fresh_state = (Inr (), s') \<and> ns_rpc s' = Some rpc \<and>
     (\<exists>ch n. TraceServer ch n \<in> set (rpc True)) \<and> TxPoolServer \<in> set (rpc True) \<and>
     list_all (module_served sample_configuration (ns_tasks s')) (rpc True)"
proof -
  obtain s' where s': "run_cli False sample_node_env sample_cli fresh_state = (Inr (), s')"
    using sample_run_cli by blast
  have none: "cli_subcommand sample_cli = None" and api: "rn_ethapi (cli_run sample_cli) = [Debug, Trace, Txpool]"
    and config: "fw_create_runner sample_node_env = Inr sample_configuration"
    by (simp_all add: sample_cli_def sample_node_env_def)
  show ?thesis
    using rpc_modules_served[OF none config s'] s' unfolding api by auto
qed

text \<open>
  C5. A network accepts the blocks of its nodes: what the Aura worker of a started node claims and
  seals is accepted by the import queue of every other started node of the same build. The
  runtime gives both the same authorities, the header has the claimed slot as its only Aura
  pre-digest, the clock of the receiver is at most one slot behind, the body passes and the
  auxiliary store works. The key store signs with the key that it is asked for.
\<close>

theorem network_accepts_sealed:
  assumes sender: "new_full_base beresheet nv config cli rc st = (Inr (), st')" "ns_tasks st = []"
      "t \<in> set (ns_tasks st')" "tk_body t = Aura_proposer (d, w)" "fw_full_parts nv = Inr client"
    and receiver: "new_full_base beresheet nv2 config2 cli2 rc2 st2 = (Inr (), st2')" "ns_network st2' = Some v"
      "fw_full_parts nv2 = Inr client2" "slot_duration client2 = Inr duration"
    and platform: "platform_ok pf" "params_new_ok new"
    and signs: "\<And>a m raw sig. fw_sign_with nv AURA a m = Inr (Some raw) \<Longrightarrow>
                  signature_try_from pf raw = Some sig \<Longrightarrow> pair_verify pf sig m a"
    and claimed: "epoch_data pf w parent s = Inr auths" "claim_slot pf w parent s auths = Some a"
    and proposed: "bh_parent_hash h = header_hash pf parent" "bh_number h = bh_number parent + 1" "bh_number h \<noteq> 0"
      "bh_digest h = pre_digest_data pf s a @ logs" "pre_digests pf logs = []"
    and made: "block_import_params pf new w h (header_hash pf h) body changes a = Inr params"
    and received: "bi_header blk = h\<lparr>bh_digest := bh_digest h @ bi_post_digests params\<rparr>"
      "bi_body blk = bi_body params" "bi_post_digests blk = []"
    and same_chain: "\<And>mode. authorities client2 (header_hash pf parent) (bh_number h) mode =
                            authorities client (header_hash pf parent) (bh_number h) mode"
    and clock: "now = fw_clock nv2 (header_hash pf parent)"
      "p = (now, fw_slot_from_timestamp nv2 now duration, ucast (rn_target_gas_price (cli_run cli2)))"
      "create_inherent_data client2 p = Inr n" "s \<le> provider_slot client2 p + 1"
    and inherents: "check_body pf v h s (header_hash pf parent) n p (bi_origin blk) (Some body) = Inr ()"
    and store: "\<And>x y g b u e. fst (check_equivocation client2 x y g b u) \<noteq> Inl e"
  shows "\<exists>blk' aux'. verify pf v blk aux = (Inr blk', aux') \<and> bi_header blk' = h \<and>
           bi_post_digests blk' = bi_post_digests params \<and> bi_body blk' = Some body \<and>
           bi_post_hash blk' = Some (header_hash pf (bi_header blk))"
proof -
  note w = started_worker[OF sender] and v = started_verifier[OF receiver]
  show ?thesis
    by (rule sealed_block_verifies[OF platform _ claimed proposed made received _ _ _ _ inherents])
      (use w v signs same_chain clock store in \<open>simp_all add: build_verifier_def\<close>)
qed

text \<open>The sample node receives its own block of slot 5 in slot 4.\<close>

theorem network_accepts_sealed_witness:
  "\<exists>st' t d w v blk' aux'. new_full_base False sample_node_env sample_configuration sample_cli
       (cli_rpc_config (cli_run sample_cli)) fresh_state = (Inr (), st') \<and>
     t \<in> set (ns_tasks st') \<and> tk_body t = Aura_proposer (d, w) \<and> ns_network st' = Some v \<and>
     claim_slot aura_platform w aura_sample_parent 5 [1, 2, 3] = Some 3 \<and>
     verify aura_platform v aura_sample_received \<lparr>aux_store = (), equivocations = []\<rparr> = (Inr blk', aux') \<and>
     bi_header blk' = aura_sample_header"
proof -
  obtain st' :: "(slot + bytes, u8, unit, unit, unit, unit, unit, unit) service_state"
    where st': "new_full_base False sample_node_env sample_configuration sample_cli
       (cli_rpc_config (cli_run sample_cli)) fresh_state = (Inr (), st')"
    using sample_runs[of False] by (metis prod.collapse)
  obtain t where t: "t \<in> set (ns_tasks st')" "tk_body t = Aura_proposer (6000, sample_node_worker)"
    using sample_reached(1)[OF st'] by blast
  have parts: "fw_full_parts sample_node_env = Inr sample_node_client"
      "slot_duration sample_node_client = Inr 6000" "ns_tasks fresh_state = []"
    by (simp_all add: sample_node_env_def slot_duration_def sample_node_client_def fresh_state_def)
  have "\<exists>blk' aux'. verify aura_platform sample_node_verifier aura_sample_received
         \<lparr>aux_store = (), equivocations = []\<rparr> = (Inr blk', aux') \<and> bi_header blk' = aura_sample_header \<and>
         bi_post_digests blk' = bi_post_digests aura_sample_params \<and> bi_body blk' = Some [()] \<and>
         bi_post_hash blk' = Some (header_hash aura_platform (bi_header aura_sample_received))"
    by (rule network_accepts_sealed[OF st' parts(3) t parts(1) st' sample_reached(2)[OF st'] parts(1,2),
          where pf = aura_platform and new = aura_sample_new and parent = aura_sample_parent and s = 5
            and auths = "[1, 2, 3]" and a = 3 and h = aura_sample_header and logs = "[]" and body = "[()]"
            and changes = "()" and params = aura_sample_params and n = "()"
            and now = 24500 and p = "(24500, 4, 1)"])
      (simp_all add: aura_sample_defs sample_node_worker_def sample_node_verifier_def sample_node_env_def
        sample_node_client_def with_providers_def compatibility_mode_def sample_cli_def RunCmd_default_def)
  moreover have "claim_slot aura_platform sample_node_worker aura_sample_parent 5 [1, 2, 3] = Some 3"
    by (simp add: aura_sample_defs sample_node_worker_def)
  ultimately show ?thesis
    using st' t sample_reached(2)[OF st'] by blast
qed

end
