(* ===== verification/Spec2Isabelle.thy ===== *)
theory Spec2Isabelle
  imports Seal_Engine Chain_Spec Voter_Bags Runtime_Calls Debug_Handler Trace_Service Tx_Pool Treasury_Reward
    Runtime_Limits Runtime_Api Service_Startup
begin

text \<open>
  A verification development of the Edgeware node: the tracing of Ethereum executions from the
  events of the virtual machine to the RPC responses, the transaction pool RPC, Aura and manual
  seal consensus, the start of a node from its command line, the chain specifications with
  their genesis, the treasury reward pallet, the runtime with its configuration and
  migrations, and the voter bags.

  \<^bold>\<open>The program.\<close> A tracing request enters at \<^verbatim>\<open>client/rpc/debug\<close> or \<^verbatim>\<open>client/rpc/trace\<close>. The handler
  finds the block and asks the runtime (\<^verbatim>\<open>node/runtime\<close>) to replay its extrinsics. The replay emits
  events (\<^verbatim>\<open>primitives/rpc/evm-tracing-events\<close>), which a listener of \<^verbatim>\<open>client/evm-tracing\<close> collects and
  a formatter renders. \<^verbatim>\<open>debug\<close> answers one request at a time; \<^verbatim>\<open>trace_filter\<close> asks a cache task, which
  traces blocks in tasks of their own under a semaphore and keeps the traces for a while.
  Blocks come from \<^verbatim>\<open>node/consensus-transition\<close>: Aura workers claim slots and seal, verifiers check
  what others sealed; manual seal makes blocks on command for a test node. \<^verbatim>\<open>node/cli\<close> reads the
  command line, chooses a chain specification and starts all these parts: the import queue, the
  tasks, the RPC modules of \<^verbatim>\<open>node/rpc\<close> that talk to them, the worker, the voter and the network.

  \<^bold>\<open>Conventions.\<close> The names of the source are kept; a name that clashes gets a prefix. A struct
  is a record, an enum a datatype, \<^verbatim>\<open>u8\<close> to \<^verbatim>\<open>u64\<close>, \<^verbatim>\<open>H160\<close>, \<^verbatim>\<open>H256\<close> and \<^verbatim>\<open>U256\<close> are words that wrap as
  in the release profile, a \<^verbatim>\<open>Vec\<close> is a list, a \<^verbatim>\<open>BTreeMap\<close> a key-sorted association list with the
  contract of the locale \<open>ordered_map\<close>. A panic is a value (\<open>'a outcome\<close>), an RPC error the left
  summand of a sum. Code outside \<^verbatim>\<open>src/\<close> is an argument: hash functions, the client and its
  database (the record \<open>chain_client\<close>), the execution of an extrinsic, the currency.

  \<^bold>\<open>Theories.\<close>
  \<^item> \<open>Prelude\<close>: machine types, vectors, ordered maps, decimal text, UTF-8.
  \<^item> \<open>Tracing_Events\<close> (\<^verbatim>\<open>evm-tracing-events\<close>): the events, their conversion from those of the virtual
    machine, the names of the opcodes, and the contract \<open>event_listener\<close> of a listener.
  \<^item> \<open>Tracing_Types\<close> (\<^verbatim>\<open>evm-tracing/src/types\<close>): the response types and their serialisers.
  \<^item> \<open>Call_List_Listener\<close>, \<open>Call_List_Refinement\<close> (\<^verbatim>\<open>listeners/call_list.rs\<close>): the listener of calls; its
    state after the events of an execution tree is the flattened tree.
  \<^item> \<open>Formatters\<close>, \<open>Call_Tracer\<close> (\<^verbatim>\<open>formatters/\<close>): the Blockscout and \<^verbatim>\<open>trace_filter\<close> responses, and the
    sort and loop that rebuild the tree of calls for \<^verbatim>\<open>callTracer\<close>.
  \<^item> \<open>Raw_Listener\<close>, \<open>Raw_Refinement\<close> (\<^verbatim>\<open>listeners/raw.rs\<close>, \<^verbatim>\<open>formatters/raw.rs\<close>): the opcode trace.
  \<^item> \<open>Trace_Filter\<close>, \<open>Trace_Cache\<close>, \<open>Trace_Service\<close>, \<open>Trace_Block\<close> (\<^verbatim>\<open>client/rpc/trace\<close>): the handler with its
    pagination, the handlers of the cache task, the task with its tracing tasks, the permits that
    it shares with the debug handler, channel and timers as one transition system, and the
    tracing of a block.
  \<^item> \<open>Eth_Transactions\<close>, \<open>Runtime_Tracing\<close>, \<open>Chain_Client\<close>: transactions and extrinsics, the tracing calls
    of the runtime, and what the handlers ask of the node.
  \<^item> \<open>Debug_Handler\<close> (\<^verbatim>\<open>client/rpc/debug\<close>) and \<open>Tx_Pool\<close> (\<^verbatim>\<open>client/rpc/txpool\<close>): the other RPC handlers.
  \<^item> \<open>Consensus_Types\<close>, \<open>Aura\<close> (\<^verbatim>\<open>consensus-transition/aura\<close>): headers and import parameters; the worker,
    the digests and the verifier.
  \<^item> \<open>Manual_Seal\<close>, \<open>Seal_Providers\<close>, \<open>Seal_Engine\<close> (\<^verbatim>\<open>consensus-transition/manual-seal\<close>): the engine, its RPC
    and errors; the mocked clock and the Aura and Babe providers; the contract of a provider
    and the properties of sealing.
  \<^item> \<open>Treasury_Reward\<close> (\<^verbatim>\<open>pallets/edge-treasury-reward\<close>), \<open>Runtime_Config\<close> and \<open>Runtime_Calls\<close> (\<^verbatim>\<open>node/runtime\<close>:
    proxies, precompiles, gas; fees, Ethereum calls and migrations), \<open>Voter_Bags\<close>
    (\<^verbatim>\<open>utils/frame/generate-bags\<close> and the thresholds of the runtime).
  \<^item> \<open>Runtime_Params\<close>, \<open>Runtime_Limits\<close> (\<^verbatim>\<open>node/runtime/src/lib.rs\<close>, \<^verbatim>\<open>constants.rs\<close>): a record of constants and
    origins for each pallet, with the build features as arguments; how they fit together and
    with the genesis. \<open>Runtime_Api\<close>: the methods of the runtime interface that do more than call a
    pallet.
  \<^item> \<open>Chain_Spec\<close> (\<^verbatim>\<open>node/cli/src/chain_spec.rs\<close>, the fixtures, \<^verbatim>\<open>load_spec\<close> of \<^verbatim>\<open>command.rs\<close>): the genesis of every
    chain specification. Functions that read keys and addresses are arguments.
  \<^item> \<open>Startup_Monad\<close>: the sequence of fallible calls that starts a node, as a state monad with
    errors. \<open>Cli_Options\<close> (\<^verbatim>\<open>node/cli-opt\<close>), \<open>Node_Rpc\<close> (\<^verbatim>\<open>node/rpc\<close>), \<open>Aura_Start\<close> (the parameters of
    worker and import queue) and \<open>Node_Service\<close> (\<^verbatim>\<open>service.rs\<close>, \<^verbatim>\<open>cli.rs\<close>, \<^verbatim>\<open>command.rs\<close>) are its calls; a
    call into the framework is an argument that may fail. An \<^verbatim>\<open>Arc\<close> or the end of a channel is a
    handle, so that two parts share it exactly when they have the same handle.
    \<open>Service_Startup\<close> has the properties of a started node.
  \<^item> This theory: \<^verbatim>\<open>trace_filter\<close> from the request to the executions.

  \<^bold>\<open>What is shown.\<close> For every well-formed execution tree the responses of the call tracers are exact:
  the listener sees the events of the tree in order and the formatters return it, without a
  panic, through the debug handlers and through the cache. In a well-formed tree every frame is
  opened by a call or create opcode or by a precompile and closed by an exit event; trees of any
  depth and width are covered up to two to the 32 calls in a block, the range of the index of an
  entry. The opcode trace is exact, but for its storage column, for regular executions, in which each
  call starts a frame and each frame ends with a result. What it logs after a call that
  does not, to a precompile or one that runs out of gas or destroys itself, is stated as it is: wrong
  depths, and no return value. The listeners keep their invariants on every stream of events.

  The cache loses no request, in every interleaving, and answers every one that waits unless an
  expiration drops it; its counts stay within the batches that have not expired. Pagination,
  errors and parsers are characterised by reference definitions. The Aura verifier accepts a
  block exactly when the authority whose turn it is sealed it, and accepts what a worker seals;
  the manual seal engine answers every command with its own result, if the inherent data has a
  timestamp, and the block it reports was proposed on the parent asked for and imported; the
  slots of the mocked clock do not collide. Fees are paid out in full. The thresholds of the
  runtime are the output of the tool, computed in doubles. A node joins the network exactly when
  its whole start succeeds; what its RPC modules rely on is then kept by an essential task, the
  Grandpa voter unless it is turned off, and its import queue accepts what the workers of other
  such nodes seal. No minority of the council satisfies an origin; the genesis of every chain
  specification is within the limits of the pallets. The properties at the end of the list state
  behaviour that contradicts the documentation of the code: wrong depths in the opcode trace, a panic
  called unreachable, an eviction of live blocks, a credit that every upgrade repeats, an account
  listed twice in a genesis and a transaction that the cache loses.

  \<^bold>\<open>Assumptions on the framework.\<close> Deposits arrive, which the framework grants to accounts that exist;
  splitting an imbalance loses nothing; the migrations of the pallets succeed and leave the free
  balance of the credited account alone; the tree of Babe epochs returns what was written. Each is a
  named hypothesis or definition of the property that uses it, with a witness.

  \<^bold>\<open>Bounds and fuel.\<close> No definition has fuel: every recursion is structural or has a measure. The
  loop that nests calls terminates because it takes one entry each time. A bound of \<open>2 ^ 32\<close> on
  the calls of a block, of \<open>2 ^ 64\<close> on timestamps and slots, and of \<open>2 ^ 64\<close> on the batches requested over the life of the cache, is a
  hypothesis where an index or a count would wrap.

  \<^bold>\<open>Not modelled.\<close> The futures that the node spawns are names with their arguments where their
  body is in the framework. The derived parser of the command line, host functions, opaque
  types, weights and the associated types of a pallet are generated or name a type; the methods
  of the runtime interface that only call a pallet and the migrations of the framework's pallets
  are calls into them; the file of the lockdrop allocation is an argument; the
  logarithm and exponential in the ratio of the bags depend on the mathematical library; the
  bodies of hash functions, signatures, precompiled contracts and of the virtual machine are
  not in the repository. Metrics, telemetry and log messages are left out.
\<close>

section \<open>From the request to the executions\<close>

text \<open>
  What a handler of \<^verbatim>\<open>trace_filter\<close> gets for a block once the cache has traced it: the request is
  sent, and the answer on its channel is the result of the tracing.
\<close>

definition served_traces :: "(rpc_error \<Rightarrow> string) \<Rightarrow> ('x, 'r) chain_client \<Rightarrow> h256 \<Rightarrow> traces_result" where
  "served_traces debug c block = requester_get_traces debug (Inr ()) (Inr (cache_block c block))"

text \<open>
  The blocks of a range on a node: for each its number, the hash of its Ethereum block, the
  hashes of its known transactions, its extrinsics and the state it starts from. The node
  has the block, and its runtime replays it with the executions that \<open>run\<close> gives.
\<close>

record ('s, 'r, 'c) block_data =
  bd_height :: u32
  bd_eth_hash :: h256
  bd_statuses :: "h256 list"
  bd_extrinsics :: "('r, 'c) UncheckedExtrinsic list"
  bd_state :: 's

definition block_trees ::
    "('s \<Rightarrow> ('r, 'c) UncheckedExtrinsic \<Rightarrow> 's \<times> tx) \<Rightarrow> ('r TransactionV2 \<Rightarrow> h256) \<Rightarrow> ('s, 'r, 'c) block_data \<Rightarrow> tx list" where
  "block_trees run hash_of d = known_trees run hash_of (bd_statuses d) (bd_extrinsics d) (bd_state d)"

definition replays ::
    "(('r, 'c) UncheckedExtrinsic, 'r) chain_client \<Rightarrow> ('s \<Rightarrow> ('r, 'c) UncheckedExtrinsic \<Rightarrow> 's \<times> tx) \<Rightarrow>
       ('r TransactionV2 \<Rightarrow> h256) \<Rightarrow> h256 \<Rightarrow> ('s, 'r, 'c) block_data \<Rightarrow> bool" where
  "replays c run hash_of block d \<longleftrightarrow>
     has_block c block (bd_height d) (bd_eth_hash d) (bd_statuses d) (bd_extrinsics d)
       (fst (runtime_trace_block True (emits run) hash_of (bd_extrinsics d) (bd_statuses d) (bd_state d))) \<and>
     list_all wf_tx (block_trees run hash_of d) \<and>
     sum_list (map tx_nodes (block_trees run hash_of d)) \<le> 2 ^ 32 \<and>
     length (block_trees run hash_of d) \<le> length (bd_statuses d)"

text \<open>The traces of the executions of the range that match the addresses of a request.\<close>

definition execution_traces ::
    "('s \<Rightarrow> ('r, 'c) UncheckedExtrinsic \<Rightarrow> 's \<times> tx) \<Rightarrow> ('r TransactionV2 \<Rightarrow> h256) \<Rightarrow> FilterRequest \<Rightarrow>
       ('s, 'r, 'c) block_data list \<Rightarrow> BlockTransactionTrace list" where
  "execution_traces run hash_of req ds =
     concat (map (\<lambda>d. filter (trace_matches (case fr_from_address req of Some a \<Rightarrow> a | None \<Rightarrow> [])
                                             (case fr_to_address req of Some a \<Rightarrow> a | None \<Rightarrow> []))
                       (block_traces (bd_eth_hash d) (bd_height d) (bd_statuses d) (block_trees run hash_of d))) ds)"

lemma served_block:
  assumes "replays c run hash_of b d"
  shows "served_traces debug c b =
         Inr (block_traces (bd_eth_hash d) (bd_height d) (bd_statuses d) (block_trees run hash_of d))"
  using assms cache_block_trees[of c b "bd_height d" "bd_eth_hash d" "bd_statuses d" "bd_extrinsics d" run hash_of "bd_state d"]
  by (simp add: served_traces_def requester_get_traces_def replays_def block_trees_def)

lemma matching_served:
  "list_all2 (replays c run hash_of) bs ds \<Longrightarrow>
     matching (served_traces debug c) req bs = execution_traces run hash_of req ds \<and>
     list_all (\<lambda>b. \<exists>ts. served_traces debug c b = Inr ts) bs"
  by (induction rule: list_all2_induct) (auto simp: matching_def execution_traces_def served_block)

text \<open>
  C3. \<^verbatim>\<open>trace_filter\<close> is exact, from the request to the executions: over blocks that the node has and
  that the cache traces, a request with a count returns exactly the page it asks for of the
  traces of all known transactions of the range that match its addresses, in block order.
\<close>

theorem trace_filter_end_to_end:
  assumes "list_all2 (replays c run hash_of) bs ds" and "fr_count req = Some n"
  shows "fetch_traces (served_traces debug c) max_count req bs (unat n) =
         Inr (take (unat n) (drop (offset req) (execution_traces run hash_of req ds)))"
proof -
  note m = matching_served[OF assms(1), of debug req]
  then have "fetch_traces (served_traces debug c) max_count req bs (unat n) =
      (if offset req < length (execution_traces run hash_of req ds) \<and>
          unat n \<le> length (execution_traces run hash_of req ds) - offset req
       then Inr (take (unat n) (drop (offset req) (execution_traces run hash_of req ds)))
       else Inr (drop (offset req) (execution_traces run hash_of req ds)))"
    using fetch_traces_spec[of "served_traces debug c" bs _ req max_count "unat n"] assms(2) by simp
  then show ?thesis by auto
qed

theorem trace_filter_end_to_end_witness:
  "map_sum id (map (\<lambda>t. (tt_transaction_hash t, tt_trace_address t)))
     (fetch_traces (served_traces (\<lambda>_. []) (sample_client (block_events [sample_tx]))) 500
        \<lparr>fr_from_block = None, fr_to_block = None, fr_from_address = None, fr_to_address = None,
         fr_after = Some 1, fr_count = Some 2\<rparr> [5] 2) = Inr [(9, [0]), (9, [0, 0])]"
proof -
  let ?d = "\<lparr>bd_height = 4, bd_eth_hash = 8, bd_statuses = [9], bd_extrinsics = [sample_extrinsic], bd_state = 0 :: nat\<rparr>"
  have trees: "block_trees sample_run (\<lambda>_. 9) ?d = [sample_tx]"
    by (simp add: block_trees_def sample_trees del: known_trees.simps)
  then have events: "fst (runtime_trace_block True (emits sample_run) (\<lambda>_. 9) [sample_extrinsic] [9] 0) = block_events [sample_tx]"
    by (simp add: runtime_trace_block_def trace_known_events sample_trees del: known_trees.simps trace_known.simps)
  have "replays (sample_client (block_events [sample_tx])) sample_run (\<lambda>_. 9) 5 ?d"
    unfolding replays_def trees by (simp add: events has_block_def sample_client_def sample_simps)
  then have "list_all2 (replays (sample_client (block_events [sample_tx])) sample_run (\<lambda>_. 9)) [5] [?d]" by simp
  from trace_filter_end_to_end[OF this, where n = 2 and max_count = 500 and debug = "\<lambda>_. []" and
      req = "\<lparr>fr_from_block = None, fr_to_block = None, fr_from_address = None, fr_to_address = None,
              fr_after = Some 1, fr_count = Some 2\<rparr>"]
  show ?thesis
    by (simp add: execution_traces_def trees offset_def trace_matches_def block_traces_def filled_trace_def
        filter_trace_def enumerate_eq_zip sample_simps frame_entry_def entry_of_def destruct_entry_def)
qed

end
